(* ===== verification/Gate_Prelude.thy ===== *)
theory Gate_Prelude
  imports Main "HOL-Library.AList" "HOL-Library.Multiset"
begin

text \<open>
  Shared vocabulary of the development: Go errors as the left side of a sum, formatted error
  texts, the loops that stop at the first error, the string functions of Go's standard library
  that the program calls, and Go maps.

  A Go \<^verbatim>\<open>string\<close> is a byte sequence, here \<open>string\<close> (a list of \<open>char\<close>, which are bytes).
  A Go map is the list of its entries, with pairwise distinct keys. Where the source ranges over a
  map, the order of the list is the order in which that \<^verbatim>\<open>range\<close> visits the entries; as the
  runtime picks that order at random, the statements hold for every list, and the operations of a
  component that keeps a map between calls take the order of each \<^verbatim>\<open>range\<close> as an argument.
\<close>

section \<open>Error texts\<close>

text \<open>
  An error message is kept as its \<^verbatim>\<open>fmt.Sprintf\<close> format with the arguments, unrendered: the
  code builds messages and never inspects them, so only the verbs' operands matter.
\<close>

datatype gotext = Sprintf string "arg list"
and arg = AStr string | AInt int | AErr gotext

abbreviation no_text :: gotext where
  "no_text \<equiv> Sprintf '''' []"

abbreviation msg :: "string \<Rightarrow> gotext" where
  "msg s \<equiv> Sprintf s []"

text \<open>
  The source's \<^verbatim>\<open>if err != nil { return err }\<close> after a call. The rules of \<open>no_error\<close> say when a chain
  of such calls returns without an error: every call of it did.
\<close>

named_theorems no_error \<open>when a sequence of fallible calls returns without an error\<close>

lemma bind_Inr_iff [no_error]:
  "(case x of Inl e \<Rightarrow> Inl (h e) | Inr y \<Rightarrow> k y) = Inr z \<longleftrightarrow> (\<exists>y. x = Inr y \<and> k y = Inr z)"
  by (cases x) auto

lemma bind_option_Inr_iff [no_error]:
  "(case x of Some e \<Rightarrow> Inl (h e) | None \<Rightarrow> k) = Inr z \<longleftrightarrow> x = None \<and> k = Inr z"
  by (cases x) auto

lemma returned_Inr: "\<not> isl (fst p) \<Longrightarrow> \<exists>r s. p = (Inr r, s)"
  by (cases p; cases "fst p") auto

section \<open>Loops that stop at the first error\<close>

fun first_err :: "('a \<Rightarrow> 'e option) \<Rightarrow> 'a list \<Rightarrow> 'e option" where
  "first_err f [] = None"
| "first_err f (x # xs) = (case f x of Some e \<Rightarrow> Some e | None \<Rightarrow> first_err f xs)"

lemma first_err_None [simp]: "first_err f xs = None \<longleftrightarrow> (\<forall>x\<in>set xs. f x = None)"
  by (induction xs) (auto split: option.splits)

lemma first_err_SomeD: "first_err f xs = Some e \<Longrightarrow> \<exists>x\<in>set xs. f x = Some e"
  by (induction xs) (auto split: option.splits)

lemma first_err_append:
  "first_err f (xs @ ys) = (case first_err f xs of Some e \<Rightarrow> Some e | None \<Rightarrow> first_err f ys)"
  by (induction xs) (simp_all split: option.split del: first_err_None)

text \<open>A loop that rebuilds its elements (the source assigns a field of each) and may fail.\<close>

fun traverse :: "(nat \<Rightarrow> 'a \<Rightarrow> 'e + 'b) \<Rightarrow> nat \<Rightarrow> 'a list \<Rightarrow> 'e + 'b list" where
  "traverse f i [] = Inr []"
| "traverse f i (x # xs) =
     (case f i x of
        Inl e \<Rightarrow> Inl e
      | Inr y \<Rightarrow> (case traverse f (Suc i) xs of Inl e \<Rightarrow> Inl e | Inr ys \<Rightarrow> Inr (y # ys)))"

lemma traverse_InrD:
  "traverse f i xs = Inr ys \<Longrightarrow> list_all2 (\<lambda>x y. \<exists>j. f j x = Inr y) xs ys"
  by (induction f i xs arbitrary: ys rule: traverse.induct) (auto split: sum.splits)

lemma traverse_InlD:
  "traverse f i xs = Inl e \<Longrightarrow> \<exists>x\<in>set xs. \<exists>j. f j x = Inl e"
  by (induction f i xs rule: traverse.induct) (auto split: sum.splits)

text \<open>When an iteration succeeds exactly on \<open>ok\<close> elements, with result \<open>h\<close>, so does the loop.\<close>

lemma traverse_iff:
  assumes "\<And>i x y. f i x = Inr y \<longleftrightarrow> ok x \<and> y = h x"
  shows "traverse f i xs = Inr ys \<longleftrightarrow> (\<forall>x\<in>set xs. ok x) \<and> ys = map h xs"
  by (induction xs arbitrary: i ys) (auto simp: bind_Inr_iff assms)

text \<open>A loop that threads a state and may fail.\<close>

fun fold_err :: "('s \<Rightarrow> 'a \<Rightarrow> 'e + 's) \<Rightarrow> 's \<Rightarrow> 'a list \<Rightarrow> 'e + 's" where
  "fold_err f s [] = Inr s"
| "fold_err f s (x # xs) = (case f s x of Inl e \<Rightarrow> Inl e | Inr s' \<Rightarrow> fold_err f s' xs)"

lemma fold_err_invariant:
  assumes "fold_err f s xs = Inr t" and "P s"
    and "\<And>s x s'. P s \<Longrightarrow> x \<in> set xs \<Longrightarrow> f s x = Inr s' \<Longrightarrow> P s'"
  shows "P t"
  using assms
proof (induction xs arbitrary: s)
  case (Cons y ys)
  from Cons.prems(1) obtain s' where step: "f s y = Inr s'" and rest: "fold_err f s' ys = Inr t"
    by (auto simp: bind_Inr_iff)
  have "P s'" by (rule Cons.prems(3) [OF Cons.prems(2) _ step]) simp
  show ?case
    by (rule Cons.IH [OF rest \<open>P s'\<close>]) (rule Cons.prems(3), auto)
qed simp

text \<open>A fact that one iteration establishes and every later one keeps.\<close>

lemma fold_err_establishes:
  assumes "fold_err f s xs = Inr t" and "x \<in> set xs"
    and "\<And>s s'. f s x = Inr s' \<Longrightarrow> Q s'"
    and "\<And>s y s'. Q s \<Longrightarrow> y \<in> set xs \<Longrightarrow> f s y = Inr s' \<Longrightarrow> Q s'"
  shows "Q t"
  using assms
proof (induction xs arbitrary: s)
  case (Cons y ys)
  from Cons.prems(1) obtain s' where step: "f s y = Inr s'" and rest: "fold_err f s' ys = Inr t"
    by (auto split: sum.splits)
  show ?case
  proof (cases "y = x")
    case True
    with step Cons.prems(3) have "Q s'" by blast
    show ?thesis
      by (rule fold_err_invariant [where P = Q, OF rest \<open>Q s'\<close>]) (use Cons.prems(4) in auto)
  next
    case False
    show ?thesis
      by (rule Cons.IH [OF rest _ Cons.prems(3)])
        (use False Cons.prems(2) in simp, simp, rule Cons.prems(4), simp_all)
  qed
qed simp

section \<open>Go maps\<close>

type_synonym ('k, 'v) gomap = "('k \<times> 'v) list"

definition gm_wf :: "('k, 'v) gomap \<Rightarrow> bool" where
  "gm_wf m \<longleftrightarrow> distinct (map fst m)"

text \<open>\<open>es\<close> is an order in which a \<^verbatim>\<open>range\<close> over the map \<open>m\<close> may visit its entries.\<close>

definition gm_range :: "('k, 'v) gomap \<Rightarrow> ('k, 'v) gomap \<Rightarrow> bool" where
  "gm_range m es \<longleftrightarrow> mset es = mset m"

lemma gm_range_refl [simp]: "gm_range m m"
  by (simp add: gm_range_def)

lemma gm_range_set: "gm_range m es \<Longrightarrow> set es = set m"
  by (metis gm_range_def mset_eq_setD)

lemma gm_range_length: "gm_range m es \<Longrightarrow> length es = length m"
  by (metis gm_range_def size_mset)

lemma gm_range_wf: "gm_range m es \<Longrightarrow> gm_wf es \<longleftrightarrow> gm_wf m"
  unfolding gm_wf_def gm_range_def
  by (metis mset_eq_imp_distinct_iff mset_map)

lemma gm_range_map_of:
  assumes "gm_range m es" and "gm_wf m"
  shows "map_of es = map_of m"
  using assms by (metis gm_range_set gm_range_wf gm_wf_def map_of_inject_set)

lemma gm_wf_Nil [simp, intro]: "gm_wf []"
  by (simp add: gm_wf_def)

lemma gm_wf_update [simp, intro]: "gm_wf m \<Longrightarrow> gm_wf (AList.update k v m)"
  by (simp add: gm_wf_def distinct_update)

lemma gm_wf_delete [simp, intro]: "gm_wf m \<Longrightarrow> gm_wf (AList.delete k m)"
  by (simp add: gm_wf_def distinct_delete)

lemma gm_lookup_update [simp]:
  "map_of (AList.update k v m) k' = (if k' = k then Some v else map_of m k')"
  by (simp add: update_conv)

lemma gm_lookup_delete [simp]:
  "map_of (AList.delete k m) k' = (if k' = k then None else map_of m k')"
  by (simp add: delete_conv)

lemma update_new: "k \<notin> fst ` set m \<Longrightarrow> AList.update k v m = m @ [(k, v)]"
  by (induction m) auto

lemma length_update_new:
  "map_of m k = None \<Longrightarrow> length (AList.update k v m) = Suc (length m)"
  by (induction m) (auto split: if_splits)

lemma length_update_old:
  "map_of m k \<noteq> None \<Longrightarrow> length (AList.update k v m) = length m"
  by (induction m) (auto split: if_splits)

lemma length_delete_present:
  "gm_wf m \<Longrightarrow> map_of m k \<noteq> None \<Longrightarrow> Suc (length (AList.delete k m)) = length m"
proof (induction m)
  case (Cons e m)
  show ?case
  proof (cases "fst e = k")
    case True
    with Cons.prems(1) have "AList.delete k (e # m) = m"
      by (cases e) (force simp: gm_wf_def AList.delete_eq intro!: filter_True)
    then show ?thesis by simp
  next
    case False
    with Cons show ?thesis by (cases e) (auto simp: gm_wf_def)
  qed
qed simp

lemma gm_mem_lookup: "gm_wf m \<Longrightarrow> (k, v) \<in> set m \<Longrightarrow> map_of m k = Some v"
  by (simp add: gm_wf_def)

section \<open>Strings\<close>

text \<open>\<^verbatim>\<open>strings.SplitN(s, string(c), n)\<close>: at most \<open>n\<close> parts, the last is the unsplit rest.\<close>

fun splitN :: "char \<Rightarrow> nat \<Rightarrow> string \<Rightarrow> string list" where
  "splitN c 0 s = []"
| "splitN c (Suc 0) s = [s]"
| "splitN c (Suc (Suc n)) s =
     (if c \<in> set s
      then takeWhile (\<lambda>x. x \<noteq> c) s # splitN c (Suc n) (tl (dropWhile (\<lambda>x. x \<noteq> c) s))
      else [s])"

text \<open>\<^verbatim>\<open>strings.Split(s, string(c))\<close> and the sequence of \<^verbatim>\<open>strings.SplitSeq\<close>.\<close>

fun split_all :: "char \<Rightarrow> string \<Rightarrow> string list" where
  "split_all c [] = [[]]"
| "split_all c (x # xs) =
     (if x = c then [] # split_all c xs
      else (case split_all c xs of [] \<Rightarrow> [[x]] | p # ps \<Rightarrow> (x # p) # ps))"

fun join_with :: "char \<Rightarrow> string list \<Rightarrow> string" where
  "join_with c [] = []"
| "join_with c [p] = p"
| "join_with c (p # q # ps) = p @ c # join_with c (q # ps)"

lemma split_all_nonempty [simp]: "split_all c s \<noteq> []"
  by (cases s) (auto split: list.splits)

lemma split_all_parts: "p \<in> set (split_all c s) \<Longrightarrow> c \<notin> set p"
  by (induction s arbitrary: p) (auto split: list.splits if_splits)

lemma join_split_all: "join_with c (split_all c s) = s"
proof (induction s)
  case (Cons x s)
  obtain p ps where s: "split_all c s = p # ps"
    by (cases "split_all c s") auto
  with Cons.IH show ?case by (cases ps) auto
qed simp

lemma takeWhile_drop_join:
  "c \<in> set s \<Longrightarrow> takeWhile (\<lambda>x. x \<noteq> c) s @ c # tl (dropWhile (\<lambda>x. x \<noteq> c) s) = s"
  by (induction s) auto

lemma splitN_nonempty: "n > 0 \<Longrightarrow> splitN c n s \<noteq> []"
  by (induction c n s rule: splitN.induct) auto

lemma splitN_Nil [simp]: "0 < n \<Longrightarrow> splitN c n [] = [[]]"
  by (cases "(c, n, [] :: string)" rule: splitN.cases) auto

lemma join_splitN: "n > 0 \<Longrightarrow> join_with c (splitN c n s) = s"
proof (induction c n s rule: splitN.induct)
  case (3 c n s)
  show ?case
  proof (cases "c \<in> set s")
    case True
    let ?r = "splitN c (Suc n) (tl (dropWhile (\<lambda>x. x \<noteq> c) s))"
    obtain q qs where q: "?r = q # qs"
      using splitN_nonempty [of "Suc n"] by (meson list.exhaust zero_less_Suc)
    with True 3 have "join_with c (q # qs) = tl (dropWhile (\<lambda>x. x \<noteq> c) s)" by simp
    with True q show ?thesis by (simp add: takeWhile_drop_join)
  qed simp
qed simp_all

lemma length_splitN: "length (splitN c n s) \<le> n"
  by (induction c n s rule: splitN.induct) auto

text \<open>\<^verbatim>\<open>strings.Join\<close>.\<close>

fun strings_Join :: "string list \<Rightarrow> string \<Rightarrow> string" where
  "strings_Join [] sep = []"
| "strings_Join [p] sep = p"
| "strings_Join (p # q # ps) sep = p @ sep @ strings_Join (q # ps) sep"

text \<open>\<^verbatim>\<open>strings.ReplaceAll\<close>: non-overlapping occurrences of \<open>old\<close> (not empty), left to right.\<close>

fun replace_all :: "string \<Rightarrow> string \<Rightarrow> string \<Rightarrow> string" where
  "replace_all old new [] = []"
| "replace_all old new (x # xs) =
     (if old \<noteq> [] \<and> take (length old) (x # xs) = old
      then new @ replace_all old new (drop (length old - 1) xs)
      else x # replace_all old new xs)"

text \<open>\<^verbatim>\<open>filepath.Ext\<close>: the suffix from the last dot of the last path element.\<close>

fun ext_scan :: "string \<Rightarrow> string \<Rightarrow> string" where
  "ext_scan [] acc = []"
| "ext_scan (c # cs) acc =
     (if c = CHR ''/'' then []
      else if c = CHR ''.'' then c # acc
      else ext_scan cs (c # acc))"

definition file_ext :: "string \<Rightarrow> string" where
  "file_ext p = ext_scan (rev p) []"

text \<open>ASCII case mapping of one byte.\<close>

definition ascii_lower :: "char \<Rightarrow> char" where
  "ascii_lower c = (if 65 \<le> (of_char c :: nat) \<and> (of_char c :: nat) \<le> 90
                    then char_of ((of_char c :: nat) + 32) else c)"

text \<open>
  \<^verbatim>\<open>strings.EqualFold\<close> against an ASCII string: besides ASCII case, the two runes U+017F (bytes
  C5 BF) and U+212A (bytes E2 84 AA) fold to the letters s and k; no other rune folds into ASCII.
\<close>

fun fold_ascii :: "string \<Rightarrow> string" where
  "fold_ascii (a # b # c # s) =
     (if a = CHR 0xC5 \<and> b = CHR 0xBF then CHR ''s'' # fold_ascii (c # s)
      else if a = CHR 0xE2 \<and> b = CHR 0x84 \<and> c = CHR 0xAA then CHR ''k'' # fold_ascii s
      else ascii_lower a # fold_ascii (b # c # s))"
| "fold_ascii [a, b] =
     (if a = CHR 0xC5 \<and> b = CHR 0xBF then ''s'' else [ascii_lower a, ascii_lower b])"
| "fold_ascii [a] = [ascii_lower a]"
| "fold_ascii [] = []"

end
