(* ===== verification/Go_Time.thy ===== *)
theory Go_Time
  imports Gate_Prelude
begin

text \<open>
  Go's \<^verbatim>\<open>time.Time\<close>, \<^verbatim>\<open>time.Duration\<close> and \<^verbatim>\<open>int\<close> arithmetic, as far as the program uses them.
  An instant is the number of nanoseconds since 0001-01-01 00:00:00 UTC, Go's zero \<^verbatim>\<open>Time\<close>. A
  \<^verbatim>\<open>Duration\<close> is a 64-bit count of nanoseconds: products wrap around, the difference of two
  instants saturates. \<^verbatim>\<open>time.Now()\<close> is an argument of the operations that call it.
\<close>

type_synonym time = int
type_synonym duration = int

definition max_int64 :: int where "max_int64 = 9223372036854775807"
definition min_int64 :: int where "min_int64 = - 9223372036854775808"

text \<open>Two's complement wrap-around of a 64-bit result.\<close>

definition wrap64 :: "int \<Rightarrow> int" where
  "wrap64 x = (x + 9223372036854775808) mod 18446744073709551616 - 9223372036854775808"

lemma wrap64_id: "min_int64 \<le> x \<Longrightarrow> x \<le> max_int64 \<Longrightarrow> wrap64 x = x"
  by (simp add: wrap64_def min_int64_def max_int64_def)

lemma wrap64_range: "min_int64 \<le> wrap64 x \<and> wrap64 x \<le> max_int64"
  unfolding wrap64_def min_int64_def max_int64_def by (simp add: algebra_simps)

definition nano_second :: duration where "nano_second = 1000000000"
definition nano_minute :: duration where "nano_minute = 60 * nano_second"
definition nano_hour :: duration where "nano_hour = 60 * nano_minute"

definition zero_time :: time where "zero_time = 0"

text \<open>\<^verbatim>\<open>t.After(u)\<close>, \<^verbatim>\<open>t.Before(u)\<close>, \<^verbatim>\<open>t.IsZero()\<close>, \<^verbatim>\<open>t.Unix()\<close>, \<^verbatim>\<open>t.Add(d)\<close>.\<close>

definition after :: "time \<Rightarrow> time \<Rightarrow> bool" where [simp]: "after t u \<longleftrightarrow> u < t"
definition before :: "time \<Rightarrow> time \<Rightarrow> bool" where [simp]: "before t u \<longleftrightarrow> t < u"
definition is_zero :: "time \<Rightarrow> bool" where [simp]: "is_zero t \<longleftrightarrow> t = zero_time"
definition unix :: "time \<Rightarrow> int" where "unix t = t div nano_second - 62135596800"
definition of_unix :: "int \<Rightarrow> time" where "of_unix s = (s + 62135596800) * nano_second"
definition add_dur :: "time \<Rightarrow> duration \<Rightarrow> time" where [simp]: "add_dur t d = t + d"

lemma unix_of_unix [simp]: "unix (of_unix s) = s"
  by (simp add: unix_def of_unix_def nano_second_def)

lemma of_unix_unix_le: "of_unix (unix t) \<le> t \<and> t < of_unix (unix t) + nano_second"
  by (simp add: unix_def of_unix_def nano_second_def) presburger

lemma unix_mono: "t \<le> u \<Longrightarrow> unix t \<le> unix u"
  by (simp add: unix_def nano_second_def zdiv_mono1)

lemma of_unix_less [simp]: "of_unix a < of_unix b \<longleftrightarrow> a < b"
  by (simp add: of_unix_def nano_second_def)

lemma of_unix_inj [simp]: "of_unix a = of_unix b \<longleftrightarrow> a = b"
  by (simp add: of_unix_def nano_second_def)

text \<open>\<^verbatim>\<open>t.Sub(u)\<close>, and with it \<^verbatim>\<open>time.Since(u)\<close> and \<^verbatim>\<open>time.Until(t)\<close>: saturating.\<close>

definition sub_time :: "time \<Rightarrow> time \<Rightarrow> duration" where
  "sub_time t u = max min_int64 (min max_int64 (t - u))"

lemma sub_time_gt:
  "0 \<le> d \<Longrightarrow> d < max_int64 \<Longrightarrow> d < sub_time t u \<longleftrightarrow> u + d < t"
  by (auto simp: sub_time_def max_int64_def min_int64_def)

text \<open>
  \<^verbatim>\<open>int(d.Seconds())\<close>: the conversion truncates toward zero. (\<^verbatim>\<open>Seconds\<close> goes through
  \<^verbatim>\<open>float64\<close>, which is exact to far below a nanosecond for the durations below two minutes to
  which the caller clamps, and rounds monotonically above.)
\<close>

definition dur_seconds :: "duration \<Rightarrow> int" where
  "dur_seconds d = sgn d * (\<bar>d\<bar> div nano_second)"

text \<open>\<^verbatim>\<open>time.Duration(n) * unit\<close>.\<close>

definition dur_of :: "int \<Rightarrow> duration \<Rightarrow> duration" where
  "dur_of n unit = wrap64 (n * unit)"

lemma dur_of_seconds:
  "- 9223372036 \<le> n \<Longrightarrow> n \<le> 9223372036 \<Longrightarrow> dur_of n nano_second = n * nano_second"
  unfolding dur_of_def
  by (rule wrap64_id) (simp_all add: min_int64_def max_int64_def nano_second_def)

section \<open>Calendar\<close>

text \<open>
  \<^verbatim>\<open>Weekday\<close>: 0001-01-01 was a Monday in the proleptic Gregorian calendar Go uses, and Go counts
  from Sunday. \<^verbatim>\<open>Hour\<close> in UTC.
\<close>

definition weekday :: "time \<Rightarrow> nat" where
  "weekday t = nat ((t div (24 * nano_hour) + 1) mod 7)"

definition hour_of :: "time \<Rightarrow> int" where
  "hour_of t = (t div nano_hour) mod 24"

definition weekday_name :: "nat \<Rightarrow> string" where
  "weekday_name d = [''Sunday'', ''Monday'', ''Tuesday'', ''Wednesday'', ''Thursday'', ''Friday'',
                     ''Saturday''] ! d"

lemma weekday_less [simp]: "weekday t < 7"
  by (simp add: weekday_def)

lemma hour_of_bounds [simp]: "0 \<le> hour_of t" "hour_of t < 24"
  by (simp_all add: hour_of_def)

end
