(* ===== verification/Evicting_Cache.thy ===== *)
theory Evicting_Cache
  imports Go_Time
begin

text \<open>
  The bounded in-memory caches share one replacement scheme: a full cache evicts the entry with
  the least time stamp, found by ranging over the map with the empty key as \<^verbatim>\<open>nothing yet\<close>. This
  theory models that loop once, states the interface a bounded cache promises (locale
  \<open>bounded_cache\<close>) and proves what its clients rely on inside the locale. The caches themselves
  interpret it: the policy cache in Policy_Cache, the installation and token caches in
  GitHub_Caches.
\<close>

section \<open>The replacement loop\<close>

text \<open>
  \<open>scan_oldest stamp es (key, t)\<close> runs the loop over the remaining entries \<open>es\<close> with the
  variables \<^verbatim>\<open>oldestKey\<close> and \<^verbatim>\<open>oldestTime\<close>; the loop starts from the empty key and the zero time.
\<close>

fun scan_oldest :: "('e \<Rightarrow> time) \<Rightarrow> (string, 'e) gomap \<Rightarrow> string \<times> time \<Rightarrow> string \<times> time" where
  "scan_oldest stamp [] acc = acc"
| "scan_oldest stamp ((k, e) # es) (oldestKey, oldestTime) =
     (if oldestKey = [] \<or> before (stamp e) oldestTime
      then scan_oldest stamp es (k, stamp e)
      else scan_oldest stamp es (oldestKey, oldestTime))"

definition evict_oldest ::
  "('e \<Rightarrow> time) \<Rightarrow> (string, 'e) gomap \<Rightarrow> (string, 'e) gomap \<Rightarrow> (string, 'e) gomap" where
  "evict_oldest stamp order entries =
     (let oldestKey = fst (scan_oldest stamp order ([], zero_time))
      in if oldestKey \<noteq> [] then AList.delete oldestKey entries else entries)"

definition keys_nonempty :: "(string, 'e) gomap \<Rightarrow> bool" where
  "keys_nonempty m \<longleftrightarrow> [] \<notin> fst ` set m"

lemma scan_oldest_min:
  assumes "keys_nonempty es" and "k \<noteq> []"
  shows "\<exists>k' t'. scan_oldest stamp es (k, t) = (k', t') \<and> k' \<noteq> [] \<and>
     t' \<le> t \<and> (\<forall>(j, e)\<in>set es. t' \<le> stamp e) \<and>
     (k' = k \<and> t' = t \<or> (\<exists>e. (k', e) \<in> set es \<and> t' = stamp e))"
  using assms
proof (induction es arbitrary: k t)
  case (Cons x es)
  obtain j e where x: "x = (j, e)" by (cases x)
  with Cons.prems have j: "j \<noteq> []" and es: "keys_nonempty es" by (auto simp: keys_nonempty_def)
  show ?case
    using Cons.IH [OF es j, of "stamp e"] Cons.IH [OF es Cons.prems(2), of t] Cons.prems(2)
    unfolding x by (auto; fastforce)
qed simp

lemma evict_oldest_delete:
  assumes "keys_nonempty m" and "gm_range m order" and "m \<noteq> []"
  obtains k e where "(k, e) \<in> set m" and "evict_oldest stamp order m = AList.delete k m"
    and "\<forall>(j, x)\<in>set m. stamp e \<le> stamp x"
proof -
  have set: "set order = set m" using assms(2) by (rule gm_range_set)
  then obtain j e es where o: "order = (j, e) # es"
    using assms(3) by (metis list.exhaust prod.exhaust set_empty2)
  have ne: "keys_nonempty order" using assms(1) set by (simp add: keys_nonempty_def)
  then have "keys_nonempty es" and j: "j \<noteq> []" by (auto simp: o keys_nonempty_def)
  from scan_oldest_min [OF this, of stamp "stamp e"]
  obtain k' t' where s: "scan_oldest stamp es (j, stamp e) = (k', t')" and "k' \<noteq> []"
    and min: "t' \<le> stamp e" "\<forall>(j, x)\<in>set es. t' \<le> stamp x"
    and mem: "k' = j \<and> t' = stamp e \<or> (\<exists>x. (k', x) \<in> set es \<and> t' = stamp x)"
    by blast
  then have ev: "evict_oldest stamp order m = AList.delete k' m"
    by (simp add: evict_oldest_def o)
  from mem obtain x where "(k', x) \<in> set order" and "t' = stamp x" by (auto simp: o)
  moreover have "\<forall>(j, y)\<in>set order. t' \<le> stamp y" using min by (auto simp: o)
  ultimately show thesis using that ev set by auto
qed

section \<open>Room for one more\<close>

text \<open>The guarded eviction that each cache runs before it stores an entry.\<close>

definition make_room ::
  "nat \<Rightarrow> ('e \<Rightarrow> time) \<Rightarrow> (string, 'e) gomap \<Rightarrow> string \<Rightarrow> (string, 'e) gomap \<Rightarrow> (string, 'e) gomap" where
  "make_room maxEntries stamp order key entries =
     (if length entries \<ge> maxEntries \<and> map_of entries key = None
      then evict_oldest stamp order entries else entries)"

definition cache_inv :: "nat \<Rightarrow> (string, 'e) gomap \<Rightarrow> bool" where
  "cache_inv maxEntries m \<longleftrightarrow> gm_wf m \<and> keys_nonempty m \<and> length m \<le> maxEntries"

lemma keys_nonempty_update: "keys_nonempty m \<Longrightarrow> k \<noteq> [] \<Longrightarrow> keys_nonempty (AList.update k v m)"
  by (auto simp: keys_nonempty_def dom_update)

lemma keys_nonempty_delete: "keys_nonempty m \<Longrightarrow> keys_nonempty (AList.delete k m)"
  by (auto simp: keys_nonempty_def AList.delete_eq)

lemma make_room_cases:
  assumes "cache_inv n m" and "gm_range m order" and "0 < n"
  obtains (keep) "make_room n stamp order key m = m" "length m < n \<or> map_of m key \<noteq> None"
  | (evict) k e where "make_room n stamp order key m = AList.delete k m" "map_of m k = Some e"
      "length m = n" "map_of m key = None" "\<forall>j x. map_of m j = Some x \<longrightarrow> stamp e \<le> stamp x"
proof (cases "length m \<ge> n \<and> map_of m key = None")
  case True
  with assms have "m \<noteq> []" and len: "length m = n" and wf: "gm_wf m" by (auto simp: cache_inv_def)
  with assms obtain k e where ke: "(k, e) \<in> set m"
    and ev: "evict_oldest stamp order m = AList.delete k m"
    and min: "\<forall>(j, x)\<in>set m. stamp e \<le> stamp x"
    by (metis cache_inv_def evict_oldest_delete)
  show thesis
  proof (rule evict)
    show "make_room n stamp order key m = AList.delete k m" using True ev by (simp add: make_room_def)
    show "map_of m k = Some e" using ke wf by (rule gm_mem_lookup [rotated])
    show "\<forall>j x. map_of m j = Some x \<longrightarrow> stamp e \<le> stamp x" using min by (blast dest: map_of_SomeD)
  qed (use True len in simp_all)
next
  case False
  then show thesis using keep by (auto simp: make_room_def not_le)
qed

lemma make_room_store_inv:
  assumes inv: "cache_inv n m" and rng: "gm_range m order" and pos: "0 < n" and key: "key \<noteq> []"
  shows "cache_inv n (AList.update key v (make_room n stamp order key m))"
proof -
  from inv have m: "gm_wf m" "keys_nonempty m" "length m \<le> n" by (simp_all add: cache_inv_def)
  show ?thesis
    using inv rng pos
  proof (cases rule: make_room_cases [where stamp = stamp and key = key])
    case keep
    then have "length (AList.update key v m) \<le> n"
      using m(3) by (cases "map_of m key") (auto simp: length_update_new length_update_old)
    then show ?thesis unfolding keep(1) using m key by (simp add: cache_inv_def keys_nonempty_update)
  next
    case (evict k e)
    have "Suc (length (AList.delete k m)) = n"
      using length_delete_present [of m k] m evict(2,3) by simp
    moreover have "map_of (AList.delete k m) key = None" using evict(4) by simp
    ultimately have "length (AList.update key v (AList.delete k m)) = n"
      by (simp add: length_update_new)
    then show ?thesis
      unfolding evict(1) using m key by (simp add: cache_inv_def keys_nonempty_update keys_nonempty_delete)
  qed
qed

lemma make_room_store_lost:
  assumes inv: "cache_inv n m" and rng: "gm_range m order" and pos: "0 < n" and jk: "j \<noteq> key"
    and before: "map_of m j = Some x"
    and lost: "map_of (AList.update key v (make_room n stamp order key m)) j = None"
  shows "length m = n \<and> map_of m key = None \<and> (\<forall>i y. map_of m i = Some y \<longrightarrow> stamp x \<le> stamp y)"
  using inv rng pos
proof (cases rule: make_room_cases [where stamp = stamp and key = key])
  case keep
  with before lost jk show ?thesis by simp
next
  case (evict k e)
  with before lost jk have "j = k" by (simp split: if_splits)
  with evict before show ?thesis by simp
qed

lemma make_room_store_other:
  assumes "j \<noteq> key"
    and "map_of (AList.update key v (make_room n stamp order key m)) j = Some x"
  shows "map_of m j = Some x"
  using assms by (auto simp: make_room_def evict_oldest_def Let_def split: if_splits)

section \<open>The interface of a bounded cache\<close>

text \<open>
  \<open>ranges c order\<close> says that \<open>order\<close> is a possible order of the entries for a \<^verbatim>\<open>range\<close> over the
  cache \<open>c\<close>; \<open>stamp\<close> is the time stamp the replacement compares.
\<close>

locale bounded_cache =
  fixes lookup :: "'c \<Rightarrow> string \<Rightarrow> 'e option"
    and put :: "(string, 'e) gomap \<Rightarrow> string \<Rightarrow> 'e \<Rightarrow> 'c \<Rightarrow> 'c"
    and size :: "'c \<Rightarrow> nat"
    and inv :: "'c \<Rightarrow> bool"
    and ranges :: "'c \<Rightarrow> (string, 'e) gomap \<Rightarrow> bool"
    and stamp :: "'e \<Rightarrow> time"
    and capacity :: nat
  assumes inv_size: "inv c \<Longrightarrow> size c \<le> capacity"
    and put_inv: "inv c \<Longrightarrow> ranges c order \<Longrightarrow> key \<noteq> [] \<Longrightarrow> inv (put order key e c)"
    and put_same: "lookup (put order key e c) key = Some e"
    and put_other: "j \<noteq> key \<Longrightarrow> lookup (put order key e c) j = Some x \<Longrightarrow> lookup c j = Some x"
    and put_lost: "inv c \<Longrightarrow> ranges c order \<Longrightarrow> j \<noteq> key \<Longrightarrow> lookup c j = Some x \<Longrightarrow>
      lookup (put order key e c) j = None \<Longrightarrow>
      size c = capacity \<and> lookup c key = None \<and> (\<forall>i y. lookup c i = Some y \<longrightarrow> stamp x \<le> stamp y)"
begin

text \<open>A sequence of stores, each with the order its \<^verbatim>\<open>range\<close> happens to take.\<close>

fun put_all :: "((string, 'e) gomap \<times> string \<times> 'e) list \<Rightarrow> 'c \<Rightarrow> 'c" where
  "put_all [] c = c"
| "put_all ((order, key, e) # ops) c = put_all ops (put order key e c)"

fun runs :: "((string, 'e) gomap \<times> string \<times> 'e) list \<Rightarrow> 'c \<Rightarrow> bool" where
  "runs [] c \<longleftrightarrow> True"
| "runs ((order, key, e) # ops) c \<longleftrightarrow> ranges c order \<and> key \<noteq> [] \<and> runs ops (put order key e c)"

lemma put_all_inv: "inv c \<Longrightarrow> runs ops c \<Longrightarrow> inv (put_all ops c)"
  by (induction ops c rule: put_all.induct) (auto intro: put_inv)

lemma put_all_size: "inv c \<Longrightarrow> runs ops c \<Longrightarrow> size (put_all ops c) \<le> capacity"
  by (rule inv_size, rule put_all_inv)

lemma put_all_append: "put_all (xs @ ys) c = put_all ys (put_all xs c)"
  by (induction xs c rule: put_all.induct) auto

text \<open>What a lookup returns was put under that key, or was there at the start.\<close>

lemma put_all_lookup:
  "lookup (put_all ops c) j = Some x \<Longrightarrow>
     lookup c j = Some x \<or> (\<exists>order. (order, j, x) \<in> set ops)"
proof (induction ops c rule: put_all.induct)
  case (2 order key e ops c)
  then consider "lookup (put order key e c) j = Some x" | "\<exists>order. (order, j, x) \<in> set ops"
    by auto
  then show ?case
  proof cases
    case 1
    then show ?thesis
      using put_same [of order key e c] put_other [of j key order e c x] by (cases "j = key") auto
  qed auto
qed simp

text \<open>
  A store never drops an entry while the cache has room, when it overwrites, or while an older
  entry is left to evict.
\<close>

lemma put_keeps:
  assumes "inv c" and "ranges c order" and "j \<noteq> key" and "lookup c j = Some x"
    and "size c < capacity \<or> lookup c key \<noteq> None \<or> (\<exists>i y. lookup c i = Some y \<and> stamp y < stamp x)"
  shows "lookup (put order key e c) j = Some x"
proof (cases "lookup (put order key e c) j")
  case None
  note lost = put_lost [OF assms(1-4) None]
  then have full: "size c = capacity" and new: "lookup c key = None" by simp_all
  have oldest: "stamp x \<le> stamp y" if "lookup c i = Some y" for i y
    using lost that by (elim conjE allE) (erule mp)
  from assms(5) show ?thesis
  proof (elim disjE exE conjE)
    fix i y
    assume "lookup c i = Some y" and "stamp y < stamp x"
    then show ?thesis using oldest [of i y] by simp
  qed (use full new in simp_all)
next
  case (Some y)
  then have "lookup c j = Some y" by (rule put_other [OF assms(3)])
  with Some assms(4) show ?thesis by simp
qed

end

section \<open>Caches over an evicting map\<close>

text \<open>
  How the program's caches provide that interface: a map behind \<open>entries\<close>, and a store that makes
  room and updates it.
\<close>

locale evicting_map =
  fixes entries :: "'c \<Rightarrow> (string, 'e) gomap"
    and put :: "(string, 'e) gomap \<Rightarrow> string \<Rightarrow> 'e \<Rightarrow> 'c \<Rightarrow> 'c"
    and stamp :: "'e \<Rightarrow> time"
    and capacity :: nat
  assumes capacity_pos: "0 < capacity"
    and put_entries: "entries (put order key e c) =
      AList.update key e (make_room capacity stamp order key (entries c))"
begin

lemma put_entries_inv:
  "cache_inv capacity (entries c) \<Longrightarrow> gm_range (entries c) order \<Longrightarrow> key \<noteq> [] \<Longrightarrow>
     cache_inv capacity (entries (put order key e c))"
  by (simp add: put_entries make_room_store_inv capacity_pos)

lemma put_entries_other:
  "j \<noteq> key \<Longrightarrow> map_of (entries (put order key e c)) j = Some x \<Longrightarrow> map_of (entries c) j = Some x"
  unfolding put_entries by (rule make_room_store_other)

lemma put_entries_lost:
  "cache_inv capacity (entries c) \<Longrightarrow> gm_range (entries c) order \<Longrightarrow> j \<noteq> key \<Longrightarrow>
     map_of (entries c) j = Some x \<Longrightarrow> map_of (entries (put order key e c)) j = None \<Longrightarrow>
     length (entries c) = capacity \<and> map_of (entries c) key = None \<and>
     (\<forall>i y. map_of (entries c) i = Some y \<longrightarrow> stamp x \<le> stamp y)"
  unfolding put_entries by (rule make_room_store_lost) (use capacity_pos in auto)

end

sublocale evicting_map \<subseteq> bounded_cache
  "\<lambda>c. map_of (entries c)" put "\<lambda>c. length (entries c)" "\<lambda>c. cache_inv capacity (entries c)"
  "\<lambda>c. gm_range (entries c)" stamp capacity
proof unfold_locales
  show "cache_inv capacity (entries c) \<Longrightarrow> length (entries c) \<le> capacity" for c
    by (simp add: cache_inv_def)
  show "map_of (entries (put order key e c)) key = Some e" for order key e c
    by (simp add: put_entries)
qed (rule put_entries_inv put_entries_other put_entries_lost; assumption)+

end
