(* ===== verification/Policy_Config.thy ===== *)
theory Policy_Config
  imports Go_Time
begin

text \<open>
  The organisation-wide policy configuration, \<^verbatim>\<open>internal/config/policy.go\<close>: time restrictions,
  provider entries, the policy section and their \<^verbatim>\<open>Validate\<close> methods. A \<^verbatim>\<open>Validate\<close> returns
  the first error as \<open>Some\<close>, and \<open>None\<close> where Go returns \<open>nil\<close>. The lemmas characterise what a
  validated configuration guarantees to the authoriser.
\<close>

datatype policy_config_error =
    ErrInvalidStartHour
  | ErrInvalidEndHour
  | ErrInvalidAllowedDays
  | ErrInvalidProviderName
  | ErrInvalidProviderIssuer
  | ErrInvalidPolicyVersion
  | ErrInvalidTrustPolicyPath
  | ErrInvalidDefaultTokenTTL
  | ErrInvalidMaxTokenTTL
  | ErrDefaultTTLExceedsMax
  | ErrInvalidPermissionLevel string string

definition ValidPolicyVersions :: "string list" where
  "ValidPolicyVersions = [''1.0'']"

definition validPermissionLevels :: "(string, bool) gomap" where
  "validPermissionLevels = [(''none'', True), (''read'', True), (''write'', True)]"

definition ValidAllowedDays :: "string list" where
  "ValidAllowedDays = [''Monday'', ''Tuesday'', ''Wednesday'', ''Thursday'', ''Friday'',
                       ''Saturday'', ''Sunday'']"

record hour_range =
  hr_start :: int
  hr_end :: int

record time_restriction =
  tr_allowed_days :: "string list"
  tr_allowed_hours :: "hour_range option"

record provider_config =
  prov_issuer :: string
  prov_name :: string
  prov_required_claims :: "(string, string) gomap"
  prov_forbidden_claims :: "(string, string) gomap"
  prov_time_restrictions :: "time_restriction option"

record policy_config =
  pol_version :: string
  pol_trust_policy_path :: string
  pol_default_token_ttl :: int
  pol_max_token_ttl :: int
  pol_require_explicit_policy :: bool
  pol_github_api_base_url :: string
  pol_github_raw_base_url :: string
  pol_providers :: "provider_config list"
  pol_max_permissions :: "(string, string) gomap"

definition HourRange_Validate :: "hour_range \<Rightarrow> policy_config_error option" where
  "HourRange_Validate h =
     (if hr_start h < 0 \<or> hr_start h > 23 then Some ErrInvalidStartHour
      else if hr_end h < 0 \<or> hr_end h > 23 then Some ErrInvalidEndHour
      else None)"

definition TimeRestriction_Validate :: "time_restriction \<Rightarrow> policy_config_error option" where
  "TimeRestriction_Validate t =
     (case (case tr_allowed_hours t of None \<Rightarrow> None | Some h \<Rightarrow> HourRange_Validate h) of
        Some e \<Rightarrow> Some e
      | None \<Rightarrow>
          first_err (\<lambda>day. if day \<in> set ValidAllowedDays then None else Some ErrInvalidAllowedDays)
            (tr_allowed_days t))"

definition ProviderConfig_Validate :: "provider_config \<Rightarrow> policy_config_error option" where
  "ProviderConfig_Validate p =
     (if prov_issuer p = [] then Some ErrInvalidProviderIssuer
      else if prov_name p = [] then Some ErrInvalidProviderName
      else (case prov_time_restrictions p of
              None \<Rightarrow> None
            | Some t \<Rightarrow> TimeRestriction_Validate t))"

definition Issuers :: "policy_config \<Rightarrow> string list" where
  "Issuers p = map prov_issuer (pol_providers p)"

definition validatePermissions :: "(string, string) gomap \<Rightarrow> policy_config_error option" where
  "validatePermissions permissions =
     first_err (\<lambda>(permission, level).
                  if map_of validPermissionLevels level = Some True then None
                  else Some (ErrInvalidPermissionLevel permission level))
       permissions"

definition PolicyConfig_Validate :: "policy_config \<Rightarrow> policy_config_error option" where
  "PolicyConfig_Validate p =
     (if pol_version p = [] \<or> pol_version p \<notin> set ValidPolicyVersions then Some ErrInvalidPolicyVersion
      else if pol_trust_policy_path p = [] then Some ErrInvalidTrustPolicyPath
      else if pol_default_token_ttl p \<le> 0 then Some ErrInvalidDefaultTokenTTL
      else if pol_max_token_ttl p \<le> 0 then Some ErrInvalidMaxTokenTTL
      else if pol_default_token_ttl p > pol_max_token_ttl p then Some ErrDefaultTTLExceedsMax
      else (case first_err ProviderConfig_Validate (pol_providers p) of
              Some e \<Rightarrow> Some e
            | None \<Rightarrow> validatePermissions (pol_max_permissions p)))"

section \<open>What validation guarantees\<close>

definition hour_ok :: "int \<Rightarrow> bool" where
  "hour_ok h \<longleftrightarrow> 0 \<le> h \<and> h \<le> 23"

lemma HourRange_Validate_None:
  "HourRange_Validate h = None \<longleftrightarrow> hour_ok (hr_start h) \<and> hour_ok (hr_end h)"
  by (auto simp: HourRange_Validate_def hour_ok_def)

lemma TimeRestriction_Validate_None:
  "TimeRestriction_Validate t = None \<longleftrightarrow>
     (\<forall>h. tr_allowed_hours t = Some h \<longrightarrow> hour_ok (hr_start h) \<and> hour_ok (hr_end h)) \<and>
     set (tr_allowed_days t) \<subseteq> set ValidAllowedDays"
  by (auto simp: TimeRestriction_Validate_def HourRange_Validate_None [symmetric]
      split: option.splits if_splits)

lemma ProviderConfig_Validate_None:
  "ProviderConfig_Validate p = None \<longleftrightarrow>
     prov_issuer p \<noteq> [] \<and> prov_name p \<noteq> [] \<and>
     (\<forall>t. prov_time_restrictions p = Some t \<longrightarrow> TimeRestriction_Validate t = None)"
  by (auto simp: ProviderConfig_Validate_def split: option.splits)

lemma validPermissionLevels_iff:
  "map_of validPermissionLevels l = Some True \<longleftrightarrow> l = ''none'' \<or> l = ''read'' \<or> l = ''write''"
  by (auto simp: validPermissionLevels_def)

lemma validatePermissions_None:
  "validatePermissions m = None \<longleftrightarrow>
     (\<forall>(p, l)\<in>set m. l = ''none'' \<or> l = ''read'' \<or> l = ''write'')"
  unfolding validatePermissions_def by (auto simp: validPermissionLevels_iff split: if_splits)

lemma PolicyConfig_Validate_None:
  "PolicyConfig_Validate p = None \<longleftrightarrow>
     pol_version p = ''1.0'' \<and> pol_trust_policy_path p \<noteq> [] \<and>
     0 < pol_default_token_ttl p \<and> pol_default_token_ttl p \<le> pol_max_token_ttl p \<and>
     (\<forall>q\<in>set (pol_providers p). ProviderConfig_Validate q = None) \<and>
     validatePermissions (pol_max_permissions p) = None"
  unfolding first_err_None [of ProviderConfig_Validate, symmetric]
  by (auto simp: PolicyConfig_Validate_def ValidPolicyVersions_def simp del: first_err_None
      split: option.splits)

end
