(* ===== verification/Permissions.thy ===== *)
theory Permissions
  imports Policy_Config
begin

text \<open>
  The permission lattice of \<^verbatim>\<open>internal/sts/authorizer/permission.go\<close>: the level table, the
  permissions a repository token can never carry, and the comparison of levels; and the denial
  value of \<^verbatim>\<open>internal/sts/authorizer/errors.go\<close>.
\<close>

section \<open>Denials\<close>

datatype error_code =
    IssuerNotAllowed
  | RequiredClaimMismatch
  | ForbiddenClaimMatched
  | TimeRestriction
  | PolicyLoadFailed
  | TrustPolicyNotFound
  | RepositoryNotFound
  | PolicyNotFound
  | NoRulesMatched
  | PermissionNotInPolicy
  | PermissionExceedsPolicy
  | PermissionExceedsMax
  | PermissionDenied
  | PermissionNotInMaxPermission
  | NonRepoPermission
  | PolicyNameRequired

text \<open>The string constant behind each code, as API clients and audit entries see it.\<close>

fun code_string :: "error_code \<Rightarrow> string" where
  "code_string IssuerNotAllowed = ''ISSUER_NOT_ALLOWED''"
| "code_string RequiredClaimMismatch = ''REQUIRED_CLAIM_MISMATCH''"
| "code_string ForbiddenClaimMatched = ''FORBIDDEN_CLAIM_MATCHED''"
| "code_string TimeRestriction = ''TIME_RESTRICTION''"
| "code_string PolicyLoadFailed = ''POLICY_LOAD_FAILED''"
| "code_string TrustPolicyNotFound = ''TRUST_POLICY_NOT_FOUND''"
| "code_string RepositoryNotFound = ''REPOSITORY_NOT_FOUND''"
| "code_string PolicyNotFound = ''POLICY_NOT_FOUND''"
| "code_string NoRulesMatched = ''NO_RULES_MATCHED''"
| "code_string PermissionNotInPolicy = ''PERMISSION_NOT_IN_POLICY''"
| "code_string PermissionExceedsPolicy = ''PERMISSION_EXCEEDS_POLICY''"
| "code_string PermissionExceedsMax = ''PERMISSION_EXCEEDS_ORG_MAX''"
| "code_string PermissionDenied = ''PERMISSION_DENIED''"
| "code_string PermissionNotInMaxPermission = ''PERMISSION_NOT_IN_MAX_PERMISSIONS''"
| "code_string NonRepoPermission = ''NON_REPOSITORY_PERMISSION''"
| "code_string PolicyNameRequired = ''POLICY_NAME_REQUIRED''"

lemma code_string_nonempty [simp]: "code_string c \<noteq> []"
  by (cases c) simp_all

lemma code_string_inj: "code_string a = code_string b \<longleftrightarrow> a = b"
  by (cases a; cases b) simp_all

record denial_error =
  de_code :: error_code
  de_message :: gotext
  de_details :: gotext

definition newDenialError :: "error_code \<Rightarrow> gotext \<Rightarrow> gotext \<Rightarrow> denial_error" where
  "newDenialError code message details =
     \<lparr>de_code = code, de_message = message, de_details = details\<rparr>"

lemma newDenialError_code [simp]: "de_code (newDenialError c m d) = c"
  by (simp add: newDenialError_def)

section \<open>Levels\<close>

definition levels :: "(string, int) gomap" where
  "levels = [(''none'', 0), (''read'', 1), (''write'', 2)]"

definition isValidLevel :: "string \<Rightarrow> bool" where
  "isValidLevel level = (case map_of levels level of None \<Rightarrow> False | Some _ \<Rightarrow> True)"

definition isLevelAllowed :: "string \<Rightarrow> string \<Rightarrow> bool" where
  "isLevelAllowed requested maxLevel =
     (case (map_of levels requested, map_of levels maxLevel) of
        (Some r, Some m) \<Rightarrow> r \<le> m
      | _ \<Rightarrow> requested = maxLevel)"

lemma isValidLevel_iff: "isValidLevel l \<longleftrightarrow> l = ''none'' \<or> l = ''read'' \<or> l = ''write''"
  by (auto simp: isValidLevel_def levels_def split: option.splits if_splits)

lemma isValidLevel_cases:
  assumes "isValidLevel l"
  obtains "l = ''none''" | "l = ''read''" | "l = ''write''"
  using assms by (auto simp: isValidLevel_iff)

lemma levels_dom: "map_of levels l \<noteq> None \<longleftrightarrow> isValidLevel l"
  by (simp add: isValidLevel_def split: option.splits)

lemma isLevelAllowed_refl [simp]: "isLevelAllowed l l"
  by (simp add: isLevelAllowed_def split: option.splits)

lemma isLevelAllowed_trans:
  assumes "isLevelAllowed a b" and "isLevelAllowed b c"
  shows "isLevelAllowed a c"
proof (cases "map_of levels b")
  case None
  with assms have "a = b" and "b = c" by (auto simp: isLevelAllowed_def split: option.splits)
  then show ?thesis by simp
next
  case (Some m)
  with assms show ?thesis by (auto simp: isLevelAllowed_def split: option.splits)
qed

lemma isLevelAllowed_antisym:
  assumes "isLevelAllowed a b" and "isLevelAllowed b a"
  shows "a = b"
  using assms by (auto simp: isLevelAllowed_def levels_def split: option.splits if_splits)

text \<open>Only a valid level is below a valid level: an unknown level never slips under a ceiling.\<close>

lemma isLevelAllowed_valid:
  assumes "isLevelAllowed a b" and "isValidLevel b"
  shows "isValidLevel a"
proof (rule ccontr)
  assume "\<not> isValidLevel a"
  then have "map_of levels a = None" using levels_dom by blast
  with assms(1) have "a = b" by (auto simp: isLevelAllowed_def split: option.splits)
  with assms(2) \<open>\<not> isValidLevel a\<close> show False by simp
qed

lemma isLevelAllowed_none: "isLevelAllowed a ''none'' \<longleftrightarrow> a = ''none''"
  by (auto simp: isLevelAllowed_def levels_def split: option.splits if_splits)

lemma isLevelAllowed_valid_iff:
  "isValidLevel b \<Longrightarrow> isLevelAllowed a b \<longleftrightarrow>
     a = ''none'' \<or> a = b \<or> (a = ''read'' \<and> b = ''write'')"
  by (erule isValidLevel_cases)
    (auto simp: isLevelAllowed_def levels_def split: option.splits if_splits)

section \<open>Permissions outside a repository's scope\<close>

definition deniedPermissions :: "(string, string) gomap" where
  "deniedPermissions =
    [(''custom_properties_for_organizations'', ''organization''),
     (''members'', ''organization''),
     (''organization_administration'', ''organization''),
     (''organization_announcement_banners'', ''organization''),
     (''organization_copilot_seat_management'', ''organization''),
     (''organization_custom_org_roles'', ''organization''),
     (''organization_custom_properties'', ''organization''),
     (''organization_custom_roles'', ''organization''),
     (''organization_events'', ''organization''),
     (''organization_hooks'', ''organization''),
     (''organization_packages'', ''organization''),
     (''organization_personal_access_token_requests'', ''organization''),
     (''organization_personal_access_tokens'', ''organization''),
     (''organization_plan'', ''organization''),
     (''organization_projects'', ''organization''),
     (''organization_secrets'', ''organization''),
     (''organization_self_hosted_runners'', ''organization''),
     (''organization_user_blocking'', ''organization''),
     (''team_discussions'', ''organization''),
     (''email_addresses'', ''user''),
     (''followers'', ''user''),
     (''git_ssh_keys'', ''user''),
     (''gpg_keys'', ''user''),
     (''interaction_limits'', ''user''),
     (''profile'', ''user''),
     (''starring'', ''user''),
     (''enterprise_custom_properties_for_organizations'', ''enterprise'')]"

end
