(* ===== verification/Trust_Policy.thy ===== *)
theory Trust_Policy
  imports Permissions
begin

text \<open>
  Repository trust policies, \<^verbatim>\<open>internal/sts/authorizer/policy.go\<close>: the YAML data, the
  \<^verbatim>\<open>Validate\<close> methods, which also compile every condition's pattern in place, and
  \<^verbatim>\<open>Condition.Matches\<close>.

  The regular expression engine is an argument: \<open>rx_error\<close> is the error \<^verbatim>\<open>regexp.Compile\<close>
  returns for a pattern (\<open>None\<close> when it compiles) and \<open>rx_match\<close> is \<^verbatim>\<open>MatchString\<close> of the
  compiled expression; every statement holds for all engines. A compiled \<^verbatim>\<open>*regexp.Regexp\<close> is
  known by the pattern it was compiled from.

  \<^verbatim>\<open>Validate\<close> ranges over copies of policies and rules, but a slice shares its array with the
  copy, so the compiled expressions land in the file that is returned; the model returns the
  updated file.
\<close>

datatype regexp = Regexp string

record regex_engine =
  rx_error :: "string \<Rightarrow> gotext option"
  rx_match :: "regexp \<Rightarrow> string \<Rightarrow> bool"

definition regexp_Compile :: "regex_engine \<Rightarrow> string \<Rightarrow> gotext + regexp" where
  "regexp_Compile rx p = (case rx_error rx p of Some e \<Rightarrow> Inl e | None \<Rightarrow> Inr (Regexp p))"

record condition =
  cond_field :: string
  cond_pattern :: string
  cond_compiled :: "regexp option"

record policy_rule =
  rule_name :: string
  rule_logic :: string
  rule_conditions :: "condition list"

record trust_policy =
  tp_name :: string
  tp_description :: string
  tp_issuer :: string
  tp_rules :: "policy_rule list"
  tp_permissions :: "(string, string) gomap"
  tp_token_ttl :: int

record policy_file =
  pf_version :: string
  pf_trust_policies :: "trust_policy list"

definition Condition_Validate :: "regex_engine \<Rightarrow> condition \<Rightarrow> gotext + condition" where
  "Condition_Validate rx c =
     (if cond_field c = [] then Inl (msg ''field is required'')
      else if cond_pattern c = [] then Inl (msg ''pattern is required'')
      else (case regexp_Compile rx (cond_pattern c) of
              Inl err \<Rightarrow> Inl (Sprintf ''invalid pattern %q: %w'' [AStr (cond_pattern c), AErr err])
            | Inr compiled \<Rightarrow> Inr (c\<lparr>cond_compiled := Some compiled\<rparr>)))"

definition PolicyRule_Validate :: "regex_engine \<Rightarrow> policy_rule \<Rightarrow> gotext + policy_rule" where
  "PolicyRule_Validate rx r =
     (if rule_name r = [] then Inl (msg ''name is required'')
      else
        let logic = (if rule_logic r = [] then ''AND'' else rule_logic r)
        in if logic \<noteq> ''AND'' \<and> logic \<noteq> ''OR''
           then Inl (Sprintf ''logic must be AND or OR, got %q'' [AStr logic])
           else if rule_conditions r = [] then Inl (msg ''at least one condition is required'')
           else (case traverse (\<lambda>i c. case Condition_Validate rx c of
                                       Inl err \<Rightarrow> Inl (Sprintf ''condition %d: %w'' [AInt (int i), AErr err])
                                     | Inr c' \<Rightarrow> Inr c') 0 (rule_conditions r) of
                   Inl err \<Rightarrow> Inl err
                 | Inr cs \<Rightarrow> Inr (r\<lparr>rule_conditions := cs\<rparr>)))"

definition TrustPolicy_Validate :: "regex_engine \<Rightarrow> trust_policy \<Rightarrow> gotext + trust_policy" where
  "TrustPolicy_Validate rx p =
     (if tp_name p = [] then Inl (msg ''name is required'')
      else if tp_issuer p = [] then Inl (msg ''issuer is required'')
      else if tp_rules p = [] then Inl (msg ''at least one rule is required'')
      else
        (case traverse (\<lambda>i r. case PolicyRule_Validate rx r of
                              Inl err \<Rightarrow> Inl (Sprintf ''rule %d (%s): %w''
                                               [AInt (int i), AStr (rule_name r), AErr err])
                            | Inr r' \<Rightarrow> Inr r') 0 (tp_rules p) of
           Inl err \<Rightarrow> Inl err
         | Inr rs \<Rightarrow>
             if tp_permissions p = [] then Inl (msg ''at least one permission is required'')
             else
               (case first_err (\<lambda>(perm, level).
                        if isValidLevel level then None
                        else Some (Sprintf ''permission %q has invalid level %q'' [AStr perm, AStr level]))
                      (tp_permissions p) of
                  Some err \<Rightarrow> Inl err
                | None \<Rightarrow> Inr (p\<lparr>tp_rules := rs\<rparr>))))"

text \<open>The loop of \<^verbatim>\<open>PolicyFile.Validate\<close>, with the map \<^verbatim>\<open>seen\<close> as the list of its keys.\<close>

fun validate_policies ::
  "regex_engine \<Rightarrow> string list \<Rightarrow> nat \<Rightarrow> trust_policy list \<Rightarrow> gotext + trust_policy list" where
  "validate_policies rx seen i [] = Inr []"
| "validate_policies rx seen i (p # ps) =
     (case TrustPolicy_Validate rx p of
        Inl err \<Rightarrow> Inl (Sprintf ''policy %d (%s): %w'' [AInt (int i), AStr (tp_name p), AErr err])
      | Inr p' \<Rightarrow>
          if tp_name p \<in> set seen then Inl (Sprintf ''duplicate policy name: %s'' [AStr (tp_name p)])
          else (case validate_policies rx (tp_name p # seen) (Suc i) ps of
                  Inl err \<Rightarrow> Inl err
                | Inr ps' \<Rightarrow> Inr (p' # ps')))"

definition PolicyFile_Validate :: "regex_engine \<Rightarrow> policy_file \<Rightarrow> gotext + policy_file" where
  "PolicyFile_Validate rx f =
     (if pf_version f = [] then Inl (msg ''version is required'')
      else if pf_version f \<noteq> ''1.0''
      then Inl (Sprintf ''unsupported trust policy version: %s (expected 1.0)'' [AStr (pf_version f)])
      else if pf_trust_policies f = [] then Inl (msg ''at least one trust policy is required'')
      else (case validate_policies rx [] 0 (pf_trust_policies f) of
              Inl err \<Rightarrow> Inl err
            | Inr ps \<Rightarrow> Inr (f\<lparr>pf_trust_policies := ps\<rparr>)))"

definition Condition_Matches :: "regex_engine \<Rightarrow> condition \<Rightarrow> string \<Rightarrow> bool" where
  "Condition_Matches rx c value =
     (case cond_compiled c of None \<Rightarrow> False | Some re \<Rightarrow> rx_match rx re value)"

section \<open>What a trust policy file must satisfy\<close>

text \<open>
  The contract of \<^verbatim>\<open>Validate\<close>, stated on the file alone, and the effect it leaves: the same file
  with every pattern compiled.
\<close>

definition cond_spec :: "regex_engine \<Rightarrow> condition \<Rightarrow> bool" where
  "cond_spec rx c \<longleftrightarrow> cond_field c \<noteq> [] \<and> cond_pattern c \<noteq> [] \<and> rx_error rx (cond_pattern c) = None"

definition rule_spec :: "regex_engine \<Rightarrow> policy_rule \<Rightarrow> bool" where
  "rule_spec rx r \<longleftrightarrow> rule_name r \<noteq> [] \<and> rule_logic r \<in> {'''', ''AND'', ''OR''} \<and>
     rule_conditions r \<noteq> [] \<and> (\<forall>c\<in>set (rule_conditions r). cond_spec rx c)"

definition policy_spec :: "regex_engine \<Rightarrow> trust_policy \<Rightarrow> bool" where
  "policy_spec rx p \<longleftrightarrow> tp_name p \<noteq> [] \<and> tp_issuer p \<noteq> [] \<and>
     tp_rules p \<noteq> [] \<and> (\<forall>r\<in>set (tp_rules p). rule_spec rx r) \<and>
     tp_permissions p \<noteq> [] \<and> (\<forall>(perm, level)\<in>set (tp_permissions p). isValidLevel level)"

definition file_spec :: "regex_engine \<Rightarrow> policy_file \<Rightarrow> bool" where
  "file_spec rx f \<longleftrightarrow> pf_version f = ''1.0'' \<and> pf_trust_policies f \<noteq> [] \<and>
     (\<forall>p\<in>set (pf_trust_policies f). policy_spec rx p) \<and>
     distinct (map tp_name (pf_trust_policies f))"

definition compile_cond :: "condition \<Rightarrow> condition" where
  "compile_cond c = c\<lparr>cond_compiled := Some (Regexp (cond_pattern c))\<rparr>"

definition compile_rule :: "policy_rule \<Rightarrow> policy_rule" where
  "compile_rule r = r\<lparr>rule_conditions := map compile_cond (rule_conditions r)\<rparr>"

definition compile_policy :: "trust_policy \<Rightarrow> trust_policy" where
  "compile_policy p = p\<lparr>tp_rules := map compile_rule (tp_rules p)\<rparr>"

definition compile_file :: "policy_file \<Rightarrow> policy_file" where
  "compile_file f = f\<lparr>pf_trust_policies := map compile_policy (pf_trust_policies f)\<rparr>"

lemma compile_policy_simps [simp]:
  "tp_name (compile_policy p) = tp_name p"
  "tp_issuer (compile_policy p) = tp_issuer p"
  "tp_permissions (compile_policy p) = tp_permissions p"
  "tp_token_ttl (compile_policy p) = tp_token_ttl p"
  "tp_rules (compile_policy p) = map compile_rule (tp_rules p)"
  by (simp_all add: compile_policy_def)

lemma Condition_Validate_iff [no_error]:
  "Condition_Validate rx c = Inr c' \<longleftrightarrow> cond_spec rx c \<and> c' = compile_cond c"
  by (auto simp: Condition_Validate_def cond_spec_def compile_cond_def regexp_Compile_def
      split: option.splits)

lemma PolicyRule_Validate_iff [no_error]:
  "PolicyRule_Validate rx r = Inr r' \<longleftrightarrow> rule_spec rx r \<and> r' = compile_rule r"
proof -
  let ?f = "\<lambda>i c. case Condition_Validate rx c of
      Inl err \<Rightarrow> Inl (Sprintf ''condition %d: %w'' [AInt (int i), AErr err]) | Inr c' \<Rightarrow> Inr c'"
  have step: "?f i x = Inr y \<longleftrightarrow> cond_spec rx x \<and> y = compile_cond x" for i x y
    by (auto simp: no_error)
  show ?thesis
    unfolding PolicyRule_Validate_def rule_spec_def compile_rule_def Let_def
    by (auto simp: no_error traverse_iff [where f = ?f, OF step])
qed

lemma TrustPolicy_Validate_iff [no_error]:
  "TrustPolicy_Validate rx p = Inr p' \<longleftrightarrow> policy_spec rx p \<and> p' = compile_policy p"
proof -
  let ?f = "\<lambda>i r. case PolicyRule_Validate rx r of
      Inl err \<Rightarrow> Inl (Sprintf ''rule %d (%s): %w'' [AInt (int i), AStr (rule_name r), AErr err])
    | Inr r' \<Rightarrow> Inr r'"
  have step: "?f i x = Inr y \<longleftrightarrow> rule_spec rx x \<and> y = compile_rule x" for i x y
    by (auto simp: no_error)
  show ?thesis
    unfolding TrustPolicy_Validate_def policy_spec_def compile_policy_def
    by (auto simp: no_error traverse_iff [where f = ?f, OF step]
        split: if_splits)
qed

lemma validate_policies_iff [no_error]:
  "validate_policies rx seen i ps = Inr ps' \<longleftrightarrow>
     (\<forall>p\<in>set ps. policy_spec rx p) \<and> distinct (map tp_name ps) \<and>
     set (map tp_name ps) \<inter> set seen = {} \<and> ps' = map compile_policy ps"
  by (induction ps arbitrary: seen i ps') (auto simp: no_error)

lemma PolicyFile_Validate_iff:
  "PolicyFile_Validate rx f = Inr f' \<longleftrightarrow> file_spec rx f \<and> f' = compile_file f"
  unfolding PolicyFile_Validate_def file_spec_def compile_file_def
  by (auto simp: no_error)

section \<open>Validated files\<close>

text \<open>What the authoriser may assume of a file that \<^verbatim>\<open>Validate\<close> returned.\<close>

definition cond_ready :: "condition \<Rightarrow> bool" where
  "cond_ready c \<longleftrightarrow> cond_compiled c = Some (Regexp (cond_pattern c))"

definition policy_ready :: "trust_policy \<Rightarrow> bool" where
  "policy_ready p \<longleftrightarrow> tp_name p \<noteq> [] \<and> tp_issuer p \<noteq> [] \<and> tp_permissions p \<noteq> [] \<and>
     (\<forall>(perm, level)\<in>set (tp_permissions p). isValidLevel level) \<and>
     (\<forall>r\<in>set (tp_rules p). rule_logic r \<in> {'''', ''AND'', ''OR''} \<and> rule_conditions r \<noteq> [] \<and>
        (\<forall>c\<in>set (rule_conditions r). cond_ready c))"

definition file_ready :: "policy_file \<Rightarrow> bool" where
  "file_ready f \<longleftrightarrow> distinct (map tp_name (pf_trust_policies f)) \<and>
     (\<forall>p\<in>set (pf_trust_policies f). policy_ready p)"

lemma compile_policy_ready: "policy_spec rx p \<Longrightarrow> policy_ready (compile_policy p)"
  unfolding policy_ready_def policy_spec_def rule_spec_def cond_ready_def
  by (auto simp: compile_rule_def compile_cond_def)

lemma PolicyFile_Validate_ready: "PolicyFile_Validate rx f = Inr f' \<Longrightarrow> file_ready f'"
  by (auto simp: PolicyFile_Validate_iff file_spec_def file_ready_def compile_file_def comp_def
      intro: compile_policy_ready)

lemma policy_ready_levels:
  "policy_ready p \<Longrightarrow> map_of (tp_permissions p) k = Some l \<Longrightarrow> isValidLevel l"
  unfolding policy_ready_def by (blast dest: map_of_SomeD)

section \<open>Properties\<close>

text \<open>C25: Validation of a trust policy file. Validate accepts a file exactly when its version is 1.0,
  it has policies with pairwise distinct names, and every policy has a name, an issuer, permissions
  with valid levels and rules whose logic is AND, OR or empty and whose conditions have a field and a
  pattern that compiles; the accepted file is the same file with every condition's pattern
  compiled.\<close>

theorem PolicyFile_Validate_correct:
  "PolicyFile_Validate rx f = Inr f' \<longleftrightarrow>
     (pf_version f = ''1.0'' \<and> pf_trust_policies f \<noteq> [] \<and>
      distinct (map tp_name (pf_trust_policies f)) \<and>
      (\<forall>p\<in>set (pf_trust_policies f).
         tp_name p \<noteq> [] \<and> tp_issuer p \<noteq> [] \<and> tp_rules p \<noteq> [] \<and> tp_permissions p \<noteq> [] \<and>
         (\<forall>(perm, level)\<in>set (tp_permissions p). level \<in> {''none'', ''read'', ''write''}) \<and>
         (\<forall>r\<in>set (tp_rules p).
            rule_name r \<noteq> [] \<and> rule_logic r \<in> {'''', ''AND'', ''OR''} \<and> rule_conditions r \<noteq> [] \<and>
            (\<forall>c\<in>set (rule_conditions r). cond_field c \<noteq> [] \<and> cond_pattern c \<noteq> [] \<and>
               rx_error rx (cond_pattern c) = None))) \<and>
      f' = compile_file f)"
  unfolding PolicyFile_Validate_iff file_spec_def policy_spec_def rule_spec_def cond_spec_def
    isValidLevel_iff by auto

lemma PolicyFile_Validate_correct_witness:
  "PolicyFile_Validate \<lparr>rx_error = (\<lambda>p. None), rx_match = (\<lambda>r s. r = Regexp s)\<rparr>
     \<lparr>pf_version = ''1.0'', pf_trust_policies = [\<lparr>tp_name = ''a'', tp_description = [], tp_issuer = ''i'',
        tp_rules = [\<lparr>rule_name = ''r'', rule_logic = ''OR'',
          rule_conditions = [\<lparr>cond_field = ''ref'', cond_pattern = ''x'', cond_compiled = None\<rparr>]\<rparr>],
        tp_permissions = [(''contents'', ''read'')], tp_token_ttl = 0\<rparr>]\<rparr> =
   Inr \<lparr>pf_version = ''1.0'', pf_trust_policies = [\<lparr>tp_name = ''a'', tp_description = [], tp_issuer = ''i'',
        tp_rules = [\<lparr>rule_name = ''r'', rule_logic = ''OR'',
          rule_conditions = [\<lparr>cond_field = ''ref'', cond_pattern = ''x'', cond_compiled = Some (Regexp ''x'')\<rparr>]\<rparr>],
        tp_permissions = [(''contents'', ''read'')], tp_token_ttl = 0\<rparr>]\<rparr>"
  by (subst PolicyFile_Validate_correct)
    (simp add: compile_file_def compile_policy_def compile_rule_def compile_cond_def)

end
