(* ===== verification/Policy_Cache.thy ===== *)
theory Policy_Cache
  imports Evicting_Cache Trust_Policy
begin

text \<open>
  The cache of parsed trust policies, \<^verbatim>\<open>internal/sts/authorizer/policy_cache.go\<close>. The lock makes
  \<^verbatim>\<open>get\<close> and \<^verbatim>\<open>set\<close> atomic, so each is one function; \<open>now\<close> is the clock it reads and \<open>order\<close>
  the order in which \<^verbatim>\<open>set\<close> ranges over the entries.
\<close>

definition maxPolicyCacheEntries :: nat where "maxPolicyCacheEntries = 500"
definition defaultPolicyCacheTTL :: duration where "defaultPolicyCacheTTL = 5 * nano_minute"

record policy_entry =
  pe_policy :: policy_file
  pe_fetched_at :: time

record policy_cache =
  pc_entries :: "(string, policy_entry) gomap"
  pc_ttl :: duration

definition newPolicyCache :: "duration \<Rightarrow> policy_cache" where
  "newPolicyCache ttl =
     \<lparr>pc_entries = [], pc_ttl = (if ttl = 0 then defaultPolicyCacheTTL else ttl)\<rparr>"

definition policyCache_get :: "time \<Rightarrow> policy_cache \<Rightarrow> string \<Rightarrow> policy_file option" where
  "policyCache_get now c key =
     (case map_of (pc_entries c) key of
        None \<Rightarrow> None
      | Some e \<Rightarrow> if sub_time now (pe_fetched_at e) > pc_ttl c then None else Some (pe_policy e))"

definition policyCache_set ::
  "time \<Rightarrow> (string, policy_entry) gomap \<Rightarrow> policy_cache \<Rightarrow> string \<Rightarrow> policy_file \<Rightarrow> policy_cache" where
  "policyCache_set now order c key p =
     c\<lparr>pc_entries :=
         AList.update key \<lparr>pe_policy = p, pe_fetched_at = now\<rparr>
           (make_room maxPolicyCacheEntries pe_fetched_at order key (pc_entries c))\<rparr>"

definition policy_cache_inv :: "policy_cache \<Rightarrow> bool" where
  "policy_cache_inv c \<longleftrightarrow> cache_inv maxPolicyCacheEntries (pc_entries c)"

lemma policy_entry_collapse [simp]: "\<lparr>pe_policy = pe_policy e, pe_fetched_at = pe_fetched_at e\<rparr> = e"
  by simp

interpretation pcache: evicting_map
  pc_entries
  "\<lambda>order key e c. policyCache_set (pe_fetched_at e) order c key (pe_policy e)"
  pe_fetched_at
  maxPolicyCacheEntries
  rewrites "cache_inv maxPolicyCacheEntries (pc_entries c) \<equiv> policy_cache_inv c"
  by unfold_locales (simp_all add: maxPolicyCacheEntries_def policyCache_set_def policy_cache_inv_def)

lemma newPolicyCache_inv [simp]: "policy_cache_inv (newPolicyCache ttl)"
  by (simp add: policy_cache_inv_def cache_inv_def newPolicyCache_def keys_nonempty_def)

lemma policyCache_set_ttl [simp]: "pc_ttl (policyCache_set now order c key p) = pc_ttl c"
  by (simp add: policyCache_set_def)

lemma policyCache_get_SomeD:
  "policyCache_get now c key = Some p \<Longrightarrow>
     \<exists>e. map_of (pc_entries c) key = Some e \<and> pe_policy e = p \<and>
         sub_time now (pe_fetched_at e) \<le> pc_ttl c"
  by (auto simp: policyCache_get_def split: option.splits if_splits)

lemma policyCache_get_set:
  "policyCache_get now' (policyCache_set now order c key p) key =
     (if sub_time now' now > pc_ttl c then None else Some p)"
  by (simp add: policyCache_get_def policyCache_set_def)

text \<open>What holds of every cached policy and its key survives a store for which it holds.\<close>

definition cache_each :: "(string \<Rightarrow> policy_file \<Rightarrow> bool) \<Rightarrow> policy_cache \<Rightarrow> bool" where
  "cache_each P c \<longleftrightarrow> (\<forall>k e. map_of (pc_entries c) k = Some e \<longrightarrow> P k (pe_policy e))"

definition cache_all :: "(policy_file \<Rightarrow> bool) \<Rightarrow> policy_cache \<Rightarrow> bool" where
  "cache_all P c \<longleftrightarrow> (\<forall>k e. map_of (pc_entries c) k = Some e \<longrightarrow> P (pe_policy e))"

lemma cache_all_each: "cache_all P c = cache_each (\<lambda>k. P) c"
  by (simp add: cache_all_def cache_each_def)

lemma cache_each_get: "cache_each P c \<Longrightarrow> policyCache_get now c key = Some p \<Longrightarrow> P key p"
  by (auto simp: cache_each_def dest: policyCache_get_SomeD)

lemma cache_each_set:
  assumes "cache_each P c" and "P key p"
  shows "cache_each P (policyCache_set now order c key p)"
  unfolding cache_each_def
proof (intro allI impI)
  fix k e
  assume look: "map_of (pc_entries (policyCache_set now order c key p)) k = Some e"
  show "P k (pe_policy e)"
  proof (cases "k = key")
    case True
    with look assms(2) show ?thesis by (auto simp: policyCache_set_def)
  next
    case False
    then have "map_of (pc_entries c) k = Some e"
      by (rule pcache.put_other [where e = "\<lparr>pe_policy = p, pe_fetched_at = now\<rparr>"])
        (use look in simp)
    with assms(1) show ?thesis by (simp add: cache_each_def)
  qed
qed

lemma cache_all_get: "cache_all P c \<Longrightarrow> policyCache_get now c key = Some p \<Longrightarrow> P p"
  unfolding cache_all_each by (rule cache_each_get)

lemma cache_all_set: "cache_all P c \<Longrightarrow> P p \<Longrightarrow> cache_all P (policyCache_set now order c key p)"
  unfolding cache_all_each by (rule cache_each_set)

lemma cache_each_new [simp]: "cache_each P (newPolicyCache ttl)"
  by (simp add: cache_each_def newPolicyCache_def)

lemma cache_all_new [simp]: "cache_all P (newPolicyCache ttl)"
  by (simp add: cache_all_def newPolicyCache_def)

section \<open>Properties\<close>

text \<open>Storing in the policy cache. A store keeps the cache well formed and within 500 entries, makes
  the key hold the policy and the time it was stored, invents no other entry, and drops another one
  only when the cache is full and the key is new, and then one that no entry is older than.\<close>

lemma policyCache_set_correct:
  assumes "policy_cache_inv c" and "gm_range (pc_entries c) order" and "key \<noteq> []"
  shows "policy_cache_inv (policyCache_set now order c key p) \<and>
    length (pc_entries (policyCache_set now order c key p)) \<le> 500 \<and>
    map_of (pc_entries (policyCache_set now order c key p)) key = Some \<lparr>pe_policy = p, pe_fetched_at = now\<rparr> \<and>
    (\<forall>j x. j \<noteq> key \<and> map_of (pc_entries (policyCache_set now order c key p)) j = Some x \<longrightarrow>
       map_of (pc_entries c) j = Some x) \<and>
    (\<forall>j x. j \<noteq> key \<and> map_of (pc_entries c) j = Some x \<longrightarrow>
       map_of (pc_entries (policyCache_set now order c key p)) j = Some x \<or>
       length (pc_entries c) = 500 \<and> map_of (pc_entries c) key = None \<and>
         (\<forall>i y. map_of (pc_entries c) i = Some y \<longrightarrow> pe_fetched_at x \<le> pe_fetched_at y))"
proof -
  let ?e = "\<lparr>pe_policy = p, pe_fetched_at = now\<rparr>"
  let ?c = "policyCache_set now order c key p"
  have inv: "policy_cache_inv ?c"
    using pcache.put_inv [OF assms, where e = ?e] by simp
  have other: "map_of (pc_entries c) j = Some x" if "j \<noteq> key" "map_of (pc_entries ?c) j = Some x" for j x
    by (rule pcache.put_other [where e = ?e and order = order, OF that(1)]) (use that(2) in simp)
  have lost: "map_of (pc_entries ?c) j = Some x \<or> length (pc_entries c) = 500 \<and>
      map_of (pc_entries c) key = None \<and>
      (\<forall>i y. map_of (pc_entries c) i = Some y \<longrightarrow> pe_fetched_at x \<le> pe_fetched_at y)"
    if "j \<noteq> key" "map_of (pc_entries c) j = Some x" for j x
  proof (cases "map_of (pc_entries ?c) j")
    case None
    then have "map_of (pc_entries (policyCache_set (pe_fetched_at ?e) order c key (pe_policy ?e))) j = None"
      by simp
    from pcache.put_lost [OF assms(1,2) that this] show ?thesis
      unfolding maxPolicyCacheEntries_def by (rule disjI2)
  next
    case (Some y)
    with other [OF that(1) Some] that(2) show ?thesis by simp
  qed
  have "length (pc_entries ?c) \<le> 500"
    using pcache.inv_size [OF inv] by (simp add: maxPolicyCacheEntries_def)
  moreover have "map_of (pc_entries ?c) key = Some ?e" by (simp add: policyCache_set_def)
  ultimately show ?thesis using inv other lost by blast
qed

lemma put_all_ttl: "pc_ttl (pcache.put_all ops c) = pc_ttl c"
  by (induction ops c rule: pcache.put_all.induct) simp_all

text \<open>C31: Freshness of cached policies. In the cache that NewAuthorizer creates, after any sequence of
  stores, get returns for a key only a policy that one of these stores put under that key, no more
  than five minutes before the clock reading.\<close>

theorem policyCache_get_fresh:
  assumes "policyCache_get now (pcache.put_all ops (newPolicyCache 0)) key = Some p"
  shows "\<exists>order e. (order, key, e) \<in> set ops \<and> pe_policy e = p \<and>
    now \<le> pe_fetched_at e + 5 * nano_minute"
proof -
  obtain e where e: "map_of (pc_entries (pcache.put_all ops (newPolicyCache 0))) key = Some e"
    "pe_policy e = p" "sub_time now (pe_fetched_at e) \<le> pc_ttl (pcache.put_all ops (newPolicyCache 0))"
    using policyCache_get_SomeD [OF assms] by auto
  have "pc_ttl (pcache.put_all ops (newPolicyCache 0)) = 5 * nano_minute"
    by (simp add: put_all_ttl newPolicyCache_def defaultPolicyCacheTTL_def)
  moreover have "0 \<le> 5 * nano_minute" "5 * nano_minute < max_int64"
    by (simp_all add: nano_minute_def nano_second_def max_int64_def)
  ultimately have "now \<le> pe_fetched_at e + 5 * nano_minute"
    using e(3) sub_time_gt [of "5 * nano_minute" now "pe_fetched_at e"] by simp
  moreover have "\<exists>order. (order, key, e) \<in> set ops"
    using pcache.put_all_lookup [OF e(1)] by (simp add: newPolicyCache_def)
  ultimately show ?thesis using e(2) by auto
qed

lemma policyCache_get_fresh_witness:
  "policyCache_get 100 (policyCache_set 7 [] (newPolicyCache 0) ''k'' \<lparr>pf_version = ''1.0'', pf_trust_policies = []\<rparr>)
     ''k'' = Some \<lparr>pf_version = ''1.0'', pf_trust_policies = []\<rparr> \<and> (100 :: int) \<le> 7 + 5 * nano_minute"
proof -
  let ?p = "\<lparr>pf_version = ''1.0'', pf_trust_policies = []\<rparr>"
  have get: "policyCache_get 100 (pcache.put_all [([], ''k'', \<lparr>pe_policy = ?p, pe_fetched_at = 7\<rparr>)]
      (newPolicyCache 0)) ''k'' = Some ?p"
    by (simp add: policyCache_get_set sub_time_def newPolicyCache_def defaultPolicyCacheTTL_def
        nano_minute_def nano_second_def min_int64_def max_int64_def)
  from policyCache_get_fresh [OF get] have "(100 :: int) \<le> 7 + 5 * nano_minute" by auto
  with get show ?thesis by simp
qed

end
