(* ===== verification/Rate_Limit.thy ===== *)
theory Rate_Limit
  imports Go_Time "HOL-Library.Product_Lexorder"
begin

text \<open>
  Rate-limit observations and the contract of the stores that keep them,
  \<^verbatim>\<open>internal/sts/selector/types.go\<close>. A store is a record of its operations over a state type, as
  the Go interface \<^verbatim>\<open>Store\<close> is; the locale \<open>rate_store\<close> states the contract, and what follows
  from it for any store is proved once, inside the locale.
\<close>

record rate_state =
  rs_remaining :: int
  rs_reset_at :: time
  rs_last_updated :: time

definition IsExpired :: "time \<Rightarrow> rate_state \<Rightarrow> bool" where
  "IsExpired now s = after now (rs_reset_at s)"

definition HasCapacity :: "rate_state \<Rightarrow> bool" where
  "HasCapacity s = (rs_remaining s > 0)"

definition IsFresherThan :: "rate_state \<Rightarrow> rate_state option \<Rightarrow> bool" where
  "IsFresherThan s oth =
     (case oth of
        None \<Rightarrow> True
      | Some other \<Rightarrow>
          if after (rs_reset_at s) (rs_reset_at other) then True
          else if rs_reset_at s = rs_reset_at other \<and> rs_remaining s < rs_remaining other then True
          else False)"

definition DefaultRetrySeconds :: int where "DefaultRetrySeconds = 60"
definition MinRetrySeconds :: int where "MinRetrySeconds = 1"

section \<open>Freshness is a linear order\<close>

text \<open>A newer window first, then more observed usage.\<close>

definition rank :: "rate_state \<Rightarrow> int \<times> int" where
  "rank s = (rs_reset_at s, - rs_remaining s)"

lemma IsFresherThan_rank [simp]: "IsFresherThan s (Some t) \<longleftrightarrow> rank t < rank s"
  by (auto simp: IsFresherThan_def rank_def)

lemma IsFresherThan_None [simp]: "IsFresherThan s None"
  by (simp add: IsFresherThan_def)

text \<open>What a store that keeps the fresher of two observations holds after a write.\<close>

definition keep_fresher :: "rate_state \<Rightarrow> rate_state option \<Rightarrow> rate_state" where
  "keep_fresher s old = (if IsFresherThan s old then s else (case old of Some t \<Rightarrow> t | None \<Rightarrow> s))"

lemma keep_fresher_rank:
  "rank (keep_fresher s (Some t)) = max (rank s) (rank t)"
  "keep_fresher s None = s"
  by (auto simp: keep_fresher_def max_def)

section \<open>The store interface\<close>

datatype store_error = ErrStateNotFound | StoreFailure gotext

record 's store_ops =
  so_get_state :: "string \<Rightarrow> 's \<Rightarrow> (store_error + rate_state) \<times> 's"
  so_set_state :: "string \<Rightarrow> rate_state option \<Rightarrow> 's \<Rightarrow> store_error option \<times> 's"
  so_get_all_states :: "'s \<Rightarrow> (store_error + (string, rate_state option) gomap) \<times> 's"

text \<open>
  The contract: \<open>view s\<close> is what the store \<open>s\<close> holds for each client, \<open>norm\<close> what a store
  keeps of an observation (a store may hold times in whole seconds). \<open>inv\<close> is the store's own
  well-formedness.
\<close>

locale rate_store =
  fixes ops :: "'s store_ops"
    and view :: "'s \<Rightarrow> string \<Rightarrow> rate_state option"
    and norm :: "rate_state \<Rightarrow> rate_state"
    and inv :: "'s \<Rightarrow> bool"
  assumes get_state: "inv s \<Longrightarrow> so_get_state ops k s =
      ((case view s k of None \<Rightarrow> Inl ErrStateNotFound | Some t \<Rightarrow> Inr t), s)"
    and set_none: "inv s \<Longrightarrow> so_set_state ops k None s = (None, s)"
    and set_ok: "inv s \<Longrightarrow> fst (so_set_state ops k (Some t) s) = None"
    and set_view: "inv s \<Longrightarrow> view (snd (so_set_state ops k (Some t) s)) =
      (view s)(k := Some (keep_fresher (norm t) (view s k)))"
    and set_inv: "inv s \<Longrightarrow> inv (snd (so_set_state ops k u s))"
    and get_all: "inv s \<Longrightarrow> \<exists>m. so_get_all_states ops s = (Inr m, s) \<and>
      (\<forall>k. map_of m k = map_option Some (view s k))"
begin

text \<open>A sequence of writes to one client, in the order in which they reach the store.\<close>

fun writes :: "string \<Rightarrow> rate_state list \<Rightarrow> 's \<Rightarrow> 's" where
  "writes k [] s = s"
| "writes k (t # ts) s = writes k ts (snd (so_set_state ops k (Some t) s))"

lemma writes_inv: "inv s \<Longrightarrow> inv (writes k ts s)"
  by (induction ts arbitrary: s) (simp_all add: set_inv)

lemma writes_other: "inv s \<Longrightarrow> j \<noteq> k \<Longrightarrow> view (writes k ts s) j = view s j"
  by (induction ts arbitrary: s) (simp_all add: set_inv set_view)

text \<open>The client's state is the freshest observation, whatever the order of arrival.\<close>

lemma writes_rank:
  "inv s \<Longrightarrow> view s k = Some t0 \<Longrightarrow>
     \<exists>t. view (writes k ts s) k = Some t \<and> rank t = fold max (map (\<lambda>t. rank (norm t)) ts) (rank t0)"
proof (induction ts arbitrary: s t0)
  case (Cons t ts)
  let ?s = "snd (so_set_state ops k (Some t) s)"
  have "view ?s k = Some (keep_fresher (norm t) (Some t0))"
    using Cons.prems by (simp add: set_view)
  from Cons.IH [OF set_inv [OF Cons.prems(1)] this] show ?case
    by (simp add: keep_fresher_rank)
qed simp

lemma writes_fresh:
  assumes "inv s" and "ts \<noteq> []"
  shows "\<exists>t. view (writes k ts s) k = Some t \<and>
     rank t = Max ((\<lambda>t. rank (norm t)) ` set ts \<union> rank ` set_option (view s k))"
proof -
  obtain t ts' where ts: "ts = t # ts'" using assms(2) by (cases ts) auto
  let ?s = "snd (so_set_state ops k (Some t) s)"
  let ?r = "\<lambda>t. rank (norm t)"
  have v: "view ?s k = Some (keep_fresher (norm t) (view s k))"
    using assms(1) by (simp add: set_view)
  obtain u where u: "view (writes k ts s) k = Some u"
    and ru: "rank u = fold max (map ?r ts') (rank (keep_fresher (norm t) (view s k)))"
    using writes_rank [OF set_inv [OF assms(1)] v, of ts'] by (auto simp: ts)
  have "rank (keep_fresher (norm t) (view s k)) = Max (insert (?r t) (rank ` set_option (view s k)))"
    by (cases "view s k") (auto simp: keep_fresher_rank)
  moreover have "fold max xs (Max A) = Max (set xs \<union> A)" if "finite A" "A \<noteq> {}"
    for xs :: "(int \<times> int) list" and A
    using that by (induction xs arbitrary: A) (simp_all flip: Max_insert)
  ultimately show ?thesis
    using u ru by (auto simp: ts insert_commute Un_commute intro!: arg_cong [where f = Max])
qed

text \<open>Writes to several clients: the store follows its contents, and nothing but them.\<close>

fun write_all :: "(string \<times> rate_state) list \<Rightarrow> 's \<Rightarrow> 's" where
  "write_all [] s = s"
| "write_all ((k, t) # ws) s = write_all ws (snd (so_set_state ops k (Some t) s))"

lemma write_all_view:
  "inv s \<Longrightarrow> inv (write_all ws s) \<and>
     view (write_all ws s) = foldl (\<lambda>v (k, t). v(k := Some (keep_fresher (norm t) (v k)))) (view s) ws"
  by (induction ws arbitrary: s) (auto simp: set_inv set_view)

text \<open>Hence two stores that see the same writes in different orders agree.\<close>

lemma writes_converge:
  assumes "inv s" and "mset ts = mset us"
  shows "map_option rank (view (writes k ts s) k) = map_option rank (view (writes k us s) k)"
proof (cases "ts = []")
  case True
  with assms(2) show ?thesis by simp
next
  case False
  with assms(2) have "us \<noteq> []" and "set ts = set us" by (auto dest: mset_eq_setD)
  then show ?thesis
    using writes_fresh [OF assms(1) False, of k] writes_fresh [OF assms(1) \<open>us \<noteq> []\<close>, of k] by auto
qed

end

end
