(* ===== verification/Memory_Store.thy ===== *)
theory Memory_Store
  imports Rate_Limit
begin

text \<open>
  The in-memory implementation of the store, \<^verbatim>\<open>internal/sts/selector/backends/memory.go\<close>. The
  values of the Go map are pointers, which may be nil: \<open>None\<close>. States are copied in and out
  (\<^verbatim>\<open>copyState\<close>), so a caller never shares one with the map and a plain value models it.
\<close>

record memory_store =
  ms_states :: "(string, rate_state option) gomap"

definition NewMemoryStore :: memory_store where
  "NewMemoryStore = \<lparr>ms_states = []\<rparr>"

definition copyState :: "rate_state option \<Rightarrow> rate_state option" where
  "copyState s =
     (case s of
        None \<Rightarrow> None
      | Some st \<Rightarrow> Some \<lparr>rs_remaining = rs_remaining st, rs_reset_at = rs_reset_at st,
                         rs_last_updated = rs_last_updated st\<rparr>)"

lemma copyState_id [simp]: "copyState s = s"
  by (simp add: copyState_def split: option.splits)

text \<open>\<^verbatim>\<open>m.states[clientID]\<close>: nil also when the key is missing.\<close>

definition states_at :: "memory_store \<Rightarrow> string \<Rightarrow> rate_state option" where
  "states_at m clientID = (case map_of (ms_states m) clientID of None \<Rightarrow> None | Some v \<Rightarrow> v)"

definition MemoryStore_GetState ::
  "string \<Rightarrow> memory_store \<Rightarrow> (store_error + rate_state) \<times> memory_store" where
  "MemoryStore_GetState clientID m =
     ((case copyState (states_at m clientID) of
         None \<Rightarrow> Inl ErrStateNotFound
       | Some st \<Rightarrow> Inr st), m)"

definition MemoryStore_SetState ::
  "string \<Rightarrow> rate_state option \<Rightarrow> memory_store \<Rightarrow> store_error option \<times> memory_store" where
  "MemoryStore_SetState clientID state m =
     (case state of
        None \<Rightarrow> (None, m)
      | Some st \<Rightarrow>
          let existing = states_at m clientID
          in if \<not> IsFresherThan st existing then (None, m)
             else (None, m\<lparr>ms_states := AList.update clientID (copyState (Some st)) (ms_states m)\<rparr>))"

text \<open>The loop of \<^verbatim>\<open>GetAllStates\<close>, over the entries in the order \<^verbatim>\<open>range\<close> takes.\<close>

fun copy_states ::
  "(string, rate_state option) gomap \<Rightarrow> (string, rate_state option) gomap
     \<Rightarrow> (string, rate_state option) gomap" where
  "copy_states out [] = out"
| "copy_states out ((k, v) # es) =
     (if v \<noteq> None then copy_states (AList.update k (copyState v) out) es else copy_states out es)"

definition MemoryStore_GetAllStates ::
  "memory_store \<Rightarrow> (store_error + (string, rate_state option) gomap) \<times> memory_store" where
  "MemoryStore_GetAllStates m = (Inr (copy_states [] (ms_states m)), m)"

definition memory_ops :: "memory_store store_ops" where
  "memory_ops =
     \<lparr>so_get_state = MemoryStore_GetState,
      so_set_state = MemoryStore_SetState,
      so_get_all_states = MemoryStore_GetAllStates\<rparr>"

definition memory_inv :: "memory_store \<Rightarrow> bool" where
  "memory_inv m \<longleftrightarrow> gm_wf (ms_states m)"

lemma copy_states_lookup:
  "gm_wf es \<Longrightarrow> map_of (copy_states out es) k =
     (case map_of es k of Some (Some st) \<Rightarrow> Some (Some st) | _ \<Rightarrow> map_of out k)"
proof (induction es arbitrary: out)
  case (Cons e es)
  obtain j v where e: "e = (j, v)" by (cases e)
  with Cons.prems have "gm_wf es" and j: "map_of es j = None"
    by (auto simp: gm_wf_def map_of_eq_None_iff)
  with Cons.IH j show ?case by (auto simp: e split: option.splits)
qed simp

interpretation mem: rate_store memory_ops states_at "\<lambda>t. t" memory_inv
proof unfold_locales
  fix s k and t :: rate_state and u
  show "memory_inv s \<Longrightarrow> so_get_state memory_ops k s =
      ((case states_at s k of None \<Rightarrow> Inl ErrStateNotFound | Some t \<Rightarrow> Inr t), s)"
    by (simp add: memory_ops_def MemoryStore_GetState_def)
  show "memory_inv s \<Longrightarrow> so_set_state memory_ops k None s = (None, s)"
    and "memory_inv s \<Longrightarrow> fst (so_set_state memory_ops k (Some t) s) = None"
    by (simp_all add: memory_ops_def MemoryStore_SetState_def Let_def)
  show "memory_inv s \<Longrightarrow> states_at (snd (so_set_state memory_ops k (Some t) s)) =
      (states_at s)(k := Some (keep_fresher t (states_at s k)))"
    by (rule ext) (auto simp: memory_ops_def MemoryStore_SetState_def Let_def keep_fresher_def
        states_at_def split: option.splits)
  show "memory_inv s \<Longrightarrow> memory_inv (snd (so_set_state memory_ops k u s))"
    by (auto simp: memory_ops_def MemoryStore_SetState_def memory_inv_def Let_def split: option.splits)
  show "memory_inv s \<Longrightarrow> \<exists>m. so_get_all_states memory_ops s = (Inr m, s) \<and>
      (\<forall>k. map_of m k = map_option Some (states_at s k))"
    by (auto simp: memory_ops_def MemoryStore_GetAllStates_def memory_inv_def copy_states_lookup
        states_at_def split: option.splits)
qed

lemma NewMemoryStore_inv [simp]: "memory_inv NewMemoryStore"
  by (simp add: memory_inv_def NewMemoryStore_def)

section \<open>Properties\<close>

text \<open>Writes converge. Two in-memory stores that receive the same observations of one client in
  different orders end with states of the same window and the same remaining calls: the newest
  window observed, and in it the fewest calls left.\<close>

lemma memory_writes_converge:
  assumes "memory_inv s" and "mset ts = mset us" and "ts \<noteq> []"
  shows "map_option rank (states_at (mem.writes k ts s) k) = map_option rank (states_at (mem.writes k us s) k) \<and>
    (\<exists>t. states_at (mem.writes k ts s) k = Some t \<and>
       rank t = Max (rank ` set ts \<union> rank ` set_option (states_at s k)))"
  using mem.writes_converge [OF assms(1,2)] mem.writes_fresh [OF assms(1,3)] by simp

end
