(* ===== verification/App_Selector.thy ===== *)
theory App_Selector
  imports Memory_Store
begin

text \<open>
  The GitHub App selector, \<^verbatim>\<open>internal/sts/selector/selector.go\<close>: which app serves a repository,
  what it does when all are rate limited, and how usage is recorded.

  \<^verbatim>\<open>time.Now()\<close> is read several times: \<open>t_loop\<close> while the candidates are collected, \<open>t_now\<close>
  and \<open>t_until\<close> in \<^verbatim>\<open>retryAfterFromStates\<close>. \<^verbatim>\<open>rand.IntN(n)\<close> is \<open>r mod n\<close> for an arbitrary
  \<open>r\<close>. The store is any record of operations.
\<close>

record app =
  app_client_id :: string
  app_organization :: string

record selector =
  sel_apps :: "app list"

datatype select_error =
    ErrInvalidRepository
  | ErrFetchingStates store_error
  | ErrNoMatchingApp string
  | ExhaustedError int

datatype new_selector_error = ErrNoApps | ErrNilStore

definition NewSelector ::
  "app list \<Rightarrow> 's store_ops option \<Rightarrow> new_selector_error + selector" where
  "NewSelector apps store =
     (if length apps = 0 then Inl ErrNoApps
      else case store of
             None \<Rightarrow> Inl ErrNilStore
           | Some _ \<Rightarrow> Inr \<lparr>sel_apps = apps\<rparr>)"

definition maxInt :: int where "maxInt = max_int64"

definition parseOwner :: "string \<Rightarrow> select_error + string" where
  "parseOwner repository =
     (case splitN (CHR ''/'') 2 repository of
        [owner, repo] \<Rightarrow> if owner = [] \<or> repo = [] then Inl ErrInvalidRepository else Inr owner
      | _ \<Rightarrow> Inl ErrInvalidRepository)"

section \<open>Retry-after\<close>

text \<open>One iteration of the loop over the states, with the variable \<^verbatim>\<open>earliest\<close>.\<close>

definition earlier :: "time \<Rightarrow> time \<Rightarrow> string \<times> rate_state option \<Rightarrow> time" where
  "earlier t_now earliest e =
     (case snd e of
        None \<Rightarrow> earliest
      | Some state \<Rightarrow>
          if \<not> IsExpired t_now state \<and> after (rs_reset_at state) t_now
          then (if is_zero earliest \<or> before (rs_reset_at state) earliest
                then rs_reset_at state else earliest)
          else earliest)"

definition retryAfterFromStates ::
  "time \<Rightarrow> time \<Rightarrow> (string, rate_state option) gomap \<Rightarrow> int" where
  "retryAfterFromStates t_now t_until states =
     (let earliest = foldl (earlier t_now) zero_time states
      in if is_zero earliest then DefaultRetrySeconds
         else
           let secs = dur_seconds (sub_time earliest t_until)
           in if secs < MinRetrySeconds then MinRetrySeconds
              else if secs > DefaultRetrySeconds then DefaultRetrySeconds
              else secs)"

definition RetryAfter :: "'s store_ops \<Rightarrow> time \<Rightarrow> time \<Rightarrow> 's \<Rightarrow> int \<times> 's" where
  "RetryAfter ops t_now t_until s =
     (case so_get_all_states ops s of
        (Inl err, s') \<Rightarrow> (DefaultRetrySeconds, s')
      | (Inr states, s') \<Rightarrow> (retryAfterFromStates t_now t_until states, s'))"

section \<open>Selection\<close>

text \<open>The loop body over the matching apps: the candidate it appends, if any.\<close>

definition candidate_of ::
  "time \<Rightarrow> (string, rate_state option) gomap \<Rightarrow> app \<Rightarrow> (app \<times> int) option" where
  "candidate_of t_loop states a =
     (case map_of states (app_client_id a) of
        Some (Some state) \<Rightarrow>
          if IsExpired t_loop state then Some (a, maxInt)
          else if HasCapacity state then Some (a, rs_remaining state)
          else None
      | _ \<Rightarrow> Some (a, maxInt))"

text \<open>\<^verbatim>\<open>matchingStates\<close>: the known states of the matching apps.\<close>

fun matching_states ::
  "(string, rate_state option) gomap \<Rightarrow> (string, rate_state option) gomap \<Rightarrow> app list
     \<Rightarrow> (string, rate_state option) gomap" where
  "matching_states states acc [] = acc"
| "matching_states states acc (a # as) =
     (case map_of states (app_client_id a) of
        Some (Some state) \<Rightarrow>
          matching_states states (AList.update (app_client_id a) (Some state) acc) as
      | _ \<Rightarrow> matching_states states acc as)"

definition max_remaining :: "(app \<times> int) list \<Rightarrow> int" where
  "max_remaining candidates =
     foldl (\<lambda>m c. if snd c > m then snd c else m) (snd (hd candidates)) (tl candidates)"

definition SelectApp ::
  "'s store_ops \<Rightarrow> selector \<Rightarrow> time \<Rightarrow> time \<Rightarrow> time \<Rightarrow> nat \<Rightarrow> string \<Rightarrow> 's
     \<Rightarrow> (select_error + app) \<times> 's" where
  "SelectApp ops sel t_loop t_now t_until r repository s =
     (case parseOwner repository of
        Inl err \<Rightarrow> (Inl err, s)
      | Inr owner \<Rightarrow>
          (case so_get_all_states ops s of
             (Inl err, s') \<Rightarrow> (Inl (ErrFetchingStates err), s')
           | (Inr states, s') \<Rightarrow>
               let matching = filter (\<lambda>a. app_organization a = owner) (sel_apps sel)
               in if matching = [] then (Inl (ErrNoMatchingApp owner), s')
                  else
                    let candidates = List.map_filter (candidate_of t_loop states) matching
                    in if candidates = []
                       then (Inl (ExhaustedError
                               (retryAfterFromStates t_now t_until (matching_states states [] matching))), s')
                       else
                         let m = max_remaining candidates;
                             top = filter (\<lambda>c. snd c = m) candidates
                         in (Inr (fst (top ! (r mod length top))), s')))"

datatype record_error = RecordingUsage store_error

definition RecordUsage ::
  "'s store_ops \<Rightarrow> time \<Rightarrow> string \<Rightarrow> int \<Rightarrow> time \<Rightarrow> 's \<Rightarrow> record_error option \<times> 's" where
  "RecordUsage ops now clientID remaining resetAt s =
     (let state = \<lparr>rs_remaining = remaining, rs_reset_at = resetAt, rs_last_updated = now\<rparr>
      in case so_set_state ops clientID (Some state) s of
           (Some err, s') \<Rightarrow> (Some (RecordingUsage err), s')
         | (None, s') \<Rightarrow> (None, s'))"

section \<open>The maximum over the candidates\<close>

lemma foldl_max:
  "foldl (\<lambda>m c. if snd c > m then snd c else m) m0 cs = fold max (map snd cs) (m0 :: int)"
  by (induction cs arbitrary: m0) (simp_all add: max_def)

lemma max_remaining_Max: "cs \<noteq> [] \<Longrightarrow> max_remaining cs = Max (snd ` set cs)"
  unfolding max_remaining_def foldl_max
  by (cases cs) (simp_all add: Max.set_eq_fold [of "snd c" "map snd cs'" for c cs', simplified])

text \<open>The tie-break picks a candidate of maximal headroom.\<close>

lemma tie_break:
  assumes "cs \<noteq> []"
  defines "best \<equiv> filter (\<lambda>c. snd c = max_remaining cs) cs"
  shows "best \<noteq> []" and "best ! (r mod length best) \<in> set cs"
    and "\<forall>c\<in>set cs. snd c \<le> snd (best ! (r mod length best))"
proof -
  have "max_remaining cs \<in> snd ` set cs"
    using assms(1) by (simp add: max_remaining_Max)
  then obtain c where "c \<in> set cs" and "snd c = max_remaining cs" by auto
  then show ne: "best \<noteq> []" by (auto simp: best_def filter_empty_conv intro!: bexI [of _ c])
  then have "best ! (r mod length best) \<in> set best" by simp
  then have *: "best ! (r mod length best) \<in> set cs \<and> snd (best ! (r mod length best)) = max_remaining cs"
    by (simp add: best_def)
  then show "best ! (r mod length best) \<in> set cs" ..
  show "\<forall>c\<in>set cs. snd c \<le> snd (best ! (r mod length best))"
    using * assms(1) by (simp add: max_remaining_Max)
qed

section \<open>The retry hint\<close>

definition live_resets :: "time \<Rightarrow> (string, rate_state option) gomap \<Rightarrow> time set" where
  "live_resets t states = {rs_reset_at st |st k. (k, Some st) \<in> set states \<and> t < rs_reset_at st}"

lemma live_resets_Cons:
  "live_resets t [] = {}"
  "live_resets t ((k, v) # es) =
     (case v of Some st \<Rightarrow> if t < rs_reset_at st then insert (rs_reset_at st) (live_resets t es)
                           else live_resets t es
      | None \<Rightarrow> live_resets t es)"
  by (auto simp: live_resets_def split: option.splits)

lemma earlier_fold:
  assumes "0 \<le> t"
  shows "is_zero acc \<or> t < acc \<Longrightarrow>
    foldl (earlier t) acc states =
      (let R = live_resets t states \<union> (if is_zero acc then {} else {acc})
       in if R = {} then zero_time else Min R)"
proof (induction states arbitrary: acc)
  case (Cons e es)
  obtain k v where e: "e = (k, v)" by (cases e)
  show ?case
  proof (cases "\<exists>st. v = Some st \<and> t < rs_reset_at st")
    case False
    then have "earlier t acc e = acc" and "live_resets t (e # es) = live_resets t es"
      by (auto simp: earlier_def e live_resets_def IsExpired_def split: option.splits)
    with Cons show ?thesis by simp
  next
    case True
    then obtain st where st: "v = Some st" "t < rs_reset_at st" by auto
    have R: "live_resets t (e # es) = insert (rs_reset_at st) (live_resets t es)"
      using st by (auto simp: live_resets_def e)
    have fin: "finite (live_resets t es)"
      by (rule finite_subset [where B = "(\<lambda>x. case snd x of Some s \<Rightarrow> rs_reset_at s | None \<Rightarrow> 0) ` set es"])
        (force simp: live_resets_def)+
    have nz: "rs_reset_at st \<noteq> zero_time" using assms st by (simp add: zero_time_def)
    let ?acc = "if is_zero acc \<or> rs_reset_at st < acc then rs_reset_at st else acc"
    have acc: "earlier t acc e = ?acc"
      using st by (auto simp: earlier_def e IsExpired_def)
    have "is_zero ?acc \<or> t < ?acc" using Cons.prems st by auto
    note IH = Cons.IH [OF this]
    have "\<not> is_zero ?acc" using nz by auto
    moreover have "Min (live_resets t es \<union> {?acc}) =
        Min (live_resets t (e # es) \<union> (if is_zero acc then {} else {acc}))"
      unfolding R using fin
      by (cases "live_resets t es = {}") (auto simp: min_def Min_insert2)
    ultimately show ?thesis
      using IH by (simp add: acc R Let_def)
  qed
qed (simp add: live_resets_def Let_def)

lemma retryAfterFromStates_eq:
  assumes "0 \<le> t_now"
  shows "retryAfterFromStates t_now t_until states =
    (if live_resets t_now states = {} then 60
     else max 1 (min 60 (dur_seconds (sub_time (Min (live_resets t_now states)) t_until))))"
proof -
  let ?R = "live_resets t_now states"
  have e: "foldl (earlier t_now) zero_time states = (if ?R = {} then zero_time else Min ?R)"
    using earlier_fold [OF assms, of zero_time states] by (simp add: Let_def)
  have fin: "finite ?R"
    by (rule finite_subset [where B = "(\<lambda>x. case snd x of Some s \<Rightarrow> rs_reset_at s | None \<Rightarrow> 0) ` set states"])
      (force simp: live_resets_def)+
  have "Min ?R \<noteq> zero_time" if "?R \<noteq> {}"
    using Min_in [OF fin that] assms by (auto simp: live_resets_def zero_time_def)
  then show ?thesis
    unfolding retryAfterFromStates_def e Let_def
    by (auto simp: DefaultRetrySeconds_def MinRetrySeconds_def)
qed

lemma retryAfter_bounds:
  "1 \<le> retryAfterFromStates t_now t_until states \<and> retryAfterFromStates t_now t_until states \<le> 60"
  by (simp add: retryAfterFromStates_def Let_def DefaultRetrySeconds_def MinRetrySeconds_def)

section \<open>Selection over any store that keeps the contract\<close>

text \<open>The headroom of an app, given what the store holds; \<open>None\<close> when it is exhausted.\<close>

definition headroom :: "time \<Rightarrow> (string \<Rightarrow> rate_state option) \<Rightarrow> app \<Rightarrow> int option" where
  "headroom t v a =
     (case v (app_client_id a) of
        None \<Rightarrow> Some maxInt
      | Some st \<Rightarrow> if IsExpired t st then Some maxInt
                   else if HasCapacity st then Some (rs_remaining st) else None)"

definition serves :: "selector \<Rightarrow> string \<Rightarrow> app \<Rightarrow> bool" where
  "serves sel repository a \<longleftrightarrow>
     a \<in> set (sel_apps sel) \<and> parseOwner repository = Inr (app_organization a)"

lemma candidate_of_headroom:
  "\<forall>k. map_of states k = map_option Some (v k) \<Longrightarrow>
     candidate_of t states a = map_option (Pair a) (headroom t v a)"
  by (simp add: candidate_of_def headroom_def split: option.splits)

lemma parseOwner_Inr:
  "parseOwner repository = Inr owner \<longleftrightarrow>
     (\<exists>repo. splitN (CHR ''/'') 2 repository = [owner, repo] \<and> owner \<noteq> [] \<and> repo \<noteq> [])"
  by (auto simp: parseOwner_def split: list.splits)

text \<open>Whatever the store answers, the chosen app is one of the selector's.\<close>

lemma SelectApp_from_apps:
  assumes "SelectApp ops sel t_loop t_now t_until r repository s = (Inr a, s')"
  shows "a \<in> set (sel_apps sel)"
proof -
  from assms obtain states m where cs: "List.map_filter (candidate_of t_loop states) m \<noteq> []"
    and m: "set m \<subseteq> set (sel_apps sel)"
    and a: "a = fst (filter (\<lambda>c. snd c = max_remaining (List.map_filter (candidate_of t_loop states) m))
        (List.map_filter (candidate_of t_loop states) m) ! (r mod length (filter (\<lambda>c. snd c =
          max_remaining (List.map_filter (candidate_of t_loop states) m)) (List.map_filter (candidate_of t_loop states) m))))"
    by (auto simp: SelectApp_def Let_def split: sum.splits prod.splits if_splits)
  have "b = fst c" if "candidate_of t_loop states b = Some c" for b c
    using that by (auto simp: candidate_of_def split: option.splits if_splits)
  then have "fst c \<in> set m" if "c \<in> set (List.map_filter (candidate_of t_loop states) m)" for c
    using that by (force simp: List.map_filter_def)
  with tie_break(2) [OF cs] m a show ?thesis by blast
qed

context rate_store
begin

lemma SelectApp_cases:
  assumes inv: "inv s" and own: "parseOwner repository = Inr owner"
    and m: "filter (\<lambda>a. app_organization a = owner) (sel_apps sel) = m" "m \<noteq> []"
  obtains (selected) a n where
      "SelectApp ops sel t_loop t_now t_until r repository s = (Inr a, s)"
      "serves sel repository a" "headroom t_loop (view s) a = Some n"
      "\<forall>b k. serves sel repository b \<longrightarrow> headroom t_loop (view s) b = Some k \<longrightarrow> k \<le> n"
  | (exhausted) w where
      "SelectApp ops sel t_loop t_now t_until r repository s = (Inl (ExhaustedError w), s)"
      "1 \<le> w \<and> w \<le> 60" "\<forall>b. serves sel repository b \<longrightarrow> headroom t_loop (view s) b = None"
proof -
  obtain states where all: "so_get_all_states ops s = (Inr states, s)"
    and look: "\<forall>k. map_of states k = map_option Some (view s k)"
    using get_all [OF inv] by auto
  note cand = candidate_of_headroom [OF look]
  have serves: "serves sel repository b \<longleftrightarrow> b \<in> set m" for b
    using own m(1) by (auto simp: serves_def)
  let ?cs = "List.map_filter (candidate_of t_loop states) m"
  have cs: "c \<in> set ?cs \<longleftrightarrow> (fst c \<in> set m \<and> headroom t_loop (view s) (fst c) = Some (snd c))" for c
    by (cases c) (force simp: List.map_filter_def cand)
  show ?thesis
  proof (cases "?cs = []")
    case True
    let ?w = "retryAfterFromStates t_now t_until (matching_states states [] m)"
    have "headroom t_loop (view s) b = None" if "b \<in> set m" for b
      using that cs [of "(b, n)" for n] True by (cases "headroom t_loop (view s) b") auto
    with True show ?thesis
      using m retryAfter_bounds [of t_now t_until "matching_states states [] m"]
      by (intro exhausted [of ?w]) (simp_all add: SelectApp_def own all Let_def serves)
  next
    case False
    let ?top = "filter (\<lambda>c. snd c = max_remaining ?cs) ?cs"
    let ?c = "?top ! (r mod length ?top)"
    have "?c \<in> set ?cs" and max: "\<forall>c\<in>set ?cs. snd c \<le> snd ?c"
      using tie_break [OF False] by blast+
    then have c: "fst ?c \<in> set m" "headroom t_loop (view s) (fst ?c) = Some (snd ?c)"
      using cs by blast+
    have sel: "SelectApp ops sel t_loop t_now t_until r repository s = (Inr (fst ?c), s)"
      using False m by (simp add: SelectApp_def own all Let_def)
    have "k \<le> snd ?c" if "b \<in> set m" "headroom t_loop (view s) b = Some k" for b k
      using max cs [of "(b, k)"] that by fastforce
    with c sel show ?thesis by (intro selected) (auto simp: serves)
  qed
qed

lemma SelectApp_state: "inv s \<Longrightarrow> snd (SelectApp ops sel t_loop t_now t_until r repository s) = s"
  using get_all [of s] by (auto simp: SelectApp_def Let_def split: sum.splits)

text \<open>The chosen app serves the repository's owner and has the most headroom of those that do.\<close>

lemma SelectApp_Inr:
  assumes inv: "inv s"
    and sel: "SelectApp ops sel t_loop t_now t_until r repository s = (Inr a, s')"
  shows "s' = s \<and> serves sel repository a \<and>
    (\<exists>n. headroom t_loop (view s) a = Some n \<and>
       (\<forall>b k. serves sel repository b \<longrightarrow> headroom t_loop (view s) b = Some k \<longrightarrow> k \<le> n))"
proof -
  obtain states where all: "so_get_all_states ops s = (Inr states, s)"
    using get_all [OF inv] by auto
  obtain owner where own: "parseOwner repository = Inr owner"
    using sel by (auto simp: SelectApp_def split: sum.splits)
  let ?m = "filter (\<lambda>a. app_organization a = owner) (sel_apps sel)"
  have "?m \<noteq> []" using sel by (auto simp: SelectApp_def own all Let_def)
  from inv own refl this show ?thesis
  proof (cases rule: SelectApp_cases [where t_loop = t_loop and t_now = t_now and t_until = t_until and r = r])
    case (selected a n)
    with sel show ?thesis by auto
  qed (use sel in auto)
qed

lemma SelectApp_chosen:
  assumes "inv s" and "fst (SelectApp ops sel t_loop t_now t_until r repository s) = Inr a"
  shows "serves sel repository a \<and>
    (\<exists>n. headroom t_loop (view s) a = Some n \<and>
       (\<forall>b k. serves sel repository b \<longrightarrow> headroom t_loop (view s) b = Some k \<longrightarrow> k \<le> n))"
proof -
  have "SelectApp ops sel t_loop t_now t_until r repository s =
      (Inr a, snd (SelectApp ops sel t_loop t_now t_until r repository s))"
    using assms(2) by (metis prod.collapse)
  from SelectApp_Inr [OF assms(1) this] show ?thesis by simp
qed

text \<open>Selection fails exactly when no app serves the owner, or all of those are exhausted.\<close>

lemma SelectApp_total:
  assumes inv: "inv s"
  shows "(\<exists>a. fst (SelectApp ops sel t_loop t_now t_until r repository s) = Inr a) \<longleftrightarrow>
    (\<exists>b. serves sel repository b \<and> headroom t_loop (view s) b \<noteq> None)"
proof
  assume "\<exists>a. fst (SelectApp ops sel t_loop t_now t_until r repository s) = Inr a"
  then obtain a where "SelectApp ops sel t_loop t_now t_until r repository s = (Inr a, s)"
    using SelectApp_state [OF inv] by (metis prod.collapse)
  from SelectApp_Inr [OF inv this]
  show "\<exists>b. serves sel repository b \<and> headroom t_loop (view s) b \<noteq> None" by auto
next
  assume "\<exists>b. serves sel repository b \<and> headroom t_loop (view s) b \<noteq> None"
  then obtain b where b: "serves sel repository b" "headroom t_loop (view s) b \<noteq> None" by auto
  then have own: "parseOwner repository = Inr (app_organization b)"
    and ne: "filter (\<lambda>a. app_organization a = app_organization b) (sel_apps sel) \<noteq> []"
    by (auto simp: serves_def filter_empty_conv)
  from inv own refl ne
  show "\<exists>a. fst (SelectApp ops sel t_loop t_now t_until r repository s) = Inr a"
    by (cases rule: SelectApp_cases [where t_loop = t_loop and t_now = t_now and t_until = t_until and r = r])
      (use b in auto)
qed

lemma RecordUsage_view:
  assumes "inv s"
  shows "view (snd (RecordUsage ops now k n reset s)) = (view s)(k :=
    Some (keep_fresher (norm \<lparr>rs_remaining = n, rs_reset_at = reset, rs_last_updated = now\<rparr>) (view s k)))"
    and "fst (RecordUsage ops now k n reset s) = None"
    and "inv (snd (RecordUsage ops now k n reset s))"
  using set_ok [OF assms] set_view [OF assms] set_inv [OF assms]
  by (auto simp: RecordUsage_def Let_def split: prod.splits option.splits)
    (metis fst_conv snd_conv option.distinct(1))+

text \<open>
  An app whose last observation in its newest window says that nothing is left is not selected
  before the window ends.
\<close>

lemma RecordUsage_exhausted:
  assumes inv: "inv s" and n: "n \<le> 0"
    and norm: "\<And>st. rs_remaining (norm st) = rs_remaining st"
    and fresh: "\<forall>old. view s (app_client_id a) = Some old \<longrightarrow>
      rs_reset_at old \<le> rs_reset_at (norm \<lparr>rs_remaining = n, rs_reset_at = reset, rs_last_updated = now\<rparr>)"
    and t: "t \<le> rs_reset_at (norm \<lparr>rs_remaining = n, rs_reset_at = reset, rs_last_updated = now\<rparr>)"
  shows "headroom t (view (snd (RecordUsage ops now (app_client_id a) n reset s))) a = None"
proof (cases "view s (app_client_id a)")
  case None
  with inv n norm t show ?thesis
    by (simp add: RecordUsage_view headroom_def keep_fresher_def IsExpired_def HasCapacity_def)
next
  case (Some old)
  with fresh have "rs_reset_at old \<le>
      rs_reset_at (norm \<lparr>rs_remaining = n, rs_reset_at = reset, rs_last_updated = now\<rparr>)" by simp
  with inv n norm t Some show ?thesis
    by (auto simp: RecordUsage_view headroom_def keep_fresher_def IsExpired_def HasCapacity_def
        rank_def less_prod_def)
qed

end

section \<open>Properties\<close>

text \<open>C22: The choice of an app. On the in-memory store, SelectApp returns an app exactly when some
  configured app of the repository's owner is not exhausted in a live window; the app it returns is
  one of these, none of them has more calls left (an unknown or expired window counts as unlimited),
  and the store is not changed.\<close>

theorem SelectApp_correct:
  assumes "memory_inv s"
  shows "((\<exists>a. fst (SelectApp memory_ops sel t_loop t_now t_until r repository s) = Inr a) \<longleftrightarrow>
      (\<exists>b. serves sel repository b \<and> headroom t_loop (states_at s) b \<noteq> None)) \<and>
    (\<forall>a. fst (SelectApp memory_ops sel t_loop t_now t_until r repository s) = Inr a \<longrightarrow>
       serves sel repository a \<and>
       (\<exists>n. headroom t_loop (states_at s) a = Some n \<and>
          (\<forall>b k. serves sel repository b \<longrightarrow> headroom t_loop (states_at s) b = Some k \<longrightarrow> k \<le> n))) \<and>
    snd (SelectApp memory_ops sel t_loop t_now t_until r repository s) = s"
  using mem.SelectApp_total [OF assms] mem.SelectApp_state [OF assms]
    mem.SelectApp_chosen [OF assms] by blast

definition example_selector :: selector where
  "example_selector = \<lparr>sel_apps = [\<lparr>app_client_id = ''a'', app_organization = ''o''\<rparr>,
     \<lparr>app_client_id = ''b'', app_organization = ''o''\<rparr>, \<lparr>app_client_id = ''c'', app_organization = ''p''\<rparr>]\<rparr>"

definition example_states :: memory_store where
  "example_states = \<lparr>ms_states =
     [(''a'', Some \<lparr>rs_remaining = 3, rs_reset_at = 90 * nano_second, rs_last_updated = 0\<rparr>),
      (''b'', Some \<lparr>rs_remaining = 8, rs_reset_at = 70 * nano_second, rs_last_updated = 0\<rparr>)]\<rparr>"

lemma example_states_inv: "memory_inv example_states"
  by (simp add: memory_inv_def example_states_def gm_wf_def)

lemma SelectApp_correct_witness:
  "fst (SelectApp memory_ops example_selector 5 5 5 0 ''o/r'' example_states) =
     Inr \<lparr>app_client_id = ''b'', app_organization = ''o''\<rparr> \<and>
   serves example_selector ''o/r'' \<lparr>app_client_id = ''b'', app_organization = ''o''\<rparr>"
proof -
  have "fst (SelectApp memory_ops example_selector 5 5 5 0 ''o/r'' example_states) =
     Inr \<lparr>app_client_id = ''b'', app_organization = ''o''\<rparr>" by code_simp
  with SelectApp_correct [OF example_states_inv] show ?thesis by blast
qed

text \<open>The retry hint. When all apps are exhausted, the seconds reported are those until the earliest
  reset that lies in the future, clamped to between 1 and 60, and 60 when none does; for every order in
  which the states are ranged over.\<close>

lemma retryAfterFromStates_correct:
  assumes "0 \<le> t_now"
  shows "retryAfterFromStates t_now t_until states =
      (if live_resets t_now states = {} then 60
       else max 1 (min 60 (dur_seconds (sub_time (Min (live_resets t_now states)) t_until)))) \<and>
    1 \<le> retryAfterFromStates t_now t_until states \<and> retryAfterFromStates t_now t_until states \<le> 60"
  using retryAfterFromStates_eq [OF assms] retryAfter_bounds by simp


text \<open>Recorded exhaustion is respected. After RecordUsage reported that nothing is left in a window
  that is not older than the one on record, the app has no headroom until that window has ended, so
  that SelectApp does not choose it.\<close>

lemma RecordUsage_blocks:
  assumes "memory_inv s" and "n \<le> 0" and "t_loop \<le> reset"
    and "\<forall>old. states_at s (app_client_id a) = Some old \<longrightarrow> rs_reset_at old \<le> reset"
  shows "fst (SelectApp memory_ops sel t_loop t_now t_until r repository
      (snd (RecordUsage memory_ops now (app_client_id a) n reset s))) \<noteq> Inr a"
proof -
  let ?s = "snd (RecordUsage memory_ops now (app_client_id a) n reset s)"
  have none: "headroom t_loop (states_at ?s) a = None"
    using assms by (intro mem.RecordUsage_exhausted) simp_all
  have "memory_inv ?s" using mem.RecordUsage_view(3) [OF assms(1)] .
  from mem.SelectApp_chosen [OF this] none show ?thesis by fastforce
qed

end
