(* ===== verification/Central_Auth.thy ===== *)
theory Central_Auth
  imports Trust_Policy
begin

text \<open>
  Layer 1 of the authoriser, \<^verbatim>\<open>internal/sts/authorizer/provider.go\<close>, with the claim patterns
  compiled once by \<^verbatim>\<open>NewAuthorizer\<close> (\<^verbatim>\<open>authorizer.go\<close>): issuer allowlist, required and
  forbidden claims, time restrictions. \<^verbatim>\<open>a.now()\<close> is the argument \<open>now\<close>.
\<close>

section \<open>Claims\<close>

text \<open>
  The dynamic values a \<^verbatim>\<open>map[string]any\<close> of claims holds. Only strings and objects are ever
  inspected; a JSON number is kept by its text.
\<close>

datatype claim_value =
    CStr string
  | CObj "(string \<times> claim_value) list"
  | CStrings "string list"
  | CList "claim_value list"
  | CInt int
  | CNum string
  | CBool bool
  | CNull

type_synonym claims = "(string, claim_value) gomap"

text \<open>The loop of \<^verbatim>\<open>lookupClaim\<close> over the dotted segments.\<close>

fun walk_claim :: "claim_value \<Rightarrow> string list \<Rightarrow> claim_value option" where
  "walk_claim current [] = Some current"
| "walk_claim current (segment # segments) =
     (case current of
        CObj obj \<Rightarrow>
          (case map_of obj segment of
             None \<Rightarrow> None
           | Some v \<Rightarrow> walk_claim v segments)
      | _ \<Rightarrow> None)"

definition lookupClaim :: "claims \<Rightarrow> string \<Rightarrow> claim_value option" where
  "lookupClaim cs name =
     (case map_of cs name of
        Some v \<Rightarrow> Some v
      | None \<Rightarrow> walk_claim (CObj cs) (split_all (CHR ''.'') name))"

definition claimString :: "claims \<Rightarrow> string \<Rightarrow> string option" where
  "claimString cs name =
     (case lookupClaim cs name of
        Some (CStr s) \<Rightarrow> Some s
      | _ \<Rightarrow> None)"

lemma walk_claim_append:
  "walk_claim v (xs @ ys) =
     (case walk_claim v xs of None \<Rightarrow> None | Some w \<Rightarrow> walk_claim w ys)"
  by (induction v xs rule: walk_claim.induct) (auto split: claim_value.splits option.splits)

lemma split_all_single: "c \<notin> set s \<Longrightarrow> split_all c s = [s]"
  by (induction s) auto

lemma split_all_sep: "c \<notin> set p \<Longrightarrow> split_all c (p @ c # s) = p # split_all c s"
  by (induction p) (auto split: list.splits)

lemma split_join:
  "ps \<noteq> [] \<Longrightarrow> \<forall>p\<in>set ps. c \<notin> set p \<Longrightarrow> split_all c (join_with c ps) = ps"
  by (induction c ps rule: join_with.induct) (auto simp: split_all_single split_all_sep)

lemma lookupClaim_plain: "CHR ''.'' \<notin> set name \<Longrightarrow> lookupClaim cs name = map_of cs name"
  by (auto simp: lookupClaim_def split_all_single split: option.splits)

section \<open>Compiled claim patterns\<close>

definition add_pattern ::
  "regex_engine \<Rightarrow> (string, regexp) gomap \<Rightarrow> string \<times> string \<Rightarrow> gotext + (string, regexp) gomap" where
  "add_pattern rx patterns e =
     (case e of (claim, pattern) \<Rightarrow>
        (case map_of patterns pattern of
           Some _ \<Rightarrow> Inr patterns
         | None \<Rightarrow>
             (case regexp_Compile rx pattern of
                Inl err \<Rightarrow> Inl (Sprintf ''invalid claim pattern for %q: %w'' [AStr claim, AErr err])
              | Inr re \<Rightarrow> Inr (AList.update pattern re patterns))))"

definition compile_provider ::
  "regex_engine \<Rightarrow> (string, regexp) gomap \<Rightarrow> provider_config \<Rightarrow> gotext + (string, regexp) gomap" where
  "compile_provider rx patterns p =
     (case fold_err (add_pattern rx) patterns (prov_required_claims p) of
        Inl err \<Rightarrow> Inl err
      | Inr patterns' \<Rightarrow> fold_err (add_pattern rx) patterns' (prov_forbidden_claims p))"

definition compileClaimPatterns ::
  "regex_engine \<Rightarrow> provider_config list \<Rightarrow> gotext + (string, regexp) gomap" where
  "compileClaimPatterns rx providers = fold_err (compile_provider rx) [] providers"

text \<open>Every entry maps a pattern to its own compiled expression.\<close>

definition patterns_ok :: "(string, regexp) gomap \<Rightarrow> bool" where
  "patterns_ok pats \<longleftrightarrow> (\<forall>p re. map_of pats p = Some re \<longrightarrow> re = Regexp p)"

lemma add_pattern_ok:
  "patterns_ok pats \<Longrightarrow> add_pattern rx pats e = Inr pats' \<Longrightarrow> patterns_ok pats'"
  by (auto simp: add_pattern_def patterns_ok_def regexp_Compile_def bind_Inr_iff
      split: option.splits prod.splits if_splits)

lemma add_pattern_keeps:
  "map_of pats p = Some re \<Longrightarrow> add_pattern rx pats e = Inr pats' \<Longrightarrow> map_of pats' p = Some re"
  by (auto simp: add_pattern_def no_error split: option.splits prod.splits)

lemma add_pattern_adds:
  "add_pattern rx pats (c, p) = Inr pats' \<Longrightarrow> map_of pats' p \<noteq> None"
  by (auto simp: add_pattern_def no_error split: option.splits)

lemma compile_provider_ok:
  "patterns_ok pats \<Longrightarrow> compile_provider rx pats p = Inr pats' \<Longrightarrow> patterns_ok pats'"
  unfolding compile_provider_def bind_Inr_iff
  by (metis (no_types, lifting) add_pattern_ok fold_err_invariant [where P = patterns_ok])

lemma fold_add_keeps:
  "map_of pats p \<noteq> None \<Longrightarrow> fold_err (add_pattern rx) pats es = Inr pats' \<Longrightarrow> map_of pats' p \<noteq> None"
  by (rule fold_err_invariant [where P = "\<lambda>m. map_of m p \<noteq> None"])
    (auto dest: add_pattern_keeps)

lemma fold_add_adds:
  assumes "fold_err (add_pattern rx) pats es = Inr pats'" and "(c, p) \<in> set es"
  shows "map_of pats' p \<noteq> None"
  by (rule fold_err_establishes [where Q = "\<lambda>m. map_of m p \<noteq> None", OF assms])
    (auto dest: add_pattern_adds add_pattern_keeps)

lemma compile_provider_keeps:
  "map_of pats p \<noteq> None \<Longrightarrow> compile_provider rx pats q = Inr pats' \<Longrightarrow> map_of pats' p \<noteq> None"
  unfolding compile_provider_def bind_Inr_iff by (metis fold_add_keeps)

lemma compile_provider_adds:
  assumes "compile_provider rx pats q = Inr pats'"
    and "(c, p) \<in> set (prov_required_claims q) \<union> set (prov_forbidden_claims q)"
  shows "map_of pats' p \<noteq> None"
  using assms unfolding compile_provider_def bind_Inr_iff
  by (metis Un_iff fold_add_keeps fold_add_adds)

text \<open>After \<^verbatim>\<open>NewAuthorizer\<close>, no configured claim lacks its compiled pattern.\<close>

lemma compileClaimPatterns_complete:
  assumes "compileClaimPatterns rx providers = Inr pats" and "q \<in> set providers"
    and "(c, p) \<in> set (prov_required_claims q) \<union> set (prov_forbidden_claims q)"
  shows "map_of pats p = Some (Regexp p)"
proof -
  have "patterns_ok pats"
    using assms(1) unfolding compileClaimPatterns_def
    by (rule fold_err_invariant [where P = patterns_ok])
      (auto simp: patterns_ok_def [of "[]"] intro: compile_provider_ok)
  moreover have "map_of pats p \<noteq> None"
    using assms(1) unfolding compileClaimPatterns_def
    by (rule fold_err_establishes [where x = q and Q = "\<lambda>m. map_of m p \<noteq> None"])
      (use assms(2,3) compile_provider_adds compile_provider_keeps in blast)+
  ultimately show ?thesis by (auto simp: patterns_ok_def)
qed

section \<open>Layer 1\<close>

definition isHourAllowed :: "int \<Rightarrow> hour_range \<Rightarrow> bool" where
  "isHourAllowed hour window =
     (if hr_start window \<le> hr_end window
      then hour \<ge> hr_start window \<and> hour \<le> hr_end window
      else hour \<ge> hr_start window \<or> hour \<le> hr_end window)"

definition EqualFold :: "string \<Rightarrow> string \<Rightarrow> bool" where
  "EqualFold s t \<longleftrightarrow> fold_ascii s = fold_ascii t"

definition validateTime :: "time \<Rightarrow> time_restriction \<Rightarrow> denial_error option" where
  "validateTime now tr =
     (let current = weekday_name (weekday now)
      in if tr_allowed_days tr \<noteq> [] \<and> \<not> list_ex (\<lambda>d. EqualFold d current) (tr_allowed_days tr)
         then Some (newDenialError TimeRestriction (msg ''current day is not allowed'')
                      (Sprintf ''current: %s'' [AStr current]))
         else (case tr_allowed_hours tr of
                 None \<Rightarrow> None
               | Some window \<Rightarrow>
                   let hour = hour_of now
                   in if \<not> isHourAllowed hour window
                      then Some (newDenialError TimeRestriction (msg ''current hour is not allowed'')
                                   (Sprintf ''allowed: %d-%d, current: %d UTC''
                                      [AInt (hr_start window), AInt (hr_end window), AInt hour]))
                      else None))"

definition findProvider :: "policy_config \<Rightarrow> string \<Rightarrow> provider_config option" where
  "findProvider cfg issuer = find (\<lambda>p. prov_issuer p = issuer) (pol_providers cfg)"

text \<open>The bodies of the two claim loops; \<open>None\<close> continues.\<close>

definition check_required ::
  "regex_engine \<Rightarrow> (string, regexp) gomap \<Rightarrow> claims \<Rightarrow> string \<times> string \<Rightarrow> denial_error option" where
  "check_required rx patterns cs e =
     (case e of (name, pattern) \<Rightarrow>
        (case claimString cs name of
           None \<Rightarrow> Some (newDenialError RequiredClaimMismatch
                      (Sprintf ''required claim %q not present or not a string'' [AStr name]) no_text)
         | Some claim \<Rightarrow>
             (case map_of patterns pattern of
                None \<Rightarrow> Some (newDenialError RequiredClaimMismatch
                           (Sprintf ''no compiled pattern for claim %q'' [AStr name]) no_text)
              | Some re \<Rightarrow>
                  if \<not> rx_match rx re claim
                  then Some (newDenialError RequiredClaimMismatch
                         (Sprintf ''required claim %q does not match pattern'' [AStr name])
                         (Sprintf ''expected: %s, got: %s'' [AStr pattern, AStr claim]))
                  else None)))"

definition check_forbidden ::
  "regex_engine \<Rightarrow> (string, regexp) gomap \<Rightarrow> claims \<Rightarrow> string \<times> string \<Rightarrow> denial_error option" where
  "check_forbidden rx patterns cs e =
     (case e of (name, pattern) \<Rightarrow>
        (case claimString cs name of
           None \<Rightarrow> None
         | Some claim \<Rightarrow>
             (case map_of patterns pattern of
                None \<Rightarrow> None
              | Some re \<Rightarrow>
                  if rx_match rx re claim
                  then Some (newDenialError ForbiddenClaimMatched
                         (Sprintf ''forbidden claim %q matches pattern'' [AStr name])
                         (Sprintf ''pattern: %s, value: %s'' [AStr pattern, AStr claim]))
                  else None)))"

definition authorizeCentral ::
  "regex_engine \<Rightarrow> policy_config \<Rightarrow> (string, regexp) gomap \<Rightarrow> time \<Rightarrow> string \<Rightarrow> claims
     \<Rightarrow> denial_error option" where
  "authorizeCentral rx cfg patterns now issuer cs =
     (case findProvider cfg issuer of
        None \<Rightarrow> Some (newDenialError IssuerNotAllowed (msg ''issuer not in allowed list'')
                   (Sprintf ''issuer: %s'' [AStr issuer]))
      | Some provider \<Rightarrow>
          (case first_err (check_required rx patterns cs) (prov_required_claims provider) of
             Some denial \<Rightarrow> Some denial
           | None \<Rightarrow>
               (case first_err (check_forbidden rx patterns cs) (prov_forbidden_claims provider) of
                  Some denial \<Rightarrow> Some denial
                | None \<Rightarrow>
                    (case prov_time_restrictions provider of
                       None \<Rightarrow> None
                     | Some tr \<Rightarrow> validateTime now tr))))"

subsection \<open>Time restrictions\<close>

lemma fold_days_distinct: "distinct (map fold_ascii ValidAllowedDays)"
  by code_simp

lemma weekday_name_valid: "k < 7 \<Longrightarrow> weekday_name k \<in> set ValidAllowedDays"
proof -
  assume "k < 7"
  then have "k = 0 \<or> k = 1 \<or> k = 2 \<or> k = 3 \<or> k = 4 \<or> k = 5 \<or> k = 6" by linarith
  then show ?thesis by (elim disjE) (simp_all add: weekday_name_def ValidAllowedDays_def)
qed

lemma fold_weekday_inj:
  assumes "d \<in> set ValidAllowedDays" and "k < 7"
  shows "EqualFold d (weekday_name k) \<longleftrightarrow> d = weekday_name k"
  using fold_days_distinct assms(1) weekday_name_valid [OF assms(2)]
  unfolding EqualFold_def distinct_map by (meson inj_on_eq_iff)

text \<open>The declarative meaning of a restriction: an allowed day, and an hour in the window.\<close>

definition window_hours :: "hour_range \<Rightarrow> int set" where
  "window_hours w =
     (if hr_start w \<le> hr_end w then {hr_start w..hr_end w} else {hr_start w..23} \<union> {0..hr_end w})"

definition time_allowed :: "time \<Rightarrow> time_restriction \<Rightarrow> bool" where
  "time_allowed now tr \<longleftrightarrow>
     (tr_allowed_days tr = [] \<or> weekday_name (weekday now) \<in> set (tr_allowed_days tr)) \<and>
     (\<forall>w. tr_allowed_hours tr = Some w \<longrightarrow> hour_of now \<in> window_hours w)"

lemma isHourAllowed_window:
  "0 \<le> h \<Longrightarrow> h < 24 \<Longrightarrow> isHourAllowed h w \<longleftrightarrow> h \<in> window_hours w"
  by (auto simp: isHourAllowed_def window_hours_def)

lemma validateTime_code: "validateTime now tr = Some d \<Longrightarrow> de_code d = TimeRestriction"
  by (auto simp: validateTime_def Let_def split: if_splits option.splits)

lemma validateTime_None:
  assumes "TimeRestriction_Validate tr = None"
  shows "validateTime now tr = None \<longleftrightarrow> time_allowed now tr"
proof -
  have "list_ex (\<lambda>d. EqualFold d (weekday_name (weekday now))) (tr_allowed_days tr) \<longleftrightarrow>
      weekday_name (weekday now) \<in> set (tr_allowed_days tr)"
    using assms fold_weekday_inj [OF _ weekday_less]
    by (auto simp: TimeRestriction_Validate_None list_ex_iff subset_iff)
  then show ?thesis
    by (auto simp: validateTime_def time_allowed_def Let_def isHourAllowed_window split: option.splits)
qed

subsection \<open>Claims and the whole of layer 1\<close>

definition required_met :: "regex_engine \<Rightarrow> claims \<Rightarrow> string \<times> string \<Rightarrow> bool" where
  "required_met rx cs e \<longleftrightarrow>
     (\<exists>s. claimString cs (fst e) = Some s \<and> rx_match rx (Regexp (snd e)) s)"

definition forbidden_hit :: "regex_engine \<Rightarrow> claims \<Rightarrow> string \<times> string \<Rightarrow> bool" where
  "forbidden_hit rx cs e \<longleftrightarrow>
     (\<exists>s. claimString cs (fst e) = Some s \<and> rx_match rx (Regexp (snd e)) s)"

lemma check_required_None:
  "map_of pats (snd e) = Some (Regexp (snd e)) \<Longrightarrow>
     check_required rx pats cs e = None \<longleftrightarrow> required_met rx cs e"
  by (auto simp: check_required_def required_met_def split: prod.splits option.splits)

lemma check_forbidden_None:
  "map_of pats (snd e) = Some (Regexp (snd e)) \<Longrightarrow>
     check_forbidden rx pats cs e = None \<longleftrightarrow> \<not> forbidden_hit rx cs e"
  by (auto simp: check_forbidden_def forbidden_hit_def split: prod.splits option.splits)

lemma findProvider_SomeD:
  "findProvider cfg iss = Some p \<Longrightarrow> p \<in> set (pol_providers cfg) \<and> prov_issuer p = iss"
  by (auto simp: findProvider_def find_Some_iff)

lemma findProvider_None: "findProvider cfg iss = None \<longleftrightarrow> iss \<notin> set (Issuers cfg)"
  by (auto simp: findProvider_def find_None_iff Issuers_def)

definition central_allowed ::
  "regex_engine \<Rightarrow> policy_config \<Rightarrow> time \<Rightarrow> string \<Rightarrow> claims \<Rightarrow> bool" where
  "central_allowed rx cfg now iss cs \<longleftrightarrow>
     (\<exists>p. findProvider cfg iss = Some p \<and>
        (\<forall>e\<in>set (prov_required_claims p). required_met rx cs e) \<and>
        (\<forall>e\<in>set (prov_forbidden_claims p). \<not> forbidden_hit rx cs e) \<and>
        (\<forall>tr. prov_time_restrictions p = Some tr \<longrightarrow> time_allowed now tr))"

lemma authorizeCentral_None:
  assumes comp: "compileClaimPatterns rx (pol_providers cfg) = Inr pats"
    and valid: "PolicyConfig_Validate cfg = None"
  shows "authorizeCentral rx cfg pats now iss cs = None \<longleftrightarrow> central_allowed rx cfg now iss cs"
proof (cases "findProvider cfg iss")
  case None
  then show ?thesis by (simp add: authorizeCentral_def central_allowed_def)
next
  case (Some p)
  then have p: "p \<in> set (pol_providers cfg)" by (simp add: findProvider_SomeD)
  have pats: "map_of pats (snd e) = Some (Regexp (snd e))"
    if "e \<in> set (prov_required_claims p) \<union> set (prov_forbidden_claims p)" for e
    using compileClaimPatterns_complete [OF comp p, of "fst e" "snd e"] that by simp
  have time: "validateTime now tr = None \<longleftrightarrow> time_allowed now tr"
    if "prov_time_restrictions p = Some tr" for tr
    using valid p that
    by (intro validateTime_None) (auto simp: PolicyConfig_Validate_None ProviderConfig_Validate_None)
  have req: "first_err (check_required rx pats cs) (prov_required_claims p) = None \<longleftrightarrow>
      (\<forall>e\<in>set (prov_required_claims p). required_met rx cs e)"
    using pats by (simp add: check_required_None)
  have forb: "first_err (check_forbidden rx pats cs) (prov_forbidden_claims p) = None \<longleftrightarrow>
      (\<forall>e\<in>set (prov_forbidden_claims p). \<not> forbidden_hit rx cs e)"
    using pats by (simp add: check_forbidden_None)
  show ?thesis
    unfolding authorizeCentral_def central_allowed_def Some option.case
    using req forb time
    by (auto simp del: first_err_None split: option.splits)
qed

lemma authorizeCentral_codes:
  assumes "authorizeCentral rx cfg pats now iss cs = Some d"
  shows "de_code d \<in> {IssuerNotAllowed, RequiredClaimMismatch, ForbiddenClaimMatched, TimeRestriction}"
  using assms unfolding authorizeCentral_def
  by (auto simp: check_required_def check_forbidden_def validateTime_code
      split: option.splits prod.splits if_splits dest!: first_err_SomeD)

section \<open>Properties\<close>

text \<open>C9: Layer 1 decides its specification. With the patterns that NewAuthorizer compiled and a
  validated configuration, authorizeCentral lets a request pass exactly when its issuer has a
  provider entry, every required claim is a string that its pattern matches, no forbidden claim is,
  and the clock is inside the provider's allowed days and hours.\<close>

theorem central_layer_correct:
  assumes "compileClaimPatterns rx (pol_providers cfg) = Inr pats"
    and "PolicyConfig_Validate cfg = None"
  shows "authorizeCentral rx cfg pats now iss cs = None \<longleftrightarrow>
    (\<exists>p. findProvider cfg iss = Some p \<and>
       (\<forall>e\<in>set (prov_required_claims p).
          \<exists>v. claimString cs (fst e) = Some v \<and> rx_match rx (Regexp (snd e)) v) \<and>
       (\<forall>e\<in>set (prov_forbidden_claims p).
          \<not> (\<exists>v. claimString cs (fst e) = Some v \<and> rx_match rx (Regexp (snd e)) v)) \<and>
       (\<forall>tr. prov_time_restrictions p = Some tr \<longrightarrow> time_allowed now tr))"
  using authorizeCentral_None [OF assms]
  by (simp add: central_allowed_def required_met_def forbidden_hit_def)

definition literal_rx :: regex_engine where
  "literal_rx = \<lparr>rx_error = (\<lambda>p. None), rx_match = (\<lambda>r s. r = Regexp s)\<rparr>"

definition example_cfg :: policy_config where
  "example_cfg =
     \<lparr>pol_version = ''1.0'', pol_trust_policy_path = ''gate.yaml'', pol_default_token_ttl = 60,
      pol_max_token_ttl = 60, pol_require_explicit_policy = False, pol_github_api_base_url = [],
      pol_github_raw_base_url = [],
      pol_providers = [\<lparr>prov_issuer = ''https://idp'', prov_name = ''idp'',
        prov_required_claims = [(''org.id'', ''7'')], prov_forbidden_claims = [(''event'', ''fork'')],
        prov_time_restrictions = Some \<lparr>tr_allowed_days = [''Monday''],
          tr_allowed_hours = Some \<lparr>hr_start = 22, hr_end = 6\<rparr>\<rparr>\<rparr>],
      pol_max_permissions = []\<rparr>"

lemma central_layer_correct_witness:
  "authorizeCentral literal_rx example_cfg [(''7'', Regexp ''7''), (''fork'', Regexp ''fork'')]
     (23 * nano_hour) ''https://idp'' [(''org'', CObj [(''id'', CStr ''7'')])] = None \<and>
   (\<exists>p. findProvider example_cfg ''https://idp'' = Some p \<and>
     (\<forall>tr. prov_time_restrictions p = Some tr \<longrightarrow> time_allowed (23 * nano_hour) tr))"
proof -
  have comp: "compileClaimPatterns literal_rx (pol_providers example_cfg) =
      Inr [(''7'', Regexp ''7''), (''fork'', Regexp ''fork'')]" by code_simp
  have valid: "PolicyConfig_Validate example_cfg = None" by code_simp
  have run: "authorizeCentral literal_rx example_cfg [(''7'', Regexp ''7''), (''fork'', Regexp ''fork'')]
      (23 * nano_hour) ''https://idp'' [(''org'', CObj [(''id'', CStr ''7'')])] = None" by code_simp
  with central_layer_correct [OF comp valid] show ?thesis by blast
qed

text \<open>No pattern is missing. Once NewAuthorizer has compiled the providers' claims, every required
  and every forbidden claim of every provider has its pattern in the table, compiled from exactly its
  text; so the branch of authorizeCentral that skips a forbidden claim without a pattern is never
  taken.\<close>

lemma forbidden_claims_compiled:
  assumes "compileClaimPatterns rx providers = Inr pats" and "q \<in> set providers"
    and "(c, p) \<in> set (prov_required_claims q) \<union> set (prov_forbidden_claims q)"
  shows "map_of pats p = Some (Regexp p) \<and>
    (claimString cs c = Some v \<and> rx_match rx (Regexp p) v \<longrightarrow>
       (\<exists>d. check_forbidden rx pats cs (c, p) = Some d \<and> de_code d = ForbiddenClaimMatched))"
  using compileClaimPatterns_complete [OF assms] by (auto simp: check_forbidden_def)

text \<open>Claims by dotted path. A claim whose name is a top-level key is that key's value, even when
  the name has dots; otherwise a name made of dotless segments is looked up segment by segment, so
  that a nested path reaches the object that the longer prefix reached.\<close>

lemma lookupClaim_paths:
  assumes "\<forall>s\<in>set (segs @ [k]). CHR ''.'' \<notin> set s"
    and "map_of cs (join_with (CHR ''.'') (segs @ [k])) = None"
  shows "lookupClaim cs (join_with (CHR ''.'') (segs @ [k])) =
      (case walk_claim (CObj cs) segs of Some (CObj obj) \<Rightarrow> map_of obj k | _ \<Rightarrow> None) \<and>
    (map_of cs' name = Some v \<longrightarrow> lookupClaim cs' name = Some v)"
proof -
  have "split_all (CHR ''.'') (join_with (CHR ''.'') (segs @ [k])) = segs @ [k]"
    using assms(1) by (intro split_join) simp_all
  then show ?thesis
    using assms(2) by (auto simp: lookupClaim_def walk_claim_append split: option.splits claim_value.splits)
qed

text \<open>Time restrictions. For a validated restriction, validateTime accepts an instant exactly when
  its weekday is listed (or no day is), compared as Go folds case, and its UTC hour lies in the
  window; a window whose start is after its end wraps around midnight.\<close>

lemma validateTime_correct:
  assumes "TimeRestriction_Validate tr = None"
  shows "validateTime now tr = None \<longleftrightarrow>
    (tr_allowed_days tr = [] \<or> weekday_name (weekday now) \<in> set (tr_allowed_days tr)) \<and>
    (\<forall>w. tr_allowed_hours tr = Some w \<longrightarrow>
       (if hr_start w \<le> hr_end w then hr_start w \<le> hour_of now \<and> hour_of now \<le> hr_end w
        else hr_start w \<le> hour_of now \<or> hour_of now \<le> hr_end w))"
  using validateTime_None [OF assms, of now]
  by (simp add: time_allowed_def isHourAllowed_window [symmetric] isHourAllowed_def)

end
