(* ===== verification/Repository_Auth.thy ===== *)
theory Repository_Auth
  imports Central_Auth
begin

text \<open>
  The decisions of layer 2 on a loaded policy file: matching
  (\<^verbatim>\<open>internal/sts/authorizer/match.go\<close>), permission resolution (\<^verbatim>\<open>permission.go\<close>) and the
  effective TTL. Loading the file is in theory Policy_Fetch, the composition in theory Authorizer.
\<close>

record auth_request =
  ar_claims :: claims
  ar_issuer :: string
  ar_target_repository :: string
  ar_policy_name :: string
  ar_requested_permissions :: "(string, string) gomap"
  ar_requested_ttl :: int

section \<open>Matching a policy\<close>

definition evaluateCondition :: "regex_engine \<Rightarrow> claims \<Rightarrow> condition \<Rightarrow> bool" where
  "evaluateCondition rx cs c =
     (case claimString cs (cond_field c) of
        None \<Rightarrow> False
      | Some claim \<Rightarrow> Condition_Matches rx c claim)"

definition evaluateRule :: "regex_engine \<Rightarrow> claims \<Rightarrow> policy_rule \<Rightarrow> bool" where
  "evaluateRule rx cs rule =
     (let logic = (if rule_logic rule = [] then ''AND'' else rule_logic rule)
      in if logic = ''AND''
         then list_all (evaluateCondition rx cs) (rule_conditions rule)
         else list_ex (evaluateCondition rx cs) (rule_conditions rule))"

definition evaluateRules :: "regex_engine \<Rightarrow> claims \<Rightarrow> trust_policy \<Rightarrow> bool" where
  "evaluateRules rx cs p = list_ex (evaluateRule rx cs) (tp_rules p)"

fun matchExplicit_loop ::
  "regex_engine \<Rightarrow> auth_request \<Rightarrow> trust_policy list \<Rightarrow> denial_error + trust_policy" where
  "matchExplicit_loop rx req [] =
     Inl (newDenialError PolicyNotFound
            (Sprintf ''policy %q not found in repository'' [AStr (ar_policy_name req)]) no_text)"
| "matchExplicit_loop rx req (p # ps) =
     (if tp_name p \<noteq> ar_policy_name req then matchExplicit_loop rx req ps
      else if tp_issuer p \<noteq> ar_issuer req
      then Inl (newDenialError IssuerNotAllowed
                  (Sprintf ''policy %q does not accept issuer %s''
                     [AStr (ar_policy_name req), AStr (ar_issuer req)]) no_text)
      else if evaluateRules rx (ar_claims req) p then Inr p
      else Inl (newDenialError NoRulesMatched
                  (Sprintf ''policy %q rules did not match the request'' [AStr (ar_policy_name req)])
                  no_text))"

definition matchExplicit ::
  "regex_engine \<Rightarrow> policy_file \<Rightarrow> auth_request \<Rightarrow> denial_error + trust_policy" where
  "matchExplicit rx file req = matchExplicit_loop rx req (pf_trust_policies file)"

fun matchAutomatic_loop ::
  "regex_engine \<Rightarrow> auth_request \<Rightarrow> trust_policy list \<Rightarrow> denial_error + trust_policy" where
  "matchAutomatic_loop rx req [] =
     Inl (newDenialError NoRulesMatched (msg ''no policy rules matched the request'') no_text)"
| "matchAutomatic_loop rx req (p # ps) =
     (if tp_issuer p \<noteq> ar_issuer req then matchAutomatic_loop rx req ps
      else if evaluateRules rx (ar_claims req) p then Inr p
      else matchAutomatic_loop rx req ps)"

definition matchAutomatic ::
  "regex_engine \<Rightarrow> policy_file \<Rightarrow> auth_request \<Rightarrow> denial_error + trust_policy" where
  "matchAutomatic rx file req = matchAutomatic_loop rx req (pf_trust_policies file)"

text \<open>The branch of \<^verbatim>\<open>authorizeRepository\<close> that picks the matching mode.\<close>

definition match_policy ::
  "regex_engine \<Rightarrow> policy_file \<Rightarrow> auth_request \<Rightarrow> denial_error + trust_policy" where
  "match_policy rx file req =
     (if ar_policy_name req \<noteq> [] then matchExplicit rx file req else matchAutomatic rx file req)"

subsection \<open>What a match means\<close>

text \<open>A condition holds when its claim is a string that the pattern matches.\<close>

definition cond_holds :: "regex_engine \<Rightarrow> claims \<Rightarrow> condition \<Rightarrow> bool" where
  "cond_holds rx cs c \<longleftrightarrow>
     (\<exists>s. claimString cs (cond_field c) = Some s \<and> rx_match rx (Regexp (cond_pattern c)) s)"

definition rule_holds :: "regex_engine \<Rightarrow> claims \<Rightarrow> policy_rule \<Rightarrow> bool" where
  "rule_holds rx cs r \<longleftrightarrow>
     (if rule_logic r = ''OR'' then \<exists>c\<in>set (rule_conditions r). cond_holds rx cs c
      else \<forall>c\<in>set (rule_conditions r). cond_holds rx cs c)"

definition policy_applies :: "regex_engine \<Rightarrow> auth_request \<Rightarrow> trust_policy \<Rightarrow> bool" where
  "policy_applies rx req p \<longleftrightarrow>
     tp_issuer p = ar_issuer req \<and> (\<exists>r\<in>set (tp_rules p). rule_holds rx (ar_claims req) r)"

lemma evaluateCondition_holds:
  "cond_ready c \<Longrightarrow> evaluateCondition rx cs c \<longleftrightarrow> cond_holds rx cs c"
  by (auto simp: evaluateCondition_def cond_holds_def cond_ready_def Condition_Matches_def
      split: option.splits)

lemma evaluateRule_holds:
  assumes "\<forall>c\<in>set (rule_conditions r). cond_ready c" and "rule_logic r \<in> {'''', ''AND'', ''OR''}"
  shows "evaluateRule rx cs r \<longleftrightarrow> rule_holds rx cs r"
  using assms by (auto simp: evaluateRule_def rule_holds_def list_all_iff list_ex_iff
      evaluateCondition_holds)

lemma evaluateRules_holds:
  "policy_ready p \<Longrightarrow> evaluateRules rx cs p \<longleftrightarrow> (\<exists>r\<in>set (tp_rules p). rule_holds rx cs r)"
  by (auto simp: evaluateRules_def policy_ready_def list_ex_iff evaluateRule_holds)

text \<open>Both modes return the first policy of the file that they accept.\<close>

lemma matchAutomatic_loop_find:
  "\<forall>p\<in>set ps. policy_ready p \<Longrightarrow>
     (case find (policy_applies rx req) ps of
        None \<Rightarrow> \<exists>d. matchAutomatic_loop rx req ps = Inl d \<and> de_code d = NoRulesMatched
      | Some p \<Rightarrow> matchAutomatic_loop rx req ps = Inr p)"
  by (induction ps) (auto simp: policy_applies_def evaluateRules_holds split: option.splits)

lemma matchExplicit_loop_find:
  "\<forall>p\<in>set ps. policy_ready p \<Longrightarrow>
     (case find (\<lambda>p. tp_name p = ar_policy_name req) ps of
        None \<Rightarrow> \<exists>d. matchExplicit_loop rx req ps = Inl d \<and> de_code d = PolicyNotFound
      | Some p \<Rightarrow>
          if policy_applies rx req p then matchExplicit_loop rx req ps = Inr p
          else \<exists>d. matchExplicit_loop rx req ps = Inl d \<and>
                 de_code d = (if tp_issuer p = ar_issuer req then NoRulesMatched else IssuerNotAllowed))"
  by (induction ps) (auto simp: policy_applies_def evaluateRules_holds split: option.splits if_splits)

lemma match_policy_Inr:
  assumes "file_ready f" and "match_policy rx f req = Inr p"
  shows "p \<in> set (pf_trust_policies f) \<and> policy_ready p \<and> policy_applies rx req p \<and>
         (ar_policy_name req \<noteq> [] \<longrightarrow> tp_name p = ar_policy_name req)"
proof -
  have ready: "\<forall>p\<in>set (pf_trust_policies f). policy_ready p"
    using assms(1) by (simp add: file_ready_def)
  show ?thesis
  proof (cases "ar_policy_name req = []")
    case True
    then show ?thesis
      using assms(2) ready matchAutomatic_loop_find [OF ready, where rx = rx and req = req]
      by (auto simp: match_policy_def matchAutomatic_def find_Some_iff split: option.splits)
  next
    case False
    then show ?thesis
      using assms(2) ready matchExplicit_loop_find [OF ready, where rx = rx and req = req]
      by (auto simp: match_policy_def matchExplicit_def find_Some_iff split: option.splits if_splits)
  qed
qed

section \<open>Permissions\<close>

definition validateOrgMax ::
  "policy_config \<Rightarrow> string \<Rightarrow> string \<Rightarrow> denial_error option" where
  "validateOrgMax cfg perm level =
     (case map_of (pol_max_permissions cfg) perm of
        None \<Rightarrow> Some (newDenialError PermissionNotInMaxPermission
                   (Sprintf ''permission %q is not listed in max_permissions'' [AStr perm])
                   (msg ''only permissions explicitly listed in max_permissions are allowed''))
      | Some maxLevel \<Rightarrow>
          if maxLevel = ''none''
          then Some (newDenialError PermissionDenied
                   (Sprintf ''permission %q is explicitly denied'' [AStr perm])
                   (msg ''max_permissions is set to 'none' for this permission''))
          else if \<not> isLevelAllowed level maxLevel
          then Some (newDenialError PermissionExceedsMax
                   (Sprintf ''permission %q level %q exceeds org maximum'' [AStr perm, AStr level])
                   (Sprintf ''max allowed: %s'' [AStr maxLevel]))
          else None)"

text \<open>One iteration of the loop of \<^verbatim>\<open>resolvePermissions\<close>: the denial it returns, if any.\<close>

definition check_permission ::
  "policy_config \<Rightarrow> trust_policy \<Rightarrow> string \<Rightarrow> string \<Rightarrow> denial_error option" where
  "check_permission cfg policy perm level =
     (case map_of deniedPermissions perm of
        Some scope \<Rightarrow> Some (newDenialError NonRepoPermission
                        (Sprintf ''permission %q is %s-scoped'' [AStr perm, AStr scope])
                        (msg ''repository tokens can only be granted repository-scoped permissions''))
      | None \<Rightarrow>
          (case map_of (tp_permissions policy) perm of
             None \<Rightarrow> Some (newDenialError PermissionNotInPolicy
                        (Sprintf ''permission %q not granted by policy'' [AStr perm])
                        (Sprintf ''policy: %s'' [AStr (tp_name policy)]))
           | Some allowed \<Rightarrow>
               if \<not> isLevelAllowed level allowed
               then Some (newDenialError PermissionExceedsPolicy
                        (Sprintf ''requested %q level %q exceeds policy maximum %q''
                           [AStr perm, AStr level, AStr allowed])
                        (Sprintf ''policy: %s'' [AStr (tp_name policy)]))
               else validateOrgMax cfg perm level))"

fun resolve_loop ::
  "policy_config \<Rightarrow> trust_policy \<Rightarrow> (string, string) gomap \<Rightarrow> (string, string) gomap
     \<Rightarrow> denial_error + (string, string) gomap" where
  "resolve_loop cfg policy permissions [] = Inr permissions"
| "resolve_loop cfg policy permissions ((perm, level) # requested) =
     (case check_permission cfg policy perm level of
        Some denial \<Rightarrow> Inl denial
      | None \<Rightarrow> resolve_loop cfg policy (AList.update perm level permissions) requested)"

definition requested_or_policy :: "auth_request \<Rightarrow> trust_policy \<Rightarrow> (string, string) gomap" where
  "requested_or_policy req policy =
     (if length (ar_requested_permissions req) = 0 then tp_permissions policy
      else ar_requested_permissions req)"

definition resolvePermissions ::
  "policy_config \<Rightarrow> auth_request \<Rightarrow> trust_policy \<Rightarrow> denial_error + (string, string) gomap" where
  "resolvePermissions cfg req policy =
     resolve_loop cfg policy [] (requested_or_policy req policy)"

definition resolveTTL :: "policy_config \<Rightarrow> auth_request \<Rightarrow> trust_policy \<Rightarrow> int" where
  "resolveTTL cfg req policy =
     (let ttl = (if ar_requested_ttl req = 0 then pol_default_token_ttl cfg else ar_requested_ttl req);
          ttl = (if tp_token_ttl policy > 0 \<and> tp_token_ttl policy < ttl then tp_token_ttl policy else ttl)
      in if ttl > pol_max_token_ttl cfg then pol_max_token_ttl cfg else ttl)"

subsection \<open>What is granted\<close>

text \<open>
  The three ceilings a granted level stays under: the repository scope, the matched policy and the
  organisation's \<^verbatim>\<open>max_permissions\<close>, where an unlisted permission and the level \<^verbatim>\<open>none\<close> forbid.
\<close>

definition grantable :: "policy_config \<Rightarrow> trust_policy \<Rightarrow> string \<Rightarrow> string \<Rightarrow> bool" where
  "grantable cfg policy perm level \<longleftrightarrow>
     map_of deniedPermissions perm = None \<and>
     (\<exists>a. map_of (tp_permissions policy) perm = Some a \<and> isLevelAllowed level a) \<and>
     (\<exists>m. map_of (pol_max_permissions cfg) perm = Some m \<and> m \<noteq> ''none'' \<and> isLevelAllowed level m)"

lemma validateOrgMax_None:
  "validateOrgMax cfg perm level = None \<longleftrightarrow>
     (\<exists>m. map_of (pol_max_permissions cfg) perm = Some m \<and> m \<noteq> ''none'' \<and> isLevelAllowed level m)"
  by (auto simp: validateOrgMax_def split: option.splits)

lemma check_permission_None:
  "check_permission cfg policy perm level = None \<longleftrightarrow> grantable cfg policy perm level"
  by (auto simp: check_permission_def grantable_def validateOrgMax_None split: option.splits)

lemma check_permission_codes:
  "check_permission cfg policy perm level = Some d \<Longrightarrow>
     de_code d \<in> {NonRepoPermission, PermissionNotInPolicy, PermissionExceedsPolicy,
                  PermissionNotInMaxPermission, PermissionDenied, PermissionExceedsMax}"
  by (auto simp: check_permission_def validateOrgMax_def split: option.splits if_splits)

lemma resolve_loop_Inr:
  "gm_wf (acc @ es) \<Longrightarrow>
     resolve_loop cfg policy acc es = Inr out \<longleftrightarrow>
       (\<forall>(perm, level)\<in>set es. grantable cfg policy perm level) \<and> out = acc @ es"
proof (induction es arbitrary: acc)
  case (Cons e es)
  obtain k v where e: "e = (k, v)" by (cases e)
  with Cons.prems have "AList.update k v acc = acc @ [(k, v)]"
    by (intro update_new) (auto simp: gm_wf_def)
  moreover have "gm_wf ((acc @ [(k, v)]) @ es)" using Cons.prems e by simp
  ultimately show ?case
    using Cons.IH [of "acc @ [(k, v)]"]
    by (auto simp: e no_error check_permission_None)
qed auto

lemma resolve_loop_Inl:
  "resolve_loop cfg policy acc es = Inl d \<Longrightarrow>
     \<exists>(perm, level)\<in>set es. check_permission cfg policy perm level = Some d"
  by (induction cfg policy acc es rule: resolve_loop.induct) (auto split: option.splits)

lemma resolvePermissions_Inr:
  assumes "gm_wf (requested_or_policy req policy)"
  shows "resolvePermissions cfg req policy = Inr out \<longleftrightarrow>
     out = requested_or_policy req policy \<and>
     (\<forall>(perm, level)\<in>set out. grantable cfg policy perm level)"
  unfolding resolvePermissions_def
  using resolve_loop_Inr [of "[]" "requested_or_policy req policy"] assms by auto

lemma resolvePermissions_codes:
  "resolvePermissions cfg req policy = Inl d \<Longrightarrow>
     de_code d \<in> {NonRepoPermission, PermissionNotInPolicy, PermissionExceedsPolicy,
                  PermissionNotInMaxPermission, PermissionDenied, PermissionExceedsMax}"
  unfolding resolvePermissions_def by (blast dest: resolve_loop_Inl check_permission_codes)

lemma grantable_valid_level:
  "policy_ready policy \<Longrightarrow> grantable cfg policy perm level \<Longrightarrow> isValidLevel level"
  unfolding grantable_def by (metis isLevelAllowed_valid policy_ready_levels)

text \<open>The effective lifetime is the least of its bounds.\<close>

lemma resolveTTL_eq:
  assumes "0 < pol_default_token_ttl cfg" and "0 \<le> ar_requested_ttl req"
  shows "resolveTTL cfg req policy =
     min (pol_max_token_ttl cfg)
       (min (if ar_requested_ttl req = 0 then pol_default_token_ttl cfg else ar_requested_ttl req)
            (if tp_token_ttl policy > 0 then tp_token_ttl policy
             else pol_max_token_ttl cfg))"
  by (auto simp: resolveTTL_def Let_def min_def)

lemma resolveTTL_bounds:
  assumes "PolicyConfig_Validate cfg = None" and "0 \<le> ar_requested_ttl req"
  shows "0 < resolveTTL cfg req policy \<and> resolveTTL cfg req policy \<le> pol_max_token_ttl cfg"
  using assms by (auto simp: resolveTTL_def Let_def PolicyConfig_Validate_None)

section \<open>Properties\<close>

text \<open>C11: Matching. On a validated file, both modes are decided by the first suitable policy: without a
  policy name, the first policy for the issuer with a rule that holds, and NO_RULES_MATCHED when there
  is none; with a name, the policy of that name, provided that its issuer is the request's and a rule
  holds, and otherwise POLICY_NOT_FOUND, ISSUER_NOT_ALLOWED or NO_RULES_MATCHED.\<close>

theorem match_policy_correct:
  assumes "file_ready f"
  shows "(ar_policy_name req = [] \<longrightarrow>
       (case find (policy_applies rx req) (pf_trust_policies f) of
          Some p \<Rightarrow> match_policy rx f req = Inr p
        | None \<Rightarrow> \<exists>d. match_policy rx f req = Inl d \<and> de_code d = NoRulesMatched)) \<and>
    (ar_policy_name req \<noteq> [] \<longrightarrow>
       (case find (\<lambda>p. tp_name p = ar_policy_name req) (pf_trust_policies f) of
          None \<Rightarrow> \<exists>d. match_policy rx f req = Inl d \<and> de_code d = PolicyNotFound
        | Some p \<Rightarrow>
            if policy_applies rx req p then match_policy rx f req = Inr p
            else \<exists>d. match_policy rx f req = Inl d \<and>
              de_code d = (if tp_issuer p = ar_issuer req then NoRulesMatched else IssuerNotAllowed)))"
proof -
  have ready: "\<forall>p\<in>set (pf_trust_policies f). policy_ready p" using assms by (simp add: file_ready_def)
  show ?thesis
    using matchAutomatic_loop_find [OF ready, where rx = rx and req = req]
      matchExplicit_loop_find [OF ready, where rx = rx and req = req]
    unfolding match_policy_def matchAutomatic_def matchExplicit_def
    by (auto split: option.splits)
qed

definition example_policy :: "string \<Rightarrow> string \<Rightarrow> trust_policy" where
  "example_policy name ref =
     \<lparr>tp_name = name, tp_description = [], tp_issuer = ''i'',
      tp_rules = [\<lparr>rule_name = ''r'', rule_logic = [],
        rule_conditions = [\<lparr>cond_field = ''ref'', cond_pattern = ref, cond_compiled = Some (Regexp ref)\<rparr>]\<rparr>],
      tp_permissions = [(''contents'', ''write''), (''checks'', ''read'')], tp_token_ttl = 600\<rparr>"

definition example_request :: "string \<Rightarrow> auth_request" where
  "example_request name =
     \<lparr>ar_claims = [(''ref'', CStr ''main'')], ar_issuer = ''i'', ar_target_repository = ''o/r'',
      ar_policy_name = name, ar_requested_permissions = [(''contents'', ''read'')], ar_requested_ttl = 0\<rparr>"

lemma match_policy_correct_witness:
  "match_policy literal_rx \<lparr>pf_version = ''1.0'', pf_trust_policies =
       [example_policy ''a'' ''dev'', example_policy ''b'' ''main'']\<rparr> (example_request []) =
     Inr (example_policy ''b'' ''main'') \<and>
   (\<exists>d. match_policy literal_rx \<lparr>pf_version = ''1.0'', pf_trust_policies =
       [example_policy ''a'' ''dev'', example_policy ''b'' ''main'']\<rparr> (example_request ''a'') = Inl d \<and>
     de_code d = NoRulesMatched)"
proof -
  let ?f = "\<lparr>pf_version = ''1.0'', pf_trust_policies =
       [example_policy ''a'' ''dev'', example_policy ''b'' ''main'']\<rparr>"
  have ready: "file_ready ?f"
    by (simp add: file_ready_def policy_ready_def example_policy_def cond_ready_def isValidLevel_iff)
  have app: "\<not> policy_applies literal_rx (example_request n) (example_policy ''a'' ''dev'')"
    "policy_applies literal_rx (example_request n) (example_policy ''b'' ''main'')" for n
    by (simp_all add: policy_applies_def example_request_def example_policy_def rule_holds_def
        cond_holds_def literal_rx_def claimString_def lookupClaim_def)
  have names: "tp_name (example_policy n q) = n" "ar_policy_name (example_request m) = m" for n q m
    by (simp_all add: example_policy_def example_request_def)
  have issuer: "tp_issuer (example_policy n q) = ar_issuer (example_request m)" for n q m
    by (simp add: example_policy_def example_request_def)
  show ?thesis
    using match_policy_correct [OF ready, of "example_request []" literal_rx]
      match_policy_correct [OF ready, of "example_request ''a''" literal_rx]
    by (simp add: app names) (simp add: issuer)
qed



text \<open>Order independence. The order in which Go ranges over the requested permissions, the policy's
  or the organisation's map decides neither whether permissions are granted nor which ones, only
  which denial is reported: with any order the grant is the requested map (or the policy's), in that
  order.\<close>

lemma resolvePermissions_order:
  assumes "gm_wf (requested_or_policy req policy)"
    and "gm_range (ar_requested_permissions req) rp" and "gm_range (tp_permissions policy) tp"
    and "gm_wf (tp_permissions policy)" and "gm_wf (pol_max_permissions cfg)"
    and "gm_range (pol_max_permissions cfg) mp"
  shows "resolvePermissions (cfg\<lparr>pol_max_permissions := mp\<rparr>) (req\<lparr>ar_requested_permissions := rp\<rparr>)
      (policy\<lparr>tp_permissions := tp\<rparr>) = Inr out' \<longleftrightarrow>
    (\<exists>out. resolvePermissions cfg req policy = Inr out) \<and>
    out' = (if rp = [] then tp else rp)"
proof -
  let ?req = "req\<lparr>ar_requested_permissions := rp\<rparr>" and ?pol = "policy\<lparr>tp_permissions := tp\<rparr>"
    and ?cfg = "cfg\<lparr>pol_max_permissions := mp\<rparr>"
  have range: "gm_range (requested_or_policy req policy) (requested_or_policy ?req ?pol)"
    using assms(2,3) gm_range_length [OF assms(2)] by (simp add: requested_or_policy_def)
  have grant: "grantable ?cfg ?pol = grantable cfg policy"
    using gm_range_map_of [OF assms(3,4)] gm_range_map_of [OF assms(6,5)]
    by (intro ext) (simp add: grantable_def)
  have wf: "gm_wf (requested_or_policy ?req ?pol)"
    using range assms(1) by (simp add: gm_range_wf)
  show ?thesis
    unfolding resolvePermissions_Inr [OF assms(1)] resolvePermissions_Inr [OF wf]
    using gm_range_set [OF range] by (auto simp: grant requested_or_policy_def)
qed




end
