(* ===== verification/Github_Iface.thy ===== *)
theory Github_Iface
  imports Go_Time
begin

text \<open>
  The interface \<^verbatim>\<open>github.ClientIface\<close> (\<^verbatim>\<open>internal/clients/github/client.go\<close>), the values it passes
  (\<^verbatim>\<open>types.go\<close>) and its errors (\<^verbatim>\<open>errors.go\<close>). A client is a record of operations over a state
  \<open>'g\<close>, which stands for all clients and GitHub itself; theory Github_Client provides the
  implementation.
\<close>

datatype gh_sentinel =
    ErrInvalidRepository_gh
  | ErrFileNotFound
  | ErrRepositoryNotFound
  | ErrInstallationNotFound

text \<open>
  An error value: one that wraps a sentinel, with its whole message; one wrapped in a further
  message; or any other error.
\<close>

datatype gh_error =
    GhSentinel gh_sentinel gotext
  | GhWrap string gh_error
  | GhFailure gotext

fun sentinel_text :: "gh_sentinel \<Rightarrow> gotext" where
  "sentinel_text ErrInvalidRepository_gh = msg ''invalid repository format (expected owner/repo)''"
| "sentinel_text ErrFileNotFound = msg ''file not found''"
| "sentinel_text ErrRepositoryNotFound = msg ''repository not found or not accessible''"
| "sentinel_text ErrInstallationNotFound = msg ''installation not found for owner''"

text \<open>\<^verbatim>\<open>errors.Is\<close> for the sentinels, and \<^verbatim>\<open>Error()\<close>.\<close>

fun gh_is :: "gh_error \<Rightarrow> gh_sentinel \<Rightarrow> bool" where
  "gh_is (GhSentinel s t) s' \<longleftrightarrow> s = s'"
| "gh_is (GhWrap m e) s' \<longleftrightarrow> gh_is e s'"
| "gh_is (GhFailure t) s' \<longleftrightarrow> False"

fun gh_error_text :: "gh_error \<Rightarrow> gotext" where
  "gh_error_text (GhSentinel s t) = t"
| "gh_error_text (GhWrap m e) = Sprintf (m @ '': %w'') [AErr (gh_error_text e)]"
| "gh_error_text (GhFailure t) = t"

lemma gh_is_unique: "gh_is e s \<Longrightarrow> gh_is e s' \<Longrightarrow> s = s'"
  by (induction e) auto

record token_request =
  trq_repository :: string
  trq_permissions :: "(string, string) gomap"

record token_response =
  trs_token :: string
  trs_expires_at :: time

record rate_limit_info =
  rli_remaining :: int
  rli_reset_at :: time

record 'g client_iface =
  ci_RequestToken :: "token_request \<Rightarrow> 'g \<Rightarrow> (gh_error + token_response) \<times> 'g"
  ci_RevokeToken :: "string \<Rightarrow> 'g \<Rightarrow> gh_error option \<times> 'g"
  ci_RateLimit :: "string \<Rightarrow> 'g \<Rightarrow> (gh_error + rate_limit_info) \<times> 'g"
  ci_GetContents :: "string \<Rightarrow> string \<Rightarrow> 'g \<Rightarrow> (gh_error + string) \<times> 'g"

end
