(* ===== verification/Policy_Fetch.thy ===== *)
theory Policy_Fetch
  imports Policy_Cache App_Selector Repository_Auth Github_Iface
begin

text \<open>
  Loading a repository's trust policy, \<^verbatim>\<open>internal/sts/authorizer/policy_fetch.go\<close>: the cache, the
  app that reads the file, the candidate paths, parsing and validation.

  The authoriser's fixed part is the record \<open>authorizer\<close>, what it shares and changes is
  \<open>auth_state\<close>: the rate-limit store, the policy cache and everything behind the GitHub clients.
  \<open>fetch_readings\<close> holds what one call reads from its surroundings: the clock at each place that
  reads it, the random number of the tie-break and the order of the \<^verbatim>\<open>range\<close> over the cache.
  \<^verbatim>\<open>yaml.Unmarshal\<close> is an argument, the error or the decoded file for each content.
  \<^verbatim>\<open>singleflight.Do\<close> runs its function; a call that joins another's flight returns that call's
  result.
\<close>

record select_readings =
  sr_loop :: time
  sr_now :: time
  sr_until :: time
  sr_rand :: nat

record fetch_readings =
  fr_get :: time
  fr_get_again :: time
  fr_select :: select_readings
  fr_set :: time
  fr_range :: "(string, policy_entry) gomap"

record ('s, 'g) authorizer =
  au_config :: policy_config
  au_selector :: selector
  au_store :: "'s store_ops"
  au_clients :: "(string, 'g client_iface) gomap"
  au_patterns :: "(string, regexp) gomap"

record ('s, 'g) auth_state =
  as_store :: 's
  as_cache :: policy_cache
  as_github :: 'g

type_synonym yaml_decoder = "string \<Rightarrow> gotext + policy_file"

datatype fetch_error =
    ErrRepositoryNotAccessible gotext
  | ErrPolicyFileNotFound gotext
  | FetchFailure gotext

text \<open>\<^verbatim>\<open>err.Error()\<close> of the errors that reach a denial's details.\<close>

fun store_error_text :: "store_error \<Rightarrow> gotext" where
  "store_error_text ErrStateNotFound = msg ''rate limit state not found''"
| "store_error_text (StoreFailure t) = t"

fun select_error_text :: "select_error \<Rightarrow> gotext" where
  "select_error_text ErrInvalidRepository = msg ''invalid repository format: expected owner/repo''"
| "select_error_text (ErrFetchingStates e) = Sprintf ''fetching states: %w'' [AErr (store_error_text e)]"
| "select_error_text (ErrNoMatchingApp owner) =
     Sprintf ''%w: %s'' [AErr (msg ''no GitHub App configured for organization''), AStr owner]"
| "select_error_text (ExhaustedError n) =
     Sprintf ''all GitHub Apps exhausted; retry after %ds'' [AInt n]"

fun fetch_error_text :: "fetch_error \<Rightarrow> gotext" where
  "fetch_error_text (ErrRepositoryNotAccessible t) =
     Sprintf ''%w: %s'' [AErr (msg ''repository not found or not accessible''), AErr t]"
| "fetch_error_text (ErrPolicyFileNotFound t) =
     Sprintf ''%w at %s'' [AErr (msg ''trust policy file not found''), AErr t]"
| "fetch_error_text (FetchFailure t) = t"

section \<open>Paths and parsing\<close>

definition extensionVariants :: "string \<Rightarrow> string list" where
  "extensionVariants path =
     (let ext = file_ext path
      in if ext = ''.yaml'' \<or> ext = ''.yml'' then [path]
         else [path @ ''.yaml'', path @ ''.yml''])"

definition parseAndValidate ::
  "regex_engine \<Rightarrow> yaml_decoder \<Rightarrow> string \<Rightarrow> gotext + policy_file" where
  "parseAndValidate rx yaml content =
     (case yaml content of
        Inl err \<Rightarrow> Inl (Sprintf ''parsing YAML: %w'' [AErr err])
      | Inr pf \<Rightarrow>
          (case PolicyFile_Validate rx pf of
             Inl err \<Rightarrow> Inl (Sprintf ''invalid trust policy: %w'' [AErr err])
           | Inr pf' \<Rightarrow> Inr pf'))"

section \<open>Fetching\<close>

text \<open>The loop over the paths; \<open>paths\<close> are all of them, for the final message.\<close>

fun fetch_loop ::
  "regex_engine \<Rightarrow> yaml_decoder \<Rightarrow> 'g client_iface \<Rightarrow> fetch_readings \<Rightarrow> string \<Rightarrow> string
     \<Rightarrow> string list \<Rightarrow> string list \<Rightarrow> ('s, 'g) auth_state
     \<Rightarrow> (fetch_error + policy_file) \<times> ('s, 'g) auth_state" where
  "fetch_loop rx yaml client rd repository cacheKey paths [] st =
     (Inl (ErrPolicyFileNotFound (msg (strings_Join paths '', ''))), st)"
| "fetch_loop rx yaml client rd repository cacheKey paths (fullPath # rest) st =
     (case ci_GetContents client repository fullPath (as_github st) of
        (Inr content, g) \<Rightarrow>
          (case parseAndValidate rx yaml content of
             Inl parseErr \<Rightarrow> (Inl (FetchFailure parseErr), st\<lparr>as_github := g\<rparr>)
           | Inr policy \<Rightarrow>
               (Inr policy,
                st\<lparr>as_github := g,
                   as_cache := policyCache_set (fr_set rd) (fr_range rd) (as_cache st) cacheKey policy\<rparr>))
      | (Inl err, g) \<Rightarrow>
          if gh_is err ErrRepositoryNotFound \<or> gh_is err ErrInstallationNotFound
          then (Inl (ErrRepositoryNotAccessible (msg repository)), st\<lparr>as_github := g\<rparr>)
          else if \<not> gh_is err ErrFileNotFound
          then (Inl (FetchFailure (Sprintf ''fetching %s: %w''
                      [AStr fullPath, AErr (gh_error_text err)])), st\<lparr>as_github := g\<rparr>)
          else fetch_loop rx yaml client rd repository cacheKey paths rest (st\<lparr>as_github := g\<rparr>))"

definition fetchPolicyFromGitHub ::
  "regex_engine \<Rightarrow> yaml_decoder \<Rightarrow> ('s, 'g) authorizer \<Rightarrow> fetch_readings \<Rightarrow> string \<Rightarrow> string
     \<Rightarrow> string \<Rightarrow> ('s, 'g) auth_state \<Rightarrow> (fetch_error + policy_file) \<times> ('s, 'g) auth_state" where
  "fetchPolicyFromGitHub rx yaml a rd repository resolved cacheKey st =
     (case SelectApp (au_store a) (au_selector a) (sr_loop (fr_select rd)) (sr_now (fr_select rd))
             (sr_until (fr_select rd)) (sr_rand (fr_select rd)) repository (as_store st) of
        (Inl err, s) \<Rightarrow>
          (Inl (FetchFailure (Sprintf ''selecting GitHub App: %w'' [AErr (select_error_text err)])),
           st\<lparr>as_store := s\<rparr>)
      | (Inr chosen, s) \<Rightarrow>
          (case map_of (au_clients a) (app_client_id chosen) of
             None \<Rightarrow>
               (Inl (FetchFailure (Sprintf ''no GitHub client for app %s'' [AStr (app_client_id chosen)])),
                st\<lparr>as_store := s\<rparr>)
           | Some client \<Rightarrow>
               let paths = extensionVariants resolved
               in fetch_loop rx yaml client rd repository cacheKey paths paths (st\<lparr>as_store := s\<rparr>)))"

definition fetchPolicy ::
  "regex_engine \<Rightarrow> yaml_decoder \<Rightarrow> ('s, 'g) authorizer \<Rightarrow> fetch_readings \<Rightarrow> string \<Rightarrow> string
     \<Rightarrow> ('s, 'g) auth_state \<Rightarrow> (fetch_error + policy_file) \<times> ('s, 'g) auth_state" where
  "fetchPolicy rx yaml a rd repository pathTemplate st =
     (case splitN (CHR ''/'') 2 repository of
        [org, repo] \<Rightarrow>
          if org = [] \<or> repo = []
          then (Inl (FetchFailure (Sprintf ''invalid repository format: %s'' [AStr repository])), st)
          else
            let resolved = replace_all ''{org}'' org pathTemplate;
                cacheKey = repository @ '':'' @ resolved
            in (case policyCache_get (fr_get rd) (as_cache st) cacheKey of
                  Some cached \<Rightarrow> (Inr cached, st)
                | None \<Rightarrow>
                    (case policyCache_get (fr_get_again rd) (as_cache st) cacheKey of
                       Some cached \<Rightarrow> (Inr cached, st)
                     | None \<Rightarrow> fetchPolicyFromGitHub rx yaml a rd repository resolved cacheKey st))
      | _ \<Rightarrow> (Inl (FetchFailure (Sprintf ''invalid repository format: %s'' [AStr repository])), st))"

section \<open>What a fetch returns and leaves\<close>

lemma extensionVariants_ext:
  "p \<in> set (extensionVariants path) \<Longrightarrow> file_ext p = ''.yaml'' \<or> file_ext p = ''.yml''"
  by (auto simp: extensionVariants_def Let_def file_ext_def split: if_splits)

lemma extensionVariants_nonempty [simp]: "extensionVariants path \<noteq> []"
  by (simp add: extensionVariants_def Let_def)

text \<open>A predicate that every validated file has.\<close>

definition validated :: "regex_engine \<Rightarrow> yaml_decoder \<Rightarrow> (policy_file \<Rightarrow> bool) \<Rightarrow> bool" where
  "validated rx yaml P \<longleftrightarrow> (\<forall>content f. parseAndValidate rx yaml content = Inr f \<longrightarrow> P f)"

lemma parseAndValidate_Inr:
  "parseAndValidate rx yaml content = Inr f \<longleftrightarrow>
     (\<exists>pf. yaml content = Inr pf \<and> PolicyFile_Validate rx pf = Inr f)"
  by (auto simp: parseAndValidate_def no_error)

lemma fetch_loop_keeps:
  assumes "validated rx yaml P"
  shows "cache_all P (as_cache st) \<Longrightarrow>
    fetch_loop rx yaml client rd repository key paths ps st = (res, st') \<Longrightarrow>
    cache_all P (as_cache st') \<and> (\<forall>f. res = Inr f \<longrightarrow> P f) \<and> as_store st' = as_store st"
proof (induction ps arbitrary: st)
  case (Cons p ps)
  obtain r g where r: "ci_GetContents client repository p (as_github st) = (r, g)" by fastforce
  show ?case
  proof (cases r)
    case (Inr content)
    then show ?thesis
      using Cons.prems assms r
      by (auto simp: validated_def split: sum.splits intro!: cache_all_set)
  next
    case (Inl err)
    then show ?thesis
      using Cons.prems r Cons.IH [of "st\<lparr>as_github := g\<rparr>"] by (auto split: if_splits)
  qed
qed auto

text \<open>The key under which the policy of a repository is cached, if its name is well formed.\<close>

definition policy_cache_key :: "string \<Rightarrow> string \<Rightarrow> string option" where
  "policy_cache_key repository template =
     (case parseOwner repository of
        Inl _ \<Rightarrow> None
      | Inr org \<Rightarrow> Some (repository @ '':'' @ replace_all ''{org}'' org template))"

lemma fetchPolicy_invalid:
  "policy_cache_key repository template = None \<Longrightarrow>
     fetchPolicy rx yaml a rd repository template st =
       (Inl (FetchFailure (Sprintf ''invalid repository format: %s'' [AStr repository])), st)"
  by (auto simp: fetchPolicy_def policy_cache_key_def parseOwner_def split: list.splits if_splits)

text \<open>The well-formed case, with the two looks at the cache in front of the fetch.\<close>

lemma fetchPolicy_eq:
  assumes "parseOwner repository = Inr org"
  shows "fetchPolicy rx yaml a rd repository template st =
    (let resolved = replace_all ''{org}'' org template; key = repository @ '':'' @ resolved
     in case policyCache_get (fr_get rd) (as_cache st) key of
          Some cached \<Rightarrow> (Inr cached, st)
        | None \<Rightarrow>
            (case policyCache_get (fr_get_again rd) (as_cache st) key of
               Some cached \<Rightarrow> (Inr cached, st)
             | None \<Rightarrow> fetchPolicyFromGitHub rx yaml a rd repository resolved key st))"
  using assms by (auto simp: fetchPolicy_def parseOwner_def split: list.splits if_splits)

lemma fetchPolicyFromGitHub_keeps:
  assumes P: "validated rx yaml P" and cache: "cache_all P (as_cache st)"
    and run: "fetchPolicyFromGitHub rx yaml a rd repository resolved key st = (res, st')"
  shows "cache_all P (as_cache st') \<and> (\<forall>f. res = Inr f \<longrightarrow> P f)"
proof -
  obtain x s where sel: "SelectApp (au_store a) (au_selector a) (sr_loop (fr_select rd))
      (sr_now (fr_select rd)) (sr_until (fr_select rd)) (sr_rand (fr_select rd)) repository
      (as_store st) = (x, s)" by fastforce
  have cache': "cache_all P (as_cache (st\<lparr>as_store := s\<rparr>))" using cache by simp
  show ?thesis
    using run cache fetch_loop_keeps [OF P cache']
    by (auto simp: fetchPolicyFromGitHub_def sel Let_def split: sum.splits option.splits)
qed

text \<open>
  Every file that \<^verbatim>\<open>fetchPolicy\<close> returns, from the cache or from GitHub, has been validated, and so
  has everything it leaves in the cache.
\<close>

lemma fetchPolicy_keeps:
  assumes P: "validated rx yaml P" and cache: "cache_all P (as_cache st)"
    and run: "fetchPolicy rx yaml a rd repository template st = (res, st')"
  shows "cache_all P (as_cache st') \<and> (\<forall>f. res = Inr f \<longrightarrow> P f)"
proof -
  note gh = fetchPolicyFromGitHub_keeps [OF P cache]
  show ?thesis
  proof (cases "policy_cache_key repository template")
    case None
    with run cache show ?thesis by (auto simp: fetchPolicy_invalid)
  next
    case (Some key)
    then obtain org where org: "parseOwner repository = Inr org"
      and key: "key = repository @ '':'' @ replace_all ''{org}'' org template"
      by (auto simp: policy_cache_key_def split: sum.splits)
    show ?thesis
      using run cache gh
      by (auto simp: fetchPolicy_eq [OF org] Let_def split: option.splits intro: cache_all_get)
  qed
qed

text \<open>A fetch reads the store only to select an app, and changes no rate-limit state.\<close>

lemma fetchPolicy_store:
  assumes "rate_store (au_store a) view norm ok" and "ok (as_store st)"
    and "fetchPolicy rx yaml a rd repository template st = (res, st')"
  shows "as_store st' = as_store st"
proof -
  have loop: "as_store st'' = as_store st1"
    if "fetch_loop rx yaml client rd repository key paths ps st1 = (res', st'')"
    for client key paths ps st1 res' st''
    using fetch_loop_keeps [where P = "\<lambda>_. True"] that by (fastforce simp: validated_def cache_all_def)
  have sel: "s' = as_store st"
    if "SelectApp (au_store a) (au_selector a) t1 t2 t3 r repository (as_store st) = (x, s')"
    for t1 t2 t3 r x s'
    using rate_store.SelectApp_state [OF assms(1,2)] that by (metis snd_conv)
  show ?thesis
    using assms(3)
    by (auto simp: fetchPolicy_def fetchPolicyFromGitHub_def Let_def dest!: loop dest: sel
        split: list.splits if_splits option.splits prod.splits sum.splits)
qed

text \<open>A fresh cache entry answers without any call to GitHub.\<close>

lemma fetchPolicy_hit:
  assumes "policy_cache_key repository template = Some key"
    and "policyCache_get (fr_get rd) (as_cache st) key = Some f"
  shows "fetchPolicy rx yaml a rd repository template st = (Inr f, st)"
  using assms by (auto simp: policy_cache_key_def Let_def fetchPolicy_eq split: sum.splits)

end
