(* ===== verification/Authorizer.thy ===== *)
theory Authorizer
  imports Policy_Fetch
begin

text \<open>
  The two-layer decision, \<^verbatim>\<open>internal/sts/authorizer/authorizer.go\<close> and \<^verbatim>\<open>authorizeRepository\<close> of
  \<^verbatim>\<open>match.go\<close>: construction, the order of the checks, and what an allowed request has passed.
\<close>

record auth_result =
  res_allowed :: bool
  res_matched_policy :: string
  res_permissions :: "(string, string) gomap"
  res_ttl :: int
  res_deny_reason :: "denial_error option"

definition NewAuthorizer ::
  "regex_engine \<Rightarrow> policy_config \<Rightarrow> selector \<Rightarrow> 's store_ops \<Rightarrow> (string, 'g client_iface) gomap
     \<Rightarrow> gotext + ('s, 'g) authorizer \<times> policy_cache" where
  "NewAuthorizer rx cfg sel store clients =
     (case compileClaimPatterns rx (pol_providers cfg) of
        Inl err \<Rightarrow> Inl err
      | Inr patterns \<Rightarrow>
          Inr (\<lparr>au_config = cfg, au_selector = sel, au_store = store, au_clients = clients,
                au_patterns = patterns\<rparr>, newPolicyCache 0))"

definition denied :: "denial_error \<Rightarrow> auth_result" where
  "denied err = \<lparr>res_allowed = False, res_matched_policy = [], res_permissions = [], res_ttl = 0,
                 res_deny_reason = Some err\<rparr>"

definition fetch_denial :: "fetch_error \<Rightarrow> denial_error" where
  "fetch_denial err =
     (case err of
        ErrRepositoryNotAccessible t \<Rightarrow>
          newDenialError RepositoryNotFound (msg ''repository not found or not accessible'')
            (fetch_error_text err)
      | ErrPolicyFileNotFound t \<Rightarrow>
          newDenialError TrustPolicyNotFound (msg ''trust policy file not found in repository'')
            (fetch_error_text err)
      | FetchFailure t \<Rightarrow>
          newDenialError PolicyLoadFailed (msg ''failed to load trust policy'') (fetch_error_text err))"

definition authorizeRepository ::
  "regex_engine \<Rightarrow> yaml_decoder \<Rightarrow> ('s, 'g) authorizer \<Rightarrow> fetch_readings \<Rightarrow> auth_request
     \<Rightarrow> ('s, 'g) auth_state \<Rightarrow> auth_result \<times> ('s, 'g) auth_state" where
  "authorizeRepository rx yaml a rd req st =
     (if pol_require_explicit_policy (au_config a) \<and> ar_policy_name req = []
      then (denied (newDenialError PolicyNameRequired
                      (msg ''policy_name is required but not provided'') no_text), st)
      else
        (case fetchPolicy rx yaml a rd (ar_target_repository req)
                (pol_trust_policy_path (au_config a)) st of
           (Inl err, st') \<Rightarrow> (denied (fetch_denial err), st')
         | (Inr file, st') \<Rightarrow>
             (case match_policy rx file req of
                Inl denial \<Rightarrow> (denied denial, st')
              | Inr matched \<Rightarrow>
                  (case resolvePermissions (au_config a) req matched of
                     Inl denial \<Rightarrow> (denied denial, st')
                   | Inr permissions \<Rightarrow>
                       (\<lparr>res_allowed = True,
                         res_matched_policy = tp_name matched,
                         res_permissions = permissions,
                         res_ttl = resolveTTL (au_config a) req matched,
                         res_deny_reason = None\<rparr>, st')))))"

text \<open>\<open>now\<close> is \<^verbatim>\<open>a.now()\<close> in layer 1.\<close>

definition Authorize ::
  "regex_engine \<Rightarrow> yaml_decoder \<Rightarrow> ('s, 'g) authorizer \<Rightarrow> time \<Rightarrow> fetch_readings \<Rightarrow> auth_request
     \<Rightarrow> ('s, 'g) auth_state \<Rightarrow> auth_result \<times> ('s, 'g) auth_state" where
  "Authorize rx yaml a now rd req st =
     (if ar_issuer req = []
      then (denied (newDenialError IssuerNotAllowed (msg ''issuer is required'') no_text), st)
      else if ar_target_repository req = []
      then (denied (newDenialError PolicyLoadFailed (msg ''target repository is required'') no_text), st)
      else
        (case authorizeCentral rx (au_config a) (au_patterns a) now (ar_issuer req) (ar_claims req) of
           Some denial \<Rightarrow> (denied denial, st)
         | None \<Rightarrow> authorizeRepository rx yaml a rd req st))"

section \<open>The shape of a result\<close>

lemma denied_simps [simp]:
  "res_allowed (denied d) = False" "res_deny_reason (denied d) = Some d"
  by (simp_all add: denied_def)

section \<open>Authorisation in parts\<close>

text \<open>\<^verbatim>\<open>authorizeRepository\<close> after its call of \<^verbatim>\<open>fetchPolicy\<close>.\<close>

definition decide ::
  "regex_engine \<Rightarrow> policy_config \<Rightarrow> auth_request \<Rightarrow> fetch_error + policy_file \<Rightarrow> auth_result" where
  "decide rx cfg req r =
     (case r of
        Inl err \<Rightarrow> denied (fetch_denial err)
      | Inr file \<Rightarrow>
          (case match_policy rx file req of
             Inl denial \<Rightarrow> denied denial
           | Inr matched \<Rightarrow>
               (case resolvePermissions cfg req matched of
                  Inl denial \<Rightarrow> denied denial
                | Inr permissions \<Rightarrow>
                    \<lparr>res_allowed = True, res_matched_policy = tp_name matched, res_permissions = permissions,
                     res_ttl = resolveTTL cfg req matched, res_deny_reason = None\<rparr>)))"

text \<open>\<^verbatim>\<open>Authorize\<close> before it.\<close>

definition denied_early ::
  "regex_engine \<Rightarrow> ('s, 'g) authorizer \<Rightarrow> time \<Rightarrow> auth_request \<Rightarrow> denial_error option" where
  "denied_early rx a now req =
     (if ar_issuer req = [] then Some (newDenialError IssuerNotAllowed (msg ''issuer is required'') no_text)
      else if ar_target_repository req = []
      then Some (newDenialError PolicyLoadFailed (msg ''target repository is required'') no_text)
      else case authorizeCentral rx (au_config a) (au_patterns a) now (ar_issuer req) (ar_claims req) of
        Some denial \<Rightarrow> Some denial
      | None \<Rightarrow>
          if pol_require_explicit_policy (au_config a) \<and> ar_policy_name req = []
          then Some (newDenialError PolicyNameRequired (msg ''policy_name is required but not provided'') no_text)
          else None)"

lemma Authorize_parts:
  "Authorize rx yaml a now rd req st =
     (case denied_early rx a now req of
        Some denial \<Rightarrow> (denied denial, st)
      | None \<Rightarrow>
          (case fetchPolicy rx yaml a rd (ar_target_repository req) (pol_trust_policy_path (au_config a)) st of
             (r, st') \<Rightarrow> (decide rx (au_config a) req r, st')))"
  by (simp add: Authorize_def denied_early_def authorizeRepository_def decide_def split: option.split prod.split sum.split)

lemma decide_shape:
  "res_allowed (decide rx cfg req r) \<longleftrightarrow> res_deny_reason (decide rx cfg req r) = None"
  by (simp add: decide_def split: sum.split)

lemma authorizeRepository_shape:
  "res_allowed (fst (authorizeRepository rx yaml a rd req st)) \<longleftrightarrow>
     res_deny_reason (fst (authorizeRepository rx yaml a rd req st)) = None"
  by (auto simp: authorizeRepository_def split: prod.splits sum.splits)

lemma Authorize_shape:
  "res_allowed (fst (Authorize rx yaml a now rd req st)) \<longleftrightarrow>
     res_deny_reason (fst (Authorize rx yaml a now rd req st)) = None"
  by (auto simp: Authorize_def authorizeRepository_shape split: option.splits)

section \<open>Files and requests the decision can rely on\<close>

text \<open>
  Go maps have distinct keys; in a decoded file this is a fact about the decoder's result, in a
  request about the value itself.
\<close>

definition maps_wf :: "policy_file \<Rightarrow> bool" where
  "maps_wf f \<longleftrightarrow> (\<forall>p\<in>set (pf_trust_policies f). gm_wf (tp_permissions p))"

definition decodes_maps :: "yaml_decoder \<Rightarrow> bool" where
  "decodes_maps yaml \<longleftrightarrow> (\<forall>content f. yaml content = Inr f \<longrightarrow> maps_wf f)"

definition file_good :: "policy_file \<Rightarrow> bool" where
  "file_good f \<longleftrightarrow> file_ready f \<and> maps_wf f"

lemma file_good_validated: "decodes_maps yaml \<Longrightarrow> validated rx yaml file_good"
  unfolding validated_def decodes_maps_def file_good_def parseAndValidate_Inr
  by (auto simp: PolicyFile_Validate_ready PolicyFile_Validate_iff compile_file_def maps_wf_def)

text \<open>An authoriser as \<^verbatim>\<open>NewAuthorizer\<close> builds it from a configuration that passed validation.\<close>

definition authorizer_built :: "regex_engine \<Rightarrow> ('s, 'g) authorizer \<Rightarrow> bool" where
  "authorizer_built rx a \<longleftrightarrow>
     PolicyConfig_Validate (au_config a) = None \<and>
     compileClaimPatterns rx (pol_providers (au_config a)) = Inr (au_patterns a)"

lemma NewAuthorizer_built:
  "PolicyConfig_Validate cfg = None \<Longrightarrow> NewAuthorizer rx cfg sel store clients = Inr (a, c) \<Longrightarrow>
     authorizer_built rx a \<and> c = newPolicyCache 0"
  by (auto simp: NewAuthorizer_def authorizer_built_def split: sum.splits)

lemma NewAuthorizer_fields:
  assumes "NewAuthorizer rx cfg sel store clients = Inr (a, c)"
  shows "au_config a = cfg" "au_selector a = sel" "au_store a = store" "au_clients a = clients"
  using assms by (auto simp: NewAuthorizer_def split: sum.splits)

section \<open>The decision\<close>

text \<open>
  What it means that policy \<open>p\<close> of file \<open>f\<close> authorises a request: both layers, with the
  permissions and the lifetime that are then granted.
\<close>

definition authorizes ::
  "regex_engine \<Rightarrow> policy_config \<Rightarrow> time \<Rightarrow> auth_request \<Rightarrow> policy_file \<Rightarrow> trust_policy \<Rightarrow> bool" where
  "authorizes rx cfg now req f p \<longleftrightarrow>
     central_allowed rx cfg now (ar_issuer req) (ar_claims req) \<and>
     (pol_require_explicit_policy cfg \<longrightarrow> ar_policy_name req \<noteq> []) \<and>
     p \<in> set (pf_trust_policies f) \<and> policy_applies rx req p \<and>
     (ar_policy_name req \<noteq> [] \<longrightarrow> tp_name p = ar_policy_name req) \<and>
     (\<forall>(perm, level)\<in>set (requested_or_policy req p). grantable cfg p perm level)"

lemma Authorize_cache:
  assumes "validated rx yaml P" and "cache_all P (as_cache st)"
  shows "cache_all P (as_cache (snd (Authorize rx yaml a now rd req st)))"
proof -
  obtain r st' where f: "fetchPolicy rx yaml a rd (ar_target_repository req)
      (pol_trust_policy_path (au_config a)) st = (r, st')" by fastforce
  with assms have "cache_all P (as_cache st')" by (blast dest: fetchPolicy_keeps)
  with assms(2) show ?thesis
    by (auto simp: Authorize_def authorizeRepository_def f split: option.splits sum.splits)
qed

lemma requested_or_policy_wf:
  "gm_wf (ar_requested_permissions req) \<Longrightarrow> gm_wf (tp_permissions p) \<Longrightarrow> gm_wf (requested_or_policy req p)"
  by (simp add: requested_or_policy_def)

lemma decide_Inr:
  assumes "res_allowed (decide rx cfg req r)"
  obtains f p where "r = Inr f" "match_policy rx f req = Inr p"
    "resolvePermissions cfg req p = Inr (res_permissions (decide rx cfg req r))"
    "res_matched_policy (decide rx cfg req r) = tp_name p" "res_ttl (decide rx cfg req r) = resolveTTL cfg req p"
  using assms by (auto simp: decide_def split: sum.splits)

text \<open>An allowed result, from a good file and past the checks that precede the fetch.\<close>

lemma decide_sound:
  assumes built: "authorizer_built rx a" and good: "file_good f"
    and req: "gm_wf (ar_requested_permissions req)" "0 \<le> ar_requested_ttl req"
    and early: "denied_early rx a now req = None"
    and allowed: "res_allowed (decide rx (au_config a) req (Inr f))"
  defines "res \<equiv> decide rx (au_config a) req (Inr f)"
  shows "\<exists>p. authorizes rx (au_config a) now req f p \<and>
    res_matched_policy res = tp_name p \<and> tp_name p \<noteq> [] \<and>
    res_permissions res = requested_or_policy req p \<and>
    res_ttl res = resolveTTL (au_config a) req p \<and>
    0 < res_ttl res \<and> res_ttl res \<le> pol_max_token_ttl (au_config a)"
proof -
  from allowed obtain p where m: "match_policy rx f req = Inr p"
    and r: "resolvePermissions (au_config a) req p = Inr (res_permissions res)"
    and n: "res_matched_policy res = tp_name p" "res_ttl res = resolveTTL (au_config a) req p"
    unfolding res_def by (rule decide_Inr) simp_all
  from early have c: "authorizeCentral rx (au_config a) (au_patterns a) now (ar_issuer req) (ar_claims req) = None"
    and e: "pol_require_explicit_policy (au_config a) \<longrightarrow> ar_policy_name req \<noteq> []"
    by (auto simp: denied_early_def split: if_splits option.splits)
  from good have ready: "file_ready f" and maps: "maps_wf f" by (simp_all add: file_good_def)
  note mp = match_policy_Inr [OF ready m]
  then have "gm_wf (tp_permissions p)" using maps by (simp add: maps_wf_def)
  note wf = requested_or_policy_wf [OF req(1) this]
  have perms: "res_permissions res = requested_or_policy req p"
    and grant: "\<forall>(perm, level)\<in>set (requested_or_policy req p). grantable (au_config a) p perm level"
    using r unfolding resolvePermissions_Inr [OF wf] by auto
  have "central_allowed rx (au_config a) now (ar_issuer req) (ar_claims req)"
    using c built by (simp add: authorizer_built_def authorizeCentral_None)
  with e mp grant have "authorizes rx (au_config a) now req f p" by (simp add: authorizes_def)
  moreover have "0 < res_ttl res \<and> res_ttl res \<le> pol_max_token_ttl (au_config a)"
    unfolding n(2) using built req(2) by (intro resolveTTL_bounds) (simp_all add: authorizer_built_def)
  moreover have "tp_name p \<noteq> []" using mp by (simp add: policy_ready_def)
  ultimately show ?thesis using perms n by auto
qed

lemma Authorize_sound:
  assumes built: "authorizer_built rx a" and yaml: "decodes_maps yaml"
    and cache: "cache_all file_good (as_cache st)"
    and req: "gm_wf (ar_requested_permissions req)" "0 \<le> ar_requested_ttl req"
    and run: "Authorize rx yaml a now rd req st = (res, st')" "res_allowed res"
  shows "\<exists>f p. file_good f \<and> authorizes rx (au_config a) now req f p \<and>
    res_matched_policy res = tp_name p \<and> tp_name p \<noteq> [] \<and>
    res_permissions res = requested_or_policy req p \<and>
    res_ttl res = resolveTTL (au_config a) req p \<and>
    0 < res_ttl res \<and> res_ttl res \<le> pol_max_token_ttl (au_config a)"
proof -
  from run obtain r where early: "denied_early rx a now req = None"
    and fetch: "fetchPolicy rx yaml a rd (ar_target_repository req) (pol_trust_policy_path (au_config a)) st = (r, st')"
    and res: "res = decide rx (au_config a) req r"
    by (auto simp: Authorize_parts split: option.splits prod.splits)
  from run(2) res obtain f where f: "r = Inr f" by (auto elim: decide_Inr)
  then have "file_good f" using fetchPolicy_keeps [OF file_good_validated [OF yaml] cache fetch] by simp
  with decide_sound [OF built this req early] run(2) res f show ?thesis by blast
qed

text \<open>
  Conversely nothing else is checked: once the file is loaded, a request is allowed when the policy
  that the matching mode picks authorises it.
\<close>

lemma Authorize_complete:
  assumes built: "authorizer_built rx a" and good: "file_good f"
    and req: "gm_wf (ar_requested_permissions req)" "ar_issuer req \<noteq> []" "ar_target_repository req \<noteq> []"
    and fetch: "fetchPolicy rx yaml a rd (ar_target_repository req)
        (pol_trust_policy_path (au_config a)) st = (Inr f, st')"
    and m: "match_policy rx f req = Inr p"
  shows "res_allowed (fst (Authorize rx yaml a now rd req st)) \<longleftrightarrow> authorizes rx (au_config a) now req f p"
proof -
  from good have ready: "file_ready f" and maps: "maps_wf f" by (simp_all add: file_good_def)
  note mp = match_policy_Inr [OF ready m]
  then have "gm_wf (tp_permissions p)" using maps by (simp add: maps_wf_def)
  note perms = resolvePermissions_Inr [OF requested_or_policy_wf [OF req(1) this], of "au_config a"]
  have c: "authorizeCentral rx (au_config a) (au_patterns a) now (ar_issuer req) (ar_claims req) = None
      \<longleftrightarrow> central_allowed rx (au_config a) now (ar_issuer req) (ar_claims req)"
    using built by (simp add: authorizer_built_def authorizeCentral_None)
  have "res_allowed (fst (authorizeRepository rx yaml a rd req st)) \<longleftrightarrow>
      (pol_require_explicit_policy (au_config a) \<longrightarrow> ar_policy_name req \<noteq> []) \<and>
      (\<exists>out. resolvePermissions (au_config a) req p = Inr out)"
    by (auto simp: authorizeRepository_def fetch m split: sum.splits)
  then show ?thesis
    using c mp req(2,3) by (auto simp: Authorize_def perms authorizes_def split: option.splits)
qed

text \<open>A request that layer 1 denies leaves every cache, the store and GitHub alone.\<close>

lemma Authorize_central_denial:
  assumes built: "authorizer_built rx a"
    and no: "\<not> central_allowed rx (au_config a) now (ar_issuer req) (ar_claims req)"
  shows "snd (Authorize rx yaml a now rd req st) = st \<and>
    \<not> res_allowed (fst (Authorize rx yaml a now rd req st))"
proof -
  obtain d where "authorizeCentral rx (au_config a) (au_patterns a) now (ar_issuer req) (ar_claims req)
      = Some d"
    using authorizeCentral_None [of rx "au_config a" "au_patterns a"] built no
    unfolding authorizer_built_def by (metis not_None_eq)
  then show ?thesis by (simp add: Authorize_def)
qed

end
