(* ===== verification/Oidc_Validator.thy ===== *)
theory Oidc_Validator
  imports Central_Auth
begin

text \<open>
  Validation of OIDC tokens, \<^verbatim>\<open>internal/sts/oidc/validator.go\<close>. The libraries are arguments:
  \<open>ol_parse\<close> is \<^verbatim>\<open>jwt.ParseString\<close> without verification, \<open>ol_discover\<close> is
  \<^verbatim>\<open>gooidc.NewProvider\<close>, which reaches the issuer over the network \<open>'w\<close>, and \<open>ol_verify\<close> is
  \<^verbatim>\<open>Verify\<close> of the provider's verifier for an audience. The \<^verbatim>\<open>sync.Map\<close> of providers and the
  network are the state.
\<close>

record jwt_token =
  jt_issuer :: string
  jt_subject :: string
  jt_audience :: "string list"
  jt_expiration :: time
  jt_issued_at :: time
  jt_private_claims :: "claims"

record ('p, 'w) oidc_lib =
  ol_parse :: "string \<Rightarrow> gotext + jwt_token"
  ol_discover :: "string \<Rightarrow> 'w \<Rightarrow> (gotext + 'p) \<times> 'w"
  ol_verify :: "'p \<Rightarrow> string \<Rightarrow> string \<Rightarrow> 'w \<Rightarrow> gotext option \<times> 'w"

record validator =
  va_audience :: string
  va_issuers :: "string list"

record ('p, 'w) oidc_state =
  os_providers :: "(string, 'p) gomap"
  os_network :: 'w

record oidc_claims =
  oc_issuer :: string
  oc_subject :: string
  oc_audience :: "string list"
  oc_expires_at :: time
  oc_issued_at :: time
  oc_custom :: "claims"

datatype validator_error = ErrEmptyAudience | ErrEmptyIssuers

definition NewValidator :: "string \<Rightarrow> string list \<Rightarrow> validator_error + validator" where
  "NewValidator audience allowedIssuers =
     (if audience = [] then Inl ErrEmptyAudience
      else if length allowedIssuers = 0 then Inl ErrEmptyIssuers
      else Inr \<lparr>va_audience = audience, va_issuers = allowedIssuers\<rparr>)"

datatype oidc_error =
    ErrEmptyToken
  | ErrParsing gotext
  | ErrMissingIssuer
  | ErrIssuerDenied string
  | ErrDiscovering string gotext
  | ErrVerifying gotext

text \<open>\<^verbatim>\<open>err.Error()\<close>, as it reaches the details of an exchange error.\<close>

fun oidc_error_text :: "oidc_error \<Rightarrow> gotext" where
  "oidc_error_text ErrEmptyToken = msg ''token is empty''"
| "oidc_error_text (ErrParsing e) = Sprintf ''parsing token: %w'' [AErr e]"
| "oidc_error_text ErrMissingIssuer = msg ''token missing issuer claim''"
| "oidc_error_text (ErrIssuerDenied iss) =
     Sprintf ''%w: %s'' [AErr (msg ''issuer not in allowed list''), AStr iss]"
| "oidc_error_text (ErrDiscovering iss e) = Sprintf ''discovering issuer %s: %w'' [AStr iss, AErr e]"
| "oidc_error_text (ErrVerifying e) = Sprintf ''verifying token: %w'' [AErr e]"

text \<open>\<^verbatim>\<open>LoadOrStore\<close> keeps a provider that another request stored during the discovery.\<close>

definition load_or_store :: "string \<Rightarrow> 'p \<Rightarrow> (string, 'p) gomap \<Rightarrow> 'p \<times> (string, 'p) gomap" where
  "load_or_store issuer p m =
     (case map_of m issuer of Some q \<Rightarrow> (q, m) | None \<Rightarrow> (p, AList.update issuer p m))"

definition Validator_provider ::
  "('p, 'w) oidc_lib \<Rightarrow> string \<Rightarrow> ('p, 'w) oidc_state \<Rightarrow> (gotext + 'p) \<times> ('p, 'w) oidc_state" where
  "Validator_provider lib issuer st =
     (case map_of (os_providers st) issuer of
        Some p \<Rightarrow> (Inr p, st)
      | None \<Rightarrow>
          (case ol_discover lib issuer (os_network st) of
             (Inl err, w) \<Rightarrow> (Inl err, st\<lparr>os_network := w\<rparr>)
           | (Inr p, w) \<Rightarrow>
               (case load_or_store issuer p (os_providers st) of
                  (actual, m) \<Rightarrow> (Inr actual, st\<lparr>os_network := w, os_providers := m\<rparr>))))"

definition Validator_Validate ::
  "('p, 'w) oidc_lib \<Rightarrow> validator \<Rightarrow> string \<Rightarrow> ('p, 'w) oidc_state
     \<Rightarrow> (oidc_error + oidc_claims) \<times> ('p, 'w) oidc_state" where
  "Validator_Validate lib va rawToken st =
     (if rawToken = [] then (Inl ErrEmptyToken, st)
      else case ol_parse lib rawToken of
        Inl err \<Rightarrow> (Inl (ErrParsing err), st)
      | Inr parsed \<Rightarrow>
          let issuer = jt_issuer parsed
          in if issuer = [] then (Inl ErrMissingIssuer, st)
             else if issuer \<notin> set (va_issuers va) then (Inl (ErrIssuerDenied issuer), st)
             else
               (case Validator_provider lib issuer st of
                  (Inl err, st') \<Rightarrow> (Inl (ErrDiscovering issuer err), st')
                | (Inr provider, st') \<Rightarrow>
                    (case ol_verify lib provider (va_audience va) rawToken (os_network st') of
                       (Some err, w) \<Rightarrow> (Inl (ErrVerifying err), st'\<lparr>os_network := w\<rparr>)
                     | (None, w) \<Rightarrow>
                         (Inr \<lparr>oc_issuer = jt_issuer parsed,
                               oc_subject = jt_subject parsed,
                               oc_audience = jt_audience parsed,
                               oc_expires_at = jt_expiration parsed,
                               oc_issued_at = jt_issued_at parsed,
                               oc_custom = jt_private_claims parsed\<rparr>, st'\<lparr>os_network := w\<rparr>))))"

section \<open>Only allowed issuers, only verified tokens\<close>

text \<open>
  \<open>origin iss p\<close>: what every provider that discovery of \<open>iss\<close> returns has (its metadata names that
  issuer, say). The cache keeps it.
\<close>

definition discovers :: "('p, 'w) oidc_lib \<Rightarrow> (string \<Rightarrow> 'p \<Rightarrow> bool) \<Rightarrow> bool" where
  "discovers lib origin \<longleftrightarrow>
     (\<forall>iss w p w'. ol_discover lib iss w = (Inr p, w') \<longrightarrow> origin iss p)"

definition providers_ok :: "validator \<Rightarrow> (string \<Rightarrow> 'p \<Rightarrow> bool) \<Rightarrow> ('p, 'w) oidc_state \<Rightarrow> bool" where
  "providers_ok va origin st \<longleftrightarrow>
     (\<forall>iss p. map_of (os_providers st) iss = Some p \<longrightarrow> iss \<in> set (va_issuers va) \<and> origin iss p)"

lemma Validator_provider_ok:
  assumes "discovers lib origin" and "providers_ok va origin st" and "iss \<in> set (va_issuers va)"
    and "Validator_provider lib iss st = (r, st')"
  shows "providers_ok va origin st' \<and> (\<forall>p. r = Inr p \<longrightarrow> origin iss p)"
  using assms
  by (auto simp: Validator_provider_def load_or_store_def providers_ok_def discovers_def
      split: option.splits prod.splits sum.splits if_splits) blast+

lemma Validate_providers:
  assumes "discovers lib origin" and "providers_ok va origin st"
    and "Validator_Validate lib va raw st = (r, st')"
  shows "providers_ok va origin st'"
proof -
  have eq: "providers_ok va origin (s\<lparr>os_network := w\<rparr>) = providers_ok va origin s" for s w
    by (simp add: providers_ok_def)
  show ?thesis
    using assms Validator_provider_ok [OF assms(1,2)]
    by (auto simp: Validator_Validate_def Let_def eq split: if_splits sum.splits prod.splits option.splits)
qed

text \<open>
  Accepted claims are those of a token from an allowed issuer, which a provider discovered at that
  issuer has verified for the configured audience.
\<close>

lemma Validate_accepts:
  assumes disc: "discovers lib origin" and ok: "providers_ok va origin st"
    and run: "Validator_Validate lib va raw st = (Inr c, st')"
  shows "oc_issuer c \<noteq> [] \<and> oc_issuer c \<in> set (va_issuers va) \<and>
    (\<exists>t. ol_parse lib raw = Inr t \<and> oc_issuer c = jt_issuer t \<and> oc_subject c = jt_subject t \<and>
       oc_custom c = jt_private_claims t) \<and>
    (\<exists>p w w'. origin (oc_issuer c) p \<and> ol_verify lib p (va_audience va) raw w = (None, w'))"
proof -
  from run obtain t p st1 w where t: "ol_parse lib raw = Inr t" "jt_issuer t \<noteq> []"
      "jt_issuer t \<in> set (va_issuers va)"
    and p: "Validator_provider lib (jt_issuer t) st = (Inr p, st1)"
    and v: "ol_verify lib p (va_audience va) raw (os_network st1) = (None, w)"
    and c: "oc_issuer c = jt_issuer t" "oc_subject c = jt_subject t" "oc_custom c = jt_private_claims t"
    by (auto simp: Validator_Validate_def Let_def split: if_splits sum.splits prod.splits option.splits)
  have "origin (jt_issuer t) p" using Validator_provider_ok [OF disc ok t(3) p] by simp
  with t c v show ?thesis by auto
qed

text \<open>A token whose issuer is not allowed causes no network traffic.\<close>

lemma Validate_denied_quiet:
  assumes "\<And>t. ol_parse lib raw = Inr t \<Longrightarrow> jt_issuer t \<notin> set (va_issuers va)"
  shows "snd (Validator_Validate lib va raw st) = st \<and> (\<exists>e. fst (Validator_Validate lib va raw st) = Inl e)"
  using assms by (auto simp: Validator_Validate_def Let_def split: sum.splits)

text \<open>Discovery happens once for each issuer: afterwards the cache answers.\<close>

lemma provider_cached:
  assumes "Validator_provider lib iss st = (Inr p, st')"
  shows "map_of (os_providers st') iss = Some p \<and> Validator_provider lib iss st' = (Inr p, st')"
  using assms by (auto simp: Validator_provider_def load_or_store_def
      split: option.splits prod.splits sum.splits)

section \<open>Properties\<close>

text \<open>C24: What an accepted token is. The claims Validate returns are those of the token as parsed, from a
  non-empty issuer of the allowlist; the token was verified, for the configured audience, by a provider
  that discovery of that very issuer returned, now or when it was first cached; and the cache of
  providers stays such.\<close>

theorem Validator_Validate_sound:
  assumes "discovers lib origin" and "providers_ok va origin st"
    and "Validator_Validate lib va raw st = (Inr c, st')"
  shows "oc_issuer c \<noteq> [] \<and> oc_issuer c \<in> set (va_issuers va) \<and>
    (\<exists>t. ol_parse lib raw = Inr t \<and> oc_issuer c = jt_issuer t \<and> oc_subject c = jt_subject t \<and>
       oc_custom c = jt_private_claims t) \<and>
    (\<exists>p w w'. origin (oc_issuer c) p \<and> ol_verify lib p (va_audience va) raw w = (None, w')) \<and>
    providers_ok va origin st'"
  using Validate_accepts [OF assms] Validate_providers [OF assms] by blast

definition example_oidc :: "(string, nat) oidc_lib" where
  "example_oidc =
     \<lparr>ol_parse = (\<lambda>raw. Inr \<lparr>jt_issuer = raw, jt_subject = ''s'', jt_audience = [], jt_expiration = 0,
                              jt_issued_at = 0, jt_private_claims = []\<rparr>),
      ol_discover = (\<lambda>iss n. (Inr iss, Suc n)), ol_verify = (\<lambda>p aud raw n. (None, n))\<rparr>"

lemma Validator_Validate_sound_witness:
  "\<exists>c st'. Validator_Validate example_oidc \<lparr>va_audience = ''a'', va_issuers = [''i'']\<rparr> ''i''
       \<lparr>os_providers = [], os_network = 0\<rparr> = (Inr c, st') \<and> oc_issuer c \<in> {''i''}"
proof -
  let ?va = "\<lparr>va_audience = ''a'', va_issuers = [''i'']\<rparr>"
  have "discovers example_oidc (\<lambda>iss p. p = iss)" by (simp add: discovers_def example_oidc_def)
  moreover have "providers_ok ?va (\<lambda>iss p. p = iss) \<lparr>os_providers = [], os_network = 0\<rparr>"
    by (simp add: providers_ok_def)
  moreover obtain c st' where run: "Validator_Validate example_oidc ?va ''i''
      \<lparr>os_providers = [], os_network = 0\<rparr> = (Inr c, st')"
    by (simp add: Validator_Validate_def Validator_provider_def load_or_store_def example_oidc_def Let_def)
  ultimately have "oc_issuer c \<in> set (va_issuers ?va)" using Validator_Validate_sound by blast
  with run show ?thesis by auto
qed

text \<open>Only allowed issuers are contacted. A token that does not parse, or whose issuer is empty or not
  in the allowlist, is rejected without discovery or verification: the network and the cache of
  providers stay as they were.\<close>

lemma Validator_Validate_no_contact:
  assumes "\<And>t. ol_parse lib raw = Inr t \<Longrightarrow> jt_issuer t \<notin> set (va_issuers va)"
  shows "\<exists>e. Validator_Validate lib va raw st = (Inl e, st)"
  using Validate_denied_quiet [OF assms] by (metis prod.collapse)

end
