(* ===== verification/Token_Tracker.thy ===== *)
theory Token_Tracker
  imports Go_Time
begin

text \<open>
  The tracker of issued tokens, \<^verbatim>\<open>internal/sts/tracker.go\<close>: tokens by their hash, with the instant
  from which they are to be revoked. The lock makes each method atomic.
\<close>

record tracked_token =
  tt_token :: string
  tt_expires :: time

type_synonym token_tracker = "(string, tracked_token) gomap"

definition NewTokenTracker :: token_tracker where
  "NewTokenTracker = []"

definition TokenTracker_Record ::
  "string \<Rightarrow> string \<Rightarrow> time \<Rightarrow> token_tracker \<Rightarrow> token_tracker" where
  "TokenTracker_Record hash token expires c =
     AList.update hash \<lparr>tt_token = token, tt_expires = expires\<rparr> c"

text \<open>The loop of \<^verbatim>\<open>GetExpired\<close> over the entries in the order \<open>c\<close> of the \<^verbatim>\<open>range\<close>.\<close>

fun collect_expired :: "time \<Rightarrow> (string, string) gomap \<Rightarrow> token_tracker \<Rightarrow> (string, string) gomap" where
  "collect_expired now expired [] = expired"
| "collect_expired now expired ((hash, entry) # es) =
     collect_expired now
       (if after now (tt_expires entry) then AList.update hash (tt_token entry) expired else expired) es"

definition TokenTracker_GetExpired :: "time \<Rightarrow> token_tracker \<Rightarrow> (string, string) gomap" where
  "TokenTracker_GetExpired now c = collect_expired now [] c"

definition TokenTracker_Remove :: "string \<Rightarrow> token_tracker \<Rightarrow> token_tracker" where
  "TokenTracker_Remove hash c = AList.delete hash c"

lemma collect_expired_lookup:
  "gm_wf c \<Longrightarrow> map_of (collect_expired now acc c) h =
     (case map_of c h of
        Some e \<Rightarrow> if tt_expires e < now then Some (tt_token e) else map_of acc h
      | None \<Rightarrow> map_of acc h)"
proof (induction now acc c rule: collect_expired.induct)
  case (2 now acc k e es)
  then have "gm_wf es" and k: "map_of es k = None"
    by (auto simp: gm_wf_def map_of_eq_None_iff)
  with 2 show ?case by (cases "h = k") (auto split: option.splits)
qed simp

lemma collect_expired_wf: "gm_wf acc \<Longrightarrow> gm_wf (collect_expired now acc c)"
  by (induction now acc c rule: collect_expired.induct) simp_all

lemma GetExpired_lookup:
  "gm_wf c \<Longrightarrow> map_of (TokenTracker_GetExpired now c) h = Some t \<longleftrightarrow>
     (\<exists>e. map_of c h = Some e \<and> tt_expires e < now \<and> tt_token e = t)"
  by (auto simp: TokenTracker_GetExpired_def collect_expired_lookup split: option.splits)

lemma GetExpired_wf [simp]: "gm_wf (TokenTracker_GetExpired now c)"
  by (simp add: TokenTracker_GetExpired_def collect_expired_wf)

lemma NewTokenTracker_wf [simp]: "gm_wf NewTokenTracker"
  by (simp add: NewTokenTracker_def)

lemma Record_wf [simp]: "gm_wf c \<Longrightarrow> gm_wf (TokenTracker_Record h t x c)"
  by (simp add: TokenTracker_Record_def)

lemma Remove_wf [simp]: "gm_wf c \<Longrightarrow> gm_wf (TokenTracker_Remove h c)"
  by (simp add: TokenTracker_Remove_def)

lemma Record_lookup [simp]:
  "map_of (TokenTracker_Record h t x c) k =
     (if k = h then Some \<lparr>tt_token = t, tt_expires = x\<rparr> else map_of c k)"
  by (simp add: TokenTracker_Record_def)

lemma Remove_lookup [simp]:
  "map_of (TokenTracker_Remove h c) k = (if k = h then None else map_of c k)"
  by (simp add: TokenTracker_Remove_def)

end
