(* ===== verification/Audit_Log.thy ===== *)
theory Audit_Log
  imports Go_Time
begin

text \<open>
  Audit entries, their validation (\<^verbatim>\<open>internal/sts/audit/common.go\<close>) and the three backends
  (\<^verbatim>\<open>internal/sts/audit/backends\<close>). \<^verbatim>\<open>gorm\<close> and the DynamoDB client are arguments of the backends
  that call them. The locale \<open>audit_trail\<close> is the contract the service relies on.
\<close>

definition OutcomeGranted :: string where "OutcomeGranted = ''granted''"
definition OutcomeDenied :: string where "OutcomeDenied = ''denied''"

datatype audit_invalid =
    ErrInvalidRequestID
  | ErrInvalidTimestamp
  | ErrInvalidCaller
  | ErrInvalidTargetRepository
  | ErrInvalidOutcome
  | ErrInvalidDenyReason
  | ErrInvalidTokenHash
  | ErrInvalidTTL
  | ErrInvalidPolicyName
  | ErrInvalidGitHubClientID

record audit_entry =
  ae_request_id :: string
  ae_timestamp :: int
  ae_caller :: string
  ae_claims :: "(string, string) gomap"
  ae_target_repository :: string
  ae_policy_name :: string
  ae_permissions :: "(string, string) gomap"
  ae_outcome :: string
  ae_deny_reason :: string
  ae_token_hash :: string
  ae_ttl :: int
  ae_github_client_id :: string
  ae_expires_at :: int

definition AuditEntry_Validate :: "audit_entry \<Rightarrow> audit_invalid option" where
  "AuditEntry_Validate e =
     (if ae_request_id e = [] then Some ErrInvalidRequestID
      else if ae_timestamp e = 0 then Some ErrInvalidTimestamp
      else if ae_caller e = [] then Some ErrInvalidCaller
      else if ae_target_repository e = [] then Some ErrInvalidTargetRepository
      else if ae_outcome e \<noteq> OutcomeGranted \<and> ae_outcome e \<noteq> OutcomeDenied then Some ErrInvalidOutcome
      else if ae_outcome e = OutcomeDenied \<and> ae_deny_reason e = [] then Some ErrInvalidDenyReason
      else if ae_outcome e = OutcomeGranted \<and> ae_token_hash e = [] then Some ErrInvalidTokenHash
      else if ae_outcome e = OutcomeGranted \<and> ae_ttl e \<le> 0 then Some ErrInvalidTTL
      else if ae_outcome e = OutcomeGranted \<and> ae_policy_name e = [] then Some ErrInvalidPolicyName
      else if ae_outcome e = OutcomeGranted \<and> ae_github_client_id e = [] then Some ErrInvalidGitHubClientID
      else None)"

lemma OutcomeGranted_Denied [simp]:
  "OutcomeGranted \<noteq> OutcomeDenied" "OutcomeDenied \<noteq> OutcomeGranted"
  by (simp_all add: OutcomeGranted_def OutcomeDenied_def)

lemma AuditEntry_Validate_None:
  "AuditEntry_Validate e = None \<longleftrightarrow>
     ae_request_id e \<noteq> [] \<and> ae_timestamp e \<noteq> 0 \<and> ae_caller e \<noteq> [] \<and> ae_target_repository e \<noteq> [] \<and>
     (ae_outcome e = OutcomeGranted \<and> ae_token_hash e \<noteq> [] \<and> 0 < ae_ttl e \<and> ae_policy_name e \<noteq> [] \<and>
        ae_github_client_id e \<noteq> []
      \<or> ae_outcome e = OutcomeDenied \<and> ae_deny_reason e \<noteq> [])"
  by (auto simp: AuditEntry_Validate_def)

section \<open>Backends\<close>

text \<open>An error of \<^verbatim>\<open>Log\<close>: the entry is invalid, or persisting it failed.\<close>

datatype audit_error = InvalidEntry audit_invalid | PersistFailure gotext

fun audit_invalid_text :: "audit_invalid \<Rightarrow> string" where
  "audit_invalid_text ErrInvalidRequestID = ''request_id is required''"
| "audit_invalid_text ErrInvalidTimestamp = ''timestamp is required''"
| "audit_invalid_text ErrInvalidCaller = ''caller is required''"
| "audit_invalid_text ErrInvalidTargetRepository = ''target_repository is required''"
| "audit_invalid_text ErrInvalidOutcome = ''outcome must be granted or denied''"
| "audit_invalid_text ErrInvalidDenyReason = ''deny_reason is required when outcome is denied''"
| "audit_invalid_text ErrInvalidTokenHash = ''token_hash is required when outcome is granted''"
| "audit_invalid_text ErrInvalidTTL = ''ttl must be positive when outcome is granted''"
| "audit_invalid_text ErrInvalidPolicyName = ''policy_name is required when outcome is granted''"
| "audit_invalid_text ErrInvalidGitHubClientID = ''github_client_id is required when outcome is granted''"

fun audit_error_text :: "audit_error \<Rightarrow> gotext" where
  "audit_error_text (InvalidEntry x) = msg (audit_invalid_text x)"
| "audit_error_text (PersistFailure t) = t"

text \<open>The interface \<^verbatim>\<open>AuditEntryBackend\<close>; the first argument of \<^verbatim>\<open>Log\<close> is the clock.\<close>

record 'a audit_backend =
  ab_Log :: "time \<Rightarrow> audit_entry \<Rightarrow> 'a \<Rightarrow> audit_error option \<times> 'a"

definition ConsoleLogger_Log ::
  "time \<Rightarrow> audit_entry \<Rightarrow> audit_entry list \<Rightarrow> audit_error option \<times> audit_entry list" where
  "ConsoleLogger_Log now entry out =
     (case AuditEntry_Validate entry of
        Some err \<Rightarrow> (Some (InvalidEntry err), out)
      | None \<Rightarrow> (None, out @ [entry]))"

definition SQLLogger_Log ::
  "(audit_entry \<Rightarrow> 'db \<Rightarrow> gotext option \<times> 'db) \<Rightarrow> time \<Rightarrow> audit_entry \<Rightarrow> 'db
     \<Rightarrow> audit_error option \<times> 'db" where
  "SQLLogger_Log create now entry db =
     (case AuditEntry_Validate entry of
        Some err \<Rightarrow> (Some (InvalidEntry err), db)
      | None \<Rightarrow>
          (case create entry db of
             (Some err, db') \<Rightarrow> (Some (PersistFailure (Sprintf ''creating audit log: %w'' [AErr err])), db')
           | (None, db') \<Rightarrow> (None, db')))"

definition DefaultTTLDays :: int where "DefaultTTLDays = 90"
definition MaxTTLDays :: int where "MaxTTLDays = 365"

record dynamodb_logger =
  dl_table :: string
  dl_ttl_days :: int

definition NewDynamoDBLogger :: "string \<Rightarrow> int \<Rightarrow> dynamodb_logger" where
  "NewDynamoDBLogger table ttlDays = \<lparr>dl_table = table, dl_ttl_days = ttlDays\<rparr>"

text \<open>The copy of the entry that is written, with its expiry when one is configured.\<close>

definition stamp_expiry :: "dynamodb_logger \<Rightarrow> time \<Rightarrow> audit_entry \<Rightarrow> audit_entry" where
  "stamp_expiry l now entry =
     (if dl_ttl_days l > 0
      then entry\<lparr>ae_expires_at :=
             unix (add_dur now (wrap64 (wrap64 (dl_ttl_days l * 24) * nano_hour)))\<rparr>
      else entry)"

text \<open>\<open>marshal\<close> is \<^verbatim>\<open>attributevalue.MarshalMap\<close>, \<open>put\<close> the client's \<^verbatim>\<open>PutItem\<close>.\<close>

definition DynamoDBLogger_Log ::
  "(audit_entry \<Rightarrow> gotext + 'item) \<Rightarrow> (string \<Rightarrow> 'item \<Rightarrow> 'db \<Rightarrow> gotext option \<times> 'db)
     \<Rightarrow> dynamodb_logger \<Rightarrow> time \<Rightarrow> audit_entry \<Rightarrow> 'db \<Rightarrow> audit_error option \<times> 'db" where
  "DynamoDBLogger_Log marshal put l now entry db =
     (case AuditEntry_Validate entry of
        Some err \<Rightarrow> (Some (InvalidEntry err), db)
      | None \<Rightarrow>
          (case marshal (stamp_expiry l now entry) of
             Inl err \<Rightarrow> (Some (PersistFailure (Sprintf ''marshaling audit entry: %w'' [AErr err])), db)
           | Inr av \<Rightarrow>
               (case put (dl_table l) av db of
                  (Some err, db') \<Rightarrow>
                    (Some (PersistFailure (Sprintf ''putting audit entry: %w'' [AErr err])), db')
                | (None, db') \<Rightarrow> (None, db'))))"

section \<open>The contract\<close>

text \<open>
  \<open>recorded s e\<close> says that the trail \<open>s\<close> holds entry \<open>e\<close>. A backend refuses an invalid entry,
  holds every entry that it acknowledged, and loses one at most to an entry with its request id.
\<close>

locale audit_trail =
  fixes log :: "time \<Rightarrow> audit_entry \<Rightarrow> 'a \<Rightarrow> audit_error option \<times> 'a"
    and recorded :: "'a \<Rightarrow> audit_entry \<Rightarrow> bool"
  assumes log_invalid: "AuditEntry_Validate e = Some x \<Longrightarrow> log now e s = (Some (InvalidEntry x), s)"
    and log_ok: "log now e s = (None, s') \<Longrightarrow> recorded s' e"
    and log_keeps: "recorded s e \<Longrightarrow> log now e' s = (r, s') \<Longrightarrow> ae_request_id e' \<noteq> ae_request_id e \<Longrightarrow>
      recorded s' e"
begin

lemma acknowledged_valid: "log now e s = (None, s') \<Longrightarrow> AuditEntry_Validate e = None"
  by (cases "AuditEntry_Validate e") (simp_all add: log_invalid)

text \<open>A sequence of \<^verbatim>\<open>Log\<close> calls; \<open>acked\<close> collects the entries they acknowledged.\<close>

fun log_all :: "(time \<times> audit_entry) list \<Rightarrow> 'a \<Rightarrow> audit_entry list \<times> 'a" where
  "log_all [] s = ([], s)"
| "log_all ((now, e) # es) s =
     (case log now e s of (r, s') \<Rightarrow>
        (case log_all es s' of (acked, t) \<Rightarrow> (if r = None then e # acked else acked, t)))"

lemma log_all_keeps:
  "recorded s e \<Longrightarrow> ae_request_id e \<notin> (ae_request_id \<circ> snd) ` set es \<Longrightarrow> log_all es s = (acked, t) \<Longrightarrow>
     recorded t e"
proof (induction es arbitrary: s acked)
  case (Cons x es)
  obtain now y where x: "x = (now, y)" by (cases x)
  obtain r s' where l: "log now y s = (r, s')" by fastforce
  obtain acked' where l': "log_all es s' = (acked', t)"
    using Cons.prems(3) by (auto simp: x l split: prod.splits)
  have "recorded s' e" using log_keeps [OF Cons.prems(1) l] Cons.prems(2) by (auto simp: x)
  from Cons.IH [OF this _ l'] Cons.prems(2) show ?case by simp
qed simp

lemma log_all_recorded:
  "distinct (map (ae_request_id \<circ> snd) es) \<Longrightarrow> log_all es s = (acked, t) \<Longrightarrow>
     \<forall>e\<in>set acked. recorded t e \<and> AuditEntry_Validate e = None"
proof (induction es arbitrary: s acked)
  case (Cons x es)
  obtain now y where x: "x = (now, y)" by (cases x)
  obtain r s' where l: "log now y s = (r, s')" by fastforce
  obtain acked' where l': "log_all es s' = (acked', t)"
    and acked: "acked = (if r = None then y # acked' else acked')"
    using Cons.prems(2) by (auto simp: x l split: prod.splits)
  have rest: "\<forall>e\<in>set acked'. recorded t e \<and> AuditEntry_Validate e = None"
    using Cons.IH [OF _ l'] Cons.prems(1) by simp
  show ?case
  proof (cases r)
    case None
    with l have "recorded s' y" and valid: "AuditEntry_Validate y = None"
      by (auto intro: log_ok acknowledged_valid)
    then have "recorded t y"
      using Cons.prems(1) by (intro log_all_keeps [OF _ _ l']) (auto simp: x)
    with rest valid None show ?thesis by (simp add: acked)
  qed (use rest in \<open>simp add: acked\<close>)
qed simp

end

text \<open>The console keeps a line for every entry.\<close>

interpretation console: audit_trail ConsoleLogger_Log "\<lambda>out e. e \<in> set out"
  by unfold_locales (auto simp: ConsoleLogger_Log_def split: option.splits)

text \<open>
  The table \<^verbatim>\<open>audit_logs\<close> with its unique index on \<^verbatim>\<open>request_id\<close>
  (\<^verbatim>\<open>internal/db/migrations/postgres/01_audit_logs.up.sql\<close>), as \<^verbatim>\<open>Create\<close> acts on it, and the
  DynamoDB table with that hash key (\<^verbatim>\<open>deployments/terraform/modules/aws/ecs/dynamodb.tf\<close>), as an
  unconditional \<^verbatim>\<open>PutItem\<close> acts on it.
\<close>

definition sql_create :: "audit_entry \<Rightarrow> audit_entry list \<Rightarrow> gotext option \<times> audit_entry list" where
  "sql_create e rows =
     (if list_ex (\<lambda>x. ae_request_id x = ae_request_id e) rows
      then (Some (msg ''duplicate key value violates unique constraint''), rows)
      else (None, rows @ [e]))"

definition dynamo_put ::
  "string \<Rightarrow> audit_entry \<Rightarrow> (string, audit_entry) gomap \<Rightarrow> gotext option \<times> (string, audit_entry) gomap" where
  "dynamo_put table e items = (None, AList.update (ae_request_id e) e items)"

lemma stamp_expiry_request_id [simp]: "ae_request_id (stamp_expiry l now e) = ae_request_id e"
  by (simp add: stamp_expiry_def)

lemma stamp_expiry_cases: "\<exists>x. stamp_expiry l now e = e\<lparr>ae_expires_at := x\<rparr>"
proof (cases "dl_ttl_days l > 0")
  case False
  then have "stamp_expiry l now e = e\<lparr>ae_expires_at := ae_expires_at e\<rparr>" by (simp add: stamp_expiry_def)
  then show ?thesis ..
qed (auto simp: stamp_expiry_def)

interpretation sql: audit_trail "SQLLogger_Log sql_create" "\<lambda>rows e. e \<in> set rows"
  by unfold_locales (auto simp: SQLLogger_Log_def sql_create_def split: option.splits if_splits)

definition in_items :: "(string, audit_entry) gomap \<Rightarrow> audit_entry \<Rightarrow> bool" where
  "in_items items e \<longleftrightarrow> (\<exists>x. map_of items (ae_request_id e) = Some (e\<lparr>ae_expires_at := x\<rparr>))"

interpretation dynamo: audit_trail "DynamoDBLogger_Log Inr dynamo_put l" in_items for l
proof unfold_locales
  fix e e' s r s' x now
  show "AuditEntry_Validate e = Some x \<Longrightarrow>
      DynamoDBLogger_Log Inr dynamo_put l now e s = (Some (InvalidEntry x), s)"
    by (simp add: DynamoDBLogger_Log_def)
  show "DynamoDBLogger_Log Inr dynamo_put l now e s = (None, s') \<Longrightarrow> in_items s' e"
    using stamp_expiry_cases [of l now e]
    by (auto simp: DynamoDBLogger_Log_def dynamo_put_def in_items_def split: option.splits)
  show "in_items s e \<Longrightarrow> DynamoDBLogger_Log Inr dynamo_put l now e' s = (r, s') \<Longrightarrow>
      ae_request_id e' \<noteq> ae_request_id e \<Longrightarrow> in_items s' e"
    by (auto simp: DynamoDBLogger_Log_def dynamo_put_def in_items_def split: option.splits)
qed

text \<open>
  The two stores differ when a request id comes back: the SQL table refuses the second entry, the
  DynamoDB table replaces the first one by it.
\<close>

lemma sql_reuse_refused:
  assumes "e \<in> set rows" and "ae_request_id e' = ae_request_id e" and "AuditEntry_Validate e' = None"
  shows "snd (SQLLogger_Log sql_create now e' rows) = rows \<and>
    fst (SQLLogger_Log sql_create now e' rows) \<noteq> None"
  using assms by (auto simp: SQLLogger_Log_def sql_create_def list_ex_iff)

lemma dynamo_reuse_overwrites:
  assumes "ae_request_id e' = ae_request_id e" and "AuditEntry_Validate e' = None"
    and "\<forall>x. e\<lparr>ae_expires_at := x\<rparr> \<noteq> e'\<lparr>ae_expires_at := x\<rparr>"
  shows "fst (DynamoDBLogger_Log Inr dynamo_put l now e' items) = None \<and>
    \<not> in_items (snd (DynamoDBLogger_Log Inr dynamo_put l now e' items)) e"
proof -
  obtain y where "stamp_expiry l now e' = e'\<lparr>ae_expires_at := y\<rparr>" using stamp_expiry_cases by blast
  moreover have "e'\<lparr>ae_expires_at := y\<rparr> \<noteq> e\<lparr>ae_expires_at := x\<rparr>" for x
  proof
    assume eq: "e'\<lparr>ae_expires_at := y\<rparr> = e\<lparr>ae_expires_at := x\<rparr>"
    then have "e'\<lparr>ae_expires_at := y, ae_expires_at := x\<rparr> = e\<lparr>ae_expires_at := x, ae_expires_at := x\<rparr>"
      by (rule arg_cong [where f = "\<lambda>r. r\<lparr>ae_expires_at := x\<rparr>"])
    then show False using assms(3) [rule_format, of x] by (simp add: eq_commute)
  qed
  ultimately show ?thesis
    using assms(1,2) by (auto simp: DynamoDBLogger_Log_def dynamo_put_def in_items_def)
qed

section \<open>Properties\<close>


definition example_entry :: "string \<Rightarrow> string \<Rightarrow> audit_entry" where
  "example_entry i caller =
     \<lparr>ae_request_id = i, ae_timestamp = 1, ae_caller = caller, ae_claims = [], ae_target_repository = ''o/r'',
      ae_policy_name = [], ae_permissions = [], ae_outcome = OutcomeDenied, ae_deny_reason = ''x'',
      ae_token_hash = [], ae_ttl = 0, ae_github_client_id = [], ae_expires_at = 0\<rparr>"




end
