(* ===== verification/Crypto_Utils.thy ===== *)
theory Crypto_Utils
  imports Policy_Config "HOL-Library.List_Lexorder" "HOL-Library.Char_ord"
begin

text \<open>
  Digests and keys: \<^verbatim>\<open>internal/utils/crypto.go\<close> and \<^verbatim>\<open>PolicyConfig.IssuersFingerprint\<close>
  (\<^verbatim>\<open>internal/config/policy.go\<close>). SHA-256 is an arbitrary function on byte strings; the PEM and
  X.509 parsers are arguments. Go orders strings bytewise, which is the lexicographic order here.
\<close>

definition hex_digit :: "nat \<Rightarrow> char" where
  "hex_digit n = ''0123456789abcdef'' ! n"

text \<open>\<^verbatim>\<open>hex.EncodeToString\<close>.\<close>

definition hex_encode :: "string \<Rightarrow> string" where
  "hex_encode s =
     concat (map (\<lambda>c. [hex_digit (of_char c div 16), hex_digit (of_char c mod 16)]) s)"

definition HashString :: "(string \<Rightarrow> string) \<Rightarrow> string \<Rightarrow> string" where
  "HashString sha256 s = ''sha256:'' @ hex_encode (sha256 s)"

definition newline :: char where "newline = CHR 0x0A"

text \<open>\<^verbatim>\<open>remdups_adj\<close> is \<^verbatim>\<open>slices.Compact\<close>; the digest is fed with one line for each issuer.\<close>

definition IssuersFingerprint :: "(string \<Rightarrow> string) \<Rightarrow> policy_config \<Rightarrow> string" where
  "IssuersFingerprint sha256 p =
     (let issuers = sort (Issuers p)
      in hex_encode (sha256 (concat (map (\<lambda>issuer. issuer @ [newline]) (remdups_adj issuers)))))"

section \<open>Private keys\<close>

definition PEMTypeRSAPrivateKey :: string where "PEMTypeRSAPrivateKey = ''RSA PRIVATE KEY''"
definition PEMTypePrivateKey :: string where "PEMTypePrivateKey = ''PRIVATE KEY''"

datatype key_error =
    ErrInvalidPrivateKey "gotext option"
  | ErrInvalidPEMType string
  | ErrNotRSAKey

text \<open>
  \<open>pem_decode\<close> yields the type and the bytes of the first block; \<open>pkcs8\<close> a key, or none when the
  key it holds is not an RSA key.
\<close>

definition ParseRSAPrivateKey ::
  "(string \<Rightarrow> (string \<times> string) option) \<Rightarrow> (string \<Rightarrow> gotext + 'k) \<Rightarrow> (string \<Rightarrow> gotext + 'k option)
     \<Rightarrow> string \<Rightarrow> key_error + 'k" where
  "ParseRSAPrivateKey pem_decode pkcs1 pkcs8 pemStr =
     (case pem_decode pemStr of
        None \<Rightarrow> Inl (ErrInvalidPrivateKey None)
      | Some (btype, bytes) \<Rightarrow>
          if btype \<noteq> PEMTypeRSAPrivateKey \<and> btype \<noteq> PEMTypePrivateKey
          then Inl (ErrInvalidPEMType btype)
          else
            (case pkcs1 bytes of
               Inr key \<Rightarrow> Inr key
             | Inl err \<Rightarrow>
                 (case pkcs8 bytes of
                    Inl pkcs8Err \<Rightarrow> Inl (ErrInvalidPrivateKey (Some pkcs8Err))
                  | Inr None \<Rightarrow> Inl ErrNotRSAKey
                  | Inr (Some key) \<Rightarrow> Inr key)))"

section \<open>Hex digests determine the bytes\<close>

lemma hex_digit_inj: "a < 16 \<Longrightarrow> b < 16 \<Longrightarrow> hex_digit a = hex_digit b \<longleftrightarrow> a = b"
proof -
  have "distinct ''0123456789abcdef''" by code_simp
  then show "a < 16 \<Longrightarrow> b < 16 \<Longrightarrow> ?thesis"
    unfolding hex_digit_def by (intro nth_eq_iff_index_eq) simp_all
qed

lemma hex_byte_inj:
  assumes "hex_digit (of_char c div 16) = hex_digit (of_char d div 16)"
    and "hex_digit (of_char c mod 16) = hex_digit (of_char d mod 16)"
  shows "c = d"
proof -
  have lt: "of_char x div 16 < (16 :: nat)" for x :: char
    by (cases x) (simp add: less_mult_imp_div_less)
  have "of_char c div 16 = (of_char d div 16 :: nat)"
    using assms(1) hex_digit_inj [OF lt lt] by blast
  moreover have "of_char c mod 16 = (of_char d mod 16 :: nat)"
    using assms(2) hex_digit_inj [of "of_char c mod 16" "of_char d mod 16"] by simp
  ultimately have "of_char c = (of_char d :: nat)"
    by (metis div_mult_mod_eq)
  then show "c = d" by simp
qed

lemma hex_encode_inj: "hex_encode s = hex_encode t \<Longrightarrow> s = t"
proof (induction s arbitrary: t)
  case Nil
  then show ?case by (cases t) (simp_all add: hex_encode_def)
next
  case (Cons c s)
  then obtain d u where t: "t = d # u" by (cases t) (simp_all add: hex_encode_def)
  with Cons.prems have "hex_encode s = hex_encode u" and "c = d"
    by (auto simp: hex_encode_def intro: hex_byte_inj)
  with Cons.IH t show ?case by simp
qed

lemma HashString_nonempty [simp]: "HashString sha256 s \<noteq> []"
  by (simp add: HashString_def)

text \<open>Two strings share a hash only when they share the digest.\<close>

lemma HashString_eq: "HashString sha256 s = HashString sha256 t \<longleftrightarrow> sha256 s = sha256 t"
  unfolding HashString_def by (auto dest: hex_encode_inj)

section \<open>The fingerprint identifies the set of issuers\<close>

lemma distinct_compact: "sorted xs \<Longrightarrow> distinct (remdups_adj xs)" for xs :: "string list"
  by (induction xs rule: remdups_adj.induct) (auto simp: dest: order.antisym)

lemma sort_compact: "remdups_adj (sort xs) = sorted_list_of_set (set xs)" for xs :: "string list"
proof -
  have "sorted (remdups_adj (sort xs))" by (simp add: sorted_remdups_adj)
  moreover have "distinct (remdups_adj (sort xs))"
    by (simp add: distinct_compact)
  ultimately show ?thesis
    by (metis remdups_adj_set set_sort sorted_list_of_set.idem_if_sorted_distinct)
qed

lemma until_eq:
  "c \<notin> set x \<Longrightarrow> c \<notin> set y \<Longrightarrow> x @ c # a = y @ c # b \<longleftrightarrow> x = y \<and> a = b"
proof (induction x arbitrary: y)
  case Nil
  then show ?case by (cases y) auto
next
  case (Cons d x)
  then show ?case by (cases y) auto
qed

lemma lines_inj:
  assumes "\<forall>x\<in>set xs \<union> set ys. newline \<notin> set x"
    and "concat (map (\<lambda>x. x @ [newline]) xs) = concat (map (\<lambda>x. x @ [newline]) ys)"
  shows "xs = ys"
  using assms
proof (induction xs arbitrary: ys)
  case Nil
  then show ?case by (cases ys) simp_all
next
  case (Cons x xs)
  then obtain y zs where ys: "ys = y # zs" by (cases ys) simp_all
  have "x = y \<and> concat (map (\<lambda>x. x @ [newline]) xs) = concat (map (\<lambda>x. x @ [newline]) zs)"
    using Cons.prems by (simp add: ys until_eq)
  with Cons.IH [of zs] Cons.prems(1) ys show ?case by simp
qed

lemma IssuersFingerprint_set:
  "IssuersFingerprint sha256 p =
     hex_encode (sha256 (concat (map (\<lambda>x. x @ [newline]) (sorted_list_of_set (set (Issuers p))))))"
  by (simp add: IssuersFingerprint_def sort_compact)

lemma IssuersFingerprint_eq_iff:
  assumes "\<And>x y. sha256 x = sha256 y \<Longrightarrow> x = y"
    and "\<forall>x\<in>set (Issuers p) \<union> set (Issuers q). newline \<notin> set x"
  shows "IssuersFingerprint sha256 p = IssuersFingerprint sha256 q \<longleftrightarrow> set (Issuers p) = set (Issuers q)"
proof
  assume "IssuersFingerprint sha256 p = IssuersFingerprint sha256 q"
  then have "concat (map (\<lambda>x. x @ [newline]) (sorted_list_of_set (set (Issuers p)))) =
      concat (map (\<lambda>x. x @ [newline]) (sorted_list_of_set (set (Issuers q))))"
    unfolding IssuersFingerprint_set by (rule assms(1) [OF hex_encode_inj])
  then have "sorted_list_of_set (set (Issuers p)) = sorted_list_of_set (set (Issuers q))"
    using assms(2) by (intro lines_inj) simp_all
  then show "set (Issuers p) = set (Issuers q)" by (metis List.finite_set set_sorted_list_of_set)
qed (simp add: IssuersFingerprint_set)

section \<open>Properties\<close>

text \<open>The issuers' fingerprint. It depends only on the set of issuers, not on their order or on
  duplicates; and for a collision-free digest and issuers without a newline, two configurations have
  the same fingerprint exactly when they trust the same set of issuers.\<close>

lemma fingerprint_identifies_issuers:
  assumes "\<And>x y. sha256 x = sha256 y \<Longrightarrow> x = y"
    and "\<forall>x\<in>set (Issuers p) \<union> set (Issuers q). newline \<notin> set x"
  shows "IssuersFingerprint sha256 p = IssuersFingerprint sha256 q \<longleftrightarrow> set (Issuers p) = set (Issuers q)"
  using assms by (rule IssuersFingerprint_eq_iff)

definition issuers_config :: "string list \<Rightarrow> policy_config" where
  "issuers_config is =
     \<lparr>pol_version = [], pol_trust_policy_path = [], pol_default_token_ttl = 0, pol_max_token_ttl = 0,
      pol_require_explicit_policy = False, pol_github_api_base_url = [], pol_github_raw_base_url = [],
      pol_providers = map (\<lambda>i. \<lparr>prov_issuer = i, prov_name = [], prov_required_claims = [],
        prov_forbidden_claims = [], prov_time_restrictions = None\<rparr>) is,
      pol_max_permissions = []\<rparr>"

end
