(* ===== verification/Exchange.thy ===== *)
theory Exchange
  imports Authorizer Oidc_Validator Token_Tracker Audit_Log Crypto_Utils
begin

text \<open>
  The token exchange, \<^verbatim>\<open>internal/sts/sts.go\<close> and \<^verbatim>\<open>internal/sts/errors.go\<close>: request validation,
  OIDC validation, authorisation, app selection, minting, usage, tracking and audit, in the order
  of \<^verbatim>\<open>Service.exchange\<close>, with every early return. The log line of a call is in \<^verbatim>\<open>Service_Api\<close>, its spans in \<^verbatim>\<open>Observability\<close>,
  the revocation of expired tokens in \<^verbatim>\<open>Service_Run\<close>.

  \<open>service\<close> is what \<^verbatim>\<open>NewService\<close> fixes, \<open>service_state\<close> what the calls change. \<open>exchange_env\<close>
  holds the libraries, \<open>exchange_readings\<close> what one call reads of clocks and random numbers.
  A result \<open>None\<close> is a panic (a nil dereference).
\<close>

section \<open>Requests, responses, errors\<close>

record exchange_request =
  xq_oidc_token :: string
  xq_target_repository :: string
  xq_policy_name :: string
  xq_requested_permissions :: "(string, string) gomap"
  xq_requested_ttl :: int

record exchange_response =
  xp_token :: string
  xp_expires_at :: time
  xp_matched_policy :: string
  xp_permissions :: "(string, string) gomap"
  xp_request_id :: string
  xp_issuer :: string
  xp_subject :: string
  xp_client_id :: string
  xp_token_hash :: string
  xp_ttl :: int

definition ErrInvalidToken :: string where "ErrInvalidToken = ''INVALID_TOKEN''"
definition ErrInvalidRequest :: string where "ErrInvalidRequest = ''INVALID_REQUEST''"
definition ErrRateLimited :: string where "ErrRateLimited = ''RATE_LIMITED''"
definition ErrAppSelectionFailed :: string where "ErrAppSelectionFailed = ''APP_SELECTION_FAILED''"
definition ErrClientNotFound :: string where "ErrClientNotFound = ''GITHUB_CLIENT_NOT_FOUND''"
definition ErrInternalError :: string where "ErrInternalError = ''INTERNAL_ERROR''"
definition ErrPolicyLoadFailed :: string where "ErrPolicyLoadFailed = ''POLICY_LOAD_FAILED''"
definition ErrTrustPolicyNotFound :: string where "ErrTrustPolicyNotFound = ''TRUST_POLICY_NOT_FOUND''"
definition ErrRepositoryNotFound_sts :: string where
  "ErrRepositoryNotFound_sts = ''REPOSITORY_NOT_FOUND''"
definition ErrPolicyNotFound :: string where "ErrPolicyNotFound = ''POLICY_NOT_FOUND''"
definition ErrIssuerNotAllowed :: string where "ErrIssuerNotAllowed = ''ISSUER_NOT_ALLOWED''"
definition ErrGitHubAPIError :: string where "ErrGitHubAPIError = ''GITHUB_API_ERROR''"

lemmas sts_codes =
  ErrInvalidToken_def ErrInvalidRequest_def ErrRateLimited_def ErrAppSelectionFailed_def
  ErrClientNotFound_def ErrInternalError_def ErrPolicyLoadFailed_def ErrTrustPolicyNotFound_def
  ErrRepositoryNotFound_sts_def ErrPolicyNotFound_def ErrIssuerNotAllowed_def ErrGitHubAPIError_def

record exchange_error =
  xe_code :: string
  xe_message :: gotext
  xe_details :: gotext
  xe_request_id :: string
  xe_retry_after :: int
  xe_issuer :: string
  xe_subject :: string

definition ExchangeError :: "string \<Rightarrow> gotext \<Rightarrow> gotext \<Rightarrow> string \<Rightarrow> exchange_error" where
  "ExchangeError code message details requestID =
     \<lparr>xe_code = code, xe_message = message, xe_details = details, xe_request_id = requestID,
      xe_retry_after = 0, xe_issuer = [], xe_subject = []\<rparr>"

definition WithCaller :: "exchange_error \<Rightarrow> string \<Rightarrow> string \<Rightarrow> exchange_error" where
  "WithCaller e issuer subject = e\<lparr>xe_issuer := issuer, xe_subject := subject\<rparr>"

lemma ExchangeError_simps [simp]:
  "xe_code (ExchangeError c m d r) = c" "xe_retry_after (ExchangeError c m d r) = 0"
  "xe_issuer (ExchangeError c m d r) = []" "xe_subject (ExchangeError c m d r) = []"
  "xe_request_id (ExchangeError c m d r) = r" "xe_message (ExchangeError c m d r) = m"
  "xe_details (ExchangeError c m d r) = d"
  by (simp_all add: ExchangeError_def)

lemma WithCaller_simps [simp]:
  "xe_code (WithCaller e i s) = xe_code e" "xe_issuer (WithCaller e i s) = i"
  "xe_subject (WithCaller e i s) = s" "xe_retry_after (WithCaller e i s) = xe_retry_after e"
  "xe_request_id (WithCaller e i s) = xe_request_id e" "xe_message (WithCaller e i s) = xe_message e"
  by (simp_all add: WithCaller_def)

text \<open>The texts of an exchange error and of a denial.\<close>

definition detailed :: "string \<Rightarrow> gotext \<Rightarrow> gotext \<Rightarrow> gotext" where
  "detailed code message details =
     (if details \<noteq> no_text then Sprintf ''%s: %s (%s)'' [AStr code, AErr message, AErr details]
      else Sprintf ''%s: %s'' [AStr code, AErr message])"

definition ExchangeError_Error :: "exchange_error \<Rightarrow> gotext" where
  "ExchangeError_Error e = detailed (xe_code e) (xe_message e) (xe_details e)"

definition DenialError_Error :: "denial_error \<Rightarrow> gotext" where
  "DenialError_Error e = detailed (code_string (de_code e)) (de_message e) (de_details e)"

text \<open>The exchange error made of a denial reads like the denial, whoever called.\<close>

lemma denial_text:
  "ExchangeError_Error (WithCaller (ExchangeError (code_string (de_code d)) (de_message d) (de_details d) i) iss sub) =
     DenialError_Error d"
  by (simp add: ExchangeError_Error_def DenialError_Error_def WithCaller_def ExchangeError_def)

section \<open>The parts of an exchange\<close>

text \<open>The expression \<^verbatim>\<open>^[a-zA-Z0-9._-]+$\<close>.\<close>

definition github_name_char :: "char \<Rightarrow> bool" where
  "github_name_char c =
     (let n = (of_char c :: nat)
      in 97 \<le> n \<and> n \<le> 122 \<or> 65 \<le> n \<and> n \<le> 90 \<or> 48 \<le> n \<and> n \<le> 57 \<or>
         c = CHR ''.'' \<or> c = CHR ''_'' \<or> c = CHR ''-'')"

definition validGitHubName :: "string \<Rightarrow> bool" where
  "validGitHubName s \<longleftrightarrow> s \<noteq> [] \<and> list_all github_name_char s"

definition validateRequest :: "int \<Rightarrow> exchange_request \<Rightarrow> gotext option" where
  "validateRequest maxTTL req =
     (if xq_oidc_token req = [] then Some (msg ''oidc_token is required'')
      else if xq_target_repository req = [] then Some (msg ''target_repository is required'')
      else if (case splitN (CHR ''/'') 3 (xq_target_repository req) of
                 [owner, repo] \<Rightarrow> \<not> validGitHubName owner \<or> \<not> validGitHubName repo
               | _ \<Rightarrow> True)
      then Some (msg ''target_repository must be in owner/repo format (alphanumeric, hyphens, underscores, dots only)'')
      else if xq_requested_ttl req < 0 then Some (msg ''requested_ttl cannot be negative'')
      else if maxTTL > 0 \<and> xq_requested_ttl req > maxTTL
      then Some (Sprintf ''requested_ttl (%d) exceeds maximum (%d)'' [AInt (xq_requested_ttl req), AInt maxTTL])
      else None)"

definition claimsToMap :: "oidc_claims \<Rightarrow> claims" where
  "claimsToMap c =
     (let m = [(''iss'', CStr (oc_issuer c)), (''sub'', CStr (oc_subject c)), (''aud'', CStrings (oc_audience c))];
          m = (if \<not> is_zero (oc_expires_at c) then AList.update ''exp'' (CInt (unix (oc_expires_at c))) m else m)
      in foldl (\<lambda>m (k, v). AList.update k v m) m (oc_custom c))"

text \<open>\<open>sprint_v\<close> renders a value as \<^verbatim>\<open>fmt.Sprintf("%v", v)\<close> does.\<close>

definition flattenClaims :: "(claim_value \<Rightarrow> string) \<Rightarrow> oidc_claims \<Rightarrow> (string, string) gomap" where
  "flattenClaims sprint_v c =
     foldl (\<lambda>m (k, v). AList.update k (sprint_v v) m)
       [(''iss'', oc_issuer c), (''sub'', oc_subject c)] (oc_custom c)"

definition capExpiry :: "time \<Rightarrow> time \<Rightarrow> int \<Rightarrow> time" where
  "capExpiry now ghExpiry ttlSeconds =
     (let maxExpiry = add_dur now (dur_of ttlSeconds nano_second)
      in if after ghExpiry maxExpiry then maxExpiry else ghExpiry)"

section \<open>The service\<close>

record ('s, 'g) service =
  sv_oidc :: validator
  sv_authorizer :: "('s, 'g) authorizer"
  sv_selector :: selector
  sv_store :: "'s store_ops"
  sv_clients :: "(string, 'g client_iface) gomap"
  sv_max_ttl :: int

record ('p, 'w, 's, 'g, 'a) service_state =
  ss_oidc :: "('p, 'w) oidc_state"
  ss_auth :: "('s, 'g) auth_state"
  ss_tracker :: token_tracker
  ss_audit :: 'a

record ('p, 'w, 'a) exchange_env =
  ee_rx :: regex_engine
  ee_yaml :: yaml_decoder
  ee_oidc :: "('p, 'w) oidc_lib"
  ee_audit :: "'a audit_backend"
  ee_sha256 :: "string \<Rightarrow> string"
  ee_sprint_v :: "claim_value \<Rightarrow> string"

record exchange_readings =
  xr_central :: time
  xr_fetch :: fetch_readings
  xr_select :: select_readings
  xr_record :: time
  xr_cap :: time
  xr_audit :: time
  xr_log :: time

definition auditGranted ::
  "('p, 'w, 'a) exchange_env \<Rightarrow> exchange_readings \<Rightarrow> string \<Rightarrow> oidc_claims \<Rightarrow> exchange_request
     \<Rightarrow> auth_result \<Rightarrow> string \<Rightarrow> string \<Rightarrow> 'a \<Rightarrow> audit_error option \<times> 'a" where
  "auditGranted env rd requestID claims req result clientID tokenHash =
     ab_Log (ee_audit env) (xr_log rd)
       \<lparr>ae_request_id = requestID,
        ae_timestamp = unix (xr_audit rd),
        ae_caller = oc_subject claims,
        ae_claims = flattenClaims (ee_sprint_v env) claims,
        ae_target_repository = xq_target_repository req,
        ae_policy_name = res_matched_policy result,
        ae_permissions = res_permissions result,
        ae_outcome = OutcomeGranted,
        ae_deny_reason = [],
        ae_token_hash = tokenHash,
        ae_ttl = res_ttl result,
        ae_github_client_id = clientID,
        ae_expires_at = 0\<rparr>"

definition denied_entry ::
  "('p, 'w, 'a) exchange_env \<Rightarrow> exchange_readings \<Rightarrow> string \<Rightarrow> oidc_claims \<Rightarrow> exchange_request
     \<Rightarrow> string \<Rightarrow> audit_entry" where
  "denied_entry env rd requestID claims req reason =
     \<lparr>ae_request_id = requestID,
      ae_timestamp = unix (xr_audit rd),
      ae_caller = oc_subject claims,
      ae_claims = flattenClaims (ee_sprint_v env) claims,
      ae_target_repository = xq_target_repository req,
      ae_policy_name = xq_policy_name req,
      ae_permissions = [],
      ae_outcome = OutcomeDenied,
      ae_deny_reason = reason,
      ae_token_hash = [],
      ae_ttl = 0,
      ae_github_client_id = [],
      ae_expires_at = 0\<rparr>"

text \<open>A failure to write the entry is only logged, so the result of \<^verbatim>\<open>Log\<close> is dropped.\<close>

definition auditDenied ::
  "('p, 'w, 'a) exchange_env \<Rightarrow> exchange_readings \<Rightarrow> string \<Rightarrow> oidc_claims \<Rightarrow> exchange_request
     \<Rightarrow> string \<Rightarrow> ('p, 'w, 's, 'g, 'a) service_state \<Rightarrow> ('p, 'w, 's, 'g, 'a) service_state" where
  "auditDenied env rd requestID claims req reason st =
     st\<lparr>ss_audit := snd (ab_Log (ee_audit env) (xr_log rd)
          (denied_entry env rd requestID claims req reason) (ss_audit st))\<rparr>"

definition auth_request_of :: "oidc_claims \<Rightarrow> exchange_request \<Rightarrow> auth_request" where
  "auth_request_of claims req =
     \<lparr>ar_claims = claimsToMap claims,
      ar_issuer = oc_issuer claims,
      ar_target_repository = xq_target_repository req,
      ar_policy_name = xq_policy_name req,
      ar_requested_permissions = xq_requested_permissions req,
      ar_requested_ttl = xq_requested_ttl req\<rparr>"

text \<open>The rate-limit query after minting; its failures are only logged.\<close>

definition record_rate ::
  "('s, 'g) service \<Rightarrow> 'g client_iface \<Rightarrow> exchange_readings \<Rightarrow> string \<Rightarrow> string
     \<Rightarrow> ('s, 'g) auth_state \<Rightarrow> ('s, 'g) auth_state" where
  "record_rate sv client rd clientID token au =
     (case ci_RateLimit client token (as_github au) of
        (Inl err, g) \<Rightarrow> au\<lparr>as_github := g\<rparr>
      | (Inr info, g) \<Rightarrow>
          au\<lparr>as_github := g,
             as_store := snd (RecordUsage (sv_store sv) (xr_record rd) clientID
               (rli_remaining info) (rli_reset_at info) (as_store au))\<rparr>)"

text \<open>From the minted token to the response.\<close>

definition exchange_finish ::
  "('p, 'w, 'a) exchange_env \<Rightarrow> exchange_readings \<Rightarrow> string \<Rightarrow> oidc_claims \<Rightarrow> exchange_request
     \<Rightarrow> auth_result \<Rightarrow> app \<Rightarrow> token_response \<Rightarrow> ('p, 'w, 's, 'g, 'a) service_state
     \<Rightarrow> (exchange_error + exchange_response) option \<times> ('p, 'w, 's, 'g, 'a) service_state" where
  "exchange_finish env rd requestID claims req result chosen tokenResp st =
     (let expires = capExpiry (xr_cap rd) (trs_expires_at tokenResp) (res_ttl result);
          tokenHash = HashString (ee_sha256 env) (trs_token tokenResp);
          st = st\<lparr>ss_tracker := TokenTracker_Record tokenHash (trs_token tokenResp) expires (ss_tracker st)\<rparr>
      in case auditGranted env rd requestID claims req result (app_client_id chosen) tokenHash (ss_audit st) of
           (Some err, log) \<Rightarrow>
             (Some (Inl (WithCaller (ExchangeError ErrInternalError (msg ''Audit log failed'')
                (audit_error_text err) requestID)
                (oc_issuer claims) (oc_subject claims))), st\<lparr>ss_audit := log\<rparr>)
         | (None, log) \<Rightarrow>
             (Some (Inr \<lparr>xp_token = trs_token tokenResp,
                         xp_expires_at = expires,
                         xp_matched_policy = res_matched_policy result,
                         xp_permissions = res_permissions result,
                         xp_request_id = requestID,
                         xp_issuer = oc_issuer claims,
                         xp_subject = oc_subject claims,
                         xp_client_id = app_client_id chosen,
                         xp_token_hash = tokenHash,
                         xp_ttl = res_ttl result\<rparr>), st\<lparr>ss_audit := log\<rparr>))"

text \<open>From the authorisation to the minted token.\<close>

definition exchange_mint ::
  "('p, 'w, 'a) exchange_env \<Rightarrow> ('s, 'g) service \<Rightarrow> exchange_readings \<Rightarrow> string \<Rightarrow> oidc_claims
     \<Rightarrow> exchange_request \<Rightarrow> auth_result \<Rightarrow> ('p, 'w, 's, 'g, 'a) service_state
     \<Rightarrow> (exchange_error + exchange_response) option \<times> ('p, 'w, 's, 'g, 'a) service_state" where
  "exchange_mint env sv rd requestID claims req result st =
     (case SelectApp (sv_store sv) (sv_selector sv) (sr_loop (xr_select rd)) (sr_now (xr_select rd))
             (sr_until (xr_select rd)) (sr_rand (xr_select rd)) (xq_target_repository req)
             (as_store (ss_auth st)) of
        (Inl err, s) \<Rightarrow>
          (let st = st\<lparr>ss_auth := (ss_auth st)\<lparr>as_store := s\<rparr>\<rparr>
           in case err of
                ExhaustedError n \<Rightarrow>
                  (Some (Inl (WithCaller
                     ((ExchangeError ErrRateLimited (msg ''All GitHub Apps exhausted rate limits'')
                        no_text requestID)\<lparr>xe_retry_after := n\<rparr>)
                     (oc_issuer claims) (oc_subject claims))),
                   auditDenied env rd requestID claims req ErrRateLimited st)
              | _ \<Rightarrow>
                  (Some (Inl (WithCaller
                     (ExchangeError ErrInternalError (msg ''Failed to select GitHub App'')
                        (select_error_text err) requestID)
                     (oc_issuer claims) (oc_subject claims))),
                   auditDenied env rd requestID claims req ErrAppSelectionFailed st))
      | (Inr chosen, s) \<Rightarrow>
          (let st = st\<lparr>ss_auth := (ss_auth st)\<lparr>as_store := s\<rparr>\<rparr>
           in case map_of (sv_clients sv) (app_client_id chosen) of
                None \<Rightarrow>
                  (Some (Inl (WithCaller
                     (ExchangeError ErrInternalError (msg ''GitHub client not found for app'')
                        (msg (app_client_id chosen)) requestID)
                     (oc_issuer claims) (oc_subject claims))),
                   auditDenied env rd requestID claims req ErrClientNotFound st)
              | Some client \<Rightarrow>
                  (case ci_RequestToken client
                          \<lparr>trq_repository = xq_target_repository req,
                           trq_permissions = res_permissions result\<rparr> (as_github (ss_auth st)) of
                     (Inl err, g) \<Rightarrow>
                       (Some (Inl (WithCaller
                          (ExchangeError ErrGitHubAPIError (msg ''Failed to request GitHub token'')
                             (gh_error_text err) requestID)
                          (oc_issuer claims) (oc_subject claims))),
                        auditDenied env rd requestID claims req ErrGitHubAPIError
                          (st\<lparr>ss_auth := (ss_auth st)\<lparr>as_github := g\<rparr>\<rparr>))
                   | (Inr tokenResp, g) \<Rightarrow>
                       (let au = record_rate sv client rd (app_client_id chosen) (trs_token tokenResp)
                                   ((ss_auth st)\<lparr>as_github := g\<rparr>)
                        in exchange_finish env rd requestID claims req result chosen tokenResp
                             (st\<lparr>ss_auth := au\<rparr>)))))"

definition exchange ::
  "('p, 'w, 'a) exchange_env \<Rightarrow> ('s, 'g) service \<Rightarrow> exchange_readings \<Rightarrow> string
     \<Rightarrow> exchange_request \<Rightarrow> ('p, 'w, 's, 'g, 'a) service_state
     \<Rightarrow> (exchange_error + exchange_response) option \<times> ('p, 'w, 's, 'g, 'a) service_state" where
  "exchange env sv rd requestID req st =
     (case validateRequest (sv_max_ttl sv) req of
        Some validationErr \<Rightarrow>
          (Some (Inl (ExchangeError ErrInvalidRequest (msg ''Invalid request'') validationErr requestID)), st)
      | None \<Rightarrow>
          (case Validator_Validate (ee_oidc env) (sv_oidc sv) (xq_oidc_token req) (ss_oidc st) of
             (Inl err, os) \<Rightarrow>
               (Some (Inl (ExchangeError ErrInvalidToken (msg ''OIDC token validation failed'')
                  (oidc_error_text err) requestID)), st\<lparr>ss_oidc := os\<rparr>)
           | (Inr claims, os) \<Rightarrow>
               (case Authorize (ee_rx env) (ee_yaml env) (sv_authorizer sv) (xr_central rd) (xr_fetch rd)
                       (auth_request_of claims req) (ss_auth st) of
                  (result, au) \<Rightarrow>
                    (let st = st\<lparr>ss_oidc := os, ss_auth := au\<rparr>
                     in if \<not> res_allowed result
                        then (case res_deny_reason result of
                                None \<Rightarrow> (None, st)
                              | Some d \<Rightarrow>
                                  (Some (Inl (WithCaller
                                     (ExchangeError (code_string (de_code d)) (de_message d) (de_details d) requestID)
                                     (oc_issuer claims) (oc_subject claims))),
                                   auditDenied env rd requestID claims req (code_string (de_code d)) st))
                        else exchange_mint env sv rd requestID claims req result st))))"

end
