(* ===== verification/Exchange_Correct.thy ===== *)
theory Exchange_Correct
  imports Exchange
begin

text \<open>
  What an exchange guarantees: it never panics; a granted token was authorised by both layers,
  comes from an app of the repository's owner, carries exactly the granted permissions, expires in
  time, is tracked and is on record; a denied request mints nothing.
\<close>

section \<open>Wiring and invariant\<close>

text \<open>How \<^verbatim>\<open>NewService\<close> wires the parts, from a configuration that passed validation.\<close>

definition service_built :: "regex_engine \<Rightarrow> ('s, 'g) service \<Rightarrow> bool" where
  "service_built rx sv \<longleftrightarrow>
     authorizer_built rx (sv_authorizer sv) \<and>
     sv_selector sv = au_selector (sv_authorizer sv) \<and>
     sv_store sv = au_store (sv_authorizer sv) \<and>
     sv_clients sv = au_clients (sv_authorizer sv) \<and>
     sv_max_ttl sv = pol_max_token_ttl (au_config (sv_authorizer sv)) \<and>
     va_issuers (sv_oidc sv) = Issuers (au_config (sv_authorizer sv))"

definition service_inv ::
  "('s, 'g) service \<Rightarrow> (string \<Rightarrow> 'p \<Rightarrow> bool) \<Rightarrow> ('p, 'w, 's, 'g, 'a) service_state \<Rightarrow> bool" where
  "service_inv sv origin st \<longleftrightarrow>
     providers_ok (sv_oidc sv) origin (ss_oidc st) \<and>
     cache_all file_good (as_cache (ss_auth st)) \<and>
     gm_wf (ss_tracker st)"

section \<open>The stages of an exchange\<close>

lemma auditDenied_simps [simp]:
  "ss_oidc (auditDenied env rd i c req r st) = ss_oidc st"
  "ss_auth (auditDenied env rd i c req r st) = ss_auth st"
  "ss_tracker (auditDenied env rd i c req r st) = ss_tracker st"
  by (simp_all add: auditDenied_def)

lemma record_rate_cache [simp]: "as_cache (record_rate sv client rd i t au) = as_cache au"
  by (simp add: record_rate_def split: prod.splits sum.splits)

text \<open>The last stage always records the token, whatever the audit says.\<close>

lemma exchange_finish_state:
  "exchange_finish env rd i c req result a tr st = (r, st') \<Longrightarrow>
     ss_oidc st' = ss_oidc st \<and> ss_auth st' = ss_auth st \<and>
     ss_tracker st' = TokenTracker_Record (HashString (ee_sha256 env) (trs_token tr)) (trs_token tr)
       (capExpiry (xr_cap rd) (trs_expires_at tr) (res_ttl result)) (ss_tracker st)"
  by (auto simp: exchange_finish_def Let_def split: prod.splits option.splits)

text \<open>How an exchange ends, stage by stage.\<close>

lemma Authorize_denies:
  "Authorize rx yaml a now rd areq au = (result, au') \<Longrightarrow> \<not> res_allowed result \<Longrightarrow>
     \<exists>d. res_deny_reason result = Some d"
  using Authorize_shape [of rx yaml a now rd areq au] by simp

lemma exchange_cases:
  obtains
    (invalid) err where "validateRequest (sv_max_ttl sv) req = Some err"
      "exchange env sv rd i req st =
        (Some (Inl (ExchangeError ErrInvalidRequest (msg ''Invalid request'') err i)), st)"
  | (bad_token) err os where "validateRequest (sv_max_ttl sv) req = None"
      "Validator_Validate (ee_oidc env) (sv_oidc sv) (xq_oidc_token req) (ss_oidc st) = (Inl err, os)"
      "exchange env sv rd i req st =
        (Some (Inl (ExchangeError ErrInvalidToken (msg ''OIDC token validation failed'')
           (oidc_error_text err) i)), st\<lparr>ss_oidc := os\<rparr>)"
  | (refused) c os result au d where "validateRequest (sv_max_ttl sv) req = None"
      "Validator_Validate (ee_oidc env) (sv_oidc sv) (xq_oidc_token req) (ss_oidc st) = (Inr c, os)"
      "Authorize (ee_rx env) (ee_yaml env) (sv_authorizer sv) (xr_central rd) (xr_fetch rd)
         (auth_request_of c req) (ss_auth st) = (result, au)"
      "res_deny_reason result = Some d" "\<not> res_allowed result"
      "exchange env sv rd i req st =
        (Some (Inl (WithCaller (ExchangeError (code_string (de_code d)) (de_message d) (de_details d) i)
           (oc_issuer c) (oc_subject c))),
         auditDenied env rd i c req (code_string (de_code d)) (st\<lparr>ss_oidc := os, ss_auth := au\<rparr>))"
  | (passed) c os result au where "validateRequest (sv_max_ttl sv) req = None"
      "Validator_Validate (ee_oidc env) (sv_oidc sv) (xq_oidc_token req) (ss_oidc st) = (Inr c, os)"
      "Authorize (ee_rx env) (ee_yaml env) (sv_authorizer sv) (xr_central rd) (xr_fetch rd)
         (auth_request_of c req) (ss_auth st) = (result, au)"
      "res_allowed result"
      "exchange env sv rd i req st =
        exchange_mint env sv rd i c req result (st\<lparr>ss_oidc := os, ss_auth := au\<rparr>)"
proof (cases "validateRequest (sv_max_ttl sv) req")
  case (Some err)
  then show ?thesis by (intro invalid) (simp_all add: exchange_def)
next
  case None
  note valid = None
  obtain v os where v: "Validator_Validate (ee_oidc env) (sv_oidc sv) (xq_oidc_token req) (ss_oidc st) = (v, os)"
    by fastforce
  show ?thesis
  proof (cases v)
    case (Inl err)
    with valid v show ?thesis by (intro bad_token) (simp_all add: exchange_def)
  next
    case (Inr c)
    obtain result au where a: "Authorize (ee_rx env) (ee_yaml env) (sv_authorizer sv) (xr_central rd)
        (xr_fetch rd) (auth_request_of c req) (ss_auth st) = (result, au)" by fastforce
    show ?thesis
    proof (cases "res_allowed result")
      case True
      with valid v Inr a show ?thesis by (intro passed) (simp_all add: exchange_def Let_def)
    next
      case False
      with Authorize_denies [OF a] obtain d where "res_deny_reason result = Some d" by auto
      with valid v Inr a False show ?thesis by (intro refused) (simp_all add: exchange_def Let_def)
    qed
  qed
qed

lemma exchange_mint_cases:
  obtains
    (exhausted) n s e where
      "SelectApp (sv_store sv) (sv_selector sv) (sr_loop (xr_select rd)) (sr_now (xr_select rd))
         (sr_until (xr_select rd)) (sr_rand (xr_select rd)) (xq_target_repository req)
         (as_store (ss_auth st)) = (Inl (ExhaustedError n), s)"
      "xe_code e = ErrRateLimited" "xe_retry_after e = n"
      "exchange_mint env sv rd i c req result st =
        (Some (Inl (WithCaller e (oc_issuer c) (oc_subject c))),
         auditDenied env rd i c req ErrRateLimited (st\<lparr>ss_auth := (ss_auth st)\<lparr>as_store := s\<rparr>\<rparr>))"
  | (no_app) err s e where
      "SelectApp (sv_store sv) (sv_selector sv) (sr_loop (xr_select rd)) (sr_now (xr_select rd))
         (sr_until (xr_select rd)) (sr_rand (xr_select rd)) (xq_target_repository req)
         (as_store (ss_auth st)) = (Inl err, s)"
      "\<forall>n. err \<noteq> ExhaustedError n" "xe_code e = ErrInternalError"
      "exchange_mint env sv rd i c req result st =
        (Some (Inl (WithCaller e (oc_issuer c) (oc_subject c))),
         auditDenied env rd i c req ErrAppSelectionFailed (st\<lparr>ss_auth := (ss_auth st)\<lparr>as_store := s\<rparr>\<rparr>))"
  | (no_client) a :: app and s e where
      "SelectApp (sv_store sv) (sv_selector sv) (sr_loop (xr_select rd)) (sr_now (xr_select rd))
         (sr_until (xr_select rd)) (sr_rand (xr_select rd)) (xq_target_repository req)
         (as_store (ss_auth st)) = (Inr a, s)"
      "map_of (sv_clients sv) (app_client_id a) = None" "xe_code e = ErrInternalError"
      "exchange_mint env sv rd i c req result st =
        (Some (Inl (WithCaller e (oc_issuer c) (oc_subject c))),
         auditDenied env rd i c req ErrClientNotFound (st\<lparr>ss_auth := (ss_auth st)\<lparr>as_store := s\<rparr>\<rparr>))"
  | (no_token) a :: app and s client err g e where
      "SelectApp (sv_store sv) (sv_selector sv) (sr_loop (xr_select rd)) (sr_now (xr_select rd))
         (sr_until (xr_select rd)) (sr_rand (xr_select rd)) (xq_target_repository req)
         (as_store (ss_auth st)) = (Inr a, s)"
      "map_of (sv_clients sv) (app_client_id a) = Some client"
      "ci_RequestToken client \<lparr>trq_repository = xq_target_repository req,
         trq_permissions = res_permissions result\<rparr> (as_github (ss_auth st)) = (Inl err, g)"
      "xe_code e = ErrGitHubAPIError"
      "exchange_mint env sv rd i c req result st =
        (Some (Inl (WithCaller e (oc_issuer c) (oc_subject c))),
         auditDenied env rd i c req ErrGitHubAPIError
           (st\<lparr>ss_auth := (ss_auth st)\<lparr>as_store := s, as_github := g\<rparr>\<rparr>))"
  | (minted) a s client tr g where
      "SelectApp (sv_store sv) (sv_selector sv) (sr_loop (xr_select rd)) (sr_now (xr_select rd))
         (sr_until (xr_select rd)) (sr_rand (xr_select rd)) (xq_target_repository req)
         (as_store (ss_auth st)) = (Inr a, s)"
      "map_of (sv_clients sv) (app_client_id a) = Some client"
      "ci_RequestToken client \<lparr>trq_repository = xq_target_repository req,
         trq_permissions = res_permissions result\<rparr> (as_github (ss_auth st)) = (Inr tr, g)"
      "exchange_mint env sv rd i c req result st =
        exchange_finish env rd i c req result a tr
          (st\<lparr>ss_auth := record_rate sv client rd (app_client_id a) (trs_token tr)
             ((ss_auth st)\<lparr>as_store := s, as_github := g\<rparr>)\<rparr>)"
proof -
  obtain x s where sel: "SelectApp (sv_store sv) (sv_selector sv) (sr_loop (xr_select rd))
      (sr_now (xr_select rd)) (sr_until (xr_select rd)) (sr_rand (xr_select rd))
      (xq_target_repository req) (as_store (ss_auth st)) = (x, s)" by fastforce
  show ?thesis
  proof (cases x)
    case (Inl err)
    show ?thesis
    proof (cases "\<exists>n. err = ExhaustedError n")
      case True
      with sel Inl show ?thesis
        by (elim exE) (rule exhausted, simp_all add: exchange_mint_def Let_def)
    next
      case False
      then have "exchange_mint env sv rd i c req result st =
        (Some (Inl (WithCaller (ExchangeError ErrInternalError (msg ''Failed to select GitHub App'')
           (select_error_text err) i) (oc_issuer c) (oc_subject c))),
         auditDenied env rd i c req ErrAppSelectionFailed (st\<lparr>ss_auth := (ss_auth st)\<lparr>as_store := s\<rparr>\<rparr>))"
        using sel Inl by (cases err) (simp_all add: exchange_mint_def Let_def)
      with False sel Inl show ?thesis by (intro no_app) simp_all
    qed
  next
    case (Inr a)
    show ?thesis
    proof (cases "map_of (sv_clients sv) (app_client_id a)")
      case None
      with sel Inr show ?thesis by (intro no_client [OF _ None]) (simp_all add: exchange_mint_def Let_def)
    next
      case (Some client)
      obtain t g where t: "ci_RequestToken client \<lparr>trq_repository = xq_target_repository req,
         trq_permissions = res_permissions result\<rparr> (as_github (ss_auth st)) = (t, g)" by fastforce
      show ?thesis
      proof (cases t)
        case (Inl err)
        with sel \<open>x = Inr a\<close> Some t show ?thesis
          by (intro no_token [OF _ Some]) (simp_all add: exchange_mint_def Let_def)
      next
        case (Inr tr)
        with sel \<open>x = Inr a\<close> Some t show ?thesis
          by (intro minted [OF _ Some]) (simp_all add: exchange_mint_def Let_def)
      qed
    qed
  qed
qed

lemma exchange_finish_some: "fst (exchange_finish env rd i c req result a tr st) \<noteq> None"
  by (auto simp: exchange_finish_def Let_def split: prod.splits option.splits)

lemma exchange_mint_some: "fst (exchange_mint env sv rd i c req result st) \<noteq> None"
  by (rule exchange_mint_cases [of sv rd req st env i c result])
    (simp_all add: exchange_finish_some del: not_None_eq)

lemma exchange_some: "fst (exchange env sv rd i req st) \<noteq> None"
  by (rule exchange_cases [of sv req env rd i st]) (simp_all add: exchange_mint_some del: not_None_eq)

section \<open>Granted exchanges\<close>

text \<open>Everything a granted exchange went through.\<close>

lemma exchange_granted_cases:
  assumes "exchange env sv rd i req st = (Some (Inr resp), st')"
  obtains c os result au a s client tr g log where
    "validateRequest (sv_max_ttl sv) req = None"
    "Validator_Validate (ee_oidc env) (sv_oidc sv) (xq_oidc_token req) (ss_oidc st) = (Inr c, os)"
    "Authorize (ee_rx env) (ee_yaml env) (sv_authorizer sv) (xr_central rd) (xr_fetch rd)
       (auth_request_of c req) (ss_auth st) = (result, au)" "res_allowed result"
    "SelectApp (sv_store sv) (sv_selector sv) (sr_loop (xr_select rd)) (sr_now (xr_select rd))
       (sr_until (xr_select rd)) (sr_rand (xr_select rd)) (xq_target_repository req)
       (as_store au) = (Inr a, s)"
    "map_of (sv_clients sv) (app_client_id a) = Some client"
    "ci_RequestToken client \<lparr>trq_repository = xq_target_repository req,
       trq_permissions = res_permissions result\<rparr> (as_github au) = (Inr tr, g)"
    "auditGranted env rd i c req result (app_client_id a) (HashString (ee_sha256 env) (trs_token tr))
       (ss_audit st) = (None, log)"
    "resp = \<lparr>xp_token = trs_token tr,
             xp_expires_at = capExpiry (xr_cap rd) (trs_expires_at tr) (res_ttl result),
             xp_matched_policy = res_matched_policy result, xp_permissions = res_permissions result,
             xp_request_id = i, xp_issuer = oc_issuer c, xp_subject = oc_subject c,
             xp_client_id = app_client_id a,
             xp_token_hash = HashString (ee_sha256 env) (trs_token tr), xp_ttl = res_ttl result\<rparr>"
    "ss_tracker st' = TokenTracker_Record (HashString (ee_sha256 env) (trs_token tr)) (trs_token tr)
       (capExpiry (xr_cap rd) (trs_expires_at tr) (res_ttl result)) (ss_tracker st)"
    "ss_audit st' = log"
proof (rule exchange_cases [of sv req env rd i st])
  fix c os result au
  assume pre: "validateRequest (sv_max_ttl sv) req = None"
    "Validator_Validate (ee_oidc env) (sv_oidc sv) (xq_oidc_token req) (ss_oidc st) = (Inr c, os)"
    "Authorize (ee_rx env) (ee_yaml env) (sv_authorizer sv) (xr_central rd) (xr_fetch rd)
       (auth_request_of c req) (ss_auth st) = (result, au)" "res_allowed result"
    and run: "exchange env sv rd i req st =
      exchange_mint env sv rd i c req result (st\<lparr>ss_oidc := os, ss_auth := au\<rparr>)"
  let ?st = "st\<lparr>ss_oidc := os, ss_auth := au\<rparr>"
  show thesis
  proof (rule exchange_mint_cases [of sv rd req ?st env i c result])
    fix a s client tr g
    assume m: "SelectApp (sv_store sv) (sv_selector sv) (sr_loop (xr_select rd)) (sr_now (xr_select rd))
         (sr_until (xr_select rd)) (sr_rand (xr_select rd)) (xq_target_repository req)
         (as_store (ss_auth ?st)) = (Inr a, s)"
      "map_of (sv_clients sv) (app_client_id a) = Some client"
      "ci_RequestToken client \<lparr>trq_repository = xq_target_repository req,
         trq_permissions = res_permissions result\<rparr> (as_github (ss_auth ?st)) = (Inr tr, g)"
      and fin: "exchange_mint env sv rd i c req result ?st =
        exchange_finish env rd i c req result a tr
          (?st\<lparr>ss_auth := record_rate sv client rd (app_client_id a) (trs_token tr)
             ((ss_auth ?st)\<lparr>as_store := s, as_github := g\<rparr>)\<rparr>)"
    from fin run assms show thesis
      by (intro that [OF pre])
        (use m in \<open>auto simp: exchange_finish_def Let_def split: prod.splits option.splits\<close>)
  qed (use run assms in simp_all)
qed (use assms in simp_all)

lemma auth_request_of_simps [simp]:
  "ar_claims (auth_request_of c req) = claimsToMap c"
  "ar_issuer (auth_request_of c req) = oc_issuer c"
  "ar_target_repository (auth_request_of c req) = xq_target_repository req"
  "ar_policy_name (auth_request_of c req) = xq_policy_name req"
  "ar_requested_permissions (auth_request_of c req) = xq_requested_permissions req"
  "ar_requested_ttl (auth_request_of c req) = xq_requested_ttl req"
  by (simp_all add: auth_request_of_def)

lemma validateRequest_None:
  "validateRequest maxTTL req = None \<longleftrightarrow>
     xq_oidc_token req \<noteq> [] \<and>
     (\<exists>owner repo. splitN (CHR ''/'') 3 (xq_target_repository req) = [owner, repo] \<and>
        validGitHubName owner \<and> validGitHubName repo) \<and>
     0 \<le> xq_requested_ttl req \<and> (0 < maxTTL \<longrightarrow> xq_requested_ttl req \<le> maxTTL)"
  by (auto simp: validateRequest_def split: list.splits)

text \<open>The identity is verified and both layers authorise it.\<close>

lemma exchange_authorized:
  assumes built: "service_built (ee_rx env) sv" and yaml: "decodes_maps (ee_yaml env)"
    and disc: "discovers (ee_oidc env) origin" and inv: "service_inv sv origin st"
    and req: "gm_wf (xq_requested_permissions req)"
    and run: "exchange env sv rd i req st = (Some (Inr resp), st')"
  shows "\<exists>c f p. xp_issuer resp = oc_issuer c \<and> xp_subject resp = oc_subject c \<and>
    oc_issuer c \<in> set (va_issuers (sv_oidc sv)) \<and>
    (\<exists>t. ol_parse (ee_oidc env) (xq_oidc_token req) = Inr t \<and> jt_issuer t = oc_issuer c \<and>
       jt_subject t = oc_subject c \<and> jt_private_claims t = oc_custom c) \<and>
    (\<exists>q w w'. origin (oc_issuer c) q \<and>
       ol_verify (ee_oidc env) q (va_audience (sv_oidc sv)) (xq_oidc_token req) w = (None, w')) \<and>
    file_good f \<and> authorizes (ee_rx env) (au_config (sv_authorizer sv)) (xr_central rd)
      (auth_request_of c req) f p \<and>
    xp_matched_policy resp = tp_name p \<and> tp_name p \<noteq> [] \<and>
    xp_permissions resp = requested_or_policy (auth_request_of c req) p \<and>
    xp_ttl resp = resolveTTL (au_config (sv_authorizer sv)) (auth_request_of c req) p \<and>
    0 < xp_ttl resp \<and> xp_ttl resp \<le> pol_max_token_ttl (au_config (sv_authorizer sv))"
proof -
  from run show ?thesis
  proof (cases rule: exchange_granted_cases)
    case (1 c os result au a s client tr g log)
    have acc: "oc_issuer c \<in> set (va_issuers (sv_oidc sv)) \<and>
      (\<exists>t. ol_parse (ee_oidc env) (xq_oidc_token req) = Inr t \<and> jt_issuer t = oc_issuer c \<and>
         jt_subject t = oc_subject c \<and> jt_private_claims t = oc_custom c) \<and>
      (\<exists>q w w'. origin (oc_issuer c) q \<and>
         ol_verify (ee_oidc env) q (va_audience (sv_oidc sv)) (xq_oidc_token req) w = (None, w'))"
      using Validate_accepts [OF disc _ 1(2)] inv by (auto simp: service_inv_def)
    have "0 \<le> xq_requested_ttl req" using 1(1) by (simp add: validateRequest_None)
    with built inv req obtain f p where "file_good f"
      and "authorizes (ee_rx env) (au_config (sv_authorizer sv)) (xr_central rd) (auth_request_of c req) f p"
      and "res_matched_policy result = tp_name p" "tp_name p \<noteq> []"
      and "res_permissions result = requested_or_policy (auth_request_of c req) p"
      and "res_ttl result = resolveTTL (au_config (sv_authorizer sv)) (auth_request_of c req) p"
      and "0 < res_ttl result" "res_ttl result \<le> pol_max_token_ttl (au_config (sv_authorizer sv))"
      using Authorize_sound [OF _ yaml _ _ _ 1(3,4)] by (auto simp: service_built_def service_inv_def)
    with acc show ?thesis by (intro exI [of _ c] exI [of _ f] exI [of _ p]) (simp add: 1(9))
  qed
qed

text \<open>
  The token is one that GitHub issued to an app of the repository's owner, for this repository and
  these permissions.
\<close>

lemma exchange_scope:
  assumes store: "rate_store (sv_store sv) view norm ok" and inv: "ok (as_store (ss_auth st))"
    and built: "service_built (ee_rx env) sv"
    and run: "exchange env sv rd i req st = (Some (Inr resp), st')"
  shows "\<exists>a client g tr g'. serves (sv_selector sv) (xq_target_repository req) a \<and>
    map_of (sv_clients sv) (app_client_id a) = Some client \<and> xp_client_id resp = app_client_id a \<and>
    ci_RequestToken client \<lparr>trq_repository = xq_target_repository req,
      trq_permissions = xp_permissions resp\<rparr> g = (Inr tr, g') \<and>
    xp_token resp = trs_token tr \<and> xp_expires_at resp \<le> trs_expires_at tr"
proof -
  from run show ?thesis
  proof (cases rule: exchange_granted_cases)
    case (1 c os result au a s client tr g log)
    have "as_store au = as_store (ss_auth st)"
    proof -
      have "as_store au' = as_store (ss_auth st)"
        if "fetchPolicy (ee_rx env) (ee_yaml env) (sv_authorizer sv) fr r t (ss_auth st) = (x, au')"
        for fr r t x au'
        using built store inv that
        by (intro fetchPolicy_store [of _ view norm ok]) (auto simp: service_built_def)
      with 1(3) show ?thesis
        by (auto simp: Authorize_def authorizeRepository_def split: if_splits option.splits prod.splits sum.splits)
    qed
    then have "serves (sv_selector sv) (xq_target_repository req) a"
      using rate_store.SelectApp_Inr [OF store _ 1(5)] inv by simp
    then show ?thesis
      using 1(6,7,9)
      by (intro exI [of _ a] exI [of _ client] exI [of _ "as_github au"] exI [of _ tr] exI [of _ g])
        (simp add: capExpiry_def Let_def)
  qed
qed

text \<open>The promised lifetime, when \<^verbatim>\<open>time.Duration(ttl) * time.Second\<close> does not overflow.\<close>

lemma capExpiry_min:
  assumes "0 \<le> ttl" and "ttl \<le> 9223372036"
  shows "capExpiry now gh ttl = min gh (now + ttl * nano_second)"
  using assms by (auto simp: capExpiry_def Let_def dur_of_seconds)

lemma exchange_expiry:
  assumes "exchange env sv rd i req st = (Some (Inr resp), st')"
    and "0 \<le> xp_ttl resp" and "xp_ttl resp \<le> 9223372036"
  shows "xp_expires_at resp \<le> xr_cap rd + xp_ttl resp * nano_second"
  using assms(1)
  by (cases rule: exchange_granted_cases) (use assms(2,3) in \<open>simp add: capExpiry_min\<close>)

text \<open>
  Above 9223372036 seconds the product is past the 64-bit range and comes out negative, up to twice that
  many: the promised expiry lies in the past.
\<close>

lemma capExpiry_wraps:
  assumes "9223372036 < ttl" and "ttl \<le> 18446744073"
  shows "capExpiry now gh ttl < now"
proof -
  have "(ttl * 1000000000 + 9223372036854775808) mod 18446744073709551616 =
      ttl * 1000000000 + 9223372036854775808 - 18446744073709551616"
    using assms by (subst mod_pos_geq) auto
  with assms have "dur_of ttl nano_second < 0" by (simp add: dur_of_def wrap64_def nano_second_def)
  then show ?thesis by (auto simp: capExpiry_def Let_def)
qed

lemma exchange_expiry_wraps:
  assumes "exchange env sv rd i req st = (Some (Inr resp), st')"
    and "9223372036 < xp_ttl resp" and "xp_ttl resp \<le> 18446744073"
  shows "xp_expires_at resp < xr_cap rd"
  using assms(1) by (cases rule: exchange_granted_cases) (use assms(2,3) in \<open>simp add: capExpiry_wraps\<close>)

text \<open>The token is tracked from the moment it is handed out, until its promised expiry.\<close>

lemma exchange_tracked:
  assumes "exchange env sv rd i req st = (Some (Inr resp), st')"
  shows "map_of (ss_tracker st') (xp_token_hash resp) =
      Some \<lparr>tt_token = xp_token resp, tt_expires = xp_expires_at resp\<rparr> \<and>
    xp_token_hash resp = HashString (ee_sha256 env) (xp_token resp)"
  using assms by (cases rule: exchange_granted_cases) simp

text \<open>The audit entry of a grant.\<close>

definition granted_entry :: "audit_entry \<Rightarrow> exchange_request \<Rightarrow> exchange_response \<Rightarrow> bool" where
  "granted_entry e req resp \<longleftrightarrow>
     ae_outcome e = OutcomeGranted \<and> ae_request_id e = xp_request_id resp \<and>
     ae_caller e = xp_subject resp \<and> ae_target_repository e = xq_target_repository req \<and>
     ae_policy_name e = xp_matched_policy resp \<and> ae_permissions e = xp_permissions resp \<and>
     ae_token_hash e = xp_token_hash resp \<and> ae_ttl e = xp_ttl resp \<and>
     ae_github_client_id e = xp_client_id resp"

lemma exchange_audited:
  assumes trail: "audit_trail (ab_Log (ee_audit env)) recorded"
    and run: "exchange env sv rd i req st = (Some (Inr resp), st')"
  shows "\<exists>e. recorded (ss_audit st') e \<and> AuditEntry_Validate e = None \<and> granted_entry e req resp"
proof -
  from run show ?thesis
  proof (cases rule: exchange_granted_cases)
    case (1 c os result au a s client tr g log)
    from 1(8) obtain e where l: "ab_Log (ee_audit env) (xr_log rd) e (ss_audit st) = (None, log)"
      and e: "granted_entry e req resp"
      unfolding auditGranted_def by (rule that) (simp add: granted_entry_def 1(9))
    then show ?thesis
      using audit_trail.log_ok [OF trail l] audit_trail.acknowledged_valid [OF trail l] 1(11) by auto
  qed
qed

text \<open>Nobody without a subject gets a token.\<close>

lemma exchange_subject:
  assumes "audit_trail (ab_Log (ee_audit env)) recorded"
    and "exchange env sv rd i req st = (Some (Inr resp), st')"
  shows "xp_subject resp \<noteq> [] \<and> xp_request_id resp \<noteq> [] \<and> 0 < xp_ttl resp"
proof -
  obtain e where "AuditEntry_Validate e = None" and "granted_entry e req resp"
    using exchange_audited [OF assms] by auto
  then show ?thesis by (auto simp: AuditEntry_Validate_None granted_entry_def)
qed

section \<open>Every exchange keeps the invariant\<close>

lemma exchange_mint_parts:
  assumes "exchange_mint env sv rd i c req result st = (r, st')"
  shows "ss_oidc st' = ss_oidc st \<and> as_cache (ss_auth st') = as_cache (ss_auth st) \<and>
    (gm_wf (ss_tracker st) \<longrightarrow> gm_wf (ss_tracker st'))"
  by (rule exchange_mint_cases [of sv rd req st env i c result])
    (use assms in \<open>auto dest!: exchange_finish_state [OF sym]\<close>)

lemma exchange_inv:
  assumes yaml: "decodes_maps (ee_yaml env)" and disc: "discovers (ee_oidc env) origin"
    and inv: "service_inv sv origin st" and run: "exchange env sv rd i req st = (r, st')"
  shows "service_inv sv origin st'"
proof -
  have os: "providers_ok (sv_oidc sv) origin os"
    if "Validator_Validate (ee_oidc env) (sv_oidc sv) raw (ss_oidc st) = (x, os)" for raw x os
    using Validate_providers [OF disc _ that] inv by (simp add: service_inv_def)
  have cache: "cache_all file_good (as_cache au)"
    if "Authorize (ee_rx env) (ee_yaml env) (sv_authorizer sv) now fr areq (ss_auth st) = (x, au)"
    for now fr areq x au
    using Authorize_cache [OF file_good_validated [OF yaml], of "ss_auth st" "ee_rx env"
        "sv_authorizer sv" now fr areq] that inv by (simp add: service_inv_def)
  show ?thesis
  proof (cases rule: exchange_cases [of sv req env rd i st])
    case (passed c os' result au)
    then have "exchange_mint env sv rd i c req result (st\<lparr>ss_oidc := os', ss_auth := au\<rparr>) = (r, st')"
      using run by simp
    from exchange_mint_parts [OF this] os [OF passed(2)] cache [OF passed(3)] inv
    show ?thesis by (simp add: service_inv_def)
  next
    case (bad_token err os')
    with run os inv show ?thesis by (auto simp: service_inv_def)
  next
    case (refused c os' result au d)
    with run os [OF refused(2)] cache [OF refused(3)] inv show ?thesis by (auto simp: service_inv_def)
  qed (use run inv in simp)
qed

section \<open>Refused exchanges\<close>

text \<open>No token is minted, tracked or stored unless the authoriser allows the request.\<close>

lemma exchange_refused_untracked:
  assumes "exchange env sv rd i req st = (Some (Inl e), st')"
    and "xe_code e \<notin> {ErrRateLimited, ErrInternalError, ErrGitHubAPIError}"
  shows "ss_tracker st' = ss_tracker st"
proof (cases rule: exchange_cases [of sv req env rd i st])
  case (passed c os result au)
  let ?st = "st\<lparr>ss_oidc := os, ss_auth := au\<rparr>"
  show ?thesis
  proof (cases rule: exchange_mint_cases [of sv rd req ?st env i c result])
    case (minted a s client tr g)
    with passed assms show ?thesis
      by (auto simp: exchange_finish_def Let_def split: prod.splits option.splits)
  qed (use passed assms in auto)
qed (use assms in auto)

lemma exchange_central_denial:
  assumes built: "service_built (ee_rx env) sv"
    and none: "\<And>c. ol_parse (ee_oidc env) (xq_oidc_token req) = Inr c \<Longrightarrow> jt_issuer c = iss"
    and run: "exchange env sv rd i req st = (r, st')"
    and no: "\<And>cs. \<not> central_allowed (ee_rx env) (au_config (sv_authorizer sv)) (xr_central rd) iss cs"
  shows "ss_auth st' = ss_auth st \<and> ss_tracker st' = ss_tracker st \<and> (\<exists>e. r = Some (Inl e))"
proof -
  have quiet: "au = ss_auth st \<and> \<not> res_allowed result"
    if "Validator_Validate (ee_oidc env) (sv_oidc sv) (xq_oidc_token req) (ss_oidc st) = (Inr c, os)"
      "Authorize (ee_rx env) (ee_yaml env) (sv_authorizer sv) (xr_central rd) (xr_fetch rd)
        (auth_request_of c req) (ss_auth st) = (result, au)" for c os result au
  proof -
    have "oc_issuer c = iss"
      using that(1) none by (auto simp: Validator_Validate_def Let_def
          split: if_splits sum.splits prod.splits option.splits)
    then show ?thesis
      using Authorize_central_denial [where req = "auth_request_of c req" and a = "sv_authorizer sv"
          and rx = "ee_rx env" and now = "xr_central rd" and st = "ss_auth st" and rd = "xr_fetch rd"
          and yaml = "ee_yaml env"] that(2) built no
      by (simp add: service_built_def)
  qed
  show ?thesis
    by (cases rule: exchange_cases [of sv req env rd i st]) (use run quiet in auto)
qed

end
