(* ===== verification/Config_Keys.thy ===== *)
theory Config_Keys
  imports Go_Time Complex_Main
begin

text \<open>
  The keys of the settings and their default values, under the names that \<^verbatim>\<open>internal/config\<close> gives them.
  They are abbreviations for input: as in the source, a name stands for its constant.
\<close>

text \<open>\<^verbatim>\<open>logger.go\<close>\<close>

abbreviation (input) KeyLoggerLevel :: string where "KeyLoggerLevel \<equiv> ''logger.level''"
abbreviation (input) KeyLoggerFormat :: string where "KeyLoggerFormat \<equiv> ''logger.format''"

text \<open>\<^verbatim>\<open>server.go\<close>\<close>

abbreviation (input) KeyServerPort :: string where "KeyServerPort \<equiv> ''server.port''"
abbreviation (input) KeyServerReadTimeout :: string where "KeyServerReadTimeout \<equiv> ''server.read_timeout''"
abbreviation (input) KeyServerWriteTimeout :: string where "KeyServerWriteTimeout \<equiv> ''server.write_timeout''"
abbreviation (input) KeyServerShutdownTimeout :: string where "KeyServerShutdownTimeout \<equiv> ''server.shutdown_timeout''"
abbreviation (input) KeyServerRequestTimeout :: string where "KeyServerRequestTimeout \<equiv> ''server.request_timeout''"
abbreviation (input) KeyServerIdleTimeout :: string where "KeyServerIdleTimeout \<equiv> ''server.idle_timeout''"
abbreviation (input) KeyServerWaitTimeout :: string where "KeyServerWaitTimeout \<equiv> ''server.wait_timeout''"
abbreviation (input) KeyServerTLSCertFilePath :: string where "KeyServerTLSCertFilePath \<equiv> ''server.tls.cert_file_path''"
abbreviation (input) KeyServerTLSKeyFilePath :: string where "KeyServerTLSKeyFilePath \<equiv> ''server.tls.key_file_path''"
abbreviation (input) DefaultServerPort :: int where "DefaultServerPort \<equiv> 8080"
abbreviation (input) DefaultServerReadTimeout :: duration where "DefaultServerReadTimeout \<equiv> 30 * nano_second"
abbreviation (input) DefaultServerWriteTimeout :: duration where "DefaultServerWriteTimeout \<equiv> 30 * nano_second"
abbreviation (input) DefaultServerShutdownTimeout :: duration where "DefaultServerShutdownTimeout \<equiv> 10 * nano_second"
abbreviation (input) DefaultServerRequestTimeout :: duration where "DefaultServerRequestTimeout \<equiv> 30 * nano_second"
abbreviation (input) DefaultServerIdleTimeout :: duration where "DefaultServerIdleTimeout \<equiv> 10 * nano_second"
abbreviation (input) DefaultServerWaitTimeout :: duration where "DefaultServerWaitTimeout \<equiv> 10 * nano_second"

text \<open>\<^verbatim>\<open>oidc.go\<close>\<close>

abbreviation (input) KeyOIDCAudience :: string where "KeyOIDCAudience \<equiv> ''oidc.audience''"
abbreviation (input) DefaultOIDCAudience :: string where "DefaultOIDCAudience \<equiv> ''gate''"

text \<open>\<^verbatim>\<open>audit.go\<close>\<close>

abbreviation (input) KeyAuditBackend :: string where "KeyAuditBackend \<equiv> ''audit.backend''"
abbreviation (input) KeyAuditDynamoDBTableName :: string where "KeyAuditDynamoDBTableName \<equiv> ''audit.dynamodb.table_name''"
abbreviation (input) KeyAuditDynamoDBTTLDays :: string where "KeyAuditDynamoDBTTLDays \<equiv> ''audit.dynamodb.ttl_days''"
abbreviation (input) KeyAuditSQLDSN :: string where "KeyAuditSQLDSN \<equiv> ''audit.sql.dsn''"

text \<open>\<^verbatim>\<open>selector.go\<close>\<close>

abbreviation (input) KeySelectorType :: string where "KeySelectorType \<equiv> ''selector.type''"
abbreviation (input) KeySelectorRedisAddress :: string where "KeySelectorRedisAddress \<equiv> ''selector.redis.address''"
abbreviation (input) KeySelectorRedisPassword :: string where "KeySelectorRedisPassword \<equiv> ''selector.redis.password''"
abbreviation (input) KeySelectorRedisDB :: string where "KeySelectorRedisDB \<equiv> ''selector.redis.db''"
abbreviation (input) KeySelectorRedisTLS :: string where "KeySelectorRedisTLS \<equiv> ''selector.redis.tls''"
abbreviation (input) KeySelectorDynamoDBTableName :: string where "KeySelectorDynamoDBTableName \<equiv> ''selector.dynamodb.table_name''"
abbreviation (input) KeySelectorDynamoDBTTLMinutes :: string where "KeySelectorDynamoDBTTLMinutes \<equiv> ''selector.dynamodb.ttl_minutes''"
abbreviation (input) DefaultRedisDB :: int where "DefaultRedisDB \<equiv> 0"

text \<open>\<^verbatim>\<open>policy.go\<close>\<close>

abbreviation (input) KeyPolicyVersion :: string where "KeyPolicyVersion \<equiv> ''policy.version''"
abbreviation (input) KeyPolicyTrustPolicyPath :: string where "KeyPolicyTrustPolicyPath \<equiv> ''policy.trust_policy_path''"
abbreviation (input) KeyPolicyDefaultTokenTTL :: string where "KeyPolicyDefaultTokenTTL \<equiv> ''policy.default_token_ttl''"
abbreviation (input) KeyPolicyMaxTokenTTL :: string where "KeyPolicyMaxTokenTTL \<equiv> ''policy.max_token_ttl''"
abbreviation (input) KeyPolicyRequireExplicitPolicy :: string where "KeyPolicyRequireExplicitPolicy \<equiv> ''policy.require_explicit_policy''"
abbreviation (input) KeyPolicyGitHubAPIBaseURL :: string where "KeyPolicyGitHubAPIBaseURL \<equiv> ''policy.github_api_base_url''"
abbreviation (input) KeyPolicyGitHubRawBaseURL :: string where "KeyPolicyGitHubRawBaseURL \<equiv> ''policy.github_raw_base_url''"
abbreviation (input) KeyPolicyProviders :: string where "KeyPolicyProviders \<equiv> ''policy.providers''"
abbreviation (input) KeyPolicyMaxPermissions :: string where "KeyPolicyMaxPermissions \<equiv> ''policy.max_permissions''"
abbreviation (input) DefaultPolicyVersion :: string where "DefaultPolicyVersion \<equiv> ''1.0''"
abbreviation (input) DefaultPolicyDefaultTokenTTL :: int where "DefaultPolicyDefaultTokenTTL \<equiv> 900"
abbreviation (input) DefaultPolicyMaxTokenTTL :: int where "DefaultPolicyMaxTokenTTL \<equiv> 3600"
abbreviation (input) DefaultGitHubAPIBaseURL :: string where "DefaultGitHubAPIBaseURL \<equiv> ''https://api.github.com''"
abbreviation (input) DefaultGitHubRawBaseURL :: string where "DefaultGitHubRawBaseURL \<equiv> ''https://raw.githubusercontent.com''"

text \<open>\<^verbatim>\<open>origin.go\<close>\<close>

abbreviation (input) KeyOriginEnabled :: string where "KeyOriginEnabled \<equiv> ''origin.enabled''"
abbreviation (input) KeyOriginHeaderName :: string where "KeyOriginHeaderName \<equiv> ''origin.header_name''"
abbreviation (input) KeyOriginHeaderValue :: string where "KeyOriginHeaderValue \<equiv> ''origin.header_value''"

text \<open>\<^verbatim>\<open>fips.go\<close>\<close>

abbreviation (input) KeyFIPSEnabled :: string where "KeyFIPSEnabled \<equiv> ''fips.enabled''"
abbreviation (input) KeyFIPSMode :: string where "KeyFIPSMode \<equiv> ''fips.mode''"

text \<open>\<^verbatim>\<open>otel.go\<close>\<close>

abbreviation (input) KeyOTelEnabled :: string where "KeyOTelEnabled \<equiv> ''otel.enabled''"
abbreviation (input) KeyOTelServiceName :: string where "KeyOTelServiceName \<equiv> ''otel.service_name''"
abbreviation (input) KeyOTelEndpoint :: string where "KeyOTelEndpoint \<equiv> ''otel.endpoint''"
abbreviation (input) KeyOTelProtocol :: string where "KeyOTelProtocol \<equiv> ''otel.protocol''"
abbreviation (input) KeyOTelInsecure :: string where "KeyOTelInsecure \<equiv> ''otel.insecure''"
abbreviation (input) KeyOTelSampleRate :: string where "KeyOTelSampleRate \<equiv> ''otel.sample_rate''"
abbreviation (input) KeyOTelExporterTimeout :: string where "KeyOTelExporterTimeout \<equiv> ''otel.exporter_timeout''"
abbreviation (input) DefaultOTelServiceName :: string where "DefaultOTelServiceName \<equiv> ''gate''"
abbreviation (input) DefaultOTelEndpoint :: string where "DefaultOTelEndpoint \<equiv> ''localhost:4317''"
abbreviation (input) DefaultOTelInsecure :: bool where "DefaultOTelInsecure \<equiv> False"
abbreviation (input) DefaultOTelSampleRate :: rat where "DefaultOTelSampleRate \<equiv> 1"
abbreviation (input) DefaultOTelExporterTimeout :: duration where "DefaultOTelExporterTimeout \<equiv> 10 * nano_second"

text \<open>\<^verbatim>\<open>config.go\<close>\<close>

abbreviation (input) KeyAWSRegion :: string where "KeyAWSRegion \<equiv> ''aws_region''"

end
