(* ===== verification/Go_Strconv.thy ===== *)
theory Go_Strconv
  imports Go_Time
begin

text \<open>
  Decimal numbers as Go's \<^verbatim>\<open>strconv\<close> writes and reads them, with their round trip. The HTTP layer
  writes header values with them, the selector stores write and read rate-limit states.
\<close>

section \<open>Writing\<close>

text \<open>\<open>itoa\<close> is \<^verbatim>\<open>strconv.Itoa\<close> and \<^verbatim>\<open>strconv.FormatInt(n, 10)\<close>.\<close>

fun digits_of :: "nat \<Rightarrow> string" where
  "digits_of n =
     (if n < 10 then [char_of (48 + n)] else digits_of (n div 10) @ [char_of (48 + n mod 10)])"

declare digits_of.simps [simp del]

definition itoa :: "int \<Rightarrow> string" where
  "itoa i = (if i < 0 then CHR ''-'' # digits_of (nat (- i)) else digits_of (nat i))"

section \<open>Reading\<close>

definition is_digit :: "char \<Rightarrow> bool" where
  "is_digit c \<longleftrightarrow> 48 \<le> (of_char c :: nat) \<and> (of_char c :: nat) \<le> 57"

definition value_of :: "string \<Rightarrow> nat" where
  "value_of s = foldl (\<lambda>n c. 10 * n + (of_char c - 48)) 0 s"

definition parse_digits :: "string \<Rightarrow> nat option" where
  "parse_digits s = (if s \<noteq> [] \<and> list_all is_digit s then Some (value_of s) else None)"

text \<open>A decimal integer with an optional sign.\<close>

definition parse_decimal :: "string \<Rightarrow> int option" where
  "parse_decimal s =
     (case s of
        [] \<Rightarrow> None
      | c # cs \<Rightarrow>
          if c = CHR ''-'' then map_option (\<lambda>n. - int n) (parse_digits cs)
          else if c = CHR ''+'' then map_option int (parse_digits cs)
          else map_option int (parse_digits s))"

text \<open>\<^verbatim>\<open>strconv.ParseInt(s, 10, 64)\<close> and \<^verbatim>\<open>strconv.Atoi\<close> on a 64-bit machine.\<close>

definition ParseInt :: "string \<Rightarrow> gotext + int" where
  "ParseInt s =
     (case parse_decimal s of
        None \<Rightarrow> Inl (Sprintf ''parsing %q: invalid syntax'' [AStr s])
      | Some n \<Rightarrow>
          if min_int64 \<le> n \<and> n \<le> max_int64 then Inr n
          else Inl (Sprintf ''parsing %q: value out of range'' [AStr s]))"

section \<open>The round trip\<close>

lemma value_digits [simp]: "value_of (digits_of n) = n"
proof (induction n rule: digits_of.induct)
  case (1 n)
  then show ?case
    by (subst digits_of.simps) (auto simp: value_of_def)
qed

lemma digits_nonempty [simp]: "digits_of n \<noteq> []"
  by (subst digits_of.simps) simp

lemma digits_are_digits [simp]: "list_all is_digit (digits_of n)"
proof (induction n rule: digits_of.induct)
  case (1 n)
  have "is_digit (char_of (48 + d))" if "d < 10" for d :: nat
    using that by (simp add: is_digit_def)
  with 1 show ?case by (subst digits_of.simps) auto
qed

lemma parse_digits_of [simp]: "parse_digits (digits_of n) = Some n"
  by (simp add: parse_digits_def)

lemma parse_decimal_itoa [simp]: "parse_decimal (itoa i) = Some i"
proof (cases "i < 0")
  case True
  then show ?thesis by (simp add: itoa_def parse_decimal_def)
next
  case False
  obtain c cs where d: "digits_of (nat i) = c # cs" by (cases "digits_of (nat i)") simp_all
  then have "is_digit c" using digits_are_digits [of "nat i"] by simp
  then have "c \<noteq> CHR ''-''" "c \<noteq> CHR ''+''" by (auto simp: is_digit_def)
  with False d parse_digits_of [of "nat i"] show ?thesis
    by (simp add: itoa_def parse_decimal_def)
qed

lemma ParseInt_itoa: "ParseInt (itoa (wrap64 i)) = Inr (wrap64 i)"
  using wrap64_range [of i] by (simp add: ParseInt_def)

lemma itoa_inj: "itoa a = itoa b \<longleftrightarrow> a = b"
  by (metis option.inject parse_decimal_itoa)

end
