(* ===== verification/App_Config.thy ===== *)
theory App_Config
  imports Policy_Config Config_Keys Go_Strconv
begin

text \<open>
  The application configuration, \<^verbatim>\<open>internal/config\<close>: its sections with their \<^verbatim>\<open>Validate\<close> methods,
  the whole with its validation in order, and \<^verbatim>\<open>Load\<close> with the keys, the defaults and the global
  current configuration (\<^verbatim>\<open>config.go\<close>). The policy section is in Policy_Config. A pointer to a
  section is an option; a zero \<^verbatim>\<open>string\<close>-typed enumeration value is the empty string. Viper, which
  reads the file and the environment, and mapstructure, which decodes the values, are parameters.
\<close>

datatype config_error =
    ErrInvalidLogLevel
  | ErrInvalidLogFormat
  | ErrInvalidAuditBackendType
  | ErrInvalidSQLDSN
  | ErrInvalidSQLConfig
  | ErrInvalidDynamoDBConfig
  | ErrInvalidDynamoDBTable
  | ErrInvalidDynamoDBTTLDays
  | ErrInvalidSelectorStoreType
  | ErrInvalidRedisConfig
  | ErrInvalidRedisAddress
  | ErrInvalidRedisDB
  | ErrInvalidSelectorDynamoDBConfig
  | ErrInvalidSelectorDynamoDBTable
  | ErrInvalidSelectorDynamoDBTTL
  | PolicyError policy_config_error
  | ErrInvalidPort
  | ErrInvalidReadTimeout
  | ErrInvalidWriteTimeout
  | ErrInvalidShutdownTimeout
  | ErrInvalidRequestTimeout
  | ErrInvalidIdleTimeout
  | ErrInvalidWaitTimeout
  | ErrInvalidTLSConfig
  | ErrInvalidOIDCAudience
  | ErrInvalidOriginHeaderName
  | ErrInvalidOriginHeaderValue
  | ErrInvalidFIPSMode
  | ErrOTelEndpointRequired
  | ErrOTelInvalidProtocol
  | ErrOTelInvalidSampleRate
  | ErrOTelInvalidExporterTimeout
  | ErrInvalidGithubAppClientID
  | ErrInvalidGithubAppPrivateKeyPath
  | ErrInvalidGithubAppOrganization

section \<open>Logger\<close>

definition LogLevelInfo :: string where "LogLevelInfo = ''info''"
definition LogFormatJSON :: string where "LogFormatJSON = ''json''"

definition ValidLogLevels :: "string list" where
  "ValidLogLevels = [''debug'', ''info'', ''warn'', ''error'']"

definition ValidLogFormats :: "string list" where
  "ValidLogFormats = [''json'', ''text'']"

definition IsValidLogLevel :: "string \<Rightarrow> bool" where
  "IsValidLogLevel level \<longleftrightarrow> level \<in> set ValidLogLevels"

definition IsValidLogFormat :: "string \<Rightarrow> bool" where
  "IsValidLogFormat format \<longleftrightarrow> format \<in> set ValidLogFormats"

record logger_config =
  lg_level :: string
  lg_format :: string

definition LoggerConfig_Validate :: "logger_config \<Rightarrow> config_error option" where
  "LoggerConfig_Validate l =
     (if lg_level l \<noteq> [] \<and> \<not> IsValidLogLevel (lg_level l) then Some ErrInvalidLogLevel
      else if lg_format l \<noteq> [] \<and> \<not> IsValidLogFormat (lg_format l) then Some ErrInvalidLogFormat
      else None)"

section \<open>Audit\<close>

definition AuditBackendSQL :: string where "AuditBackendSQL = ''sql''"
definition AuditBackendDynamoDB :: string where "AuditBackendDynamoDB = ''dynamodb''"
definition DefaultDynamoDBTableName :: string where "DefaultDynamoDBTableName = ''audit_logs''"
definition DefaultDynamoDBTTLDays :: int where "DefaultDynamoDBTTLDays = 90"
definition MaxDynamoDBTTLDays :: int where "MaxDynamoDBTTLDays = 365"

record audit_dynamodb_config =
  adc_table_name :: string
  adc_ttl_days :: int

definition AuditDynamoDBConfig_Validate :: "audit_dynamodb_config \<Rightarrow> config_error option" where
  "AuditDynamoDBConfig_Validate d =
     (if adc_table_name d = [] then Some ErrInvalidDynamoDBTable
      else if adc_ttl_days d < 0 \<or> adc_ttl_days d > MaxDynamoDBTTLDays then Some ErrInvalidDynamoDBTTLDays
      else None)"

record audit_sql_config =
  asc_dsn :: string

definition AuditSQLConfig_Validate :: "audit_sql_config \<Rightarrow> config_error option" where
  "AuditSQLConfig_Validate p = (if asc_dsn p = [] then Some ErrInvalidSQLDSN else None)"

record audit_config =
  ac_backend :: string
  ac_dynamodb :: "audit_dynamodb_config option"
  ac_sql :: "audit_sql_config option"

definition AuditConfig_Validate :: "audit_config \<Rightarrow> config_error option" where
  "AuditConfig_Validate a =
     (if ac_backend a = [] then None
      else if ac_backend a = AuditBackendSQL
      then (case ac_sql a of None \<Rightarrow> Some ErrInvalidSQLConfig | Some s \<Rightarrow> AuditSQLConfig_Validate s)
      else if ac_backend a = AuditBackendDynamoDB
      then (case ac_dynamodb a of
              None \<Rightarrow> Some ErrInvalidDynamoDBConfig
            | Some d \<Rightarrow> AuditDynamoDBConfig_Validate d)
      else Some ErrInvalidAuditBackendType)"

definition IsMigrationSupported :: "audit_config \<Rightarrow> bool" where
  "IsMigrationSupported a \<longleftrightarrow> ac_backend a = AuditBackendSQL"

section \<open>Selector\<close>

definition SelectorStoreTypeMemory :: string where "SelectorStoreTypeMemory = ''memory''"
definition SelectorStoreTypeRedis :: string where "SelectorStoreTypeRedis = ''redis''"
definition SelectorStoreTypeDynamoDB :: string where "SelectorStoreTypeDynamoDB = ''dynamodb''"
definition MaxSelectorDynamoDBTTLMinutes :: int where "MaxSelectorDynamoDBTTLMinutes = 1440"

record redis_config =
  rdc_address :: string
  rdc_password :: string
  rdc_db :: int
  rdc_tls :: bool

definition RedisConfig_Validate :: "redis_config \<Rightarrow> config_error option" where
  "RedisConfig_Validate r =
     (if rdc_address r = [] then Some ErrInvalidRedisAddress
      else if rdc_db r < 0 then Some ErrInvalidRedisDB
      else None)"

record selector_dynamodb_config =
  sdc_table_name :: string
  sdc_ttl_minutes :: int

definition SelectorDynamoDBConfig_Validate :: "selector_dynamodb_config \<Rightarrow> config_error option" where
  "SelectorDynamoDBConfig_Validate d =
     (if sdc_table_name d = [] then Some ErrInvalidSelectorDynamoDBTable
      else if sdc_ttl_minutes d < 0 \<or> sdc_ttl_minutes d > MaxSelectorDynamoDBTTLMinutes
      then Some ErrInvalidSelectorDynamoDBTTL
      else None)"

record selector_config =
  sc_type :: string
  sc_redis :: "redis_config option"
  sc_dynamodb :: "selector_dynamodb_config option"

definition SelectorConfig_Validate :: "selector_config \<Rightarrow> config_error option" where
  "SelectorConfig_Validate c =
     (if sc_type c = [] then None
      else if sc_type c = SelectorStoreTypeMemory then None
      else if sc_type c = SelectorStoreTypeRedis
      then (case sc_redis c of None \<Rightarrow> Some ErrInvalidRedisConfig | Some r \<Rightarrow> RedisConfig_Validate r)
      else if sc_type c = SelectorStoreTypeDynamoDB
      then (case sc_dynamodb c of
              None \<Rightarrow> Some ErrInvalidSelectorDynamoDBConfig
            | Some d \<Rightarrow> SelectorDynamoDBConfig_Validate d)
      else Some ErrInvalidSelectorStoreType)"

section \<open>Server\<close>

definition portMin :: int where "portMin = 1"
definition portMax :: int where "portMax = 65535"

record tls_config =
  tls_cert_file_path :: string
  tls_key_file_path :: string

definition TLSConfig_Validate :: "tls_config \<Rightarrow> config_error option" where
  "TLSConfig_Validate t =
     (if (tls_cert_file_path t = []) \<noteq> (tls_key_file_path t = []) then Some ErrInvalidTLSConfig else None)"

definition TLSConfig_Enabled :: "tls_config \<Rightarrow> bool" where
  "TLSConfig_Enabled t \<longleftrightarrow> tls_cert_file_path t \<noteq> [] \<and> tls_key_file_path t \<noteq> []"

record server_config =
  svc_port :: int
  svc_read_timeout :: duration
  svc_write_timeout :: duration
  svc_shutdown_timeout :: duration
  svc_request_timeout :: duration
  svc_idle_timeout :: duration
  svc_wait_timeout :: duration
  svc_tls :: tls_config

definition ServerConfig_Validate :: "server_config \<Rightarrow> config_error option" where
  "ServerConfig_Validate s =
     (if svc_port s < portMin \<or> svc_port s > portMax then Some ErrInvalidPort
      else if svc_read_timeout s \<le> 0 then Some ErrInvalidReadTimeout
      else if svc_write_timeout s \<le> 0 then Some ErrInvalidWriteTimeout
      else if svc_shutdown_timeout s \<le> 0 then Some ErrInvalidShutdownTimeout
      else if svc_request_timeout s \<le> 0 then Some ErrInvalidRequestTimeout
      else if svc_idle_timeout s \<le> 0 then Some ErrInvalidIdleTimeout
      else if svc_wait_timeout s \<le> 0 then Some ErrInvalidWaitTimeout
      else TLSConfig_Validate (svc_tls s))"

definition GetAddr :: "server_config \<Rightarrow> string" where
  "GetAddr s = '':'' @ itoa (svc_port s)"

section \<open>OIDC, origin, FIPS\<close>

record oidc_config =
  oc_cfg_audience :: string

definition OIDCConfig_Validate :: "oidc_config \<Rightarrow> config_error option" where
  "OIDCConfig_Validate c = (if oc_cfg_audience c = [] then Some ErrInvalidOIDCAudience else None)"

record origin_config =
  or_enabled :: bool
  or_header_name :: string
  or_header_value :: string

definition OriginConfig_Validate :: "origin_config \<Rightarrow> config_error option" where
  "OriginConfig_Validate c =
     (if or_enabled c
      then (if or_header_name c = [] then Some ErrInvalidOriginHeaderName
            else if or_header_value c = [] then Some ErrInvalidOriginHeaderValue
            else None)
      else None)"

definition ValidFIPSModes :: "string list" where "ValidFIPSModes = [''on'', ''only'']"

definition IsValidFIPSMode :: "string \<Rightarrow> bool" where
  "IsValidFIPSMode mode \<longleftrightarrow> mode \<in> set ValidFIPSModes"

record fips_config =
  fp_enabled :: bool
  fp_mode :: string

definition FIPSConfig_Validate :: "fips_config \<Rightarrow> config_error option" where
  "FIPSConfig_Validate f =
     (if fp_mode f \<noteq> [] \<and> \<not> IsValidFIPSMode (fp_mode f) then Some ErrInvalidFIPSMode else None)"

section \<open>OpenTelemetry\<close>

text \<open>A \<^verbatim>\<open>float64\<close>: not a number, an infinity (positive or not) or a finite value.\<close>

datatype gofloat = FNaN | FInf bool | FVal rat

fun float_less :: "gofloat \<Rightarrow> gofloat \<Rightarrow> bool" where
  "float_less FNaN y \<longleftrightarrow> False"
| "float_less x FNaN \<longleftrightarrow> False"
| "float_less (FInf p) (FInf q) \<longleftrightarrow> \<not> p \<and> q"
| "float_less (FInf p) (FVal y) \<longleftrightarrow> \<not> p"
| "float_less (FVal x) (FInf q) \<longleftrightarrow> q"
| "float_less (FVal x) (FVal y) \<longleftrightarrow> x < y"

record otel_config =
  ot_enabled :: bool
  ot_service_name :: string
  ot_endpoint :: string
  ot_protocol :: string
  ot_insecure :: bool
  ot_sample_rate :: gofloat
  ot_exporter_timeout :: duration

definition DefaultOTelProtocol :: string where "DefaultOTelProtocol = ''grpc''"

definition OTelConfig_Validate :: "otel_config \<Rightarrow> config_error option" where
  "OTelConfig_Validate c =
     (if \<not> ot_enabled c then None
      else if ot_endpoint c = [] then Some ErrOTelEndpointRequired
      else if ot_protocol c \<noteq> DefaultOTelProtocol then Some ErrOTelInvalidProtocol
      else if float_less (ot_sample_rate c) (FVal 0) \<or> float_less (FVal 1) (ot_sample_rate c) \<or>
              ot_sample_rate c = FNaN then Some ErrOTelInvalidSampleRate
      else if ot_exporter_timeout c \<le> 0 then Some ErrOTelInvalidExporterTimeout
      else None)"

section \<open>GitHub apps\<close>

record github_app_config =
  ga_client_id :: string
  ga_private_key_path :: string
  ga_organization :: string

definition GitHubAppConfig_Validate :: "github_app_config \<Rightarrow> config_error option" where
  "GitHubAppConfig_Validate c =
     (if ga_client_id c = [] then Some ErrInvalidGithubAppClientID
      else if ga_private_key_path c = [] then Some ErrInvalidGithubAppPrivateKeyPath
      else if ga_organization c = [] then Some ErrInvalidGithubAppOrganization
      else None)"

definition ValidateGitHubApps :: "github_app_config list \<Rightarrow> config_error option" where
  "ValidateGitHubApps apps = first_err GitHubAppConfig_Validate apps"

section \<open>The whole configuration\<close>

record app_config =
  cf_logger :: logger_config
  cf_audit :: audit_config
  cf_selector :: selector_config
  cf_policy :: policy_config
  cf_server :: server_config
  cf_oidc :: oidc_config
  cf_origin :: origin_config
  cf_fips :: fips_config
  cf_otel :: otel_config
  cf_github_apps :: "github_app_config list"
  cf_aws_region :: string

definition validators :: "(app_config \<Rightarrow> config_error option) list" where
  "validators =
     [\<lambda>c. LoggerConfig_Validate (cf_logger c),
      \<lambda>c. AuditConfig_Validate (cf_audit c),
      \<lambda>c. SelectorConfig_Validate (cf_selector c),
      \<lambda>c. map_option PolicyError (PolicyConfig_Validate (cf_policy c)),
      \<lambda>c. ServerConfig_Validate (cf_server c),
      \<lambda>c. OIDCConfig_Validate (cf_oidc c),
      \<lambda>c. OriginConfig_Validate (cf_origin c),
      \<lambda>c. FIPSConfig_Validate (cf_fips c),
      \<lambda>c. OTelConfig_Validate (cf_otel c),
      \<lambda>c. ValidateGitHubApps (cf_github_apps c)]"

definition Config_Validate :: "app_config \<Rightarrow> config_error option" where
  "Config_Validate c = first_err (\<lambda>validator. validator c) validators"

section \<open>Loading\<close>

text \<open>
  A setting is a default of its Go type, or a raw value from the file or the environment, which
  mapstructure decodes into the type of the field.
\<close>

datatype 'v setting = SInt int | SString string | SBool bool | SDuration duration | SFloat gofloat | SRaw 'v

record 'v decoders =
  dec_int :: "'v \<Rightarrow> gotext + int"
  dec_string :: "'v \<Rightarrow> gotext + string"
  dec_bool :: "'v \<Rightarrow> gotext + bool"
  dec_duration :: "'v \<Rightarrow> gotext + duration"
  dec_float :: "'v \<Rightarrow> gotext + gofloat"
  dec_providers :: "'v \<Rightarrow> gotext + provider_config list"
  dec_permissions :: "'v \<Rightarrow> gotext + (string, string) gomap"
  dec_apps :: "'v \<Rightarrow> gotext + github_app_config list"

text \<open>\<^verbatim>\<open>setDefaults\<close> and \<^verbatim>\<open>bindEnv\<close>.\<close>

definition setDefaults :: "(string, 'v setting) gomap" where
  "setDefaults =
     [(KeyLoggerLevel, SString LogLevelInfo),
      (KeyLoggerFormat, SString LogFormatJSON),
      (KeyServerPort, SInt DefaultServerPort),
      (KeyServerReadTimeout, SDuration DefaultServerReadTimeout),
      (KeyServerWriteTimeout, SDuration DefaultServerWriteTimeout),
      (KeyServerShutdownTimeout, SDuration DefaultServerShutdownTimeout),
      (KeyServerRequestTimeout, SDuration DefaultServerRequestTimeout),
      (KeyServerIdleTimeout, SDuration DefaultServerIdleTimeout),
      (KeyServerWaitTimeout, SDuration DefaultServerWaitTimeout),
      (KeyOIDCAudience, SString DefaultOIDCAudience),
      (KeyAuditDynamoDBTableName, SString DefaultDynamoDBTableName),
      (KeyAuditDynamoDBTTLDays, SInt DefaultDynamoDBTTLDays),
      (KeySelectorType, SString SelectorStoreTypeMemory),
      (KeySelectorRedisDB, SInt DefaultRedisDB),
      (KeyPolicyVersion, SString DefaultPolicyVersion),
      (KeyPolicyDefaultTokenTTL, SInt DefaultPolicyDefaultTokenTTL),
      (KeyPolicyMaxTokenTTL, SInt DefaultPolicyMaxTokenTTL),
      (KeyPolicyGitHubAPIBaseURL, SString DefaultGitHubAPIBaseURL),
      (KeyPolicyGitHubRawBaseURL, SString DefaultGitHubRawBaseURL),
      (KeyOTelServiceName, SString DefaultOTelServiceName),
      (KeyOTelEndpoint, SString DefaultOTelEndpoint),
      (KeyOTelProtocol, SString DefaultOTelProtocol),
      (KeyOTelInsecure, SBool DefaultOTelInsecure),
      (KeyOTelSampleRate, SFloat (FVal DefaultOTelSampleRate)),
      (KeyOTelExporterTimeout, SDuration DefaultOTelExporterTimeout)]"

definition bindEnv :: "string list" where
  "bindEnv =
     [KeyLoggerLevel, KeyLoggerFormat,
      KeyServerPort, KeyServerReadTimeout, KeyServerWriteTimeout, KeyServerShutdownTimeout,
      KeyServerRequestTimeout, KeyServerIdleTimeout, KeyServerWaitTimeout,
      KeyServerTLSCertFilePath, KeyServerTLSKeyFilePath,
      KeyOIDCAudience,
      KeyAuditBackend, KeyAuditDynamoDBTableName, KeyAuditDynamoDBTTLDays, KeyAuditSQLDSN,
      KeySelectorType, KeySelectorRedisAddress, KeySelectorRedisPassword, KeySelectorRedisDB,
      KeySelectorRedisTLS, KeySelectorDynamoDBTableName, KeySelectorDynamoDBTTLMinutes,
      KeyPolicyVersion, KeyPolicyTrustPolicyPath, KeyPolicyDefaultTokenTTL, KeyPolicyMaxTokenTTL,
      KeyPolicyRequireExplicitPolicy, KeyPolicyGitHubAPIBaseURL, KeyPolicyGitHubRawBaseURL,
      KeyPolicyProviders, KeyPolicyMaxPermissions,
      KeyOriginEnabled, KeyOriginHeaderName, KeyOriginHeaderValue,
      KeyFIPSEnabled, KeyFIPSMode,
      KeyOTelEnabled, KeyOTelServiceName, KeyOTelEndpoint, KeyOTelProtocol, KeyOTelInsecure,
      KeyOTelSampleRate, KeyOTelExporterTimeout,
      KeyAWSRegion]"

text \<open>Viper's order: the environment, for a key it knows; then the file; then the default.\<close>

definition setting_at ::
  "(string \<Rightarrow> 'v option) \<Rightarrow> (string \<Rightarrow> 'v option) \<Rightarrow> string \<Rightarrow> 'v setting option" where
  "setting_at env from_file key =
     (case (if key \<in> set bindEnv \<or> from_file key \<noteq> None then env key else None) of
        Some v \<Rightarrow> Some (SRaw v)
      | None \<Rightarrow>
          (case from_file key of
             Some v \<Rightarrow> Some (SRaw v)
           | None \<Rightarrow> map_of setDefaults key))"

text \<open>Decoding a field; a setting that is missing leaves the zero value.\<close>

definition decode_with ::
  "('v \<Rightarrow> gotext + 'a) \<Rightarrow> ('v setting \<Rightarrow> 'a option) \<Rightarrow> 'a \<Rightarrow> 'v setting option \<Rightarrow> gotext + 'a" where
  "decode_with dec typed zero s =
     (case s of
        None \<Rightarrow> Inr zero
      | Some (SRaw v) \<Rightarrow> dec v
      | Some d \<Rightarrow> (case typed d of Some x \<Rightarrow> Inr x | None \<Rightarrow> Inl (msg ''unexpected type'')))"

fun typed_int :: "'v setting \<Rightarrow> int option" where
  "typed_int (SInt n) = Some n" | "typed_int _ = None"
fun typed_string :: "'v setting \<Rightarrow> string option" where
  "typed_string (SString x) = Some x" | "typed_string _ = None"
fun typed_bool :: "'v setting \<Rightarrow> bool option" where
  "typed_bool (SBool b) = Some b" | "typed_bool _ = None"
fun typed_duration :: "'v setting \<Rightarrow> duration option" where
  "typed_duration (SDuration d) = Some d" | "typed_duration _ = None"
fun typed_float :: "'v setting \<Rightarrow> gofloat option" where
  "typed_float (SFloat f) = Some f" | "typed_float _ = None"

section \<open>Unmarshalling\<close>

text \<open>The keys of the fields, by type.\<close>

definition int_keys :: "string list" where
  "int_keys =
    [KeyAuditDynamoDBTTLDays, KeySelectorRedisDB, KeySelectorDynamoDBTTLMinutes,
     KeyPolicyDefaultTokenTTL, KeyPolicyMaxTokenTTL, KeyServerPort]"

definition string_keys :: "string list" where
  "string_keys =
    [KeyLoggerLevel, KeyLoggerFormat, KeyAuditBackend, KeyAuditDynamoDBTableName,
     KeyAuditSQLDSN, KeySelectorType, KeySelectorRedisAddress,
     KeySelectorRedisPassword, KeySelectorDynamoDBTableName, KeyPolicyVersion,
     KeyPolicyTrustPolicyPath, KeyPolicyGitHubAPIBaseURL,
     KeyPolicyGitHubRawBaseURL, KeyServerTLSCertFilePath,
     KeyServerTLSKeyFilePath, KeyOIDCAudience, KeyOriginHeaderName,
     KeyOriginHeaderValue, KeyFIPSMode, KeyOTelServiceName, KeyOTelEndpoint,
     KeyOTelProtocol, KeyAWSRegion]"

definition bool_keys :: "string list" where
  "bool_keys =
    [KeySelectorRedisTLS, KeyPolicyRequireExplicitPolicy, KeyOriginEnabled,
     KeyFIPSEnabled, KeyOTelEnabled, KeyOTelInsecure]"

definition duration_keys :: "string list" where
  "duration_keys =
    [KeyServerReadTimeout, KeyServerWriteTimeout, KeyServerShutdownTimeout,
     KeyServerRequestTimeout, KeyServerIdleTimeout, KeyServerWaitTimeout,
     KeyOTelExporterTimeout]"

text \<open>
  \<^verbatim>\<open>Unmarshal\<close> fails when any field fails to decode. A pointer to a section is set when one of its
  keys has a value.
\<close>

definition field_errors :: "'v decoders \<Rightarrow> (string \<Rightarrow> 'v setting option) \<Rightarrow> gotext list" where
  "field_errors m s =
     concat (map (\<lambda>k. case decode_with (dec_int m) typed_int 0 (s k) of Inl e \<Rightarrow> [e] | Inr _ \<Rightarrow> []) int_keys) @
     concat (map (\<lambda>k. case decode_with (dec_string m) typed_string [] (s k) of Inl e \<Rightarrow> [e] | Inr _ \<Rightarrow> []) string_keys) @
     concat (map (\<lambda>k. case decode_with (dec_bool m) typed_bool False (s k) of Inl e \<Rightarrow> [e] | Inr _ \<Rightarrow> []) bool_keys) @
     concat (map (\<lambda>k. case decode_with (dec_duration m) typed_duration 0 (s k) of Inl e \<Rightarrow> [e] | Inr _ \<Rightarrow> []) duration_keys) @
     (case decode_with (dec_float m) typed_float (FVal 0) (s KeyOTelSampleRate) of Inl e \<Rightarrow> [e] | Inr _ \<Rightarrow> []) @
     (case decode_with (dec_providers m) (\<lambda>_. None) [] (s KeyPolicyProviders) of Inl e \<Rightarrow> [e] | Inr _ \<Rightarrow> []) @
     (case decode_with (dec_permissions m) (\<lambda>_. None) [] (s KeyPolicyMaxPermissions) of Inl e \<Rightarrow> [e] | Inr _ \<Rightarrow> []) @
     (case decode_with (dec_apps m) (\<lambda>_. None) [] (s ''github_apps'') of Inl e \<Rightarrow> [e] | Inr _ \<Rightarrow> [])"

definition decoded_config :: "'v decoders \<Rightarrow> (string \<Rightarrow> 'v setting option) \<Rightarrow> app_config" where
  "decoded_config m s =
     (let i = (\<lambda>k. projr (decode_with (dec_int m) typed_int 0 (s k)));
          t = (\<lambda>k. projr (decode_with (dec_string m) typed_string [] (s k)));
          b = (\<lambda>k. projr (decode_with (dec_bool m) typed_bool False (s k)));
          d = (\<lambda>k. projr (decode_with (dec_duration m) typed_duration 0 (s k)));
          present = (\<lambda>ks. list_ex (\<lambda>k. s k \<noteq> None) ks)
      in \<lparr>cf_logger = \<lparr>lg_level = t KeyLoggerLevel, lg_format = t KeyLoggerFormat\<rparr>,
          cf_audit =
            \<lparr>ac_backend = t KeyAuditBackend,
             ac_dynamodb =
               (if present [KeyAuditDynamoDBTableName, KeyAuditDynamoDBTTLDays]
                then Some \<lparr>adc_table_name = t KeyAuditDynamoDBTableName,
                           adc_ttl_days = i KeyAuditDynamoDBTTLDays\<rparr> else None),
             ac_sql =
               (if present [KeyAuditSQLDSN] then Some \<lparr>asc_dsn = t KeyAuditSQLDSN\<rparr> else None)\<rparr>,
          cf_selector =
            \<lparr>sc_type = t KeySelectorType,
             sc_redis =
               (if present [KeySelectorRedisAddress, KeySelectorRedisPassword, KeySelectorRedisDB,
                            KeySelectorRedisTLS]
                then Some \<lparr>rdc_address = t KeySelectorRedisAddress, rdc_password = t KeySelectorRedisPassword,
                           rdc_db = i KeySelectorRedisDB, rdc_tls = b KeySelectorRedisTLS\<rparr> else None),
             sc_dynamodb =
               (if present [KeySelectorDynamoDBTableName, KeySelectorDynamoDBTTLMinutes]
                then Some \<lparr>sdc_table_name = t KeySelectorDynamoDBTableName,
                           sdc_ttl_minutes = i KeySelectorDynamoDBTTLMinutes\<rparr> else None)\<rparr>,
          cf_policy =
            \<lparr>pol_version = t KeyPolicyVersion, pol_trust_policy_path = t KeyPolicyTrustPolicyPath,
             pol_default_token_ttl = i KeyPolicyDefaultTokenTTL, pol_max_token_ttl = i KeyPolicyMaxTokenTTL,
             pol_require_explicit_policy = b KeyPolicyRequireExplicitPolicy,
             pol_github_api_base_url = t KeyPolicyGitHubAPIBaseURL,
             pol_github_raw_base_url = t KeyPolicyGitHubRawBaseURL,
             pol_providers = projr (decode_with (dec_providers m) (\<lambda>_. None) [] (s KeyPolicyProviders)),
             pol_max_permissions = projr (decode_with (dec_permissions m) (\<lambda>_. None) [] (s KeyPolicyMaxPermissions))\<rparr>,
          cf_server =
            \<lparr>svc_port = i KeyServerPort, svc_read_timeout = d KeyServerReadTimeout,
             svc_write_timeout = d KeyServerWriteTimeout, svc_shutdown_timeout = d KeyServerShutdownTimeout,
             svc_request_timeout = d KeyServerRequestTimeout, svc_idle_timeout = d KeyServerIdleTimeout,
             svc_wait_timeout = d KeyServerWaitTimeout,
             svc_tls = \<lparr>tls_cert_file_path = t KeyServerTLSCertFilePath,
                        tls_key_file_path = t KeyServerTLSKeyFilePath\<rparr>\<rparr>,
          cf_oidc = \<lparr>oc_cfg_audience = t KeyOIDCAudience\<rparr>,
          cf_origin = \<lparr>or_enabled = b KeyOriginEnabled, or_header_name = t KeyOriginHeaderName,
                       or_header_value = t KeyOriginHeaderValue\<rparr>,
          cf_fips = \<lparr>fp_enabled = b KeyFIPSEnabled, fp_mode = t KeyFIPSMode\<rparr>,
          cf_otel =
            \<lparr>ot_enabled = b KeyOTelEnabled, ot_service_name = t KeyOTelServiceName,
             ot_endpoint = t KeyOTelEndpoint, ot_protocol = t KeyOTelProtocol, ot_insecure = b KeyOTelInsecure,
             ot_sample_rate = projr (decode_with (dec_float m) typed_float (FVal 0) (s KeyOTelSampleRate)),
             ot_exporter_timeout = d KeyOTelExporterTimeout\<rparr>,
          cf_github_apps = projr (decode_with (dec_apps m) (\<lambda>_. None) [] (s ''github_apps'')),
          cf_aws_region = t KeyAWSRegion\<rparr>)"

definition Unmarshal :: "'v decoders \<Rightarrow> (string \<Rightarrow> 'v setting option) \<Rightarrow> gotext list + app_config" where
  "Unmarshal m s =
     (let errs = field_errors m s in if errs \<noteq> [] then Inl errs else Inr (decoded_config m s))"

text \<open>What reading the config file yields.\<close>

datatype 'v config_file = FileNotFound | FileError gotext | FileRead "string \<Rightarrow> 'v option"

datatype load_error = ReadFailed gotext | DecodeFailed "gotext list" | InvalidConfig config_error

text \<open>\<^verbatim>\<open>Load\<close>, with the global \<^verbatim>\<open>current\<close> configuration as its state.\<close>

definition Load ::
  "'v decoders \<Rightarrow> (string \<Rightarrow> 'v option) \<Rightarrow> 'v config_file \<Rightarrow> app_config option
     \<Rightarrow> (load_error + app_config) \<times> app_config option" where
  "Load m env file current =
     (case (case file of
              FileNotFound \<Rightarrow> Inr (\<lambda>k. None)
            | FileError err \<Rightarrow> Inl err
            | FileRead f \<Rightarrow> Inr f) of
        Inl err \<Rightarrow> (Inl (ReadFailed err), current)
      | Inr from_file \<Rightarrow>
          (case Unmarshal m (setting_at env from_file) of
             Inl errs \<Rightarrow> (Inl (DecodeFailed errs), current)
           | Inr cfg \<Rightarrow>
               (case Config_Validate cfg of
                  Some err \<Rightarrow> (Inl (InvalidConfig err), current)
                | None \<Rightarrow> (Inr cfg, Some cfg))))"

section \<open>What validation accepts\<close>

definition audit_ok :: "audit_config \<Rightarrow> bool" where
  "audit_ok a \<longleftrightarrow>
     ac_backend a = [] \<or>
     ac_backend a = ''sql'' \<and> (\<exists>s. ac_sql a = Some s \<and> asc_dsn s \<noteq> []) \<or>
     ac_backend a = ''dynamodb'' \<and>
       (\<exists>d. ac_dynamodb a = Some d \<and> adc_table_name d \<noteq> [] \<and> 0 \<le> adc_ttl_days d \<and> adc_ttl_days d \<le> 365)"

definition selector_ok :: "selector_config \<Rightarrow> bool" where
  "selector_ok c \<longleftrightarrow>
     sc_type c = [] \<or> sc_type c = ''memory'' \<or>
     sc_type c = ''redis'' \<and> (\<exists>r. sc_redis c = Some r \<and> rdc_address r \<noteq> [] \<and> 0 \<le> rdc_db r) \<or>
     sc_type c = ''dynamodb'' \<and>
       (\<exists>d. sc_dynamodb c = Some d \<and> sdc_table_name d \<noteq> [] \<and> 0 \<le> sdc_ttl_minutes d \<and> sdc_ttl_minutes d \<le> 1440)"

definition server_ok :: "server_config \<Rightarrow> bool" where
  "server_ok s \<longleftrightarrow>
     1 \<le> svc_port s \<and> svc_port s \<le> 65535 \<and>
     0 < svc_read_timeout s \<and> 0 < svc_write_timeout s \<and> 0 < svc_shutdown_timeout s \<and>
     0 < svc_request_timeout s \<and> 0 < svc_idle_timeout s \<and> 0 < svc_wait_timeout s \<and>
     (tls_cert_file_path (svc_tls s) = [] \<longleftrightarrow> tls_key_file_path (svc_tls s) = [])"

definition otel_ok :: "otel_config \<Rightarrow> bool" where
  "otel_ok c \<longleftrightarrow>
     (ot_enabled c \<longrightarrow> ot_endpoint c \<noteq> [] \<and> ot_protocol c = ''grpc'' \<and>
        (\<exists>r. ot_sample_rate c = FVal r \<and> 0 \<le> r \<and> r \<le> 1) \<and> 0 < ot_exporter_timeout c)"

lemma audit_ok_iff: "AuditConfig_Validate a = None \<longleftrightarrow> audit_ok a"
  by (auto simp: AuditConfig_Validate_def audit_ok_def AuditBackendSQL_def AuditBackendDynamoDB_def
      AuditSQLConfig_Validate_def AuditDynamoDBConfig_Validate_def MaxDynamoDBTTLDays_def split: option.splits)

lemma selector_ok_iff: "SelectorConfig_Validate c = None \<longleftrightarrow> selector_ok c"
  by (auto simp: SelectorConfig_Validate_def selector_ok_def SelectorStoreTypeMemory_def SelectorStoreTypeRedis_def
      SelectorStoreTypeDynamoDB_def RedisConfig_Validate_def SelectorDynamoDBConfig_Validate_def
      MaxSelectorDynamoDBTTLMinutes_def split: option.splits)

lemma server_ok_iff: "ServerConfig_Validate s = None \<longleftrightarrow> server_ok s"
  by (auto simp: ServerConfig_Validate_def server_ok_def portMin_def portMax_def TLSConfig_Validate_def)

lemma otel_ok_iff: "OTelConfig_Validate c = None \<longleftrightarrow> otel_ok c"
  by (cases "ot_sample_rate c") (auto simp: OTelConfig_Validate_def otel_ok_def DefaultOTelProtocol_def)

definition config_ok :: "app_config \<Rightarrow> bool" where
  "config_ok c \<longleftrightarrow>
     (lg_level (cf_logger c) \<in> {[], ''debug'', ''info'', ''warn'', ''error''}) \<and>
     (lg_format (cf_logger c) \<in> {[], ''json'', ''text''}) \<and>
     audit_ok (cf_audit c) \<and> selector_ok (cf_selector c) \<and>
     PolicyConfig_Validate (cf_policy c) = None \<and>
     server_ok (cf_server c) \<and> oc_cfg_audience (cf_oidc c) \<noteq> [] \<and>
     (or_enabled (cf_origin c) \<longrightarrow> or_header_name (cf_origin c) \<noteq> [] \<and> or_header_value (cf_origin c) \<noteq> []) \<and>
     (fp_mode (cf_fips c) \<in> {[], ''on'', ''only''}) \<and> otel_ok (cf_otel c) \<and>
     (\<forall>a\<in>set (cf_github_apps c). ga_client_id a \<noteq> [] \<and> ga_private_key_path a \<noteq> [] \<and> ga_organization a \<noteq> [])"

lemma small_sections:
  "LoggerConfig_Validate l = None \<longleftrightarrow>
     lg_level l \<in> {[], ''debug'', ''info'', ''warn'', ''error''} \<and> lg_format l \<in> {[], ''json'', ''text''}"
  "OIDCConfig_Validate d = None \<longleftrightarrow> oc_cfg_audience d \<noteq> []"
  "OriginConfig_Validate g = None \<longleftrightarrow> (or_enabled g \<longrightarrow> or_header_name g \<noteq> [] \<and> or_header_value g \<noteq> [])"
  "FIPSConfig_Validate f = None \<longleftrightarrow> fp_mode f \<in> {[], ''on'', ''only''}"
  "ValidateGitHubApps apps = None \<longleftrightarrow>
     (\<forall>a\<in>set apps. ga_client_id a \<noteq> [] \<and> ga_private_key_path a \<noteq> [] \<and> ga_organization a \<noteq> [])"
  by (auto simp: LoggerConfig_Validate_def IsValidLogLevel_def ValidLogLevels_def IsValidLogFormat_def
      ValidLogFormats_def OIDCConfig_Validate_def OriginConfig_Validate_def FIPSConfig_Validate_def
      IsValidFIPSMode_def ValidFIPSModes_def ValidateGitHubApps_def GitHubAppConfig_Validate_def)

lemma Config_Validate_None: "Config_Validate c = None \<longleftrightarrow> config_ok c"
proof -
  have "Config_Validate c = None \<longleftrightarrow> (\<forall>v\<in>set validators. v c = None)"
    unfolding Config_Validate_def by (rule first_err_None)
  then show ?thesis
    by (simp add: validators_def config_ok_def small_sections audit_ok_iff selector_ok_iff server_ok_iff otel_ok_iff)
qed

lemma default_values:
  "map_of setDefaults ''audit.dynamodb.ttl_days'' = Some (SInt DefaultDynamoDBTTLDays)"
  "map_of setDefaults ''selector.redis.db'' = Some (SInt 0)"
  "map_of setDefaults ''selector.dynamodb.ttl_minutes'' = None"
  "map_of setDefaults ''policy.default_token_ttl'' = Some (SInt 900)"
  "map_of setDefaults ''policy.max_token_ttl'' = Some (SInt 3600)"
  "map_of setDefaults ''server.port'' = Some (SInt 8080)"
  "map_of setDefaults ''logger.level'' = Some (SString LogLevelInfo)"
  "map_of setDefaults ''logger.format'' = Some (SString LogFormatJSON)"
  "map_of setDefaults ''audit.backend'' = None"
  "map_of setDefaults ''audit.dynamodb.table_name'' = Some (SString DefaultDynamoDBTableName)"
  "map_of setDefaults ''audit.sql.dsn'' = None"
  "map_of setDefaults ''selector.type'' = Some (SString SelectorStoreTypeMemory)"
  "map_of setDefaults ''selector.redis.address'' = None"
  "map_of setDefaults ''selector.redis.password'' = None"
  "map_of setDefaults ''selector.dynamodb.table_name'' = None"
  "map_of setDefaults ''policy.version'' = Some (SString ''1.0'')"
  "map_of setDefaults ''policy.github_api_base_url'' = Some (SString ''https://api.github.com'')"
  "map_of setDefaults ''policy.github_raw_base_url'' = Some (SString ''https://raw.githubusercontent.com'')"
  "map_of setDefaults ''server.tls.cert_file_path'' = None"
  "map_of setDefaults ''server.tls.key_file_path'' = None"
  "map_of setDefaults ''oidc.audience'' = Some (SString ''gate'')"
  "map_of setDefaults ''origin.header_name'' = None"
  "map_of setDefaults ''origin.header_value'' = None"
  "map_of setDefaults ''fips.mode'' = None"
  "map_of setDefaults ''otel.service_name'' = Some (SString ''gate'')"
  "map_of setDefaults ''otel.endpoint'' = Some (SString ''localhost:4317'')"
  "map_of setDefaults ''otel.protocol'' = Some (SString DefaultOTelProtocol)"
  "map_of setDefaults ''aws_region'' = None"
  "map_of setDefaults ''selector.redis.tls'' = None"
  "map_of setDefaults ''policy.require_explicit_policy'' = None"
  "map_of setDefaults ''origin.enabled'' = None"
  "map_of setDefaults ''fips.enabled'' = None"
  "map_of setDefaults ''otel.enabled'' = None"
  "map_of setDefaults ''otel.insecure'' = Some (SBool False)"
  "map_of setDefaults ''server.read_timeout'' = Some (SDuration (30 * nano_second))"
  "map_of setDefaults ''server.write_timeout'' = Some (SDuration (30 * nano_second))"
  "map_of setDefaults ''server.shutdown_timeout'' = Some (SDuration (10 * nano_second))"
  "map_of setDefaults ''server.request_timeout'' = Some (SDuration (30 * nano_second))"
  "map_of setDefaults ''server.idle_timeout'' = Some (SDuration (10 * nano_second))"
  "map_of setDefaults ''server.wait_timeout'' = Some (SDuration (10 * nano_second))"
  "map_of setDefaults ''otel.exporter_timeout'' = Some (SDuration (10 * nano_second))"
  "map_of setDefaults ''otel.sample_rate'' = Some (SFloat (FVal 1))"
  "map_of setDefaults ''policy.providers'' = None"
  "map_of setDefaults ''policy.max_permissions'' = None"
  "map_of setDefaults ''github_apps'' = None"
  by (simp_all add: setDefaults_def)

lemma other_keys:
  "(''audit.dynamodb.ttl_days'' :: string) \<noteq> ''policy.trust_policy_path''"
  "(''selector.redis.db'' :: string) \<noteq> ''policy.trust_policy_path''"
  "(''selector.dynamodb.ttl_minutes'' :: string) \<noteq> ''policy.trust_policy_path''"
  "(''policy.default_token_ttl'' :: string) \<noteq> ''policy.trust_policy_path''"
  "(''policy.max_token_ttl'' :: string) \<noteq> ''policy.trust_policy_path''"
  "(''server.port'' :: string) \<noteq> ''policy.trust_policy_path''"
  "(''logger.level'' :: string) \<noteq> ''policy.trust_policy_path''"
  "(''logger.format'' :: string) \<noteq> ''policy.trust_policy_path''"
  "(''audit.backend'' :: string) \<noteq> ''policy.trust_policy_path''"
  "(''audit.dynamodb.table_name'' :: string) \<noteq> ''policy.trust_policy_path''"
  "(''audit.sql.dsn'' :: string) \<noteq> ''policy.trust_policy_path''"
  "(''selector.type'' :: string) \<noteq> ''policy.trust_policy_path''"
  "(''selector.redis.address'' :: string) \<noteq> ''policy.trust_policy_path''"
  "(''selector.redis.password'' :: string) \<noteq> ''policy.trust_policy_path''"
  "(''selector.dynamodb.table_name'' :: string) \<noteq> ''policy.trust_policy_path''"
  "(''policy.version'' :: string) \<noteq> ''policy.trust_policy_path''"
  "(''policy.github_api_base_url'' :: string) \<noteq> ''policy.trust_policy_path''"
  "(''policy.github_raw_base_url'' :: string) \<noteq> ''policy.trust_policy_path''"
  "(''server.tls.cert_file_path'' :: string) \<noteq> ''policy.trust_policy_path''"
  "(''server.tls.key_file_path'' :: string) \<noteq> ''policy.trust_policy_path''"
  "(''oidc.audience'' :: string) \<noteq> ''policy.trust_policy_path''"
  "(''origin.header_name'' :: string) \<noteq> ''policy.trust_policy_path''"
  "(''origin.header_value'' :: string) \<noteq> ''policy.trust_policy_path''"
  "(''fips.mode'' :: string) \<noteq> ''policy.trust_policy_path''"
  "(''otel.service_name'' :: string) \<noteq> ''policy.trust_policy_path''"
  "(''otel.endpoint'' :: string) \<noteq> ''policy.trust_policy_path''"
  "(''otel.protocol'' :: string) \<noteq> ''policy.trust_policy_path''"
  "(''aws_region'' :: string) \<noteq> ''policy.trust_policy_path''"
  "(''selector.redis.tls'' :: string) \<noteq> ''policy.trust_policy_path''"
  "(''policy.require_explicit_policy'' :: string) \<noteq> ''policy.trust_policy_path''"
  "(''origin.enabled'' :: string) \<noteq> ''policy.trust_policy_path''"
  "(''fips.enabled'' :: string) \<noteq> ''policy.trust_policy_path''"
  "(''otel.enabled'' :: string) \<noteq> ''policy.trust_policy_path''"
  "(''otel.insecure'' :: string) \<noteq> ''policy.trust_policy_path''"
  "(''server.read_timeout'' :: string) \<noteq> ''policy.trust_policy_path''"
  "(''server.write_timeout'' :: string) \<noteq> ''policy.trust_policy_path''"
  "(''server.shutdown_timeout'' :: string) \<noteq> ''policy.trust_policy_path''"
  "(''server.request_timeout'' :: string) \<noteq> ''policy.trust_policy_path''"
  "(''server.idle_timeout'' :: string) \<noteq> ''policy.trust_policy_path''"
  "(''server.wait_timeout'' :: string) \<noteq> ''policy.trust_policy_path''"
  "(''otel.exporter_timeout'' :: string) \<noteq> ''policy.trust_policy_path''"
  "(''otel.sample_rate'' :: string) \<noteq> ''policy.trust_policy_path''"
  "(''policy.providers'' :: string) \<noteq> ''policy.trust_policy_path''"
  "(''policy.max_permissions'' :: string) \<noteq> ''policy.trust_policy_path''"
  "(''github_apps'' :: string) \<noteq> ''policy.trust_policy_path''"
  by simp_all

section \<open>Properties\<close>


text \<open>The environment of a minimal deployment: only the path of the trust policy is set.\<close>

definition only_path :: "'v \<Rightarrow> string \<Rightarrow> 'v option" where
  "only_path v k = (if k = ''policy.trust_policy_path'' then Some v else None)"

text \<open>The defaults. With no config file and nothing but the trust policy path in the environment, the
  defaults make a well-formed configuration: port 8080, the in-memory selector, the console for the
  audit log, lifetimes of 900 and at most 3600 seconds, no provider and no permission ceiling.\<close>

lemma defaults_load:
  assumes "dec_string m v = Inr path" and "path \<noteq> []"
  shows "\<exists>cfg. Load m (only_path v) FileNotFound cur = (Inr cfg, Some cfg) \<and>
    pol_trust_policy_path (cf_policy cfg) = path \<and> svc_port (cf_server cfg) = 8080 \<and>
    sc_type (cf_selector cfg) = ''memory'' \<and> ac_backend (cf_audit cfg) = [] \<and>
    pol_default_token_ttl (cf_policy cfg) = 900 \<and> pol_max_token_ttl (cf_policy cfg) = 3600 \<and>
    pol_providers (cf_policy cfg) = [] \<and> pol_max_permissions (cf_policy cfg) = []"
proof -
  let ?s = "setting_at (only_path v) (\<lambda>k. None)"
  let ?cfg = "decoded_config m ?s"
  have s: "?s k = (if k = ''policy.trust_policy_path'' then Some (SRaw v) else map_of setDefaults k)" for k
    by (simp add: setting_at_def only_path_def bindEnv_def)
  note eval = s default_values other_keys decode_with_def assms(1)
  have "field_errors m ?s = []"
    by (simp add: field_errors_def int_keys_def string_keys_def bool_keys_def duration_keys_def eval)
  moreover have "cf_policy ?cfg = \<lparr>pol_version = ''1.0'', pol_trust_policy_path = path, pol_default_token_ttl = 900,
      pol_max_token_ttl = 3600, pol_require_explicit_policy = False,
      pol_github_api_base_url = ''https://api.github.com'',
      pol_github_raw_base_url = ''https://raw.githubusercontent.com'', pol_providers = [], pol_max_permissions = []\<rparr>"
    "svc_port (cf_server ?cfg) = 8080" "sc_type (cf_selector ?cfg) = ''memory''" "ac_backend (cf_audit ?cfg) = []"
    by (simp_all add: decoded_config_def eval SelectorStoreTypeMemory_def)
  moreover have "server_ok (cf_server ?cfg)" "otel_ok (cf_otel ?cfg)" "oc_cfg_audience (cf_oidc ?cfg) \<noteq> []"
    "\<not> or_enabled (cf_origin ?cfg)" "fp_mode (cf_fips ?cfg) = []" "cf_github_apps ?cfg = []"
    "lg_level (cf_logger ?cfg) = ''info''" "lg_format (cf_logger ?cfg) = ''json''"
    by (simp_all add: decoded_config_def eval server_ok_def otel_ok_def nano_second_def LogLevelInfo_def LogFormatJSON_def)
  ultimately have "config_ok ?cfg" and "Unmarshal m ?s = Inr ?cfg"
    using assms(2)
    by (simp_all add: config_ok_def audit_ok_def selector_ok_def PolicyConfig_Validate_None validatePermissions_def
        Unmarshal_def)
  then have "Config_Validate ?cfg = None" and "Unmarshal m ?s = Inr ?cfg"
    by (simp_all only: Config_Validate_None)
  then have "Load m (only_path v) FileNotFound cur = (Inr ?cfg, Some ?cfg)"
    by (simp add: Load_def)
  with \<open>cf_policy ?cfg = _\<close> \<open>svc_port (cf_server ?cfg) = 8080\<close> \<open>sc_type (cf_selector ?cfg) = ''memory''\<close>
    \<open>ac_backend (cf_audit ?cfg) = []\<close> show ?thesis by auto
qed

definition text_decoders :: "string decoders" where
  "text_decoders =
     \<lparr>dec_int = ParseInt, dec_string = Inr, dec_bool = (\<lambda>s. Inr (s = ''true'')), dec_duration = ParseInt,
      dec_float = (\<lambda>s. Inr FNaN), dec_providers = (\<lambda>s. Inr []), dec_permissions = (\<lambda>s. Inr []),
      dec_apps = (\<lambda>s. Inr [])\<rparr>"

end
