(* ===== verification/Github_Caches.thy ===== *)
theory Github_Caches
  imports Evicting_Cache
begin

text \<open>
  The installation cache and the token cache of the GitHub client,
  \<^verbatim>\<open>internal/clients/github/types.go\<close>. As in Policy_Cache, the lock makes an operation one step.
  \<^verbatim>\<open>get\<close> reads the clock once to decide that an entry is stale and again, under the write lock,
  before it deletes it: \<open>now\<close> and \<open>relock\<close>. A missing or stale entry is the zero value.
\<close>

definition maxInstallationCacheEntries :: nat where "maxInstallationCacheEntries = 1000"
definition installationCacheTTL :: duration where "installationCacheTTL = 24 * nano_hour"
definition maxTokenCacheEntries :: nat where "maxTokenCacheEntries = 1000"
definition tokenCacheExpiryBuffer :: duration where "tokenCacheExpiryBuffer = 5 * nano_minute"

section \<open>Installations\<close>

record installation_entry =
  ie_id :: int
  ie_fetched :: time

record installation_cache =
  ic_entries :: "(string, installation_entry) gomap"

definition newInstallationCache :: installation_cache where
  "newInstallationCache = \<lparr>ic_entries = []\<rparr>"

definition installationCache_get ::
  "time \<Rightarrow> time \<Rightarrow> installation_cache \<Rightarrow> string \<Rightarrow> int \<times> installation_cache" where
  "installationCache_get now relock c key =
     (case map_of (ic_entries c) key of
        None \<Rightarrow> (0, c)
      | Some e \<Rightarrow>
          if sub_time now (ie_fetched e) > installationCacheTTL
          then (0, if sub_time relock (ie_fetched e) > installationCacheTTL
                   then c\<lparr>ic_entries := AList.delete key (ic_entries c)\<rparr> else c)
          else (ie_id e, c))"

definition installationCache_set ::
  "time \<Rightarrow> (string, installation_entry) gomap \<Rightarrow> installation_cache \<Rightarrow> string \<Rightarrow> int
     \<Rightarrow> installation_cache" where
  "installationCache_set now order c key inst_id =
     c\<lparr>ic_entries :=
         AList.update key \<lparr>ie_id = inst_id, ie_fetched = now\<rparr>
           (make_room maxInstallationCacheEntries ie_fetched order key (ic_entries c))\<rparr>"

definition installation_cache_inv :: "installation_cache \<Rightarrow> bool" where
  "installation_cache_inv c \<longleftrightarrow> cache_inv maxInstallationCacheEntries (ic_entries c)"

lemma installation_entry_collapse [simp]: "\<lparr>ie_id = ie_id e, ie_fetched = ie_fetched e\<rparr> = e"
  by simp

interpretation icache: evicting_map
  ic_entries
  "\<lambda>order key e c. installationCache_set (ie_fetched e) order c key (ie_id e)"
  ie_fetched
  maxInstallationCacheEntries
  by unfold_locales (simp_all add: maxInstallationCacheEntries_def installationCache_set_def)

section \<open>Tokens\<close>

record token_entry =
  te_token :: string
  te_expires_at :: time

record token_cache =
  tc_entries :: "(string, token_entry) gomap"

definition newTokenCache :: token_cache where
  "newTokenCache = \<lparr>tc_entries = []\<rparr>"

definition tokenCache_get :: "time \<Rightarrow> time \<Rightarrow> token_cache \<Rightarrow> string \<Rightarrow> string \<times> token_cache" where
  "tokenCache_get now relock c key =
     (case map_of (tc_entries c) key of
        None \<Rightarrow> ([], c)
      | Some e \<Rightarrow>
          if after now (add_dur (te_expires_at e) (- tokenCacheExpiryBuffer))
          then ([], if after relock (add_dur (te_expires_at e) (- tokenCacheExpiryBuffer))
                    then c\<lparr>tc_entries := AList.delete key (tc_entries c)\<rparr> else c)
          else (te_token e, c))"

definition tokenCache_set ::
  "(string, token_entry) gomap \<Rightarrow> token_cache \<Rightarrow> string \<Rightarrow> string \<Rightarrow> time \<Rightarrow> token_cache" where
  "tokenCache_set order c key token expiresAt =
     c\<lparr>tc_entries :=
         AList.update key \<lparr>te_token = token, te_expires_at = expiresAt\<rparr>
           (make_room maxTokenCacheEntries te_expires_at order key (tc_entries c))\<rparr>"

definition tokenCache_delete :: "token_cache \<Rightarrow> string \<Rightarrow> token_cache" where
  "tokenCache_delete c key = c\<lparr>tc_entries := AList.delete key (tc_entries c)\<rparr>"

definition token_cache_inv :: "token_cache \<Rightarrow> bool" where
  "token_cache_inv c \<longleftrightarrow> cache_inv maxTokenCacheEntries (tc_entries c)"

lemma token_entry_collapse [simp]: "\<lparr>te_token = te_token e, te_expires_at = te_expires_at e\<rparr> = e"
  by simp

interpretation tcache: evicting_map
  tc_entries
  "\<lambda>order key e c. tokenCache_set order c key (te_token e) (te_expires_at e)"
  te_expires_at
  maxTokenCacheEntries
  by unfold_locales (simp_all add: maxTokenCacheEntries_def tokenCache_set_def)

section \<open>What the client relies on\<close>

lemma new_caches_inv [simp]: "installation_cache_inv newInstallationCache" "token_cache_inv newTokenCache"
  by (simp_all add: installation_cache_inv_def token_cache_inv_def cache_inv_def newInstallationCache_def
      newTokenCache_def keys_nonempty_def)

text \<open>Removing an entry keeps the invariant.\<close>

lemma delete_inv: "cache_inv n m \<Longrightarrow> cache_inv n (AList.delete k m)"
  by (auto simp: cache_inv_def keys_nonempty_delete intro: order_trans [OF length_delete_le])

lemma installationCache_get_inv:
  "installation_cache_inv c \<Longrightarrow> installation_cache_inv (snd (installationCache_get now relock c key))"
  by (auto simp: installationCache_get_def installation_cache_inv_def delete_inv split: option.splits)

lemma tokenCache_get_inv:
  "token_cache_inv c \<Longrightarrow> token_cache_inv (snd (tokenCache_get now relock c key))"
  by (auto simp: tokenCache_get_def token_cache_inv_def delete_inv split: option.splits)

lemma tokenCache_delete_inv: "token_cache_inv c \<Longrightarrow> token_cache_inv (tokenCache_delete c key)"
  by (simp add: tokenCache_delete_def token_cache_inv_def delete_inv)

text \<open>
  Every entry satisfies a predicate that depends on its key. It survives all operations when what
  is stored satisfies it.
\<close>

definition entries_all :: "(string \<Rightarrow> 'e \<Rightarrow> bool) \<Rightarrow> (string, 'e) gomap \<Rightarrow> bool" where
  "entries_all P m \<longleftrightarrow> (\<forall>k e. map_of m k = Some e \<longrightarrow> P k e)"

lemma entries_all_Nil [simp]: "entries_all P []"
  by (simp add: entries_all_def)

lemma entries_all_delete: "entries_all P m \<Longrightarrow> entries_all P (AList.delete k m)"
  by (simp add: entries_all_def)

lemma entries_all_store:
  assumes "entries_all P m" and "P key e"
  shows "entries_all P (AList.update key e (make_room n stamp order key m))"
  unfolding entries_all_def
proof (intro allI impI)
  fix k x
  assume look: "map_of (AList.update key e (make_room n stamp order key m)) k = Some x"
  show "P k x"
  proof (cases "k = key")
    case True
    with look assms(2) show ?thesis by simp
  next
    case False
    with look have "map_of m k = Some x" using make_room_store_other by metis
    with assms(1) show ?thesis by (simp add: entries_all_def)
  qed
qed

lemma installationCache_get_all:
  assumes "entries_all P (ic_entries c)"
  shows "entries_all P (ic_entries (snd (installationCache_get now relock c key)))"
    and "fst (installationCache_get now relock c key) \<noteq> 0 \<Longrightarrow>
      \<exists>e. P key e \<and> ie_id e = fst (installationCache_get now relock c key) \<and>
          sub_time now (ie_fetched e) \<le> installationCacheTTL"
  using assms
  by (auto simp: installationCache_get_def entries_all_def not_less split: option.splits if_splits intro!: exI)

lemma tokenCache_get_all:
  assumes "entries_all P (tc_entries c)"
  shows "entries_all P (tc_entries (snd (tokenCache_get now relock c key)))"
    and "fst (tokenCache_get now relock c key) \<noteq> [] \<Longrightarrow>
      \<exists>e. P key e \<and> te_token e = fst (tokenCache_get now relock c key) \<and>
          now + tokenCacheExpiryBuffer \<le> te_expires_at e"
  using assms
  by (auto simp: tokenCache_get_def entries_all_def not_less algebra_simps split: option.splits if_splits intro!: exI)

end
