(* ===== verification/Github_Client.thy ===== *)
theory Github_Client
  imports Github_Iface Github_Caches Crypto_Utils
begin

text \<open>
  The GitHub App client, \<^verbatim>\<open>internal/clients/github/client.go\<close> and \<^verbatim>\<open>utils.go\<close>: installation lookup,
  token minting with its cache, contents with the retry on a stale token, rate limits and
  revocation. \<open>github_lib\<close> collects what the client calls outside the repository: go-github (whose
  calls change the outside world \<open>'w\<close>), the JWT signer, the URL parser, the clock, and the order of
  a \<^verbatim>\<open>range\<close> over a cache. The client's own state are its two caches. \<^verbatim>\<open>singleflight\<close> is modelled for
  one caller at a time, who runs the function it is given.
\<close>

section \<open>Names and keys\<close>

text \<open>\<^verbatim>\<open>strings.TrimRight(s, string(c))\<close>.\<close>

definition trim_right :: "char \<Rightarrow> string \<Rightarrow> string" where
  "trim_right c s = rev (dropWhile (\<lambda>x. x = c) (rev s))"

definition parseRepository :: "string \<Rightarrow> gh_error + string \<times> string" where
  "parseRepository repository =
     (case split_all (CHR ''/'') repository of
        [owner, repo] \<Rightarrow>
          if owner = [] \<or> repo = []
          then Inl (GhSentinel ErrInvalidRepository_gh
                 (Sprintf ''%w: %s'' [AErr (sentinel_text ErrInvalidRepository_gh), AStr repository]))
          else Inr (owner, repo)
      | _ \<Rightarrow> Inl (GhSentinel ErrInvalidRepository_gh
                 (Sprintf ''%w: %s'' [AErr (sentinel_text ErrInvalidRepository_gh), AStr repository])))"

definition constructRepository :: "string \<Rightarrow> string \<Rightarrow> string" where
  "constructRepository owner repo = owner @ ''/'' @ repo"

text \<open>The loop over the sorted keys: a comma before every entry but the first.\<close>

definition key_entry :: "(string, string) gomap \<Rightarrow> string \<Rightarrow> string" where
  "key_entry perms k =
     k @ ''='' @ (case map_of perms k of None \<Rightarrow> [] | Some v \<Rightarrow> v)"

fun write_entries :: "(string, string) gomap \<Rightarrow> nat \<Rightarrow> string list \<Rightarrow> string \<Rightarrow> string" where
  "write_entries perms i [] b = b"
| "write_entries perms i (k # keys) b =
     write_entries perms (Suc i) keys ((if i > 0 then b @ '','' else b) @ key_entry perms k)"

definition permissionsKey :: "(string, string) gomap \<Rightarrow> string" where
  "permissionsKey perms = write_entries perms 0 (sort (map fst perms)) []"

section \<open>The libraries\<close>

text \<open>An API error with the status of the response, when there is one.\<close>

datatype api_error = ApiError (api_status: "int option") (api_text: gotext)

text \<open>A go-github client: its base URL when it is not the default one, and its token.\<close>

record gh_session =
  gs_base :: "string option"
  gs_token :: string

record jwt_claims =
  jc_iat :: int
  jc_exp :: int
  jc_iss :: string

record token_options =
  to_repositories :: "string list"
  to_permissions :: "(string, string) gomap option"

text \<open>
  \<open>gl_field\<close> is the field of go-github's \<^verbatim>\<open>InstallationPermissions\<close> that a JSON key is decoded
  into. A lookup returns the installation's id. \<open>gl_rate_limit\<close> returns the core limit, which
  may be missing; \<open>gl_get_contents\<close> a file with its decoded content, or none for a directory;
  \<open>gl_timer\<close> an error when the context ends before the timer.
\<close>

record ('w, 'k) github_lib =
  gl_now :: "'w \<Rightarrow> time \<times> 'w"
  gl_range_installations :: "(string, installation_entry) gomap \<Rightarrow> 'w \<Rightarrow> (string, installation_entry) gomap"
  gl_range_tokens :: "(string, token_entry) gomap \<Rightarrow> 'w \<Rightarrow> (string, token_entry) gomap"
  gl_timer :: "duration \<Rightarrow> 'w \<Rightarrow> gotext option \<times> 'w"
  gl_sign :: "jwt_claims \<Rightarrow> 'k \<Rightarrow> gotext + string"
  gl_parse_url :: "string \<Rightarrow> gotext option"
  gl_field :: "string \<Rightarrow> string option"
  gl_find_org :: "gh_session \<Rightarrow> string \<Rightarrow> 'w \<Rightarrow> (api_error + int) \<times> 'w"
  gl_find_user :: "gh_session \<Rightarrow> string \<Rightarrow> 'w \<Rightarrow> (api_error + int) \<times> 'w"
  gl_create_token :: "gh_session \<Rightarrow> int \<Rightarrow> token_options \<Rightarrow> 'w \<Rightarrow> (api_error + token_response) \<times> 'w"
  gl_revoke :: "gh_session \<Rightarrow> 'w \<Rightarrow> api_error option \<times> 'w"
  gl_rate_limit :: "gh_session \<Rightarrow> 'w \<Rightarrow> (api_error + rate_limit_info option) \<times> 'w"
  gl_get_contents :: "gh_session \<Rightarrow> string \<Rightarrow> string \<Rightarrow> string \<Rightarrow> 'w
    \<Rightarrow> (api_error + (gotext + string) option) \<times> 'w"

section \<open>The client\<close>

definition DefaultBaseURL :: string where "DefaultBaseURL = ''https://api.github.com''"
definition DefaultTokenReadyDelay :: duration where "DefaultTokenReadyDelay = 2 * nano_second"
definition jwtExpiry :: duration where "jwtExpiry = 10 * nano_minute"
definition jwtClockSkew :: duration where "jwtClockSkew = 5 * nano_second"

record 'k client =
  cl_client_id :: string
  cl_key :: 'k
  cl_base_url :: string
  cl_token_ready_delay :: duration

record 'w client_state =
  cs_installations :: installation_cache
  cs_tokens :: token_cache
  cs_world :: 'w

definition clock :: "('w, 'k) github_lib \<Rightarrow> 'w client_state \<Rightarrow> time \<times> 'w client_state" where
  "clock lib st = (case gl_now lib (cs_world st) of (now, w) \<Rightarrow> (now, st\<lparr>cs_world := w\<rparr>))"

text \<open>
  The cache operations with the clock they read. Both readings of a \<^verbatim>\<open>get\<close> are drawn; the code
  draws the first only when there is an entry, and the second only when it is stale.
\<close>

definition installations_get ::
  "('w, 'k) github_lib \<Rightarrow> string \<Rightarrow> 'w client_state \<Rightarrow> int \<times> 'w client_state" where
  "installations_get lib owner st =
     (let (now, st) = clock lib st;
          (relock, st) = clock lib st;
          (inst_id, c) = installationCache_get now relock (cs_installations st) owner
      in (inst_id, st\<lparr>cs_installations := c\<rparr>))"

definition installations_set ::
  "('w, 'k) github_lib \<Rightarrow> string \<Rightarrow> int \<Rightarrow> 'w client_state \<Rightarrow> 'w client_state" where
  "installations_set lib owner inst_id st =
     (let (now, st) = clock lib st;
          order = gl_range_installations lib (ic_entries (cs_installations st)) (cs_world st)
      in st\<lparr>cs_installations := installationCache_set now order (cs_installations st) owner inst_id\<rparr>)"

definition tokens_get ::
  "('w, 'k) github_lib \<Rightarrow> string \<Rightarrow> 'w client_state \<Rightarrow> string \<times> 'w client_state" where
  "tokens_get lib key st =
     (let (now, st) = clock lib st;
          (relock, st) = clock lib st;
          (tok, c) = tokenCache_get now relock (cs_tokens st) key
      in (tok, st\<lparr>cs_tokens := c\<rparr>))"

definition tokens_set ::
  "('w, 'k) github_lib \<Rightarrow> string \<Rightarrow> token_response \<Rightarrow> 'w client_state \<Rightarrow> 'w client_state" where
  "tokens_set lib key resp st =
     st\<lparr>cs_tokens := tokenCache_set (gl_range_tokens lib (tc_entries (cs_tokens st)) (cs_world st))
          (cs_tokens st) key (trs_token resp) (trs_expires_at resp)\<rparr>"

definition tokens_delete :: "string \<Rightarrow> 'w client_state \<Rightarrow> 'w client_state" where
  "tokens_delete key st = st\<lparr>cs_tokens := tokenCache_delete (cs_tokens st) key\<rparr>"

text \<open>A call of the API: it changes the world only.\<close>

definition call :: "('w \<Rightarrow> 'r \<times> 'w) \<Rightarrow> 'w client_state \<Rightarrow> 'r \<times> 'w client_state" where
  "call f st = (case f (cs_world st) of (r, w) \<Rightarrow> (r, st\<lparr>cs_world := w\<rparr>))"

definition ghClient :: "('w, 'k) github_lib \<Rightarrow> 'k client \<Rightarrow> string \<Rightarrow> gh_error + gh_session" where
  "ghClient lib c token =
     (if cl_base_url c \<noteq> DefaultBaseURL
      then let u = trim_right (CHR ''/'') (cl_base_url c) @ ''/''
           in case gl_parse_url lib u of
                Some err \<Rightarrow> Inl (GhFailure (Sprintf ''parsing base URL %q: %w'' [AStr (cl_base_url c), AErr err]))
              | None \<Rightarrow> Inr \<lparr>gs_base = Some u, gs_token = token\<rparr>
      else Inr \<lparr>gs_base = None, gs_token = token\<rparr>)"

definition generateAppJWT ::
  "('w, 'k) github_lib \<Rightarrow> 'k client \<Rightarrow> 'w client_state \<Rightarrow> (gh_error + string) \<times> 'w client_state" where
  "generateAppJWT lib c st =
     (let (now, st) = clock lib st;
          claims = \<lparr>jc_iat = unix (add_dur now (- jwtClockSkew)),
                    jc_exp = unix (add_dur now jwtExpiry),
                    jc_iss = cl_client_id c\<rparr>
      in (case gl_sign lib claims (cl_key c) of
            Inl err \<Rightarrow> (Inl (GhWrap ''signing JWT'' (GhFailure err)), st)
          | Inr tokenString \<Rightarrow> (Inr tokenString, st)))"

text \<open>
  The JSON round trip into the struct: \<^verbatim>\<open>json.Marshal\<close> writes the keys in order, \<^verbatim>\<open>Unmarshal\<close> sets
  the field of each known key and ignores the others. Neither fails on a map of strings.
\<close>

definition decode_fields :: "(string \<Rightarrow> string option) \<Rightarrow> (string, string) gomap \<Rightarrow> (string, string) gomap" where
  "decode_fields field m =
     foldl (\<lambda>p (k, v). case field k of None \<Rightarrow> p | Some f \<Rightarrow> AList.update f v p) [] (sort_key fst m)"

definition toInstallationPermissions ::
  "('w, 'k) github_lib \<Rightarrow> (string, string) gomap \<Rightarrow> (string, string) gomap option" where
  "toInstallationPermissions lib m =
     (if length m = 0 then None else Some (decode_fields (gl_field lib) m))"

definition waitTokenReady ::
  "('w, 'k) github_lib \<Rightarrow> 'k client \<Rightarrow> 'w client_state \<Rightarrow> gh_error option \<times> 'w client_state" where
  "waitTokenReady lib c st =
     (if cl_token_ready_delay c \<le> 0 then (None, st)
      else (case call (gl_timer lib (cl_token_ready_delay c)) st of
              (None, st) \<Rightarrow> (None, st)
            | (Some err, st) \<Rightarrow> (Some (GhWrap ''waiting for token replication'' (GhFailure err)), st)))"

section \<open>Operations\<close>

definition status_is :: "api_error \<Rightarrow> int \<Rightarrow> bool" where
  "status_is e n \<longleftrightarrow> api_status e = Some n"

text \<open>The function that \<^verbatim>\<open>getInstallationID\<close> runs under \<^verbatim>\<open>singleflight\<close>, after its cache lookup.\<close>

definition find_installation ::
  "('w, 'k) github_lib \<Rightarrow> 'k client \<Rightarrow> string \<Rightarrow> 'w client_state
     \<Rightarrow> (gh_error + int) \<times> 'w client_state" where
  "find_installation lib c owner st =
     (case generateAppJWT lib c st of
        (Inl err, st) \<Rightarrow> (Inl (GhWrap ''generating app JWT'' err), st)
      | (Inr appJWT, st) \<Rightarrow>
          (case ghClient lib c appJWT of
             Inl err \<Rightarrow> (Inl err, st)
           | Inr gh \<Rightarrow>
               (let (found, st) =
                      (case call (gl_find_org lib gh owner) st of
                         (Inl err, st) \<Rightarrow>
                           if status_is err 404 then call (gl_find_user lib gh owner) st else (Inl err, st)
                       | (Inr i, st) \<Rightarrow> (Inr i, st))
                in case found of
                     Inl err \<Rightarrow>
                       (if status_is err 404
                        then (Inl (GhSentinel ErrInstallationNotFound
                                (Sprintf ''%w: %s'' [AErr (sentinel_text ErrInstallationNotFound), AStr owner])), st)
                        else (Inl (GhWrap ''fetching installation ID'' (GhFailure (api_text err))), st))
                   | Inr inst_id \<Rightarrow> (Inr inst_id, installations_set lib owner inst_id st))))"

definition getInstallationID ::
  "('w, 'k) github_lib \<Rightarrow> 'k client \<Rightarrow> string \<Rightarrow> 'w client_state
     \<Rightarrow> (gh_error + int) \<times> 'w client_state" where
  "getInstallationID lib c owner st =
     (let (inst_id, st) = installations_get lib owner st
      in if inst_id \<noteq> 0 then (Inr inst_id, st)
         else let (inst_id, st) = installations_get lib owner st
              in if inst_id \<noteq> 0 then (Inr inst_id, st)
                 else find_installation lib c owner st)"

definition createInstallationToken ::
  "('w, 'k) github_lib \<Rightarrow> 'k client \<Rightarrow> int \<Rightarrow> string \<Rightarrow> (string, string) gomap \<Rightarrow> 'w client_state
     \<Rightarrow> (gh_error + token_response) \<times> 'w client_state" where
  "createInstallationToken lib c inst_id repository permissions st =
     (case generateAppJWT lib c st of
        (Inl err, st) \<Rightarrow> (Inl (GhWrap ''generating app JWT'' err), st)
      | (Inr appJWT, st) \<Rightarrow>
          (case ghClient lib c appJWT of
             Inl err \<Rightarrow> (Inl err, st)
           | Inr gh \<Rightarrow>
               (let opts = \<lparr>to_repositories = (if repository \<noteq> [] then [repository] else []),
                            to_permissions = toInstallationPermissions lib permissions\<rparr>
                in case call (gl_create_token lib gh inst_id opts) st of
                     (Inl err, st) \<Rightarrow>
                       (if status_is err 404 \<or> status_is err 422
                        then (if repository \<noteq> []
                              then (Inl (GhSentinel ErrRepositoryNotFound
                                     (Sprintf ''%w: %s'' [AErr (sentinel_text ErrRepositoryNotFound), AStr repository])), st)
                              else (Inl (GhSentinel ErrInstallationNotFound
                                     (Sprintf ''%w (installation %d)'' [AErr (sentinel_text ErrInstallationNotFound), AInt inst_id])), st))
                        else (Inl (GhWrap ''creating installation token'' (GhFailure (api_text err))), st))
                   | (Inr resp, st) \<Rightarrow> (Inr resp, st))))"

definition Client_RequestToken ::
  "('w, 'k) github_lib \<Rightarrow> 'k client \<Rightarrow> token_request \<Rightarrow> 'w client_state
     \<Rightarrow> (gh_error + token_response) \<times> 'w client_state" where
  "Client_RequestToken lib c req st =
     (case parseRepository (trq_repository req) of
        Inl err \<Rightarrow> (Inl err, st)
      | Inr (owner, repo) \<Rightarrow>
          (case getInstallationID lib c owner st of
             (Inl err, st) \<Rightarrow> (Inl (GhWrap ''getting installation ID'' err), st)
           | (Inr inst_id, st) \<Rightarrow>
               createInstallationToken lib c inst_id repo (trq_permissions req) st))"

definition Client_RateLimit ::
  "('w, 'k) github_lib \<Rightarrow> 'k client \<Rightarrow> string \<Rightarrow> 'w client_state
     \<Rightarrow> (gh_error + rate_limit_info) \<times> 'w client_state" where
  "Client_RateLimit lib c token st =
     (case ghClient lib c token of
        Inl err \<Rightarrow> (Inl err, st)
      | Inr gh \<Rightarrow>
          (case call (gl_rate_limit lib gh) st of
             (Inl err, st) \<Rightarrow> (Inl (GhWrap ''querying rate limit'' (GhFailure (api_text err))), st)
           | (Inr None, st) \<Rightarrow> (Inr \<lparr>rli_remaining = 0, rli_reset_at = zero_time\<rparr>, st)
           | (Inr (Some core), st) \<Rightarrow>
               (Inr \<lparr>rli_remaining = rli_remaining core, rli_reset_at = rli_reset_at core\<rparr>, st)))"

definition Client_RevokeToken ::
  "('w, 'k) github_lib \<Rightarrow> 'k client \<Rightarrow> string \<Rightarrow> 'w client_state
     \<Rightarrow> gh_error option \<times> 'w client_state" where
  "Client_RevokeToken lib c token st =
     (case ghClient lib c token of
        Inl err \<Rightarrow> (Some err, st)
      | Inr gh \<Rightarrow>
          (case call (gl_revoke lib gh) st of
             (Some err, st) \<Rightarrow>
               if status_is err 401 then (None, st)
               else (Some (GhWrap ''revoking installation token'' (GhFailure (api_text err))), st)
           | (None, st) \<Rightarrow> (None, st)))"

text \<open>The function that \<^verbatim>\<open>mintToken\<close> runs under \<^verbatim>\<open>singleflight\<close>, after its cache lookup.\<close>

definition mint_fresh ::
  "('w, 'k) github_lib \<Rightarrow> 'k client \<Rightarrow> string \<Rightarrow> string \<Rightarrow> (string, string) gomap \<Rightarrow> string
     \<Rightarrow> 'w client_state \<Rightarrow> (gh_error + string) \<times> 'w client_state" where
  "mint_fresh lib c owner repo perms key st =
     (case getInstallationID lib c owner st of
        (Inl err, st) \<Rightarrow> (Inl (GhWrap ''getting installation ID'' err), st)
      | (Inr inst_id, st) \<Rightarrow>
          (case createInstallationToken lib c inst_id repo perms st of
             (Inl err, st) \<Rightarrow> (Inl (GhWrap ''minting installation token'' err), st)
           | (Inr resp, st) \<Rightarrow>
               (case waitTokenReady lib c st of
                  (Some err, st) \<Rightarrow> (Inl err, st)
                | (None, st) \<Rightarrow> (Inr (trs_token resp), tokens_set lib key resp st))))"

definition mint_key :: "string \<Rightarrow> string \<Rightarrow> (string, string) gomap \<Rightarrow> string" where
  "mint_key owner repo perms =
     (if repo \<noteq> [] then owner @ ''/'' @ repo else owner) @ ''|'' @ permissionsKey perms"

definition mintToken ::
  "('w, 'k) github_lib \<Rightarrow> 'k client \<Rightarrow> string \<Rightarrow> string \<Rightarrow> (string, string) gomap \<Rightarrow> bool
     \<Rightarrow> 'w client_state \<Rightarrow> (gh_error + string) \<times> 'w client_state" where
  "mintToken lib c owner repo perms skipCache st =
     (let key = mint_key owner repo perms
      in if skipCache then mint_fresh lib c owner repo perms key (tokens_delete key st)
         else let (tok, st) = tokens_get lib key st
              in if tok \<noteq> [] then (Inr tok, st)
                 else let (tok, st) = tokens_get lib key st
                      in if tok \<noteq> [] then (Inr tok, st)
                         else mint_fresh lib c owner repo perms key st)"

text \<open>
  The loop of \<^verbatim>\<open>GetContents\<close>: \<open>left\<close> iterations remain; the first one is that with \<open>skipCache\<close>
  unset, as only a retry sets it.
\<close>

fun contents_loop ::
  "('w, 'k) github_lib \<Rightarrow> 'k client \<Rightarrow> string \<Rightarrow> string \<Rightarrow> string \<Rightarrow> string \<Rightarrow> nat \<Rightarrow> nat \<Rightarrow> bool
     \<Rightarrow> 'w client_state \<Rightarrow> (gh_error + string) \<times> 'w client_state" where
  "contents_loop lib c repository owner repo path attempt 0 skipCache st =
     (Inl (GhFailure (Sprintf ''unexpected: exhausted GetContents retries for %s/%s''
        [AStr repository, AStr path])), st)"
| "contents_loop lib c repository owner repo path attempt (Suc left) skipCache st =
     (case mintToken lib c owner [] [(''contents'', ''read'')] skipCache st of
        (Inl err, st) \<Rightarrow> (Inl err, st)
      | (Inr tok, st) \<Rightarrow>
          (case ghClient lib c tok of
             Inl err \<Rightarrow> (Inl err, st)
           | Inr gh \<Rightarrow>
               (case call (gl_get_contents lib gh owner repo path) st of
                  (Inl err, st) \<Rightarrow>
                    if attempt = 0 \<and> (status_is err 401 \<or> status_is err 403)
                    then contents_loop lib c repository owner repo path (Suc attempt) left True st
                    else if status_is err 404
                    then (Inl (GhSentinel ErrFileNotFound
                            (Sprintf ''%w: %s/%s'' [AErr (sentinel_text ErrFileNotFound), AStr repository, AStr path])), st)
                    else (Inl (GhWrap ''fetching contents'' (GhFailure (api_text err))), st)
                | (Inr None, st) \<Rightarrow>
                    (Inl (GhSentinel ErrFileNotFound
                       (Sprintf ''%w: %s/%s is a directory''
                          [AErr (sentinel_text ErrFileNotFound), AStr repository, AStr path])), st)
                | (Inr (Some (Inl err)), st) \<Rightarrow> (Inl (GhWrap ''decoding content'' (GhFailure err)), st)
                | (Inr (Some (Inr content)), st) \<Rightarrow> (Inr content, st))))"

definition Client_GetContents ::
  "('w, 'k) github_lib \<Rightarrow> 'k client \<Rightarrow> string \<Rightarrow> string \<Rightarrow> 'w client_state
     \<Rightarrow> (gh_error + string) \<times> 'w client_state" where
  "Client_GetContents lib c repository path st =
     (case parseRepository repository of
        Inl err \<Rightarrow> (Inl err, st)
      | Inr (owner, repo) \<Rightarrow> contents_loop lib c repository owner repo path 0 2 False st)"

text \<open>
  \<^verbatim>\<open>newClient\<close>: the defaults, the key, the trimmed base URL and empty caches. \<open>parse_key\<close> is
  \<^verbatim>\<open>ParseRSAPrivateKey\<close>. The HTTP client with its timeout and the retrying transport (theory
  Retry_Transport) is part of go-github's operations.
\<close>

record client_options =
  opt_base_url :: string
  opt_client_id :: string
  opt_private_key :: string
  opt_timeout :: duration

definition DefaultTimeout :: duration where "DefaultTimeout = 30 * nano_second"

definition newClient ::
  "(string \<Rightarrow> key_error + 'k) \<Rightarrow> client_options \<Rightarrow> 'w
     \<Rightarrow> key_error + 'k client \<times> duration \<times> 'w client_state" where
  "newClient parse_key opts w =
     (let opts = (if opt_base_url opts = [] then opts\<lparr>opt_base_url := DefaultBaseURL\<rparr> else opts);
          opts = (if opt_timeout opts = 0 then opts\<lparr>opt_timeout := DefaultTimeout\<rparr> else opts)
      in case parse_key (opt_private_key opts) of
           Inl err \<Rightarrow> Inl err
         | Inr key \<Rightarrow>
             Inr (\<lparr>cl_client_id = opt_client_id opts, cl_key = key,
                   cl_base_url = trim_right (CHR ''/'') (opt_base_url opts),
                   cl_token_ready_delay = DefaultTokenReadyDelay\<rparr>,
                  opt_timeout opts,
                  \<lparr>cs_installations = newInstallationCache, cs_tokens = newTokenCache, cs_world = w\<rparr>))"

text \<open>The client behind the interface the service uses.\<close>

definition client_ops :: "('w, 'k) github_lib \<Rightarrow> 'k client \<Rightarrow> 'w client_state client_iface" where
  "client_ops lib c =
     \<lparr>ci_RequestToken = Client_RequestToken lib c,
      ci_RevokeToken = Client_RevokeToken lib c,
      ci_RateLimit = Client_RateLimit lib c,
      ci_GetContents = Client_GetContents lib c\<rparr>"

section \<open>Where cached values come from\<close>

text \<open>
  \<open>installation_of\<close>: GitHub answered a lookup of the owner with this installation. \<open>minted\<close>: GitHub
  created this token for an installation of the owner, with these options.
\<close>

definition installation_of :: "('w, 'k) github_lib \<Rightarrow> string \<Rightarrow> int \<Rightarrow> bool" where
  "installation_of lib owner i \<longleftrightarrow>
     (\<exists>gh w w'. gl_find_org lib gh owner w = (Inr i, w') \<or> gl_find_user lib gh owner w = (Inr i, w'))"

definition minted ::
  "('w, 'k) github_lib \<Rightarrow> string \<Rightarrow> string list \<Rightarrow> (string, string) gomap option \<Rightarrow> token_response \<Rightarrow> bool" where
  "minted lib owner repos perms resp \<longleftrightarrow>
     (\<exists>gh i w w'. installation_of lib owner i \<and>
        gl_create_token lib gh i \<lparr>to_repositories = repos, to_permissions = perms\<rparr> w = (Inr resp, w'))"

definition contents_read :: "(string, string) gomap" where
  "contents_read = [(''contents'', ''read'')]"

definition contents_key :: "string \<Rightarrow> string" where
  "contents_key owner = mint_key owner [] contents_read"

text \<open>The tokens the client caches are those \<^verbatim>\<open>GetContents\<close> mints.\<close>

definition read_token :: "('w, 'k) github_lib \<Rightarrow> string \<Rightarrow> string \<Rightarrow> time \<Rightarrow> bool" where
  "read_token lib owner tok expiry \<longleftrightarrow>
     (\<exists>resp. minted lib owner [] (toInstallationPermissions lib contents_read) resp \<and>
        trs_token resp = tok \<and> trs_expires_at resp = expiry)"

definition genuine_installations :: "('w, 'k) github_lib \<Rightarrow> 'w client_state \<Rightarrow> bool" where
  "genuine_installations lib st \<longleftrightarrow>
     entries_all (\<lambda>owner e. installation_of lib owner (ie_id e)) (ic_entries (cs_installations st))"

definition genuine_tokens :: "('w, 'k) github_lib \<Rightarrow> 'w client_state \<Rightarrow> bool" where
  "genuine_tokens lib st \<longleftrightarrow>
     entries_all (\<lambda>key e. \<exists>owner. key = contents_key owner \<and> read_token lib owner (te_token e) (te_expires_at e))
       (tc_entries (cs_tokens st))"

definition genuine :: "('w, 'k) github_lib \<Rightarrow> 'w client_state \<Rightarrow> bool" where
  "genuine lib st \<longleftrightarrow> genuine_installations lib st \<and> genuine_tokens lib st"

lemma contents_key_inj: "contents_key a = contents_key b \<longleftrightarrow> a = b"
  by (simp add: contents_key_def mint_key_def)

lemma clock_fields [simp]:
  "cs_installations (snd (clock lib st)) = cs_installations st"
  "cs_tokens (snd (clock lib st)) = cs_tokens st"
  by (simp_all add: clock_def split: prod.splits)

lemma clock_state:
  "clock lib st = (now, st') \<Longrightarrow> cs_installations st' = cs_installations st \<and> cs_tokens st' = cs_tokens st"
  using clock_fields [of lib st] by simp

lemma call_fields:
  "call f st = (r, st') \<Longrightarrow> cs_installations st' = cs_installations st \<and> cs_tokens st' = cs_tokens st \<and>
     f (cs_world st) = (r, cs_world st')"
  by (auto simp: call_def split: prod.splits)

lemma genuine_cong:
  "cs_installations st' = cs_installations st \<Longrightarrow> cs_tokens st' = cs_tokens st \<Longrightarrow> genuine lib st' \<longleftrightarrow> genuine lib st"
  by (simp add: genuine_def genuine_installations_def genuine_tokens_def)

lemma installations_get_genuine:
  assumes "installations_get lib owner st = (i, st')" and "genuine lib st"
  shows "genuine lib st'" and "i \<noteq> 0 \<Longrightarrow> installation_of lib owner i" and "cs_tokens st' = cs_tokens st"
proof -
  let ?P = "\<lambda>owner e. installation_of lib owner (ie_id e)"
  obtain now st1 where t1: "clock lib st = (now, st1)" by (cases "clock lib st")
  obtain relock st2 where t2: "clock lib st1 = (relock, st2)" by (cases "clock lib st1")
  obtain c where g: "installationCache_get now relock (cs_installations st2) owner = (i, c)"
    and st': "st' = st2\<lparr>cs_installations := c\<rparr>"
    using assms(1) by (auto simp: installations_get_def t1 t2 split: prod.splits)
  have same: "cs_installations st2 = cs_installations st" "cs_tokens st2 = cs_tokens st"
    using clock_fields [of lib st] clock_fields [of lib st1] by (simp_all add: t1 t2)
  have all: "entries_all ?P (ic_entries (cs_installations st2))"
    using assms(2) by (simp add: genuine_def genuine_installations_def same)
  show "cs_tokens st' = cs_tokens st" by (simp add: st' same)
  then show "genuine lib st'"
    using installationCache_get_all(1) [OF all, of now relock owner] assms(2)
    by (simp add: genuine_def genuine_installations_def genuine_tokens_def st' g)
  show "i \<noteq> 0 \<Longrightarrow> installation_of lib owner i"
    using installationCache_get_all(2) [OF all, of now relock owner] by (auto simp: g)
qed

lemma installations_set_genuine:
  assumes "genuine lib st" and "installation_of lib owner i"
  shows "genuine lib (installations_set lib owner i st) \<and> cs_tokens (installations_set lib owner i st) = cs_tokens st"
proof -
  obtain now st1 where t1: "clock lib st = (now, st1)" by (cases "clock lib st")
  have same: "cs_installations st1 = cs_installations st" "cs_tokens st1 = cs_tokens st"
    using clock_fields [of lib st] by (simp_all add: t1)
  show ?thesis
    using assms
    by (auto simp: installations_set_def t1 Let_def genuine_def genuine_installations_def genuine_tokens_def
        installationCache_set_def same intro!: entries_all_store)
qed

lemma generateAppJWT_state:
  "generateAppJWT lib c st = (r, st') \<Longrightarrow> cs_installations st' = cs_installations st \<and> cs_tokens st' = cs_tokens st"
  by (auto simp: generateAppJWT_def Let_def split: prod.splits sum.splits dest: clock_state)

text \<open>A session that authenticates as the app: its token is a JWT the app signed, valid for ten minutes.\<close>

definition app_session :: "('w, 'k) github_lib \<Rightarrow> 'k client \<Rightarrow> gh_session \<Rightarrow> bool" where
  "app_session lib c gh \<longleftrightarrow>
     (\<exists>now. gl_sign lib \<lparr>jc_iat = unix now - 5, jc_exp = unix now + 600, jc_iss = cl_client_id c\<rparr> (cl_key c)
        = Inr (gs_token gh))"

lemma generateAppJWT_signed:
  assumes "generateAppJWT lib c st = (Inr jwt, st')"
  shows "\<exists>now. gl_sign lib \<lparr>jc_iat = unix now - 5, jc_exp = unix now + 600, jc_iss = cl_client_id c\<rparr> (cl_key c) = Inr jwt"
proof -
  have "unix (t - jwtClockSkew) = unix t - 5" "unix (t + jwtExpiry) = unix t + 600" for t
    by (simp_all add: unix_def jwtClockSkew_def jwtExpiry_def nano_minute_def nano_second_def)
  with assms show ?thesis
    by (auto simp: generateAppJWT_def Let_def split: prod.splits sum.splits)
qed

lemma ghClient_token: "ghClient lib c tok = Inr gh \<Longrightarrow> gs_token gh = tok"
  by (auto simp: ghClient_def Let_def split: if_splits option.splits)

text \<open>The first step of every operation of the app: a session with a JWT, or one of two failures.\<close>

lemma app_session_cases:
  obtains (no_jwt) err st1 where "generateAppJWT lib c st = (Inl err, st1)"
      "cs_installations st1 = cs_installations st" "cs_tokens st1 = cs_tokens st"
  | (no_session) jwt err st1 where "generateAppJWT lib c st = (Inr jwt, st1)" "ghClient lib c jwt = Inl err"
      "cs_installations st1 = cs_installations st" "cs_tokens st1 = cs_tokens st"
  | (session) jwt gh st1 where "generateAppJWT lib c st = (Inr jwt, st1)" "ghClient lib c jwt = Inr gh"
      "cs_installations st1 = cs_installations st" "cs_tokens st1 = cs_tokens st" "app_session lib c gh"
proof -
  obtain j st1 where j: "generateAppJWT lib c st = (j, st1)" by (cases "generateAppJWT lib c st")
  note same = generateAppJWT_state [OF j]
  show ?thesis
  proof (cases j)
    case (Inl err)
    with no_jwt same j show ?thesis by blast
  next
    case (Inr jwt)
    show ?thesis
    proof (cases "ghClient lib c jwt")
      case (Inl err)
      with no_session same j Inr show ?thesis by blast
    next
      case gh: (Inr gh)
      have "app_session lib c gh"
        using generateAppJWT_signed [OF j [unfolded Inr]] by (simp add: app_session_def ghClient_token [OF gh])
      with session same j Inr gh show ?thesis by blast
    qed
  qed
qed

lemma find_installation_genuine:
  assumes "find_installation lib c owner st = (r, st')" and "genuine lib st"
  shows "genuine lib st' \<and> (\<forall>i. r = Inr i \<longrightarrow> installation_of lib owner i) \<and> cs_tokens st' = cs_tokens st"
proof (cases rule: app_session_cases [of lib c st])
  case (no_jwt err st1)
  with assms genuine_cong [of st1 st lib] show ?thesis by (auto simp: find_installation_def)
next
  case (no_session jwt err st1)
  with assms genuine_cong [of st1 st lib] show ?thesis by (auto simp: find_installation_def)
next
  case (session jwt gh st1)
  define lookup where "lookup = (case call (gl_find_org lib gh owner) st1 of
      (Inl err, st) \<Rightarrow> if status_is err 404 then call (gl_find_user lib gh owner) st else (Inl err, st)
    | (Inr i, st) \<Rightarrow> (Inr i, st))"
  obtain found st2 where l: "lookup = (found, st2)" by (cases lookup)
  have caches: "cs_installations st2 = cs_installations st1 \<and> cs_tokens st2 = cs_tokens st1"
    and inst: "found = Inr i \<Longrightarrow> installation_of lib owner i" for i
    using l unfolding lookup_def installation_of_def
    by (auto split: prod.splits sum.splits if_splits dest!: call_fields)
  have g2: "genuine lib st2" using caches session(3,4) assms(2) genuine_cong by metis
  have r: "find_installation lib c owner st = (case found of
      Inl err \<Rightarrow>
        (if status_is err 404
         then (Inl (GhSentinel ErrInstallationNotFound
                 (Sprintf ''%w: %s'' [AErr (sentinel_text ErrInstallationNotFound), AStr owner])), st2)
         else (Inl (GhWrap ''fetching installation ID'' (GhFailure (api_text err))), st2))
    | Inr inst_id \<Rightarrow> (Inr inst_id, installations_set lib owner inst_id st2))"
    unfolding find_installation_def session(1,2) lookup_def [symmetric] prod.case sum.case l Let_def ..
  show ?thesis
  proof (cases found)
    case (Inl err)
    with r assms(1) g2 session(4) caches show ?thesis by (auto split: if_splits)
  next
    case (Inr i)
    with r assms(1) have "r = Inr i" "st' = installations_set lib owner i st2" by simp_all
    with installations_set_genuine [OF g2 inst [OF Inr]] session(4) caches inst [OF Inr] show ?thesis by simp
  qed
qed

lemma getInstallationID_genuine:
  assumes "getInstallationID lib c owner st = (r, st')" and "genuine lib st"
  shows "genuine lib st' \<and> (\<forall>i. r = Inr i \<longrightarrow> installation_of lib owner i) \<and> cs_tokens st' = cs_tokens st"
proof -
  obtain i1 st1 where s1: "installations_get lib owner st = (i1, st1)" by (cases "installations_get lib owner st")
  note k1 = installations_get_genuine [OF s1 assms(2)]
  obtain i2 st2 where s2: "installations_get lib owner st1 = (i2, st2)" by (cases "installations_get lib owner st1")
  note k2 = installations_get_genuine [OF s2 k1(1)]
  have "getInstallationID lib c owner st =
      (if i1 \<noteq> 0 then (Inr i1, st1) else if i2 \<noteq> 0 then (Inr i2, st2) else find_installation lib c owner st2)"
    unfolding getInstallationID_def Let_def s1 s2 prod.case by (rule refl)
  with assms(1) consider (first) "i1 \<noteq> 0" "r = Inr i1" "st' = st1" | (second) "i2 \<noteq> 0" "r = Inr i2" "st' = st2"
    | (ask) "find_installation lib c owner st2 = (r, st')"
    by (metis prod.inject)
  then show ?thesis
  proof cases
    case ask
    from find_installation_genuine [OF this k2(1)] k1(3) k2(3) show ?thesis by simp
  qed (use k1 k2 in simp_all)
qed

lemma createInstallationToken_genuine:
  assumes "createInstallationToken lib c i repo perms st = (r, st')"
  shows "cs_installations st' = cs_installations st \<and> cs_tokens st' = cs_tokens st \<and>
    (\<forall>resp. r = Inr resp \<longrightarrow>
       (\<exists>gh w w'. app_session lib c gh \<and>
          gl_create_token lib gh i \<lparr>to_repositories = (if repo \<noteq> [] then [repo] else []),
              to_permissions = toInstallationPermissions lib perms\<rparr> w = (Inr resp, w')))"
proof (cases rule: app_session_cases [of lib c st])
  case (session jwt gh st1)
  let ?opts = "\<lparr>to_repositories = (if repo \<noteq> [] then [repo] else []),
      to_permissions = toInstallationPermissions lib perms\<rparr>"
  obtain res st2 where c: "call (gl_create_token lib gh i ?opts) st1 = (res, st2)"
    by (cases "call (gl_create_token lib gh i ?opts) st1")
  note st2 = call_fields [OF c]
  have r: "createInstallationToken lib c i repo perms st = (case (res, st2) of
      (Inl err, st) \<Rightarrow>
        (if status_is err 404 \<or> status_is err 422
         then (if repo \<noteq> []
               then (Inl (GhSentinel ErrRepositoryNotFound
                      (Sprintf ''%w: %s'' [AErr (sentinel_text ErrRepositoryNotFound), AStr repo])), st)
               else (Inl (GhSentinel ErrInstallationNotFound
                      (Sprintf ''%w (installation %d)'' [AErr (sentinel_text ErrInstallationNotFound), AInt i])), st))
         else (Inl (GhWrap ''creating installation token'' (GhFailure (api_text err))), st))
    | (Inr resp, st) \<Rightarrow> (Inr resp, st))"
    unfolding createInstallationToken_def session(1,2) prod.case sum.case Let_def c ..
  show ?thesis
  proof (cases res)
    case (Inl err)
    with r assms st2 session(3,4) show ?thesis by (auto split: if_splits)
  next
    case (Inr resp)
    with r assms have "r = Inr resp" "st' = st2" by simp_all
    moreover have "\<exists>gh w w'. app_session lib c gh \<and> gl_create_token lib gh i ?opts w = (Inr resp, w')"
      using st2 Inr session(5)
      by (intro exI [of _ gh] exI [of _ "cs_world st1"] exI [of _ "cs_world st2"]) simp
    ultimately show ?thesis using st2 session(3,4) by simp
  qed
qed (use assms in \<open>auto simp: createInstallationToken_def\<close>)

lemma waitTokenReady_state:
  "waitTokenReady lib c st = (r, st') \<Longrightarrow> cs_installations st' = cs_installations st \<and> cs_tokens st' = cs_tokens st"
  by (auto simp: waitTokenReady_def split: if_splits prod.splits option.splits dest!: call_fields)

text \<open>A freshly minted token for reading contents is minted for the owner, and then cached.\<close>

lemma mint_fresh_genuine:
  assumes "mint_fresh lib c owner [] contents_read (contents_key owner) st = (r, st')" and "genuine lib st"
  shows "genuine lib st' \<and> (\<forall>tok. r = Inr tok \<longrightarrow> (\<exists>expiry. read_token lib owner tok expiry))"
proof -
  obtain i st1 where i: "getInstallationID lib c owner st = (i, st1)" by (cases "getInstallationID lib c owner st")
  note g1 = getInstallationID_genuine [OF i assms(2)]
  show ?thesis
  proof (cases i)
    case (Inl err)
    with assms(1) g1 show ?thesis by (auto simp: mint_fresh_def i)
  next
    case inst: (Inr inst)
    obtain t st2 where t: "createInstallationToken lib c inst [] contents_read st1 = (t, st2)"
      by (cases "createInstallationToken lib c inst [] contents_read st1")
    note c2 = createInstallationToken_genuine [OF t]
    have g2: "genuine lib st2" using c2 g1 genuine_cong by metis
    show ?thesis
    proof (cases t)
      case (Inl err)
      with assms(1) g2 show ?thesis by (auto simp: mint_fresh_def i inst t)
    next
      case (Inr resp)
      with c2 g1 inst have "minted lib owner [] (toInstallationPermissions lib contents_read) resp"
        unfolding minted_def by auto
      then have read: "read_token lib owner (trs_token resp) (trs_expires_at resp)"
        unfolding read_token_def by (intro exI [of _ resp]) simp
      obtain e st3 where w: "waitTokenReady lib c st2 = (e, st3)" by (cases "waitTokenReady lib c st2")
      have g3: "genuine lib st3" using waitTokenReady_state [OF w] g2 genuine_cong by metis
      have r: "(r, st') = (case e of Some err \<Rightarrow> (Inl err, st3)
          | None \<Rightarrow> (Inr (trs_token resp), tokens_set lib (contents_key owner) resp st3))"
        using assms(1) by (simp add: mint_fresh_def i inst t Inr w split: option.splits)
      have "genuine lib (tokens_set lib (contents_key owner) resp st3)"
        using g3 read
        unfolding genuine_def genuine_installations_def genuine_tokens_def tokens_set_def tokenCache_set_def
        by (auto intro!: entries_all_store)
      with r g3 read show ?thesis by (cases e) auto
    qed
  qed
qed

lemma tokens_get_genuine:
  assumes "tokens_get lib (contents_key owner) st = (tok, st')" and "genuine lib st"
  shows "genuine lib st' \<and> (tok \<noteq> [] \<longrightarrow> (\<exists>expiry. read_token lib owner tok expiry \<and>
    fst (clock lib st) + tokenCacheExpiryBuffer \<le> expiry))"
proof -
  let ?P = "\<lambda>key e. \<exists>owner. key = contents_key owner \<and> read_token lib owner (te_token e) (te_expires_at e)"
  obtain now st1 where t1: "clock lib st = (now, st1)" by (cases "clock lib st")
  obtain relock st2 where t2: "clock lib st1 = (relock, st2)" by (cases "clock lib st1")
  obtain c where g: "tokenCache_get now relock (cs_tokens st2) (contents_key owner) = (tok, c)"
    and st': "st' = st2\<lparr>cs_tokens := c\<rparr>"
    using assms(1) by (auto simp: tokens_get_def t1 t2 split: prod.splits)
  have same: "cs_installations st2 = cs_installations st" "cs_tokens st2 = cs_tokens st"
    using clock_state [OF t1] clock_state [OF t2] by simp_all
  have all: "entries_all ?P (tc_entries (cs_tokens st))"
    using assms(2) by (simp add: genuine_def genuine_tokens_def)
  note got = g [unfolded same]
  have "genuine lib st'"
    using tokenCache_get_all(1) [OF all, of now relock "contents_key owner"] assms(2)
    by (simp add: genuine_def genuine_installations_def genuine_tokens_def st' got same)
  moreover have "tok \<noteq> [] \<longrightarrow> (\<exists>expiry. read_token lib owner tok expiry \<and> now + tokenCacheExpiryBuffer \<le> expiry)"
    using tokenCache_get_all(2) [OF all, of now relock "contents_key owner"]
    by (auto simp: got contents_key_inj)
  ultimately show ?thesis by (simp add: t1)
qed

lemma mintToken_genuine:
  assumes "mintToken lib c owner [] contents_read skipCache st = (r, st')" and "genuine lib st"
  shows "genuine lib st' \<and> (\<forall>tok. r = Inr tok \<longrightarrow> (\<exists>expiry. read_token lib owner tok expiry))"
proof (cases skipCache)
  case True
  have "genuine lib (tokens_delete (contents_key owner) st)"
    using assms(2)
    by (simp add: genuine_def genuine_installations_def genuine_tokens_def tokens_delete_def tokenCache_delete_def
        entries_all_delete)
  with True assms(1) show ?thesis
    by (auto simp: mintToken_def Let_def simp flip: contents_key_def dest: mint_fresh_genuine)
next
  case False
  let ?key = "contents_key owner"
  obtain t1 st1 where s1: "tokens_get lib ?key st = (t1, st1)" by (cases "tokens_get lib ?key st")
  note g1 = tokens_get_genuine [OF s1 assms(2)]
  obtain t2 st2 where s2: "tokens_get lib ?key st1 = (t2, st2)" by (cases "tokens_get lib ?key st1")
  note g2 = tokens_get_genuine [OF s2 conjunct1 [OF g1]]
  have "mintToken lib c owner [] contents_read skipCache st =
      (if t1 \<noteq> [] then (Inr t1, st1) else if t2 \<noteq> [] then (Inr t2, st2)
       else mint_fresh lib c owner [] contents_read ?key st2)"
    unfolding mintToken_def Let_def contents_key_def [symmetric] s1 s2 prod.case by (simp add: False)
  with assms(1) consider (first) "t1 \<noteq> []" "r = Inr t1" "st' = st1" | (second) "t2 \<noteq> []" "r = Inr t2" "st' = st2"
    | (fresh) "mint_fresh lib c owner [] contents_read ?key st2 = (r, st')"
    by (metis prod.inject)
  then show ?thesis
  proof cases
    case fresh
    from mint_fresh_genuine [OF this conjunct1 [OF g2]] show ?thesis .
  qed (use g1 g2 in auto)
qed

text \<open>One iteration: a result, or a retry with a fresh token.\<close>

definition contents_exhausted :: "string \<Rightarrow> string \<Rightarrow> gh_error" where
  "contents_exhausted repository path =
     GhFailure (Sprintf ''unexpected: exhausted GetContents retries for %s/%s'' [AStr repository, AStr path])"

definition contents_ok ::
  "('w, 'k) github_lib \<Rightarrow> string \<Rightarrow> string \<Rightarrow> string \<Rightarrow> string \<Rightarrow> gh_error + string \<Rightarrow> bool" where
  "contents_ok lib repository owner repo path r \<longleftrightarrow>
     r \<noteq> Inl (contents_exhausted repository path) \<and>
     (\<forall>content. r = Inr content \<longrightarrow>
        (\<exists>gh expiry w w'. read_token lib owner (gs_token gh) expiry \<and>
           gl_get_contents lib gh owner repo path w = (Inr (Some (Inr content)), w')))"

lemma generateAppJWT_error: "generateAppJWT lib c st = (Inl e, st') \<Longrightarrow> \<exists>e'. e = GhWrap ''signing JWT'' e'"
  by (auto simp: generateAppJWT_def Let_def split: prod.splits sum.splits)

lemma ghClient_error:
  "ghClient lib c tok = Inl e \<Longrightarrow> \<exists>a b. e = GhFailure (Sprintf ''parsing base URL %q: %w'' [AStr a, AErr b])"
  by (auto simp: ghClient_def Let_def split: if_splits option.splits)

lemma waitTokenReady_error: "waitTokenReady lib c st = (Some e, st') \<Longrightarrow> \<exists>m e'. e = GhWrap m e'"
  by (auto simp: waitTokenReady_def split: if_splits prod.splits option.splits)

lemma mint_fresh_error: "mint_fresh lib c owner repo perms key st = (Inl e, st') \<Longrightarrow> \<exists>m e'. e = GhWrap m e'"
  by (auto simp: mint_fresh_def split: prod.splits sum.splits option.splits dest: waitTokenReady_error)

lemma mintToken_error:
  assumes "mintToken lib c owner repo perms skipCache st = (Inl e, st')"
  shows "\<exists>m e'. e = GhWrap m e'"
  using assms by (auto simp: mintToken_def Let_def split: if_splits prod.splits dest: mint_fresh_error)

lemma contents_step:
  assumes m: "mintToken lib c owner [] contents_read skipCache st = (m, st1)"
    and res: "contents_loop lib c repository owner repo path attempt (Suc left) skipCache st = (r, st')"
    and "genuine lib st"
  shows "genuine lib st' \<and> contents_ok lib repository owner repo path r \<or>
    attempt = 0 \<and> (\<exists>st2. genuine lib st2 \<and>
      contents_loop lib c repository owner repo path (Suc attempt) left True st2 = (r, st'))"
proof -
  note g1 = mintToken_genuine [OF m assms(3)]
  note unfolds = contents_loop.simps(2) contents_read_def [symmetric] m prod.case
  show ?thesis
  proof (cases m)
    case (Inl err)
    with res g1 mintToken_error [OF m [unfolded Inl]] show ?thesis
      unfolding unfolds by (auto simp: contents_ok_def contents_exhausted_def)
  next
    case tok: (Inr tok)
    show ?thesis
    proof (cases "ghClient lib c tok")
      case (Inl err)
      with res g1 ghClient_error [OF Inl] show ?thesis
        unfolding unfolds tok by (auto simp: contents_ok_def contents_exhausted_def)
    next
      case gh: (Inr gh)
      obtain a st2 where a: "call (gl_get_contents lib gh owner repo path) st1 = (a, st2)"
        by (cases "call (gl_get_contents lib gh owner repo path) st1")
      note c2 = call_fields [OF a]
      have g2: "genuine lib st2" using c2 g1 genuine_cong by metis
      obtain expiry where read: "read_token lib owner (gs_token gh) expiry"
        using g1 tok ghClient_token [OF gh] by auto
      show ?thesis
      proof (cases a)
        case (Inl err)
        with res g2 show ?thesis
          unfolding unfolds tok sum.case gh a
          by (auto simp: contents_ok_def contents_exhausted_def split: if_splits)
      next
        case (Inr found)
        have "contents_ok lib repository owner repo path (Inr content)" if "found = Some (Inr content)" for content
          using read c2 Inr that unfolding contents_ok_def by auto
        with Inr res g2 show ?thesis
          unfolding unfolds tok sum.case gh a
          by (auto simp: contents_ok_def contents_exhausted_def split: option.splits sum.splits)
      qed
    qed
  qed
qed

lemma contents_correct:
  assumes "contents_loop lib c repository owner repo path 0 2 False st = (r, st')" and "genuine lib st"
  shows "genuine lib st' \<and> contents_ok lib repository owner repo path r"
proof -
  obtain m st1 where "mintToken lib c owner [] contents_read False st = (m, st1)"
    by (cases "mintToken lib c owner [] contents_read False st")
  from contents_step [OF this assms(1) [unfolded numeral_2_eq_2] assms(2)]
  show ?thesis
  proof (elim disjE conjE exE)
    fix st2
    assume g: "genuine lib st2"
      and again: "contents_loop lib c repository owner repo path (Suc 0) (Suc 0) True st2 = (r, st')"
    obtain m st3 where "mintToken lib c owner [] contents_read True st2 = (m, st3)"
      by (cases "mintToken lib c owner [] contents_read True st2")
    from contents_step [OF this again g] show ?thesis by simp
  qed simp
qed

section \<open>Repository names and permissions\<close>

lemma split_all_pair: "split_all c s = [a, b] \<longleftrightarrow> s = a @ c # b \<and> c \<notin> set a \<and> c \<notin> set b"
proof
  assume split: "split_all c s = [a, b]"
  then show "s = a @ c # b \<and> c \<notin> set a \<and> c \<notin> set b"
    using join_split_all [of c s] split_all_parts [of a c s] split_all_parts [of b c s] by simp
next
  have single: "split_all c b = [b]" if "c \<notin> set b" for b
    using that by (induction b) auto
  have "split_all c (a @ c # b) = [a, b]" if "c \<notin> set a" "c \<notin> set b"
    using that(1) by (induction a) (auto simp: single that(2))
  then show "s = a @ c # b \<and> c \<notin> set a \<and> c \<notin> set b \<Longrightarrow> split_all c s = [a, b]" by simp
qed

lemma parseRepository_iff:
  "parseRepository s = Inr (owner, repo) \<longleftrightarrow>
     s = constructRepository owner repo \<and> owner \<noteq> [] \<and> repo \<noteq> [] \<and> CHR ''/'' \<notin> set owner \<and> CHR ''/'' \<notin> set repo"
proof -
  have "parseRepository s = Inr (owner, repo) \<longleftrightarrow>
      split_all (CHR ''/'') s = [owner, repo] \<and> owner \<noteq> [] \<and> repo \<noteq> []"
    by (auto simp: parseRepository_def split: list.splits if_splits)
  then show ?thesis by (auto simp: split_all_pair constructRepository_def)
qed

lemma parseRepository_error: "parseRepository s = Inl e \<Longrightarrow> \<exists>t. e = GhSentinel ErrInvalidRepository_gh t"
  by (auto simp: parseRepository_def split: list.splits if_splits)

text \<open>When every key is a field of its own, the struct holds exactly the map.\<close>

lemma foldl_update_lookup:
  assumes "\<forall>(k, v)\<in>set xs. field k = Some k" and "distinct (map fst xs)"
  shows "map_of (foldl (\<lambda>p (k, v). case field k of None \<Rightarrow> p | Some f \<Rightarrow> AList.update f v p) p xs) j =
    (case map_of xs j of None \<Rightarrow> map_of p j | Some v \<Rightarrow> Some v)"
  using assms
proof (induction xs arbitrary: p)
  case (Cons x xs)
  obtain k v where x: "x = (k, v)" by (cases x)
  with Cons.prems have "map_of xs k = None" by (auto simp: map_of_eq_None_iff)
  with Cons x show ?case by (auto split: option.splits)
qed simp

lemma decode_fields_exact:
  assumes "gm_wf m" and "\<forall>k\<in>fst ` set m. field k = Some k"
  shows "map_of (decode_fields field m) = map_of m"
proof
  fix j
  have mset: "mset (sort_key fst m) = mset m" by simp
  then have wf: "gm_wf (sort_key fst m)" using gm_range_wf [of m "sort_key fst m"] assms(1) by (simp add: gm_range_def)
  have "map_of (sort_key fst m) = map_of m"
    by (rule gm_range_map_of) (simp_all add: gm_range_def assms(1))
  then show "map_of (decode_fields field m) j = map_of m j"
    unfolding decode_fields_def
    by (subst foldl_update_lookup) (use assms(2) wf in \<open>auto simp: gm_wf_def split: option.splits\<close>)
qed

text \<open>A token request that succeeds, down to the call that creates the token.\<close>

lemma Client_RequestToken_scope:
  assumes "Client_RequestToken lib c req st = (Inr resp, st')" and "genuine lib st"
  shows "\<exists>owner repo i gh w w'.
      trq_repository req = constructRepository owner repo \<and> owner \<noteq> [] \<and> repo \<noteq> [] \<and>
      CHR ''/'' \<notin> set owner \<and> installation_of lib owner i \<and> app_session lib c gh \<and>
      gl_create_token lib gh i \<lparr>to_repositories = [repo],
        to_permissions = toInstallationPermissions lib (trq_permissions req)\<rparr> w = (Inr resp, w') \<and>
      genuine lib st' \<and> cs_tokens st' = cs_tokens st"
proof -
  obtain owner repo where p: "parseRepository (trq_repository req) = Inr (owner, repo)"
    using assms(1) by (auto simp: Client_RequestToken_def split: sum.splits)
  then have name: "trq_repository req = constructRepository owner repo" "owner \<noteq> []" "repo \<noteq> []"
      "CHR ''/'' \<notin> set owner"
    by (simp_all add: parseRepository_iff)
  obtain i st1 where g: "getInstallationID lib c owner st = (Inr i, st1)"
    and t: "createInstallationToken lib c i repo (trq_permissions req) st1 = (Inr resp, st')"
    using assms(1) p by (auto simp: Client_RequestToken_def split: sum.splits prod.splits)
  note g1 = getInstallationID_genuine [OF g assms(2)] and c2 = createInstallationToken_genuine [OF t]
  obtain gh w w' where gh: "app_session lib c gh"
    "gl_create_token lib gh i \<lparr>to_repositories = [repo],
       to_permissions = toInstallationPermissions lib (trq_permissions req)\<rparr> w = (Inr resp, w')"
    using c2 name(3) by auto
  have "genuine lib st'" using c2 g1 genuine_cong by metis
  then show ?thesis
    using name gh g1 c2
    by - (rule exI [of _ owner], rule exI [of _ repo], rule exI [of _ i], rule exI [of _ gh],
      rule exI [of _ w], rule exI [of _ w'], simp)
qed

section \<open>Properties\<close>

text \<open>C26: Requesting a token. A token the client returns was created by GitHub in a session signed with
  the app's key, for an installation that GitHub names for the owner of the requested repository,
  restricted to exactly that repository. When the permissions are a non-empty map of keys
  that GitHub knows, it is restricted to exactly these permissions. The token is not cached, and the
  caches stay genuine.\<close>

theorem Client_RequestToken_scoped:
  assumes "Client_RequestToken lib c req st = (Inr resp, st')" and "genuine lib st"
  shows "\<exists>owner repo i gh perms w w'.
      trq_repository req = constructRepository owner repo \<and> owner \<noteq> [] \<and> repo \<noteq> [] \<and>
      installation_of lib owner i \<and> app_session lib c gh \<and>
      gl_create_token lib gh i \<lparr>to_repositories = [repo], to_permissions = perms\<rparr> w = (Inr resp, w') \<and>
      (gm_wf (trq_permissions req) \<and> trq_permissions req \<noteq> [] \<and>
         (\<forall>k\<in>fst ` set (trq_permissions req). gl_field lib k = Some k) \<longrightarrow>
       (\<exists>p. perms = Some p \<and> map_of p = map_of (trq_permissions req))) \<and>
      genuine lib st' \<and> cs_tokens st' = cs_tokens st"
proof -
  from Client_RequestToken_scope [OF assms] obtain owner repo i gh w w' where
    r: "trq_repository req = constructRepository owner repo" "owner \<noteq> []" "repo \<noteq> []"
      "installation_of lib owner i" "app_session lib c gh" "genuine lib st'" "cs_tokens st' = cs_tokens st"
      "gl_create_token lib gh i \<lparr>to_repositories = [repo],
         to_permissions = toInstallationPermissions lib (trq_permissions req)\<rparr> w = (Inr resp, w')"
    by blast
  let ?perms = "toInstallationPermissions lib (trq_permissions req)"
  have "\<exists>p. ?perms = Some p \<and> map_of p = map_of (trq_permissions req)"
    if "gm_wf (trq_permissions req)" "trq_permissions req \<noteq> []"
      "\<forall>k\<in>fst ` set (trq_permissions req). gl_field lib k = Some k"
    using that decode_fields_exact by (simp add: toInstallationPermissions_def)
  with r show ?thesis
    by - (rule exI [of _ owner], rule exI [of _ repo], rule exI [of _ i], rule exI [of _ gh],
      rule exI [of _ ?perms], rule exI [of _ w], rule exI [of _ w'], simp)
qed

text \<open>C27: Reading a file. Whatever the outcome, the caches stay genuine and the two attempts suffice
  (the error after the loop is not returned). Content is returned only as GitHub answered it for
  this repository and path, in a session whose token GitHub created for an installation of the
  repository's owner, with read access to contents only: a cached token of another owner is never
  used.\<close>

theorem Client_GetContents_isolated:
  assumes "Client_GetContents lib c repository path st = (r, st')" and "genuine lib st"
  shows "genuine lib st' \<and> r \<noteq> Inl (contents_exhausted repository path) \<and>
    (\<forall>content. r = Inr content \<longrightarrow>
       (\<exists>owner repo gh resp w w'. repository = constructRepository owner repo \<and>
          minted lib owner [] (toInstallationPermissions lib contents_read) resp \<and>
          gs_token gh = trs_token resp \<and>
          gl_get_contents lib gh owner repo path w = (Inr (Some (Inr content)), w')))"
proof (cases "parseRepository repository")
  case (Inl err)
  with assms parseRepository_error [OF Inl] show ?thesis
    by (auto simp: Client_GetContents_def contents_exhausted_def)
next
  case (Inr p)
  obtain owner repo where p: "p = (owner, repo)" by (cases p)
  have name: "repository = constructRepository owner repo"
    using Inr by (simp add: p parseRepository_iff)
  have "contents_loop lib c repository owner repo path 0 2 False st = (r, st')"
    using assms(1) Inr by (simp add: Client_GetContents_def p)
  from contents_correct [OF this assms(2)] have ok: "genuine lib st'" "contents_ok lib repository owner repo path r"
    by simp_all
  have "\<exists>gh resp w w'. minted lib owner [] (toInstallationPermissions lib contents_read) resp \<and>
      gs_token gh = trs_token resp \<and> gl_get_contents lib gh owner repo path w = (Inr (Some (Inr content)), w')"
    if "r = Inr content" for content
    using ok(2) that unfolding contents_ok_def read_token_def by metis
  then have "\<exists>owner repo gh resp w w'. repository = constructRepository owner repo \<and>
      minted lib owner [] (toInstallationPermissions lib contents_read) resp \<and> gs_token gh = trs_token resp \<and>
      gl_get_contents lib gh owner repo path w = (Inr (Some (Inr content)), w')" if "r = Inr content" for content
    using that name by - (rule exI [of _ owner], rule exI [of _ repo], simp)
  with ok show ?thesis by (simp add: contents_ok_def)
qed

section \<open>A small GitHub\<close>

text \<open>
  A concrete instance of the libraries, for the witnesses: the world counts clock readings, the
  user \<open>acme\<close> has installation 7, a token names its installation, and there is one file.
\<close>

definition demo_lib :: "(nat, unit) github_lib" where
  "demo_lib =
     \<lparr>gl_now = (\<lambda>w. (of_unix (int w), Suc w)),
      gl_range_installations = (\<lambda>m w. m),
      gl_range_tokens = (\<lambda>m w. rev m),
      gl_timer = (\<lambda>d w. (None, w + 2)),
      gl_sign = (\<lambda>claims key. Inr (''jwt:'' @ jc_iss claims)),
      gl_parse_url = (\<lambda>u. None),
      gl_field = Some,
      gl_find_org = (\<lambda>gh owner w. (Inl (ApiError (Some 404) no_text), w)),
      gl_find_user = (\<lambda>gh owner w. (if owner = ''acme'' then Inr 7 else Inl (ApiError (Some 404) no_text), w)),
      gl_create_token = (\<lambda>gh i opts w. (if i = 7 then Inr \<lparr>trs_token = ''ghs_7'', trs_expires_at = of_unix (int w + 3600)\<rparr>
         else Inl (ApiError (Some 404) no_text), w)),
      gl_revoke = (\<lambda>gh w. (None, w)),
      gl_rate_limit = (\<lambda>gh w. (Inr (Some \<lparr>rli_remaining = 4999, rli_reset_at = of_unix 3600\<rparr>), w)),
      gl_get_contents = (\<lambda>gh owner repo path w.
         (if gs_token gh = ''ghs_7'' \<and> path = ''gate.yaml'' then Inr (Some (Inr ''policy''))
          else Inl (ApiError (Some 404) no_text), w))\<rparr>"

definition demo_client :: "unit client" where
  "demo_client = \<lparr>cl_client_id = ''app'', cl_key = (), cl_base_url = DefaultBaseURL,
     cl_token_ready_delay = DefaultTokenReadyDelay\<rparr>"

definition demo_state :: "nat client_state" where
  "demo_state = \<lparr>cs_installations = newInstallationCache, cs_tokens = newTokenCache, cs_world = 0\<rparr>"

text \<open>A new client starts with genuine caches, and its base URL never ends in a slash.\<close>

lemma newClient_genuine:
  "newClient parse_key opts w = Inr (c, timeout, st) \<Longrightarrow>
     genuine lib st \<and> installation_cache_inv (cs_installations st) \<and> token_cache_inv (cs_tokens st)"
  by (auto simp: newClient_def Let_def genuine_def genuine_installations_def genuine_tokens_def
      split: sum.splits) (simp_all add: newInstallationCache_def newTokenCache_def)

lemma demo_state_genuine: "genuine lib demo_state"
  by (simp add: genuine_def genuine_installations_def genuine_tokens_def demo_state_def
      newInstallationCache_def newTokenCache_def)

lemma Client_RequestToken_scoped_witness:
  "\<exists>resp st'. Client_RequestToken demo_lib demo_client
       \<lparr>trq_repository = ''acme/api'', trq_permissions = [(''contents'', ''read'')]\<rparr> demo_state = (Inr resp, st') \<and>
     genuine demo_lib st' \<and> cs_tokens st' = newTokenCache"
proof -
  let ?req = "\<lparr>trq_repository = ''acme/api'', trq_permissions = [(''contents'', ''read'')]\<rparr>"
  let ?out = "Client_RequestToken demo_lib demo_client ?req demo_state"
  have "\<not> isl (fst ?out)" by code_simp
  then obtain resp st' where out: "?out = (Inr resp, st')"
    using returned_Inr by blast
  from Client_RequestToken_scoped [OF out demo_state_genuine]
  have "genuine demo_lib st'" "cs_tokens st' = newTokenCache" by (auto simp: demo_state_def)
  with out show ?thesis by blast
qed

lemma Client_GetContents_isolated_witness:
  "\<exists>st'. Client_GetContents demo_lib demo_client ''acme/api'' ''gate.yaml'' demo_state = (Inr ''policy'', st') \<and>
     genuine demo_lib st'"
proof -
  let ?out = "Client_GetContents demo_lib demo_client ''acme/api'' ''gate.yaml'' demo_state"
  have "fst ?out = Inr ''policy''" by code_simp
  then have out: "?out = (Inr ''policy'', snd ?out)" by (cases ?out) simp
  from Client_GetContents_isolated [OF out demo_state_genuine] out show ?thesis by blast
qed

end
