(* ===== verification/Paged_Scan.thy ===== *)
theory Paged_Scan
  imports Gate_Prelude
begin

text \<open>
  Iterating over a store that hands out its contents in pages: Redis' \<^verbatim>\<open>SCAN\<close> with its cursor and
  DynamoDB's \<^verbatim>\<open>Scan\<close> with its last evaluated key. The server chooses the size of each page; a
  cursor of 0 ends the iteration, as it starts it. A position in the list of all contents stands for
  the cursor, and \<open>width\<close> for the server's choice.
\<close>

definition page :: "(nat \<Rightarrow> nat) \<Rightarrow> 'a list \<Rightarrow> nat \<Rightarrow> 'a list \<times> nat" where
  "page width xs cursor =
     (let next_cursor = cursor + Suc (width cursor)
      in (take (Suc (width cursor)) (drop cursor xs),
          if next_cursor \<ge> length xs then 0 else next_cursor))"

text \<open>The loop that collects all pages.\<close>

function scan_pages :: "(nat \<Rightarrow> nat) \<Rightarrow> 'a list \<Rightarrow> nat \<Rightarrow> 'a list \<Rightarrow> 'a list" where
  "scan_pages width xs cursor acc =
     (case page width xs cursor of
        (batch, next_cursor) \<Rightarrow>
          if next_cursor = 0 then acc @ batch else scan_pages width xs next_cursor (acc @ batch))"
  by pat_completeness auto

termination
  by (relation "measure (\<lambda>(width, xs, cursor, acc). length xs - cursor)")
    (auto simp: page_def Let_def split: if_splits)

declare scan_pages.simps [simp del]

text \<open>It ends, and it collects everything from the cursor on, whatever the pages.\<close>

lemma scan_pages_all: "scan_pages width xs cursor acc = acc @ drop cursor xs"
proof (induction width xs cursor acc rule: scan_pages.induct)
  case (1 width xs cursor acc)
  let ?n = "Suc (width cursor)"
  obtain batch next_cursor where p: "page width xs cursor = (batch, next_cursor)"
    by (cases "page width xs cursor")
  then have batch: "batch = take ?n (drop cursor xs)"
    and next_cursor: "next_cursor = (if cursor + ?n \<ge> length xs then 0 else cursor + ?n)"
    by (auto simp: page_def Let_def)
  show ?case
  proof (cases "next_cursor = 0")
    case True
    then have "length xs \<le> cursor + ?n" using next_cursor by (simp split: if_splits)
    with True p batch show ?thesis by (simp add: scan_pages.simps [of width xs cursor])
  next
    case False
    then have "next_cursor = ?n + cursor" using next_cursor by (simp split: if_splits)
    then have "batch @ drop next_cursor xs = drop cursor xs"
      unfolding batch by (metis append_take_drop_id drop_drop)
    with False p 1 [OF p [symmetric] False] show ?thesis
      by (simp add: scan_pages.simps [of width xs cursor])
  qed
qed

end
