(* ===== verification/Redis_Store.thy ===== *)
theory Redis_Store
  imports Rate_Limit Go_Strconv Paged_Scan
begin

text \<open>
  The Redis-backed selector store, \<^verbatim>\<open>internal/sts/selector/backends/redis.go\<close>, with the Lua script
  \<^verbatim>\<open>redis_setstate.lua\<close> that it runs as one atomic step.

  The state is the server's key space with its clock in seconds, a fault that makes every command
  fail when there is one, and the clock of the program. The commands act on it as documented:
  a key is gone once its time to live has passed, \<^verbatim>\<open>HMSET\<close> sets fields and keeps the others,
  \<^verbatim>\<open>EXPIRE\<close> sets the time to live, \<^verbatim>\<open>SCAN\<close> hands out the keys in pages of the server's choosing.
  Lua numbers are \<^verbatim>\<open>float64\<close>, exact below \<open>2 ^ 53\<close>, which Unix times and call counts
  never reach.
\<close>

section \<open>The server\<close>

record redis_entry =
  re_hash :: "(string, string) gomap"
  re_expires :: "int option"

record redis =
  rd_keys :: "(string, redis_entry) gomap"
  rd_time :: int
  rd_fault :: "gotext option"
  rd_now :: time

definition alive :: "redis \<Rightarrow> redis_entry \<Rightarrow> bool" where
  "alive r e \<longleftrightarrow> (case re_expires e of None \<Rightarrow> True | Some t \<Rightarrow> rd_time r < t)"

text \<open>\<^verbatim>\<open>HGETALL\<close>: no fields when the key is missing.\<close>

definition hash_at :: "redis \<Rightarrow> string \<Rightarrow> (string, string) gomap" where
  "hash_at r key =
     (case map_of (rd_keys r) key of
        None \<Rightarrow> []
      | Some e \<Rightarrow> if alive r e then re_hash e else [])"

definition HGetAll :: "string \<Rightarrow> redis \<Rightarrow> gotext + (string, string) gomap" where
  "HGetAll key r = (case rd_fault r of Some err \<Rightarrow> Inl err | None \<Rightarrow> Inr (hash_at r key))"

section \<open>Keys and hashes\<close>

definition redisKeyPrefix :: string where "redisKeyPrefix = ''gate:ratelimit:''"
definition ttlBuffer :: duration where "ttlBuffer = 5 * nano_minute"

definition redis_key :: "string \<Rightarrow> string" where
  "redis_key clientID = redisKeyPrefix @ clientID"

definition unmarshalHash :: "(string, string) gomap \<Rightarrow> gotext + rate_state" where
  "unmarshalHash hash =
     (case map_of hash ''remaining'' of
        None \<Rightarrow> Inl (msg ''missing remaining field'')
      | Some raw \<Rightarrow>
     (case ParseInt raw of
        Inl err \<Rightarrow> Inl (Sprintf ''invalid remaining: %w'' [AErr err])
      | Inr remaining \<Rightarrow>
     (case map_of hash ''reset_at'' of
        None \<Rightarrow> Inl (msg ''missing reset_at field'')
      | Some raw \<Rightarrow>
     (case ParseInt raw of
        Inl err \<Rightarrow> Inl (Sprintf ''invalid reset_at: %w'' [AErr err])
      | Inr resetAt \<Rightarrow>
     (case map_of hash ''last_updated'' of
        None \<Rightarrow> Inl (msg ''missing last_updated field'')
      | Some raw \<Rightarrow>
     (case ParseInt raw of
        Inl err \<Rightarrow> Inl (Sprintf ''invalid last_updated: %w'' [AErr err])
      | Inr lastUpdated \<Rightarrow>
          Inr \<lparr>rs_remaining = remaining, rs_reset_at = of_unix resetAt, rs_last_updated = of_unix lastUpdated\<rparr>))))))"

section \<open>The script\<close>

text \<open>\<^verbatim>\<open>tonumber\<close> on a field of the reply: nil when the field is missing or not a number.\<close>

definition tonumber :: "string option \<Rightarrow> int option" where
  "tonumber s = (case s of None \<Rightarrow> None | Some t \<Rightarrow> parse_decimal t)"

definition script_write ::
  "string \<Rightarrow> string \<Rightarrow> string \<Rightarrow> string \<Rightarrow> int \<Rightarrow> redis \<Rightarrow> redis" where
  "script_write key reset_at remaining last_updated ttl r =
     r\<lparr>rd_keys :=
        (if ttl > 0
         then AList.update key
           \<lparr>re_hash = AList.update ''last_updated'' last_updated
                        (AList.update ''remaining'' remaining
                           (AList.update ''reset_at'' reset_at (hash_at r key))),
            re_expires = Some (rd_time r + ttl)\<rparr> (rd_keys r)
         else AList.delete key (rd_keys r))\<rparr>"

text \<open>
  The arguments are the key and the four texts, the last one as a number. A comparison with nil
  ends the script with an error. The result tells whether the script wrote.
\<close>

definition setState_script ::
  "string \<Rightarrow> string \<Rightarrow> string \<Rightarrow> string \<Rightarrow> int \<Rightarrow> redis \<Rightarrow> (gotext + bool) \<times> redis" where
  "setState_script key reset_at remaining last_updated ttl r =
     (let cur_reset = tonumber (map_of (hash_at r key) ''reset_at'');
          cur_remaining = tonumber (map_of (hash_at r key) ''remaining'');
          written = (Inr True, script_write key reset_at remaining last_updated ttl r);
          nil = (Inl (msg ''attempt to compare a nil value''), r)
      in case cur_reset of
           None \<Rightarrow> written
         | Some cur \<Rightarrow>
             (case tonumber (Some reset_at) of
                None \<Rightarrow> nil
              | Some new_reset \<Rightarrow>
                  if new_reset > cur then written
                  else if new_reset = cur
                  then (case (tonumber (Some remaining), cur_remaining) of
                          (Some new_rem, Some old_rem) \<Rightarrow>
                            if new_rem < old_rem then written else (Inr False, r)
                        | _ \<Rightarrow> nil)
                  else (Inr False, r)))"

section \<open>Operations\<close>

definition RedisStore_GetState :: "string \<Rightarrow> redis \<Rightarrow> (store_error + rate_state) \<times> redis" where
  "RedisStore_GetState clientID r =
     (case HGetAll (redis_key clientID) r of
        Inl err \<Rightarrow> (Inl (StoreFailure (Sprintf ''hgetall: %w'' [AErr err])), r)
      | Inr hash \<Rightarrow>
          if length hash = 0 then (Inl ErrStateNotFound, r)
          else (case unmarshalHash hash of
                  Inl err \<Rightarrow> (Inl (StoreFailure err), r)
                | Inr st \<Rightarrow> (Inr st, r)))"

text \<open>\<open>go_int\<close> reads an integer of the model as the 64-bit integer the code holds.\<close>

abbreviation go_int :: "int \<Rightarrow> int" where
  "go_int \<equiv> wrap64"

definition state_ttl :: "time \<Rightarrow> rate_state \<Rightarrow> int" where
  "state_ttl now st =
     (let duration = wrap64 (sub_time (rs_reset_at st) now + ttlBuffer);
          duration = max duration ttlBuffer
      in dur_seconds duration)"

definition RedisStore_SetState ::
  "string \<Rightarrow> rate_state option \<Rightarrow> redis \<Rightarrow> store_error option \<times> redis" where
  "RedisStore_SetState clientID state r =
     (case state of
        None \<Rightarrow> (None, r)
      | Some st \<Rightarrow>
          (let ttl = state_ttl (rd_now r) st
           in case rd_fault r of
                Some err \<Rightarrow> (Some (StoreFailure (Sprintf ''setstate lua: %w'' [AErr err])), r)
              | None \<Rightarrow>
                  (case setState_script (redis_key clientID)
                          (itoa (go_int (unix (rs_reset_at st))))
                          (itoa (go_int (rs_remaining st)))
                          (itoa (go_int (unix (rs_last_updated st)))) ttl r of
                     (Inl err, r) \<Rightarrow> (Some (StoreFailure (Sprintf ''setstate lua: %w'' [AErr err])), r)
                   | (Inr written, r) \<Rightarrow> (None, r))))"

text \<open>\<^verbatim>\<open>SCAN\<close> over the live keys that start with the prefix.\<close>

definition rate_keys :: "redis \<Rightarrow> string list" where
  "rate_keys r =
     map fst (filter (\<lambda>(k, e). alive r e \<and> take (length redisKeyPrefix) k = redisKeyPrefix) (rd_keys r))"

text \<open>The loop over the replies of the pipeline, in the order of the keys.\<close>

fun collect_states ::
  "redis \<Rightarrow> string list \<Rightarrow> (string, rate_state option) gomap \<Rightarrow> (string, rate_state option) gomap" where
  "collect_states r [] states = states"
| "collect_states r (key # keys) states =
     (let hash = hash_at r key
      in if length hash = 0 then collect_states r keys states
         else (case unmarshalHash hash of
                 Inl err \<Rightarrow> collect_states r keys states
               | Inr state \<Rightarrow>
                   collect_states r keys
                     (AList.update (drop (length redisKeyPrefix) key) (Some state) states)))"

definition RedisStore_GetAllStates ::
  "(nat \<Rightarrow> nat) \<Rightarrow> redis \<Rightarrow> (store_error + (string, rate_state option) gomap) \<times> redis" where
  "RedisStore_GetAllStates width r =
     (case rd_fault r of
        Some err \<Rightarrow> (Inl (StoreFailure (Sprintf ''scan: %w'' [AErr err])), r)
      | None \<Rightarrow>
          (let keys = scan_pages width (rate_keys r) 0 []
           in if length keys = 0 then (Inr [], r)
              else (Inr (collect_states r keys []), r)))"

definition redis_ops :: "(nat \<Rightarrow> nat) \<Rightarrow> redis store_ops" where
  "redis_ops width =
     \<lparr>so_get_state = RedisStore_GetState,
      so_set_state = RedisStore_SetState,
      so_get_all_states = RedisStore_GetAllStates width\<rparr>"

section \<open>The store contract\<close>

text \<open>What a hash in whole seconds keeps of an observation, and what the store holds for a client.\<close>

definition whole_seconds :: "rate_state \<Rightarrow> rate_state" where
  "whole_seconds t =
     \<lparr>rs_remaining = go_int (rs_remaining t),
      rs_reset_at = of_unix (go_int (unix (rs_reset_at t))),
      rs_last_updated = of_unix (go_int (unix (rs_last_updated t)))\<rparr>"

definition decode :: "(string, string) gomap \<Rightarrow> rate_state option" where
  "decode h = (case unmarshalHash h of Inl err \<Rightarrow> None | Inr t \<Rightarrow> Some t)"

definition redis_view :: "redis \<Rightarrow> string \<Rightarrow> rate_state option" where
  "redis_view r k = decode (hash_at r (redis_key k))"

definition redis_inv :: "redis \<Rightarrow> bool" where
  "redis_inv r \<longleftrightarrow> gm_wf (rd_keys r) \<and> rd_fault r = None \<and>
     (\<forall>k. hash_at r (redis_key k) = [] \<or> decode (hash_at r (redis_key k)) \<noteq> None)"

lemma unmarshalHash_Nil [simp]: "unmarshalHash [] = Inl (msg ''missing remaining field'')"
  by (simp add: unmarshalHash_def)

lemma decode_Nil [simp]: "decode [] = None"
  by (simp add: decode_def)

lemma ParseInt_decimal: "ParseInt raw = Inr n \<Longrightarrow> parse_decimal raw = Some n"
  by (auto simp: ParseInt_def split: option.splits if_splits)

lemma decode_SomeD:
  "decode h = Some t \<Longrightarrow> \<exists>u. tonumber (map_of h ''reset_at'') = Some u \<and> rs_reset_at t = of_unix u \<and>
     tonumber (map_of h ''remaining'') = Some (rs_remaining t)"
  by (auto simp: decode_def unmarshalHash_def tonumber_def split: option.splits sum.splits dest: ParseInt_decimal)

lemma redis_key_inj [simp]: "redis_key j = redis_key k \<longleftrightarrow> j = k"
  by (simp add: redis_key_def)

lemma state_ttl_pos: "0 < state_ttl now st"
proof -
  have "nano_second \<le> ttlBuffer" "(0 :: int) < nano_second" by (simp_all add: ttlBuffer_def nano_minute_def nano_second_def)
  then have "nano_second \<le> max x ttlBuffer" for x by simp
  then have "0 < max x ttlBuffer div nano_second" and "0 < max x ttlBuffer" for x
    using \<open>0 < nano_second\<close> by (simp_all add: pos_imp_zdiv_pos_iff) (metis less_le_trans)
  then show ?thesis by (simp add: state_ttl_def Let_def dur_seconds_def abs_of_pos)
qed

lemma hash_at_write:
  "0 < ttl \<Longrightarrow> hash_at (script_write key a b c ttl r) j =
     (if j = key then AList.update ''last_updated'' c (AList.update ''remaining'' b
        (AList.update ''reset_at'' a (hash_at r key))) else hash_at r j)"
  by (auto simp: hash_at_def script_write_def alive_def split: option.splits)

lemma decode_written:
  "decode (AList.update ''last_updated'' (itoa (go_int (unix (rs_last_updated t))))
     (AList.update ''remaining'' (itoa (go_int (rs_remaining t)))
       (AList.update ''reset_at'' (itoa (go_int (unix (rs_reset_at t)))) h))) = Some (whole_seconds t)"
  by (simp add: decode_def unmarshalHash_def ParseInt_itoa whole_seconds_def)

text \<open>The script writes exactly when the observation is fresher than what the store holds.\<close>

lemma setState_script_fresher:
  fixes t :: rate_state
  assumes inv: "redis_inv r"
  defines "a \<equiv> itoa (go_int (unix (rs_reset_at t)))" and "b \<equiv> itoa (go_int (rs_remaining t))"
  shows "setState_script (redis_key k) a b c ttl r =
    (if IsFresherThan (whole_seconds t) (redis_view r k)
     then (Inr True, script_write (redis_key k) a b c ttl r) else (Inr False, r))"
proof (cases "redis_view r k")
  case None
  with inv have "hash_at r (redis_key k) = []" by (auto simp: redis_inv_def redis_view_def)
  with None show ?thesis by (simp add: setState_script_def tonumber_def)
next
  case (Some old)
  then obtain u where "tonumber (map_of (hash_at r (redis_key k)) ''reset_at'') = Some u"
    "rs_reset_at old = of_unix u" "tonumber (map_of (hash_at r (redis_key k)) ''remaining'') = Some (rs_remaining old)"
    using decode_SomeD [of "hash_at r (redis_key k)" old] by (auto simp: redis_view_def)
  moreover have "tonumber (Some (itoa i)) = Some i" for i by (simp add: tonumber_def)
  ultimately show ?thesis
    using Some
    by (auto simp: setState_script_def a_def b_def IsFresherThan_def whole_seconds_def Let_def)
qed

lemma RedisStore_SetState_effect:
  assumes "redis_inv r"
  shows "RedisStore_SetState k (Some t) r =
    (None, if IsFresherThan (whole_seconds t) (redis_view r k)
       then script_write (redis_key k) (itoa (go_int (unix (rs_reset_at t)))) (itoa (go_int (rs_remaining t)))
              (itoa (go_int (unix (rs_last_updated t)))) (state_ttl (rd_now r) t) r
       else r)"
  using assms setState_script_fresher [OF assms, of k t]
  by (simp add: RedisStore_SetState_def redis_inv_def)

lemma collect_states_lookup:
  assumes "distinct keys" and "\<forall>key\<in>set keys. \<exists>k. key = redis_key k"
  shows "map_of (collect_states r keys states) k =
    (case redis_view r k of
       Some t \<Rightarrow> if redis_key k \<in> set keys then Some (Some t) else map_of states k
     | None \<Rightarrow> map_of states k)"
  using assms
proof (induction keys arbitrary: states)
  case (Cons key keys)
  obtain j where j: "key = redis_key j" using Cons.prems(2) by auto
  have step: "collect_states r (redis_key j # keys) states =
      (case redis_view r j of None \<Rightarrow> collect_states r keys states
       | Some t \<Rightarrow> collect_states r keys (AList.update j (Some t) states))"
    by (simp add: redis_view_def decode_def redis_key_def unmarshalHash_def Let_def split: option.split sum.split)
  show ?case
    using Cons.IH Cons.prems unfolding j by (auto simp: step simp del: collect_states.simps split: option.splits)
qed (simp split: option.split)

lemma rate_keys_live:
  "gm_wf (rd_keys r) \<Longrightarrow> redis_key k \<notin> set (rate_keys r) \<Longrightarrow> redis_view r k = None"
  by (auto simp: rate_keys_def redis_view_def hash_at_def redis_key_def image_iff dest: map_of_SomeD
      split: option.splits)

lemma rate_keys_prefixed: "key \<in> set (rate_keys r) \<Longrightarrow> \<exists>k. key = redis_key k"
proof -
  assume "key \<in> set (rate_keys r)"
  then have "take (length redisKeyPrefix) key = redisKeyPrefix" by (auto simp: rate_keys_def)
  then have "key = redis_key (drop (length redisKeyPrefix) key)"
    unfolding redis_key_def by (metis append_take_drop_id)
  then show "\<exists>k. key = redis_key k" ..
qed

interpretation redis: rate_store "redis_ops width" redis_view whole_seconds redis_inv for width
proof unfold_locales
  fix s k and t :: rate_state and u
  assume inv: "redis_inv s"
  then have up: "rd_fault s = None" and wf: "gm_wf (rd_keys s)" by (simp_all add: redis_inv_def)
  have hash: "hash_at s (redis_key k) = [] \<or> (\<exists>t. unmarshalHash (hash_at s (redis_key k)) = Inr t)"
    using inv [unfolded redis_inv_def, THEN conjunct2, THEN conjunct2, rule_format, of k]
    by (auto simp: decode_def split: sum.splits)
  show "so_get_state (redis_ops width) k s =
      ((case redis_view s k of None \<Rightarrow> Inl ErrStateNotFound | Some t \<Rightarrow> Inr t), s)"
    using hash by (auto simp: redis_ops_def RedisStore_GetState_def HGetAll_def up redis_view_def decode_def)
  show "so_set_state (redis_ops width) k None s = (None, s)"
    by (simp add: redis_ops_def RedisStore_SetState_def)
  show "fst (so_set_state (redis_ops width) k (Some t) s) = None"
    by (simp add: redis_ops_def RedisStore_SetState_effect [OF inv])
  show "redis_view (snd (so_set_state (redis_ops width) k (Some t) s)) =
      (redis_view s)(k := Some (keep_fresher (whole_seconds t) (redis_view s k)))"
    by (rule ext) (auto simp: redis_ops_def RedisStore_SetState_effect [OF inv] redis_view_def hash_at_write
        state_ttl_pos decode_written keep_fresher_def split: option.splits)
  show "redis_inv (snd (so_set_state (redis_ops width) k u s))"
  proof (cases u)
    case None
    then show ?thesis by (simp add: redis_ops_def RedisStore_SetState_def inv)
  next
    case (Some t)
    have "redis_inv (script_write (redis_key k) (itoa (go_int (unix (rs_reset_at t)))) (itoa (go_int (rs_remaining t)))
            (itoa (go_int (unix (rs_last_updated t)))) (state_ttl (rd_now s) t) s)"
      using inv unfolding redis_inv_def
      by (auto simp: hash_at_write state_ttl_pos decode_written) (simp_all add: script_write_def)
    then show ?thesis by (simp add: redis_ops_def RedisStore_SetState_effect [OF inv] Some inv)
  qed
  show "\<exists>m. so_get_all_states (redis_ops width) s = (Inr m, s) \<and>
      (\<forall>k. map_of m k = map_option Some (redis_view s k))"
  proof -
    let ?keys = "rate_keys s"
    have keys: "distinct ?keys" "\<forall>key\<in>set ?keys. \<exists>k. key = redis_key k"
      using wf rate_keys_prefixed by (auto simp: rate_keys_def gm_wf_def distinct_map inj_on_def)
    have "so_get_all_states (redis_ops width) s = (Inr (collect_states s ?keys []), s)"
      by (simp add: redis_ops_def RedisStore_GetAllStates_def up scan_pages_all Let_def)
    moreover have "map_of (collect_states s ?keys []) k = map_option Some (redis_view s k)" for k
      using collect_states_lookup [OF keys, of s "[]" k] rate_keys_live [OF wf, of k]
      by (auto split: option.splits)
    ultimately show ?thesis by blast
  qed
qed

end
