(* ===== verification/Dynamo_Store.thy ===== *)
theory Dynamo_Store
  imports Redis_Store
begin

text \<open>
  The DynamoDB-backed selector store, \<^verbatim>\<open>internal/sts/selector/backends/dynamodb.go\<close>. The state is
  the table with its hash key \<^verbatim>\<open>client_id\<close>, a fault that makes every call fail when there is one,
  and the clock of the program. The calls act as documented: \<^verbatim>\<open>PutItem\<close> replaces the item when its
  condition holds of the present one, \<^verbatim>\<open>Scan\<close> hands out the items in pages. Items whose time to
  live has passed stay readable until DynamoDB deletes them, so time to live plays no part.
\<close>

section \<open>Items\<close>

text \<open>Attribute values: strings, numbers as their decimal text, and the other types.\<close>

datatype attribute = AttrS string | AttrN string | AttrOther

type_synonym item = "(string, attribute) gomap"

record dynamo_table =
  dt_items :: "(string, item) gomap"
  dt_fault :: "gotext option"
  dt_now :: time

record dynamo_item =
  di_client_id :: string
  di_remaining :: int
  di_reset_at :: int
  di_last_updated :: int
  di_expires_at :: int

text \<open>
  \<^verbatim>\<open>attributevalue.MarshalMap\<close> and \<^verbatim>\<open>UnmarshalMap\<close> on this struct: a zero \<^verbatim>\<open>expires_at\<close> is
  omitted; a missing attribute leaves the zero value; a wrong type or number is an error.
\<close>

definition MarshalMap :: "dynamo_item \<Rightarrow> item" where
  "MarshalMap i =
     [(''client_id'', AttrS (di_client_id i)),
      (''remaining'', AttrN (itoa (go_int (di_remaining i)))),
      (''reset_at'', AttrN (itoa (go_int (di_reset_at i)))),
      (''last_updated'', AttrN (itoa (go_int (di_last_updated i))))] @
     (if go_int (di_expires_at i) \<noteq> 0 then [(''expires_at'', AttrN (itoa (go_int (di_expires_at i))))] else [])"

definition attr_string :: "item \<Rightarrow> string \<Rightarrow> gotext + string" where
  "attr_string raw name =
     (case map_of raw name of
        None \<Rightarrow> Inr []
      | Some (AttrS s) \<Rightarrow> Inr s
      | Some _ \<Rightarrow> Inl (Sprintf ''cannot unmarshal %s'' [AStr name]))"

definition attr_int :: "item \<Rightarrow> string \<Rightarrow> gotext + int" where
  "attr_int raw name =
     (case map_of raw name of
        None \<Rightarrow> Inr 0
      | Some (AttrN s) \<Rightarrow> ParseInt s
      | Some _ \<Rightarrow> Inl (Sprintf ''cannot unmarshal %s'' [AStr name]))"

definition UnmarshalMap :: "item \<Rightarrow> gotext + dynamo_item" where
  "UnmarshalMap raw =
     (case attr_string raw ''client_id'' of Inl err \<Rightarrow> Inl err | Inr client_id \<Rightarrow>
     (case attr_int raw ''remaining'' of Inl err \<Rightarrow> Inl err | Inr remaining \<Rightarrow>
     (case attr_int raw ''reset_at'' of Inl err \<Rightarrow> Inl err | Inr reset_at \<Rightarrow>
     (case attr_int raw ''last_updated'' of Inl err \<Rightarrow> Inl err | Inr last_updated \<Rightarrow>
     (case attr_int raw ''expires_at'' of Inl err \<Rightarrow> Inl err | Inr expires_at \<Rightarrow>
        Inr \<lparr>di_client_id = client_id, di_remaining = remaining, di_reset_at = reset_at,
             di_last_updated = last_updated, di_expires_at = expires_at\<rparr>)))))"

definition toState :: "dynamo_item \<Rightarrow> rate_state" where
  "toState i =
     \<lparr>rs_remaining = di_remaining i,
      rs_reset_at = of_unix (di_reset_at i),
      rs_last_updated = of_unix (di_last_updated i)\<rparr>"

definition fromRateLimitState :: "string \<Rightarrow> rate_state \<Rightarrow> dynamo_item" where
  "fromRateLimitState clientID s =
     \<lparr>di_client_id = clientID,
      di_remaining = rs_remaining s,
      di_reset_at = unix (rs_reset_at s),
      di_last_updated = unix (rs_last_updated s),
      di_expires_at = 0\<rparr>"

section \<open>The condition of the write\<close>

text \<open>
  \<^verbatim>\<open>attribute_not_exists(reset_at) OR reset_at < :new_reset_at OR (reset_at = :new_reset_at AND
  remaining > :new_remaining)\<close>; a comparison with a missing attribute or one of another type is
  false.
\<close>

definition attr_number :: "item \<Rightarrow> string \<Rightarrow> int option" where
  "attr_number raw name =
     (case map_of raw name of Some (AttrN s) \<Rightarrow> parse_decimal s | _ \<Rightarrow> None)"

definition put_condition :: "item \<Rightarrow> string \<Rightarrow> string \<Rightarrow> bool" where
  "put_condition old new_reset_at new_remaining \<longleftrightarrow>
     map_of old ''reset_at'' = None \<or>
     (case (attr_number old ''reset_at'', parse_decimal new_reset_at) of
        (Some r, Some r') \<Rightarrow>
          r < r' \<or>
          r = r' \<and>
          (case (attr_number old ''remaining'', parse_decimal new_remaining) of
             (Some m, Some m') \<Rightarrow> m > m'
           | _ \<Rightarrow> False)
      | _ \<Rightarrow> False)"

datatype put_result = PutOk | ConditionalCheckFailed | PutFailure gotext

definition PutItem ::
  "string \<Rightarrow> item \<Rightarrow> string \<Rightarrow> string \<Rightarrow> dynamo_table \<Rightarrow> put_result \<times> dynamo_table" where
  "PutItem key av new_reset_at new_remaining d =
     (case dt_fault d of
        Some err \<Rightarrow> (PutFailure err, d)
      | None \<Rightarrow>
          let old = (case map_of (dt_items d) key of None \<Rightarrow> [] | Some i \<Rightarrow> i)
          in if put_condition old new_reset_at new_remaining
             then (PutOk, d\<lparr>dt_items := AList.update key av (dt_items d)\<rparr>)
             else (ConditionalCheckFailed, d))"

section \<open>Operations\<close>

definition DefaultTableName :: string where "DefaultTableName = ''rate_limits''"
definition DefaultTTLMinutes :: int where "DefaultTTLMinutes = 120"

record dynamodb_store =
  ds_table :: string
  ds_ttl_minutes :: int

definition NewDynamoDBStore :: "string \<Rightarrow> int \<Rightarrow> dynamodb_store" where
  "NewDynamoDBStore table ttlMinutes =
     (let table = (if table = [] then DefaultTableName else table);
          ttlMinutes = (if ttlMinutes \<le> 0 then DefaultTTLMinutes else ttlMinutes)
      in \<lparr>ds_table = table, ds_ttl_minutes = ttlMinutes\<rparr>)"

definition DynamoDBStore_GetState ::
  "string \<Rightarrow> dynamo_table \<Rightarrow> (store_error + rate_state) \<times> dynamo_table" where
  "DynamoDBStore_GetState clientID d =
     (case dt_fault d of
        Some err \<Rightarrow> (Inl (StoreFailure (Sprintf ''getting item: %w'' [AErr err])), d)
      | None \<Rightarrow>
          (case map_of (dt_items d) clientID of
             None \<Rightarrow> (Inl ErrStateNotFound, d)
           | Some raw \<Rightarrow>
               if length raw = 0 then (Inl ErrStateNotFound, d)
               else (case UnmarshalMap raw of
                       Inl err \<Rightarrow> (Inl (StoreFailure (Sprintf ''unmarshaling item: %w'' [AErr err])), d)
                     | Inr item \<Rightarrow> (Inr (toState item), d))))"

definition DynamoDBStore_SetState ::
  "dynamodb_store \<Rightarrow> string \<Rightarrow> rate_state option \<Rightarrow> dynamo_table \<Rightarrow> store_error option \<times> dynamo_table" where
  "DynamoDBStore_SetState ds clientID state d =
     (case state of
        None \<Rightarrow> (None, d)
      | Some st \<Rightarrow>
          (let item = fromRateLimitState clientID st;
               item = (if ds_ttl_minutes ds > 0
                       then item\<lparr>di_expires_at := unix (add_dur (dt_now d) (dur_of (ds_ttl_minutes ds) nano_minute))\<rparr>
                       else item);
               av = MarshalMap item;
               resetAt = itoa (go_int (unix (rs_reset_at st)));
               remaining = itoa (go_int (rs_remaining st))
           in case PutItem clientID av resetAt remaining d of
                (PutOk, d) \<Rightarrow> (None, d)
              | (ConditionalCheckFailed, d) \<Rightarrow> (None, d)
              | (PutFailure err, d) \<Rightarrow> (Some (StoreFailure (Sprintf ''putting item: %w'' [AErr err])), d)))"

fun collect_items ::
  "item list \<Rightarrow> (string, rate_state option) gomap \<Rightarrow> (string, rate_state option) gomap" where
  "collect_items [] result = result"
| "collect_items (raw # raws) result =
     (case UnmarshalMap raw of
        Inl err \<Rightarrow> collect_items raws result
      | Inr item \<Rightarrow> collect_items raws (AList.update (di_client_id item) (Some (toState item)) result))"

definition DynamoDBStore_GetAllStates ::
  "(nat \<Rightarrow> nat) \<Rightarrow> dynamo_table \<Rightarrow> (store_error + (string, rate_state option) gomap) \<times> dynamo_table" where
  "DynamoDBStore_GetAllStates width d =
     (case dt_fault d of
        Some err \<Rightarrow> (Inl (StoreFailure (Sprintf ''scanning: %w'' [AErr err])), d)
      | None \<Rightarrow> (Inr (collect_items (scan_pages width (map snd (dt_items d)) 0 []) []), d))"

definition dynamo_ops :: "dynamodb_store \<Rightarrow> (nat \<Rightarrow> nat) \<Rightarrow> dynamo_table store_ops" where
  "dynamo_ops ds width =
     \<lparr>so_get_state = DynamoDBStore_GetState,
      so_set_state = DynamoDBStore_SetState ds,
      so_get_all_states = DynamoDBStore_GetAllStates width\<rparr>"

section \<open>The round trip of an item\<close>

definition go_item :: "dynamo_item \<Rightarrow> dynamo_item" where
  "go_item i =
     i\<lparr>di_remaining := go_int (di_remaining i), di_reset_at := go_int (di_reset_at i),
       di_last_updated := go_int (di_last_updated i), di_expires_at := go_int (di_expires_at i)\<rparr>"

lemma MarshalMap_lookup:
  "map_of (MarshalMap i) ''client_id'' = Some (AttrS (di_client_id i))"
  "map_of (MarshalMap i) ''remaining'' = Some (AttrN (itoa (go_int (di_remaining i))))"
  "map_of (MarshalMap i) ''reset_at'' = Some (AttrN (itoa (go_int (di_reset_at i))))"
  "map_of (MarshalMap i) ''last_updated'' = Some (AttrN (itoa (go_int (di_last_updated i))))"
  "map_of (MarshalMap i) ''expires_at'' =
     (if go_int (di_expires_at i) \<noteq> 0 then Some (AttrN (itoa (go_int (di_expires_at i)))) else None)"
  by (simp_all add: MarshalMap_def)

lemma UnmarshalMap_MarshalMap: "UnmarshalMap (MarshalMap i) = Inr (go_item i)"
  by (simp add: UnmarshalMap_def attr_string_def attr_int_def MarshalMap_lookup ParseInt_itoa go_item_def)

lemma MarshalMap_nonempty [simp]: "MarshalMap i \<noteq> []"
  by (simp add: MarshalMap_def)

lemma MarshalMap_numbers:
  "attr_number (MarshalMap i) ''reset_at'' = Some (go_int (di_reset_at i))"
  "attr_number (MarshalMap i) ''remaining'' = Some (go_int (di_remaining i))"
  by (simp_all add: attr_number_def MarshalMap_lookup)

section \<open>The store contract\<close>

definition dynamo_view :: "dynamo_table \<Rightarrow> string \<Rightarrow> rate_state option" where
  "dynamo_view d k =
     (case map_of (dt_items d) k of
        None \<Rightarrow> None
      | Some raw \<Rightarrow> (case UnmarshalMap raw of Inl err \<Rightarrow> None | Inr i \<Rightarrow> Some (toState i)))"

text \<open>Every item was written by the store, under its client's key.\<close>

definition dynamo_inv :: "dynamo_table \<Rightarrow> bool" where
  "dynamo_inv d \<longleftrightarrow> gm_wf (dt_items d) \<and> dt_fault d = None \<and>
     (\<forall>k raw. map_of (dt_items d) k = Some raw \<longrightarrow> (\<exists>i. raw = MarshalMap i \<and> di_client_id i = k))"

definition written_item :: "dynamodb_store \<Rightarrow> string \<Rightarrow> rate_state \<Rightarrow> time \<Rightarrow> dynamo_item" where
  "written_item ds k t now =
     (if ds_ttl_minutes ds > 0
      then (fromRateLimitState k t)\<lparr>di_expires_at := unix (add_dur now (dur_of (ds_ttl_minutes ds) nano_minute))\<rparr>
      else fromRateLimitState k t)"

lemma written_item_state: "toState (go_item (written_item ds k t now)) = whole_seconds t"
  by (simp add: written_item_def go_item_def toState_def fromRateLimitState_def whole_seconds_def)

lemma written_item_id: "di_client_id (written_item ds k t now) = k"
  by (simp add: written_item_def fromRateLimitState_def)

text \<open>The condition of the write is freshness.\<close>

lemma put_condition_fresher:
  assumes "dynamo_inv d"
  shows "put_condition (case map_of (dt_items d) k of None \<Rightarrow> [] | Some i \<Rightarrow> i)
       (itoa (go_int (unix (rs_reset_at t)))) (itoa (go_int (rs_remaining t))) \<longleftrightarrow>
     IsFresherThan (whole_seconds t) (dynamo_view d k)"
proof (cases "map_of (dt_items d) k")
  case None
  then show ?thesis by (simp add: put_condition_def dynamo_view_def)
next
  case (Some raw)
  with assms obtain i where i: "raw = MarshalMap i" unfolding dynamo_inv_def by blast
  have "dynamo_view d k = Some (toState (go_item i))"
    by (simp add: dynamo_view_def Some i UnmarshalMap_MarshalMap)
  then show ?thesis
    by (auto simp: Some i put_condition_def MarshalMap_lookup MarshalMap_numbers IsFresherThan_def
        toState_def go_item_def whole_seconds_def)
qed

lemma DynamoDBStore_SetState_effect:
  assumes "dynamo_inv d"
  shows "DynamoDBStore_SetState ds k (Some t) d =
    (None, if IsFresherThan (whole_seconds t) (dynamo_view d k)
       then d\<lparr>dt_items := AList.update k (MarshalMap (written_item ds k t (dt_now d))) (dt_items d)\<rparr> else d)"
  using assms put_condition_fresher [OF assms, of k t]
  by (simp add: DynamoDBStore_SetState_def PutItem_def dynamo_inv_def written_item_def Let_def)

lemma collect_items_lookup:
  assumes "gm_wf items" and "\<forall>(j, raw)\<in>set items. \<exists>i. raw = MarshalMap i \<and> di_client_id i = j"
  shows "map_of (collect_items (map snd items) result) k =
    (case map_of items k of
       Some raw \<Rightarrow> (case UnmarshalMap raw of Inl err \<Rightarrow> None | Inr i \<Rightarrow> Some (Some (toState i)))
     | None \<Rightarrow> map_of result k)"
  using assms
proof (induction items arbitrary: result)
  case (Cons e items)
  obtain j raw where e: "e = (j, raw)" by (cases e)
  with Cons.prems obtain i where i: "raw = MarshalMap i" "di_client_id i = j" by auto
  have "map_of items j = None" using Cons.prems(1) by (auto simp: e gm_wf_def map_of_eq_None_iff)
  moreover have "gm_wf items" using Cons.prems(1) by (simp add: gm_wf_def)
  moreover have "di_client_id (go_item i) = j" by (simp add: go_item_def i)
  ultimately show ?case
    using Cons.IH Cons.prems(2) by (auto simp: e i UnmarshalMap_MarshalMap split: option.splits)
qed simp

interpretation dynamodb: rate_store "dynamo_ops ds width" dynamo_view whole_seconds dynamo_inv for ds width
proof unfold_locales
  fix s k and t :: rate_state and u
  assume inv: "dynamo_inv s"
  then have up: "dt_fault s = None" and wf: "gm_wf (dt_items s)"
    and items: "\<forall>(j, raw)\<in>set (dt_items s). \<exists>i. raw = MarshalMap i \<and> di_client_id i = j"
    by (auto simp: dynamo_inv_def dest: gm_mem_lookup)
  show "so_get_state (dynamo_ops ds width) k s =
      ((case dynamo_view s k of None \<Rightarrow> Inl ErrStateNotFound | Some t \<Rightarrow> Inr t), s)"
  proof (cases "map_of (dt_items s) k")
    case (Some raw)
    with inv obtain i where "raw = MarshalMap i" by (auto simp: dynamo_inv_def)
    with Some show ?thesis
      by (simp add: dynamo_ops_def DynamoDBStore_GetState_def up dynamo_view_def UnmarshalMap_MarshalMap)
  qed (simp add: dynamo_ops_def DynamoDBStore_GetState_def up dynamo_view_def)
  show "so_set_state (dynamo_ops ds width) k None s = (None, s)"
    by (simp add: dynamo_ops_def DynamoDBStore_SetState_def)
  show "fst (so_set_state (dynamo_ops ds width) k (Some t) s) = None"
    by (simp add: dynamo_ops_def DynamoDBStore_SetState_effect [OF inv])
  show "dynamo_view (snd (so_set_state (dynamo_ops ds width) k (Some t) s)) =
      (dynamo_view s)(k := Some (keep_fresher (whole_seconds t) (dynamo_view s k)))"
    by (rule ext) (auto simp: dynamo_ops_def DynamoDBStore_SetState_effect [OF inv] dynamo_view_def
        UnmarshalMap_MarshalMap written_item_state keep_fresher_def split: option.splits)
  show "dynamo_inv (snd (so_set_state (dynamo_ops ds width) k u s))"
  proof (cases u)
    case None
    then show ?thesis by (simp add: dynamo_ops_def DynamoDBStore_SetState_def inv)
  next
    case (Some t)
    have "dynamo_inv (s\<lparr>dt_items := AList.update k (MarshalMap (written_item ds k t (dt_now s))) (dt_items s)\<rparr>)"
      using inv written_item_id by (auto simp: dynamo_inv_def)
    then show ?thesis by (simp add: dynamo_ops_def DynamoDBStore_SetState_effect [OF inv] Some inv)
  qed
  show "\<exists>m. so_get_all_states (dynamo_ops ds width) s = (Inr m, s) \<and>
      (\<forall>k. map_of m k = map_option Some (dynamo_view s k))"
  proof -
    have "map_of (collect_items (map snd (dt_items s)) []) k = map_option Some (dynamo_view s k)" for k
      unfolding collect_items_lookup [OF wf items]
      by (auto simp: dynamo_view_def split: option.splits sum.splits)
    then show ?thesis
      by (auto simp: dynamo_ops_def DynamoDBStore_GetAllStates_def up scan_pages_all)
  qed
qed

end
