(* ===== verification/Database.thy ===== *)
theory Database
  imports App_Config Github_Iface "HOL-Library.Word"
begin

text \<open>
  Database connections and the migration commands: the singletons \<^verbatim>\<open>NewDB\<close> and \<^verbatim>\<open>NewDynamoDB\<close> with
  \<^verbatim>\<open>NewDBMigrator\<close> (\<^verbatim>\<open>internal/db/sql.go\<close>, \<^verbatim>\<open>internal/db/dynamo.go\<close>), and \<^verbatim>\<open>db migrate\<close> with its
  subcommands (\<^verbatim>\<open>cmd/db/migrate.go\<close>). GORM, the drivers and golang-migrate are parameters.
\<close>

section \<open>The SQL connection\<close>

datatype db_error =
    ErrInvalidAuditBackendType_db
  | OpenFailed gotext
  | PluginFailed gotext
  | ErrMigrationSource gotext
  | ErrUnderlyingDB gotext
  | ErrMigrateDriver gotext
  | NewMigrateFailed gotext

text \<open>
  \<open>dl_open\<close> is \<^verbatim>\<open>gorm.Open\<close>, \<open>dl_alive\<close> says that \<^verbatim>\<open>DB\<close> and \<^verbatim>\<open>Ping\<close> succeed, \<open>dl_close\<close> closes the
  pool behind a connection, if it can be reached.
\<close>

record ('d, 'w) db_lib =
  dl_open :: "string \<Rightarrow> 'w \<Rightarrow> (gotext + 'd) \<times> 'w"
  dl_alive :: "'d \<Rightarrow> 'w \<Rightarrow> bool"
  dl_close :: "'d \<Rightarrow> 'w \<Rightarrow> 'w"
  dl_use_plugin :: "'d \<Rightarrow> 'w \<Rightarrow> gotext option"

text \<open>The package's \<^verbatim>\<open>instance\<close> and the world.\<close>

record ('d, 'w) db_state =
  db_instance :: "'d option"
  db_world :: 'w

text \<open>The part of \<^verbatim>\<open>NewDB\<close> after a stale instance was dropped.\<close>

definition open_new ::
  "('d, 'w) db_lib \<Rightarrow> string \<Rightarrow> string \<Rightarrow> ('d, 'w) db_state \<Rightarrow> (db_error + 'd) \<times> ('d, 'w) db_state" where
  "open_new lib dsn databaseType st =
     (if databaseType = AuditBackendSQL
      then (case dl_open lib dsn (db_world st) of
              (Inl err, w) \<Rightarrow> (Inl (OpenFailed err), st\<lparr>db_world := w\<rparr>)
            | (Inr db, w) \<Rightarrow>
                (case dl_use_plugin lib db w of
                   Some err \<Rightarrow> (Inl (PluginFailed err), st\<lparr>db_world := w\<rparr>)
                 | None \<Rightarrow> (Inr db, st\<lparr>db_instance := Some db, db_world := w\<rparr>)))
      else (Inl ErrInvalidAuditBackendType_db, st))"

definition NewDB ::
  "('d, 'w) db_lib \<Rightarrow> string \<Rightarrow> string \<Rightarrow> ('d, 'w) db_state \<Rightarrow> (db_error + 'd) \<times> ('d, 'w) db_state" where
  "NewDB lib dsn databaseType st =
     (case db_instance st of
        None \<Rightarrow> open_new lib dsn databaseType st
      | Some db \<Rightarrow>
          if dl_alive lib db (db_world st) then (Inr db, st)
          else open_new lib dsn databaseType
                 (st\<lparr>db_instance := None, db_world := dl_close lib db (db_world st)\<rparr>))"

text \<open>
  \<open>ml_source\<close>, \<open>ml_db\<close>, \<open>ml_driver\<close> and \<open>ml_new\<close>: opening the embedded migrations, extracting the
  \<^verbatim>\<open>*sql.DB\<close>, the PostgreSQL driver and the \<^verbatim>\<open>migrate\<close> instance \<^verbatim>\<open>'m\<close>.
\<close>

record ('d, 'm) migrator_lib =
  ml_source :: "gotext option"
  ml_db :: "'d \<Rightarrow> gotext option"
  ml_driver :: "'d \<Rightarrow> gotext option"
  ml_new :: "'d \<Rightarrow> gotext + 'm"

definition NewDBMigrator ::
  "('d, 'w) db_lib \<Rightarrow> ('d, 'm) migrator_lib \<Rightarrow> string \<Rightarrow> string \<Rightarrow> ('d, 'w) db_state
     \<Rightarrow> (db_error + 'm) \<times> ('d, 'w) db_state" where
  "NewDBMigrator lib ml dsn databaseType st =
     (case NewDB lib dsn databaseType st of
        (Inl err, st) \<Rightarrow> (Inl err, st)
      | (Inr db, st) \<Rightarrow>
          if databaseType = AuditBackendSQL
          then (case ml_source ml of
                  Some err \<Rightarrow> (Inl (ErrMigrationSource err), st)
                | None \<Rightarrow>
                    (case ml_db ml db of
                       Some err \<Rightarrow> (Inl (ErrUnderlyingDB err), st)
                     | None \<Rightarrow>
                         (case ml_driver ml db of
                            Some err \<Rightarrow> (Inl (ErrMigrateDriver err), st)
                          | None \<Rightarrow>
                              (case ml_new ml db of
                                 Inl err \<Rightarrow> (Inl (NewMigrateFailed err), st)
                               | Inr m \<Rightarrow> (Inr m, st)))))
          else (Inl ErrInvalidAuditBackendType_db, st))"

section \<open>The DynamoDB client\<close>

datatype dynamo_error = ErrDynamoDBLoadConfig gotext | ErrDynamoDBRegionConflict string string

record 'c dynamo_singleton =
  dy_instance :: "'c option"
  dy_region :: string

text \<open>\<open>load\<close> loads the AWS configuration, for the region when one is given, and builds the client.\<close>

definition NewDynamoDB ::
  "(string option \<Rightarrow> gotext + 'c) \<Rightarrow> string \<Rightarrow> 'c dynamo_singleton \<Rightarrow> (dynamo_error + 'c) \<times> 'c dynamo_singleton" where
  "NewDynamoDB load region st =
     (case dy_instance st of
        Some c \<Rightarrow>
          if region \<noteq> [] \<and> dy_region st \<noteq> [] \<and> region \<noteq> dy_region st
          then (Inl (ErrDynamoDBRegionConflict (dy_region st) region), st)
          else (Inr c, st)
      | None \<Rightarrow>
          (case load (if region \<noteq> [] then Some region else None) of
             Inl err \<Rightarrow> (Inl (ErrDynamoDBLoadConfig err), st)
           | Inr c \<Rightarrow> (Inr c, \<lparr>dy_instance = Some c, dy_region = region\<rparr>)))"

text \<open>Error texts; \<^verbatim>\<open>errors.Join\<close> puts a newline between its errors.\<close>

fun dynamo_error_text :: "dynamo_error \<Rightarrow> gotext" where
  "dynamo_error_text (ErrDynamoDBLoadConfig err) =
     Sprintf ''%w%s%w'' [AErr (msg ''failed to load AWS config''), AStr [CHR 0x0A], AErr err]"
| "dynamo_error_text (ErrDynamoDBRegionConflict existing requested) =
     Sprintf ''%w: existing=%s, requested=%s''
       [AErr (msg ''DynamoDB singleton already initialized with a different region''), AStr existing, AStr requested]"

fun db_error_text :: "db_error \<Rightarrow> gotext" where
  "db_error_text ErrInvalidAuditBackendType_db = msg ''invalid audit backend type''"
| "db_error_text (OpenFailed err) = err"
| "db_error_text (PluginFailed err) = Sprintf ''registering gorm otel plugin: %w'' [AErr err]"
| "db_error_text (ErrMigrationSource err) =
     Sprintf ''%w%s%w'' [AErr (msg ''failed to read migration source''), AStr [CHR 0x0A], AErr err]"
| "db_error_text (ErrUnderlyingDB err) =
     Sprintf ''%w%s%w'' [AErr (msg ''failed to extract underlying sql.DB''), AStr [CHR 0x0A], AErr err]"
| "db_error_text (ErrMigrateDriver err) =
     Sprintf ''%w%s%w'' [AErr (msg ''failed to create migrate driver''), AStr [CHR 0x0A], AErr err]"
| "db_error_text (NewMigrateFailed err) = err"

section \<open>Migration commands\<close>

datatype migrate_error =
    ErrNoChange
  | ErrNilVersion
  | ErrLocked
  | ErrLockTimeout
  | ErrDirty int
  | MigrateFailure gotext

text \<open>A \<^verbatim>\<open>*migrate.Migrate\<close> over the world: \<^verbatim>\<open>Migrate\<close> moves to a version, up or down as needed.\<close>

record ('m, 'w) migrate_ops =
  mo_Up :: "'m \<Rightarrow> 'w \<Rightarrow> migrate_error option \<times> 'w"
  mo_Down :: "'m \<Rightarrow> 'w \<Rightarrow> migrate_error option \<times> 'w"
  mo_Migrate :: "'m \<Rightarrow> 64 word \<Rightarrow> 'w \<Rightarrow> migrate_error option \<times> 'w"
  mo_Force :: "'m \<Rightarrow> int \<Rightarrow> 'w \<Rightarrow> migrate_error option \<times> 'w"
  mo_Version :: "'m \<Rightarrow> 'w \<Rightarrow> migrate_error + nat \<times> bool"
  mo_Close :: "'m \<Rightarrow> 'w \<Rightarrow> 'w"
  mo_text :: "migrate_error \<Rightarrow> gotext"

datatype command_error =
    ErrConfigNotLoaded
  | ErrMigrationNotSupported
  | ErrSQLConfigRequired
  | MigratorError db_error
  | CommandFailed gotext

text \<open>Log lines; where the text depends on the direction, the line carries it.\<close>

datatype migrate_log =
    LogSkipped
  | LogTarget string "64 word"
  | LogAll string
  | LogNoChange string
  | LogDone string
  | LogNoVersion
  | LogVersionFailed migrate_error
  | LogVersion nat bool

definition newDBMigrator ::
  "('d, 'w) db_lib \<Rightarrow> ('d, 'm) migrator_lib \<Rightarrow> app_config option \<Rightarrow> ('d, 'w) db_state
     \<Rightarrow> (command_error + 'm) \<times> ('d, 'w) db_state" where
  "newDBMigrator lib ml current st =
     (case current of
        None \<Rightarrow> (Inl ErrConfigNotLoaded, st)
      | Some cfg \<Rightarrow>
          if \<not> IsMigrationSupported (cf_audit cfg) then (Inl ErrMigrationNotSupported, st)
          else (case ac_sql (cf_audit cfg) of
                  None \<Rightarrow> (Inl ErrSQLConfigRequired, st)
                | Some sql \<Rightarrow>
                    (case NewDBMigrator lib ml (asc_dsn sql) (ac_backend (cf_audit cfg)) st of
                       (Inl err, st) \<Rightarrow> (Inl (MigratorError err), st)
                     | (Inr m, st) \<Rightarrow> (Inr m, st))))"

definition printVersion :: "('m, 'w) migrate_ops \<Rightarrow> 'm \<Rightarrow> 'w \<Rightarrow> migrate_log" where
  "printVersion ops m w =
     (case mo_Version ops m w of
        Inl ErrNilVersion \<Rightarrow> LogNoVersion
      | Inl err \<Rightarrow> LogVersionFailed err
      | Inr (version, dirty) \<Rightarrow> LogVersion version dirty)"

definition handleMigrateError :: "('m, 'w) migrate_ops \<Rightarrow> migrate_error \<Rightarrow> string \<Rightarrow> gotext" where
  "handleMigrateError ops err direction =
     (case err of
        ErrDirty version \<Rightarrow>
          Sprintf (''database is in a dirty state at version %d; '' @
            ''inspect the failed migration then run 'db migrate force --version %d' to reset'')
            [AInt version, AInt version]
      | _ \<Rightarrow>
          if err = ErrLocked \<or> err = ErrLockTimeout
          then Sprintf ''database is locked by another migration process: %w'' [AErr (mo_text ops err)]
          else Sprintf ''migration %s failed: %w'' [AStr direction, AErr (mo_text ops err)])"

text \<open>
  What a subcommand returns and logs. \<open>version\<close> is the value of the \<^verbatim>\<open>--version\<close> flag, 0 when absent;
  the migrator is closed on every path after it was made.
\<close>

definition finish_migration ::
  "('m, 'w) migrate_ops \<Rightarrow> 'm \<Rightarrow> string \<Rightarrow> migrate_log \<Rightarrow> migrate_error option \<times> 'w \<Rightarrow> ('d, 'w) db_state
     \<Rightarrow> (command_error option \<times> migrate_log list) \<times> ('d, 'w) db_state" where
  "finish_migration ops m direction start r st =
     (case r of
        (Some ErrNoChange, w) \<Rightarrow> ((None, [start, LogNoChange direction]), st\<lparr>db_world := mo_Close ops m w\<rparr>)
      | (Some err, w) \<Rightarrow>
          ((Some (CommandFailed (handleMigrateError ops err direction)), [start]), st\<lparr>db_world := mo_Close ops m w\<rparr>)
      | (None, w) \<Rightarrow>
          ((None, [start, LogDone direction, printVersion ops m w]), st\<lparr>db_world := mo_Close ops m w\<rparr>))"

definition migrateUpCmd ::
  "('d, 'w) db_lib \<Rightarrow> ('d, 'm) migrator_lib \<Rightarrow> ('m, 'w) migrate_ops \<Rightarrow> app_config option \<Rightarrow> 64 word
     \<Rightarrow> ('d, 'w) db_state \<Rightarrow> (command_error option \<times> migrate_log list) \<times> ('d, 'w) db_state" where
  "migrateUpCmd lib ml ops current version st =
     (case newDBMigrator lib ml current st of
        (Inl err, st) \<Rightarrow>
          if err = ErrMigrationNotSupported then ((None, [LogSkipped]), st) else ((Some err, []), st)
      | (Inr m, st) \<Rightarrow>
          if version > 0
          then finish_migration ops m ''up'' (LogTarget ''up'' version) (mo_Migrate ops m version (db_world st)) st
          else finish_migration ops m ''up'' (LogAll ''up'') (mo_Up ops m (db_world st)) st)"

definition migrateDownCmd ::
  "('d, 'w) db_lib \<Rightarrow> ('d, 'm) migrator_lib \<Rightarrow> ('m, 'w) migrate_ops \<Rightarrow> app_config option \<Rightarrow> 64 word
     \<Rightarrow> ('d, 'w) db_state \<Rightarrow> (command_error option \<times> migrate_log list) \<times> ('d, 'w) db_state" where
  "migrateDownCmd lib ml ops current version st =
     (case newDBMigrator lib ml current st of
        (Inl err, st) \<Rightarrow> ((Some err, []), st)
      | (Inr m, st) \<Rightarrow>
          if version > 0
          then finish_migration ops m ''down'' (LogTarget ''down'' version) (mo_Migrate ops m version (db_world st)) st
          else finish_migration ops m ''down'' (LogAll ''down'') (mo_Down ops m (db_world st)) st)"

definition migrateVersionCmd ::
  "('d, 'w) db_lib \<Rightarrow> ('d, 'm) migrator_lib \<Rightarrow> ('m, 'w) migrate_ops \<Rightarrow> app_config option
     \<Rightarrow> ('d, 'w) db_state \<Rightarrow> (command_error option \<times> migrate_log list) \<times> ('d, 'w) db_state" where
  "migrateVersionCmd lib ml ops current st =
     (case newDBMigrator lib ml current st of
        (Inl err, st) \<Rightarrow> ((Some err, []), st)
      | (Inr m, st) \<Rightarrow>
          ((None, [printVersion ops m (db_world st)]), st\<lparr>db_world := mo_Close ops m (db_world st)\<rparr>))"

text \<open>\<^verbatim>\<open>int(migrateVersion)\<close> reads the flag as a signed number.\<close>

definition migrateForceCmd ::
  "('d, 'w) db_lib \<Rightarrow> ('d, 'm) migrator_lib \<Rightarrow> ('m, 'w) migrate_ops \<Rightarrow> app_config option \<Rightarrow> 64 word
     \<Rightarrow> ('d, 'w) db_state \<Rightarrow> (command_error option \<times> migrate_log list) \<times> ('d, 'w) db_state" where
  "migrateForceCmd lib ml ops current version st =
     (case newDBMigrator lib ml current st of
        (Inl err, st) \<Rightarrow> ((Some err, []), st)
      | (Inr m, st) \<Rightarrow>
          (case mo_Force ops m (sint version) (db_world st) of
             (Some err, w) \<Rightarrow>
               ((Some (CommandFailed (Sprintf ''force version failed: %w'' [AErr (mo_text ops err)])), [LogTarget ''force'' version]),
                st\<lparr>db_world := mo_Close ops m w\<rparr>)
           | (None, w) \<Rightarrow>
               ((None, [LogTarget ''force'' version, LogDone ''force'', printVersion ops m w]), st\<lparr>db_world := mo_Close ops m w\<rparr>)))"

section \<open>One pool at a time\<close>

text \<open>
  What is assumed of GORM and its driver: \<open>opened\<close> lists the pools that are open; opening adds a new
  one or fails, closing removes it.
\<close>

definition tracks_pools :: "('d, 'w) db_lib \<Rightarrow> ('w \<Rightarrow> 'd set) \<Rightarrow> bool" where
  "tracks_pools lib opened \<longleftrightarrow>
     (\<forall>dsn w w' d. dl_open lib dsn w = (Inr d, w') \<longrightarrow> d \<notin> opened w \<and> opened w' = insert d (opened w)) \<and>
     (\<forall>dsn w w' e. dl_open lib dsn w = (Inl e, w') \<longrightarrow> opened w' = opened w) \<and>
     (\<forall>d w. opened (dl_close lib d w) = opened w - {d})"

definition one_pool :: "('w \<Rightarrow> 'd set) \<Rightarrow> ('d, 'w) db_state \<Rightarrow> bool" where
  "one_pool opened st \<longleftrightarrow> opened (db_world st) = set_option (db_instance st)"

lemma tracks_poolsD:
  assumes "tracks_pools lib opened"
  shows "dl_open lib dsn w = (Inr d, w') \<Longrightarrow> d \<notin> opened w \<and> opened w' = insert d (opened w)"
    and "dl_open lib dsn w = (Inl e, w') \<Longrightarrow> opened w' = opened w"
    and "opened (dl_close lib d w) = opened w - {d}"
  using assms unfolding tracks_pools_def by blast+

lemma open_new_pool:
  assumes "tracks_pools lib opened" and "opened (db_world st) = {}" and "db_instance st = None"
    and "open_new lib dsn t st = (r, st')"
  shows "(case r of
      Inr d \<Rightarrow> one_pool opened st' \<and> db_instance st' = Some d \<and> t = AuditBackendSQL
    | Inl (PluginFailed e) \<Rightarrow> db_instance st' = None \<and> (\<exists>d. opened (db_world st') = {d})
    | Inl e \<Rightarrow> one_pool opened st' \<and> db_instance st' = None)"
  using assms(2-4) tracks_poolsD [OF assms(1)]
  by (auto simp: open_new_def one_pool_def split: if_splits prod.splits sum.splits option.splits)

text \<open>
  The state after a call, from a state with one pool or none: again one pool or none, which is the
  instance, unless registering the tracing plugin failed; then the new pool stays open.
\<close>

lemma NewDB_pool:
  assumes "tracks_pools lib opened" and "one_pool opened st" and "NewDB lib dsn t st = (r, st')"
  shows "(case r of
      Inr d \<Rightarrow> one_pool opened st' \<and> db_instance st' = Some d
    | Inl (PluginFailed e) \<Rightarrow> db_instance st' = None \<and> (\<exists>d. opened (db_world st') = {d})
    | Inl e \<Rightarrow> one_pool opened st' \<and> db_instance st' = None)"
proof (cases "db_instance st")
  case None
  with assms open_new_pool [OF assms(1), of st dsn t r st'] show ?thesis
    by (auto simp: NewDB_def one_pool_def split: sum.splits db_error.splits)
next
  case (Some db)
  let ?st = "st\<lparr>db_instance := None, db_world := dl_close lib db (db_world st)\<rparr>"
  have "opened (db_world ?st) = {}" "db_instance ?st = None"
    using assms(2) Some tracks_poolsD(3) [OF assms(1)] by (auto simp: one_pool_def)
  note new = open_new_pool [OF assms(1) this, of dsn t r st']
  show ?thesis
  proof (cases "dl_alive lib db (db_world st)")
    case True
    with assms Some show ?thesis by (auto simp: NewDB_def)
  next
    case False
    with assms(3) Some new show ?thesis
      by (auto simp: NewDB_def split: sum.splits db_error.splits)
  qed
qed

section \<open>Migration outcomes\<close>

lemma finish_migration_state:
  "snd (finish_migration ops m direction start (r, w) st) = st\<lparr>db_world := mo_Close ops m w\<rparr>"
  by (auto simp: finish_migration_def split: option.splits migrate_error.splits)

lemma finish_migration_ok:
  "fst (fst (finish_migration ops m direction start (r, w) st)) = None \<longleftrightarrow> r = None \<or> r = Some ErrNoChange"
  by (auto simp: finish_migration_def split: option.splits migrate_error.splits)

lemma NewDBMigrator_type:
  "NewDBMigrator lib ml dsn t st = (Inr m, st') \<Longrightarrow> t = AuditBackendSQL"
  by (auto simp: NewDBMigrator_def split: if_splits sum.splits prod.splits option.splits)

section \<open>Properties\<close>

text \<open>The version flag overrides the direction. With a version, \<^verbatim>\<open>db migrate up\<close> and
  \<^verbatim>\<open>db migrate down\<close> do the same to the database, close the migrator and succeed in the same cases:
  \<^verbatim>\<open>up\<close> rolls back when the version is older than the current one, and \<^verbatim>\<open>down\<close> applies
  migrations when it is newer. Without a version they differ.\<close>

lemma migrate_version_direction:
  assumes "newDBMigrator lib ml current st = (Inr m, st1)" and "version > 0"
  shows "snd (migrateUpCmd lib ml ops current version st) = snd (migrateDownCmd lib ml ops current version st) \<and>
    db_world (snd (migrateUpCmd lib ml ops current version st)) =
      mo_Close ops m (snd (mo_Migrate ops m version (db_world st1))) \<and>
    (fst (fst (migrateUpCmd lib ml ops current version st)) = None \<longleftrightarrow>
       fst (mo_Migrate ops m version (db_world st1)) \<in> {None, Some ErrNoChange}) \<and>
    (fst (fst (migrateDownCmd lib ml ops current version st)) = None \<longleftrightarrow>
       fst (mo_Migrate ops m version (db_world st1)) \<in> {None, Some ErrNoChange})"
proof -
  obtain r w where r: "mo_Migrate ops m version (db_world st1) = (r, w)" by fastforce
  have up: "migrateUpCmd lib ml ops current version st =
      finish_migration ops m ''up'' (LogTarget ''up'' version) (r, w) st1"
    and down: "migrateDownCmd lib ml ops current version st =
      finish_migration ops m ''down'' (LogTarget ''down'' version) (r, w) st1"
    using assms r by (simp_all add: migrateUpCmd_def migrateDownCmd_def)
  show ?thesis
    unfolding up down by (simp add: finish_migration_state finish_migration_ok r)
qed


text \<open>One DynamoDB client. After a first call has made the client, a second call returns the same
  client exactly when its region is empty, the first one's was, or they are equal; otherwise it is
  refused. Nothing ever replaces the client.\<close>

lemma NewDynamoDB_one_client:
  assumes "NewDynamoDB load region \<lparr>dy_instance = None, dy_region = []\<rparr> = (Inr c, st)"
  shows "NewDynamoDB load region' st =
    (if region' = [] \<or> region = [] \<or> region' = region then Inr c
     else Inl (ErrDynamoDBRegionConflict region region'), st)"
  using assms by (auto simp: NewDynamoDB_def split: sum.splits if_splits)

section \<open>A small database\<close>

text \<open>The world is the list of open pools; the plugin always registers and the schema has a version.\<close>

definition demo_db :: "(nat, nat list \<times> nat) db_lib" where
  "demo_db =
     \<lparr>dl_open = (\<lambda>dsn w. if dsn = [] then (Inl (msg ''no dsn''), w)
        else (Inr (Suc (sum_list (fst w))), (Suc (sum_list (fst w)) # fst w, snd w))),
      dl_alive = (\<lambda>d w. d \<in> set (fst w)),
      dl_close = (\<lambda>d w. (filter (\<lambda>x. x \<noteq> d) (fst w), snd w)),
      dl_use_plugin = (\<lambda>d w. None)\<rparr>"

lemma demo_db_pools: "tracks_pools demo_db (\<lambda>w. set (fst w))"
  unfolding tracks_pools_def
  by (auto simp: demo_db_def split: if_splits dest: member_le_sum_list)


definition demo_migrator :: "(nat, unit) migrator_lib" where
  "demo_migrator = \<lparr>ml_source = None, ml_db = (\<lambda>d. None), ml_driver = (\<lambda>d. None), ml_new = (\<lambda>d. Inr ())\<rparr>"

definition demo_migrate :: "(unit, nat list \<times> nat) migrate_ops" where
  "demo_migrate =
     \<lparr>mo_Up = (\<lambda>m w. (None, (fst w, 1))), mo_Down = (\<lambda>m w. (None, (fst w, 0))),
      mo_Migrate = (\<lambda>m v w. if unat v = snd w then (Some ErrNoChange, w) else (None, (fst w, unat v))),
      mo_Force = (\<lambda>m v w. (None, (fst w, nat v))),
      mo_Version = (\<lambda>m w. if snd w = 0 then Inl ErrNilVersion else Inr (snd w, False)),
      mo_Close = (\<lambda>m w. ([], snd w)), mo_text = (\<lambda>e. msg ''migrate'')\<rparr>"

definition demo_sql_config :: app_config where
  "demo_sql_config =
     \<lparr>cf_logger = \<lparr>lg_level = [], lg_format = []\<rparr>,
      cf_audit = \<lparr>ac_backend = ''sql'', ac_dynamodb = None, ac_sql = Some \<lparr>asc_dsn = ''dsn''\<rparr>\<rparr>,
      cf_selector = \<lparr>sc_type = ''memory'', sc_redis = None, sc_dynamodb = None\<rparr>,
      cf_policy = \<lparr>pol_version = ''1.0'', pol_trust_policy_path = ''p'', pol_default_token_ttl = 900,
        pol_max_token_ttl = 3600, pol_require_explicit_policy = False, pol_github_api_base_url = [],
        pol_github_raw_base_url = [], pol_providers = [], pol_max_permissions = []\<rparr>,
      cf_server = \<lparr>svc_port = 8080, svc_read_timeout = 1, svc_write_timeout = 1, svc_shutdown_timeout = 1,
        svc_request_timeout = 1, svc_idle_timeout = 1, svc_wait_timeout = 1,
        svc_tls = \<lparr>tls_cert_file_path = [], tls_key_file_path = []\<rparr>\<rparr>,
      cf_oidc = \<lparr>oc_cfg_audience = ''gate''\<rparr>,
      cf_origin = \<lparr>or_enabled = False, or_header_name = [], or_header_value = []\<rparr>,
      cf_fips = \<lparr>fp_enabled = False, fp_mode = []\<rparr>,
      cf_otel = \<lparr>ot_enabled = False, ot_service_name = [], ot_endpoint = [], ot_protocol = [], ot_insecure = False,
        ot_sample_rate = FVal 1, ot_exporter_timeout = 0\<rparr>,
      cf_github_apps = [], cf_aws_region = []\<rparr>"

text \<open>\<^verbatim>\<open>db migrate up --version 1\<close> on a schema at version 3 leaves it at version 1.\<close>

lemma migrate_up_rolls_back:
  "snd (db_world (snd (migrateUpCmd demo_db demo_migrator demo_migrate (Some demo_sql_config) 1
     \<lparr>db_instance = None, db_world = ([], 3)\<rparr>))) = 1"
proof -
  let ?st = "\<lparr>db_instance = None, db_world = ([], 3)\<rparr> :: (nat, nat list \<times> nat) db_state"
  have new: "newDBMigrator demo_db demo_migrator (Some demo_sql_config) ?st =
      (Inr (), \<lparr>db_instance = Some 1, db_world = ([1], 3)\<rparr>)"
    by (simp add: newDBMigrator_def NewDBMigrator_def NewDB_def open_new_def demo_db_def demo_migrator_def
        demo_sql_config_def IsMigrationSupported_def AuditBackendSQL_def)
  have "(1 :: 64 word) > 0" by simp
  note moved = migrate_version_direction [OF new this, of demo_migrate, THEN conjunct2, THEN conjunct1]
  show ?thesis unfolding moved by (simp add: demo_migrate_def)
qed

end
