(* ===== verification/Service_Setup.thy ===== *)
theory Service_Setup
  imports Exchange_Correct App_Config Github_Client Memory_Store Dynamo_Store
  Database
begin

text \<open>
  How the service is put together from a configuration: the selector store
  (\<^verbatim>\<open>internal/sts/selector/backends/backend.go\<close>), the audit backend
  (\<^verbatim>\<open>internal/sts/audit/backends/backends.go\<close>), the GitHub clients and \<^verbatim>\<open>NewService\<close>
  (\<^verbatim>\<open>internal/sts/sts.go\<close>), and \<^verbatim>\<open>buildDependencies\<close> with its clean-up on errors
  (\<^verbatim>\<open>cmd/server/bootstrap.go\<close>); then the public \<^verbatim>\<open>Exchange\<close> with its log line. A nil
  dereference is the result \<open>None\<close>.
\<close>

section \<open>Stores and backends\<close>

text \<open>
  What \<^verbatim>\<open>NewStore\<close> builds. \<open>instrument\<close> is the OpenTelemetry instrumentation of the Redis client
  (tracing, then metrics), \<open>load\<close> the AWS configuration of \<^verbatim>\<open>NewDynamoDB\<close>, whose client the store and
  the audit backend share.
\<close>

datatype 'c store_kind =
    StoreMemory memory_store
  | StoreRedis redis_config string
  | StoreDynamoDB 'c dynamodb_store

definition NewStore ::
  "gotext option \<times> gotext option \<Rightarrow> (string option \<Rightarrow> gotext + 'c) \<Rightarrow> app_config \<Rightarrow> 'c dynamo_singleton
     \<Rightarrow> (gotext + 'c store_kind) option \<times> 'c dynamo_singleton" where
  "NewStore instrument load cfg dy =
     (let c = cf_selector cfg
      in if sc_type c = SelectorStoreTypeMemory then (Some (Inr (StoreMemory NewMemoryStore)), dy)
         else if sc_type c = SelectorStoreTypeRedis
         then (case sc_redis c of
                 None \<Rightarrow> (None, dy)
               | Some r \<Rightarrow>
                   (case fst instrument of
                      Some err \<Rightarrow> (Some (Inl (Sprintf ''instrumenting redis tracing: %w'' [AErr err])), dy)
                    | None \<Rightarrow>
                        (case snd instrument of
                           Some err \<Rightarrow> (Some (Inl (Sprintf ''instrumenting redis metrics: %w'' [AErr err])), dy)
                         | None \<Rightarrow> (Some (Inr (StoreRedis r redisKeyPrefix)), dy))))
         else if sc_type c = SelectorStoreTypeDynamoDB
         then (case NewDynamoDB load (cf_aws_region cfg) dy of
                 (Inl err, dy) \<Rightarrow>
                   (Some (Inl (Sprintf ''creating dynamodb client: %w'' [AErr (dynamo_error_text err)])), dy)
               | (Inr client, dy) \<Rightarrow>
                   (case sc_dynamodb c of
                      None \<Rightarrow> (None, dy)
                    | Some d \<Rightarrow>
                        (Some (Inr (StoreDynamoDB client (NewDynamoDBStore (sdc_table_name d) (sdc_ttl_minutes d)))), dy)))
         else (Some (Inl (Sprintf ''unknown selector store type: %s'' [AStr (sc_type c)])), dy))"

datatype ('c, 'd) backend_kind =
    BackendSQL 'd
  | BackendDynamoDB 'c dynamodb_logger
  | BackendConsole

definition NewBackend ::
  "('d, 'w) db_lib \<Rightarrow> (string option \<Rightarrow> gotext + 'c) \<Rightarrow> app_config \<Rightarrow> ('d, 'w) db_state \<times> 'c dynamo_singleton
     \<Rightarrow> (gotext + ('c, 'd) backend_kind) option \<times> ('d, 'w) db_state \<times> 'c dynamo_singleton" where
  "NewBackend lib load cfg st =
     (let a = cf_audit cfg
      in if ac_backend a = AuditBackendSQL
         then (case ac_sql a of
                 None \<Rightarrow> (None, st)
               | Some s \<Rightarrow>
                   (case NewDB lib (asc_dsn s) AuditBackendSQL (fst st) of
                      (Inl err, ds) \<Rightarrow>
                        (Some (Inl (Sprintf ''creating sql db: %w'' [AErr (db_error_text err)])), ds, snd st)
                    | (Inr db, ds) \<Rightarrow> (Some (Inr (BackendSQL db)), ds, snd st)))
         else if ac_backend a = AuditBackendDynamoDB
         then (case NewDynamoDB load (cf_aws_region cfg) (snd st) of
                 (Inl err, dy) \<Rightarrow>
                   (Some (Inl (Sprintf ''creating dynamodb client: %w'' [AErr (dynamo_error_text err)])), fst st, dy)
               | (Inr client, dy) \<Rightarrow>
                   (case ac_dynamodb a of
                      None \<Rightarrow> (None, fst st, dy)
                    | Some d \<Rightarrow>
                        (Some (Inr (BackendDynamoDB client (NewDynamoDBLogger (adc_table_name d) (adc_ttl_days d)))),
                         fst st, dy)))
         else (Some (Inr BackendConsole), st))"

section \<open>The GitHub clients\<close>

text \<open>
  The state of all clients: the caches of each, by client id, and the world they share. \<open>on_client\<close>
  runs an operation of one of them.
\<close>

record 'w github_state =
  ghs_installations :: "string \<Rightarrow> installation_cache"
  ghs_tokens :: "string \<Rightarrow> token_cache"
  ghs_world :: 'w

definition client_view :: "string \<Rightarrow> 'w github_state \<Rightarrow> 'w client_state" where
  "client_view clientID g =
     \<lparr>cs_installations = ghs_installations g clientID, cs_tokens = ghs_tokens g clientID,
      cs_world = ghs_world g\<rparr>"

definition on_client ::
  "string \<Rightarrow> ('w client_state \<Rightarrow> 'r \<times> 'w client_state) \<Rightarrow> 'w github_state \<Rightarrow> 'r \<times> 'w github_state" where
  "on_client clientID f g =
     (case f (client_view clientID g) of
        (r, st) \<Rightarrow>
          (r, \<lparr>ghs_installations = (ghs_installations g)(clientID := cs_installations st),
               ghs_tokens = (ghs_tokens g)(clientID := cs_tokens st),
               ghs_world = cs_world st\<rparr>))"

definition client_entry ::
  "('w, 'k) github_lib \<Rightarrow> string \<Rightarrow> 'k client \<Rightarrow> 'w github_state client_iface" where
  "client_entry lib clientID c =
     \<lparr>ci_RequestToken = (\<lambda>req. on_client clientID (ci_RequestToken (client_ops lib c) req)),
      ci_RevokeToken = (\<lambda>tok. on_client clientID (ci_RevokeToken (client_ops lib c) tok)),
      ci_RateLimit = (\<lambda>tok. on_client clientID (ci_RateLimit (client_ops lib c) tok)),
      ci_GetContents = (\<lambda>repo path. on_client clientID (ci_GetContents (client_ops lib c) repo path))\<rparr>"

definition new_github_state :: "'w \<Rightarrow> 'w github_state" where
  "new_github_state w =
     \<lparr>ghs_installations = (\<lambda>_. newInstallationCache), ghs_tokens = (\<lambda>_. newTokenCache), ghs_world = w\<rparr>"

text \<open>\<open>read_file\<close> is \<^verbatim>\<open>os.ReadFile\<close>, \<open>parse_key\<close> is \<^verbatim>\<open>ParseRSAPrivateKey\<close>.\<close>

fun build_clients ::
  "(string \<Rightarrow> gotext + string) \<Rightarrow> (string \<Rightarrow> key_error + 'k) \<Rightarrow> string \<Rightarrow> github_app_config list
     \<Rightarrow> (string, 'k client) gomap \<Rightarrow> (string \<times> (gotext + key_error)) + (string, 'k client) gomap" where
  "build_clients read_file parse_key base [] clients = Inr clients"
| "build_clients read_file parse_key base (appCfg # apps) clients =
     (case read_file (ga_private_key_path appCfg) of
        Inl err \<Rightarrow> Inl (ga_client_id appCfg, Inl err)
      | Inr keyPEM \<Rightarrow>
          (case newClient parse_key
                  \<lparr>opt_base_url = base, opt_client_id = ga_client_id appCfg, opt_private_key = keyPEM,
                   opt_timeout = 0\<rparr> () of
             Inl err \<Rightarrow> Inl (ga_client_id appCfg, Inr err)
           | Inr (client, timeout, st) \<Rightarrow>
               build_clients read_file parse_key base apps (AList.update (ga_client_id appCfg) client clients)))"

definition buildGitHubClients ::
  "(string \<Rightarrow> gotext + string) \<Rightarrow> (string \<Rightarrow> key_error + 'k) \<Rightarrow> app_config
     \<Rightarrow> (string \<times> (gotext + key_error)) + (string, 'k client) gomap" where
  "buildGitHubClients read_file parse_key cfg =
     build_clients read_file parse_key (pol_github_api_base_url (cf_policy cfg)) (cf_github_apps cfg) []"

section \<open>The service\<close>

datatype service_error =
    ErrNilConfig
  | ErrNilSelector
  | ErrNilAudit
  | ErrNoApps_service
  | CreatingValidator validator_error
  | CreatingClients string "gotext + key_error"
  | CreatingAuthorizer gotext

record ('s, 'a) dependencies =
  dep_selector :: "(selector \<times> 's store_ops) option"
  dep_audit :: "'a audit_backend option"

text \<open>
  The service, the policy cache of its authoriser and its empty token tracker. The selector holds
  its store; the logger, the tracer and the goroutine of the revocation loop carry no state.
\<close>

definition NewService ::
  "regex_engine \<Rightarrow> ('w, 'k) github_lib \<Rightarrow> (string \<Rightarrow> gotext + string) \<Rightarrow> (string \<Rightarrow> key_error + 'k)
     \<Rightarrow> app_config option \<Rightarrow> ('s, 'a) dependencies
     \<Rightarrow> service_error + ('s, 'w github_state) service \<times> policy_cache \<times> token_tracker" where
  "NewService rx lib read_file parse_key config deps =
     (case config of
        None \<Rightarrow> Inl ErrNilConfig
      | Some cfg \<Rightarrow>
     (case dep_selector deps of
        None \<Rightarrow> Inl ErrNilSelector
      | Some (sel, store) \<Rightarrow>
     (case dep_audit deps of
        None \<Rightarrow> Inl ErrNilAudit
      | Some audit \<Rightarrow>
     if length (cf_github_apps cfg) = 0 then Inl ErrNoApps_service
     else
     (case NewValidator (oc_cfg_audience (cf_oidc cfg)) (Issuers (cf_policy cfg)) of
        Inl err \<Rightarrow> Inl (CreatingValidator err)
      | Inr oidcValidator \<Rightarrow>
     (case buildGitHubClients read_file parse_key cfg of
        Inl (clientID, err) \<Rightarrow> Inl (CreatingClients clientID err)
      | Inr clients \<Rightarrow>
          let ifaces = map (\<lambda>(clientID, c). (clientID, client_entry lib clientID c)) clients
          in (case NewAuthorizer rx (cf_policy cfg) sel store ifaces of
                Inl err \<Rightarrow> Inl (CreatingAuthorizer err)
              | Inr (auth, cache) \<Rightarrow>
                  Inr (\<lparr>sv_oidc = oidcValidator, sv_authorizer = auth, sv_selector = sel, sv_store = store,
                        sv_clients = ifaces, sv_max_ttl = pol_max_token_ttl (cf_policy cfg)\<rparr>,
                       cache, NewTokenTracker)))))))"

definition buildApps :: "app_config \<Rightarrow> app list" where
  "buildApps cfg =
     map (\<lambda>appCfg. \<lparr>app_client_id = ga_client_id appCfg, app_organization = ga_organization appCfg\<rparr>)
       (cf_github_apps cfg)"

section \<open>Dependencies and clean-up\<close>

datatype resource = ResStore | ResAudit | ResService

datatype build_error =
    BuildStore gotext
  | BuildSelector new_selector_error
  | BuildAudit gotext
  | BuildService service_error

text \<open>
  The result, and the resources closed on the way, in order. \<open>store_result\<close> and \<open>audit_result\<close>
  are what \<^verbatim>\<open>NewStore\<close> and \<^verbatim>\<open>NewBackend\<close> return, \<open>ops\<close> and \<open>log\<close> the interfaces of the store and the
  backend they build.
\<close>

definition buildDependencies ::
  "regex_engine \<Rightarrow> ('w, 'k) github_lib \<Rightarrow> (string \<Rightarrow> gotext + string) \<Rightarrow> (string \<Rightarrow> key_error + 'k)
     \<Rightarrow> gotext + 's store_ops \<Rightarrow> gotext + 'a audit_backend \<Rightarrow> app_config
     \<Rightarrow> (build_error + (('s, 'w github_state) service \<times> policy_cache \<times> token_tracker) \<times> resource list)
        \<times> resource list" where
  "buildDependencies rx lib read_file parse_key store_result audit_result cfg =
     (case store_result of
        Inl err \<Rightarrow> (Inl (BuildStore err), [])
      | Inr store \<Rightarrow>
     (case NewSelector (buildApps cfg) (Some store) of
        Inl err \<Rightarrow> (Inl (BuildSelector err), [ResStore])
      | Inr sel \<Rightarrow>
     (case audit_result of
        Inl err \<Rightarrow> (Inl (BuildAudit err), [ResStore])
      | Inr audit \<Rightarrow>
     (case NewService rx lib read_file parse_key (Some cfg)
             \<lparr>dep_selector = Some (sel, store), dep_audit = Some audit\<rparr> of
        Inl err \<Rightarrow> (Inl (BuildService err), [ResAudit, ResStore])
      | Inr built \<Rightarrow> (Inr (built, [ResService, ResStore]), [])))))"

section \<open>Stores and backends of a validated configuration\<close>

text \<open>
  A validated configuration never leads to a nil dereference. Its store fails only for the reasons
  outside the configuration, or when the type is empty, which validation accepts.
\<close>

lemma NewStore_valid:
  assumes "selector_ok (cf_selector cfg)"
  shows "fst (NewStore instrument load cfg dy) \<noteq> None"
    and "instrument = (None, None) \<Longrightarrow> \<forall>r. \<exists>c. load r = Inr c \<Longrightarrow> dy_instance dy = None \<Longrightarrow>
      (\<exists>e. fst (NewStore instrument load cfg dy) = Some (Inl e)) \<longleftrightarrow> sc_type (cf_selector cfg) = []"
proof -
  show "fst (NewStore instrument load cfg dy) \<noteq> None"
    using assms by (auto simp: NewStore_def selector_ok_def SelectorStoreTypeMemory_def SelectorStoreTypeRedis_def
        SelectorStoreTypeDynamoDB_def Let_def split: option.splits sum.splits prod.splits)
  assume "instrument = (None, None)" "\<forall>r. \<exists>c. load r = Inr c" "dy_instance dy = None"
  moreover from this(2) obtain client where "load (if cf_aws_region cfg \<noteq> [] then Some (cf_aws_region cfg) else None) = Inr client"
    by blast
  ultimately show "(\<exists>e. fst (NewStore instrument load cfg dy) = Some (Inl e)) \<longleftrightarrow> sc_type (cf_selector cfg) = []"
    using assms by (auto simp: NewStore_def selector_ok_def SelectorStoreTypeMemory_def SelectorStoreTypeRedis_def
        SelectorStoreTypeDynamoDB_def NewDynamoDB_def Let_def split: option.splits sum.splits prod.splits)
qed

lemma NewBackend_valid:
  assumes "audit_ok (cf_audit cfg)"
  shows "fst (NewBackend lib load cfg st) \<noteq> None"
  using assms by (auto simp: NewBackend_def audit_ok_def AuditBackendSQL_def AuditBackendDynamoDB_def Let_def
      split: option.splits sum.splits prod.splits)

lemma config_ok_parts:
  "config_ok c \<Longrightarrow> selector_ok (cf_selector c) \<and> audit_ok (cf_audit c) \<and> PolicyConfig_Validate (cf_policy c) = None"
  by (simp add: config_ok_def)

section \<open>The clients\<close>

lemma newClient_id:
  "newClient parse_key opts w = Inr (c, timeout, st) \<Longrightarrow> cl_client_id c = opt_client_id opts"
  by (auto simp: newClient_def Let_def split: sum.splits if_splits)

lemma update_entries: "set (AList.update k v al) \<subseteq> insert (k, v) (set al)"
  by (induction al) auto

text \<open>One client for each configured app, under its id and with its id.\<close>

lemma build_clients_ids:
  assumes "build_clients read_file parse_key base apps clients = Inr clients'"
    and "gm_wf clients" and "\<forall>(i, c)\<in>set clients. cl_client_id c = i"
  shows "gm_wf clients' \<and> (\<forall>(i, c)\<in>set clients'. cl_client_id c = i) \<and>
    dom (map_of clients') = dom (map_of clients) \<union> ga_client_id ` set apps"
  using assms
proof (induction read_file parse_key base apps clients rule: build_clients.induct)
  case (2 read_file parse_key base appCfg apps clients)
  from "2.prems"(1) obtain keyPEM c timeout st where
    read: "read_file (ga_private_key_path appCfg) = Inr keyPEM"
    and new: "newClient parse_key \<lparr>opt_base_url = base, opt_client_id = ga_client_id appCfg,
        opt_private_key = keyPEM, opt_timeout = 0\<rparr> () = Inr (c, timeout, st)"
    and rest: "build_clients read_file parse_key base apps (AList.update (ga_client_id appCfg) c clients) = Inr clients'"
    by (auto split: sum.splits)
  let ?cs = "AList.update (ga_client_id appCfg) c clients"
  have "\<forall>(i, c)\<in>set ?cs. cl_client_id c = i"
    using "2.prems"(3) newClient_id [OF new] update_entries [of "ga_client_id appCfg" c clients] by fastforce
  moreover have "dom (map_of ?cs) = insert (ga_client_id appCfg) (dom (map_of clients))"
    by (simp add: dom_map_of_conv_image_fst AList.dom_update)
  moreover have "gm_wf ?cs" using "2.prems"(2) by (rule gm_wf_update)
  ultimately show ?case using "2.IH" [OF read new refl refl rest] by (simp del: gm_lookup_update)
qed auto

lemma buildGitHubClients_ids:
  "buildGitHubClients read_file parse_key cfg = Inr clients \<Longrightarrow>
     gm_wf clients \<and> (\<forall>(i, c)\<in>set clients. cl_client_id c = i) \<and>
     dom (map_of clients) = ga_client_id ` set (cf_github_apps cfg)"
  unfolding buildGitHubClients_def by (drule build_clients_ids) simp_all

section \<open>The service\<close>

lemma NewService_cases:
  assumes "NewService rx lib read_file parse_key (Some cfg) deps = Inr (sv, cache, tracker)"
  obtains sel store audit clients va where
    "dep_selector deps = Some (sel, store)" "dep_audit deps = Some audit" "cf_github_apps cfg \<noteq> []"
    "NewValidator (oc_cfg_audience (cf_oidc cfg)) (Issuers (cf_policy cfg)) = Inr va"
    "buildGitHubClients read_file parse_key cfg = Inr clients"
    "NewAuthorizer rx (cf_policy cfg) sel store (map (\<lambda>(i, c). (i, client_entry lib i c)) clients) =
       Inr (sv_authorizer sv, cache)"
    "sv_oidc sv = va" "sv_selector sv = sel" "sv_store sv = store" "sv_max_ttl sv = pol_max_token_ttl (cf_policy cfg)"
    "sv_clients sv = map (\<lambda>(i, c). (i, client_entry lib i c)) clients" "tracker = NewTokenTracker"
  using assms by (auto simp: NewService_def Let_def split: option.splits sum.splits if_splits)

text \<open>A service built from a validated configuration is what the exchange's theorems assume.\<close>

lemma NewService_built:
  assumes "NewService rx lib read_file parse_key (Some cfg) deps = Inr (sv, cache, tracker)"
    and "config_ok cfg"
  shows "service_built rx sv \<and> au_config (sv_authorizer sv) = cf_policy cfg \<and>
    cache = newPolicyCache 0 \<and> tracker = NewTokenTracker \<and>
    dom (map_of (sv_clients sv)) = ga_client_id ` set (cf_github_apps cfg)"
  using assms(1)
proof (cases rule: NewService_cases)
  case (1 sel store audit clients va)
  have policy: "PolicyConfig_Validate (cf_policy cfg) = None" using assms(2) config_ok_parts by blast
  have "va_issuers va = Issuers (cf_policy cfg)" using 1(4) by (auto simp: NewValidator_def split: if_splits)
  moreover have "au_config (sv_authorizer sv) = cf_policy cfg" "au_selector (sv_authorizer sv) = sel"
    "au_store (sv_authorizer sv) = store"
    "au_clients (sv_authorizer sv) = map (\<lambda>(i, c). (i, client_entry lib i c)) clients"
    using NewAuthorizer_fields [OF 1(6)] by simp_all
  moreover have "dom (map_of (map (\<lambda>(i, c). (i, client_entry lib i c)) clients)) = dom (map_of clients)"
    by (force simp: dom_map_of_conv_image_fst)
  ultimately show ?thesis
    using NewAuthorizer_built [OF policy 1(6)] 1 buildGitHubClients_ids [OF 1(5)]
    by (simp add: service_built_def)
qed

end
