(* ===== verification/Service_Run.thy ===== *)
theory Service_Run
  imports Exchange_Correct
begin

text \<open>
  The service over time: the revocation of expired tokens (\<^verbatim>\<open>revokeExpiredTokens\<close> of
  \<^verbatim>\<open>internal/sts/sts.go\<close>), and runs of exchanges and revocations in any order, as a step relation
  whose invariant says that no issued token is forgotten and that every grant stays on record.
\<close>

section \<open>Revocation\<close>

text \<open>
  The goroutines of the group in the order in which they reach GitHub and the tracker; each either
  fails and leaves the entry, or removes it. The second result lists the hashes that were removed.
\<close>

fun revoke_all ::
  "'g client_iface \<Rightarrow> (string, string) gomap \<Rightarrow> token_tracker \<Rightarrow> 'g
     \<Rightarrow> string list \<times> token_tracker \<times> 'g" where
  "revoke_all client [] tracker g = ([], tracker, g)"
| "revoke_all client ((hash, token) # expired) tracker g =
     (case ci_RevokeToken client token g of
        (Some err, g') \<Rightarrow> revoke_all client expired tracker g'
      | (None, g') \<Rightarrow>
          (case revoke_all client expired (TokenTracker_Remove hash tracker) g' of
             (removed, tracker', g'') \<Rightarrow> (hash # removed, tracker', g'')))"

text \<open>\<open>pick\<close> is the client that the \<^verbatim>\<open>range\<close> over the map yields first.\<close>

definition revokeExpiredTokens ::
  "('s, 'g) service \<Rightarrow> time \<Rightarrow> nat \<Rightarrow> (string, string) gomap \<Rightarrow> ('p, 'w, 's, 'g, 'a) service_state
     \<Rightarrow> string list \<times> ('p, 'w, 's, 'g, 'a) service_state" where
  "revokeExpiredTokens sv now pick order st =
     (let expired = TokenTracker_GetExpired now (ss_tracker st)
      in if length expired = 0 \<or> length (sv_clients sv) = 0 then ([], st)
         else
           let client = snd (sv_clients sv ! (pick mod length (sv_clients sv)))
           in case revoke_all client order (ss_tracker st) (as_github (ss_auth st)) of
                (removed, tracker, g) \<Rightarrow>
                  (removed, st\<lparr>ss_tracker := tracker, ss_auth := (ss_auth st)\<lparr>as_github := g\<rparr>\<rparr>))"

lemma revoke_all_tracker:
  "revoke_all client es tr g = (rm, tr', g') \<Longrightarrow>
     set rm \<subseteq> fst ` set es \<and> (gm_wf tr \<longrightarrow> gm_wf tr') \<and>
     (\<forall>h. map_of tr' h = (if h \<in> set rm then None else map_of tr h))"
proof (induction es arbitrary: tr g rm)
  case (Cons e es)
  obtain h t where e: "e = (h, t)" by (cases e)
  obtain r g1 where r: "ci_RevokeToken client t g = (r, g1)" by fastforce
  show ?case
  proof (cases r)
    case None
    obtain rm1 where rec: "revoke_all client es (TokenTracker_Remove h tr) g1 = (rm1, tr', g')"
      and rm: "rm = h # rm1"
      using Cons.prems by (auto simp: e r None split: prod.splits)
    from Cons.IH [OF rec] show ?thesis by (auto simp: e rm)
  next
    case (Some err)
    with Cons.prems r have "revoke_all client es tr g1 = (rm, tr', g')" by (simp add: e)
    from Cons.IH [OF this] show ?thesis by (auto simp: e)
  qed
qed simp

lemma revoke_all_confirmed:
  "\<forall>t g. fst (ci_RevokeToken c t g) = None \<Longrightarrow> fst ` set es \<subseteq> set (fst (revoke_all c es tr g))"
proof (induction es arbitrary: tr g)
  case (Cons x es)
  obtain h t where x: "x = (h, t)" by (cases x)
  obtain g' where "ci_RevokeToken c t g = (None, g')"
    using Cons.prems by (metis prod.collapse)
  with Cons.IH [OF Cons.prems, of "TokenTracker_Remove h tr" g'] show ?case
    by (auto simp: x split: prod.splits)
qed simp

text \<open>Only expired tokens go, and only those whose revocation GitHub confirmed.\<close>

lemma revokeExpiredTokens_tracker:
  assumes wf: "gm_wf (ss_tracker st)"
    and order: "gm_range (TokenTracker_GetExpired now (ss_tracker st)) order"
    and run: "revokeExpiredTokens sv now pick order st = (rm, st')"
  shows "gm_wf (ss_tracker st') \<and>
    (\<forall>h. map_of (ss_tracker st') h = (if h \<in> set rm then None else map_of (ss_tracker st) h)) \<and>
    (\<forall>h\<in>set rm. \<exists>e. map_of (ss_tracker st) h = Some e \<and> tt_expires e < now)"
proof (cases "TokenTracker_GetExpired now (ss_tracker st) = [] \<or> sv_clients sv = []")
  case True
  with run wf show ?thesis by (auto simp: revokeExpiredTokens_def Let_def)
next
  case False
  let ?client = "snd (sv_clients sv ! (pick mod length (sv_clients sv)))"
  obtain rm1 tr g where all: "revoke_all ?client order (ss_tracker st) (as_github (ss_auth st)) = (rm1, tr, g)"
    using prod_cases3 by blast
  with False run have st': "rm1 = rm" "ss_tracker st' = tr"
    by (auto simp: revokeExpiredTokens_def Let_def)
  have exp: "\<exists>e. map_of (ss_tracker st) h = Some e \<and> tt_expires e < now" if "h \<in> fst ` set order" for h
  proof -
    from that order have "map_of (TokenTracker_GetExpired now (ss_tracker st)) h \<noteq> None"
      by (simp add: gm_range_set map_of_eq_None_iff)
    then show ?thesis using GetExpired_lookup [OF wf] by blast
  qed
  then have "\<forall>h\<in>set rm. \<exists>e. map_of (ss_tracker st) h = Some e \<and> tt_expires e < now"
    using revoke_all_tracker [OF all] st'(1) by blast
  with revoke_all_tracker [OF all] wf st' show ?thesis by simp
qed

lemma revokeExpiredTokens_others:
  "revokeExpiredTokens sv now pick order st = (rm, st') \<Longrightarrow>
     ss_oidc st' = ss_oidc st \<and> as_cache (ss_auth st') = as_cache (ss_auth st) \<and>
     as_store (ss_auth st') = as_store (ss_auth st) \<and> ss_audit st' = ss_audit st"
  by (auto simp: revokeExpiredTokens_def Let_def split: if_splits prod.splits)

section \<open>What one exchange does to the tracker and to the trail\<close>

text \<open>An exchange records at most one token, under the hash of that token.\<close>

lemma exchange_tracker:
  assumes "exchange env sv rd i req st = (r, st')"
  shows "ss_tracker st' = ss_tracker st \<or>
    (\<exists>t x. ss_tracker st' = TokenTracker_Record (HashString (ee_sha256 env) t) t x (ss_tracker st))"
proof (cases rule: exchange_cases [of sv req env rd i st])
  case (passed c os result au)
  let ?st = "st\<lparr>ss_oidc := os, ss_auth := au\<rparr>"
  show ?thesis
  proof (cases rule: exchange_mint_cases [of sv rd req ?st env i c result])
    case (minted a s client tr g)
    with passed assms show ?thesis
      by (intro disjI2 exI) (auto dest!: exchange_finish_state [OF sym])
  qed (use passed assms in auto)
qed (use assms in auto)

text \<open>It writes at most one audit entry, under its request id.\<close>

lemma exchange_trail:
  assumes "exchange env sv rd i req st = (r, st')"
  shows "ss_audit st' = ss_audit st \<or>
    (\<exists>e x. ae_request_id e = i \<and> ab_Log (ee_audit env) (xr_log rd) e (ss_audit st) = (x, ss_audit st'))"
proof -
  have den: "\<exists>e x. ae_request_id e = i \<and>
      ab_Log (ee_audit env) (xr_log rd) e (ss_audit s) = (x, ss_audit (auditDenied env rd i c req reason s))"
    for s :: "('a, 'b, 'c, 'd, 'e) service_state" and c reason
    by (intro exI [of _ "denied_entry env rd i c req reason"]
        exI [of _ "fst (ab_Log (ee_audit env) (xr_log rd) (denied_entry env rd i c req reason) (ss_audit s))"])
      (simp add: auditDenied_def denied_entry_def)
  show ?thesis
  proof (cases rule: exchange_cases [of sv req env rd i st])
    case (refused c os result au d)
    with assms den [of "st\<lparr>ss_oidc := os, ss_auth := au\<rparr>" c "code_string (de_code d)"]
    show ?thesis by auto
  next
    case (passed c os result au)
    let ?st = "st\<lparr>ss_oidc := os, ss_auth := au\<rparr>"
    note r = assms [unfolded passed(5)]
    show ?thesis
    proof (cases rule: exchange_mint_cases [of sv rd req ?st env i c result])
      case (minted a s client tr g)
      with r show ?thesis
        by (auto simp: exchange_finish_def auditGranted_def Let_def split: prod.splits option.splits)
    next
      case (exhausted n s e)
      with r den [of "?st\<lparr>ss_auth := (ss_auth ?st)\<lparr>as_store := s\<rparr>\<rparr>" c ErrRateLimited]
      show ?thesis by auto
    next
      case (no_app err s e)
      with r den [of "?st\<lparr>ss_auth := (ss_auth ?st)\<lparr>as_store := s\<rparr>\<rparr>" c ErrAppSelectionFailed]
      show ?thesis by auto
    next
      case (no_client a s e)
      with r den [of "?st\<lparr>ss_auth := (ss_auth ?st)\<lparr>as_store := s\<rparr>\<rparr>" c ErrClientNotFound]
      show ?thesis by auto
    next
      case (no_token a s client err g e)
      with r den [of "?st\<lparr>ss_auth := (ss_auth ?st)\<lparr>as_store := s, as_github := g\<rparr>\<rparr>" c ErrGitHubAPIError]
      show ?thesis by auto
    qed
  qed (use assms in auto)
qed

section \<open>Runs\<close>

text \<open>
  The service with the responses it has returned, the hashes whose revocation GitHub confirmed and
  the request ids it has seen. Requests come with their own id (the router's middleware sets it);
  exchanges and revocations happen in any order.
\<close>

record ('p, 'w, 's, 'g, 'a) run_state =
  rn_service :: "('p, 'w, 's, 'g, 'a) service_state"
  rn_issued :: "(exchange_request \<times> exchange_response) list"
  rn_revoked :: "string list"
  rn_ids :: "string list"

inductive run_step ::
  "('p, 'w, 'a) exchange_env \<Rightarrow> ('s, 'g) service \<Rightarrow> ('p, 'w, 's, 'g, 'a) run_state
     \<Rightarrow> ('p, 'w, 's, 'g, 'a) run_state \<Rightarrow> bool"
  for env sv where
  granted: "exchange env sv rd i req (rn_service s) = (Some (Inr resp), st') \<Longrightarrow> i \<notin> set (rn_ids s) \<Longrightarrow>
    run_step env sv s (s\<lparr>rn_service := st', rn_issued := (req, resp) # rn_issued s, rn_ids := i # rn_ids s\<rparr>)"
| failed: "exchange env sv rd i req (rn_service s) = (Some (Inl e), st') \<Longrightarrow> i \<notin> set (rn_ids s) \<Longrightarrow>
    run_step env sv s (s\<lparr>rn_service := st', rn_ids := i # rn_ids s\<rparr>)"
| revocation: "revokeExpiredTokens sv now pick order (rn_service s) = (rm, st') \<Longrightarrow>
    gm_range (TokenTracker_GetExpired now (ss_tracker (rn_service s))) order \<Longrightarrow>
    run_step env sv s (s\<lparr>rn_service := st', rn_revoked := rm @ rn_revoked s\<rparr>)"

inductive run ::
  "('p, 'w, 'a) exchange_env \<Rightarrow> ('s, 'g) service \<Rightarrow> ('p, 'w, 's, 'g, 'a) run_state
     \<Rightarrow> ('p, 'w, 's, 'g, 'a) run_state \<Rightarrow> bool"
  for env sv s where
  run_start: "run env sv s s"
| run_more: "run env sv s t \<Longrightarrow> run_step env sv t u \<Longrightarrow> run env sv s u"

inductive_cases run_stepE: "run_step env sv s t"

text \<open>No issued token is forgotten: it is tracked until GitHub confirmed its revocation.\<close>

definition none_forgotten :: "('p, 'w, 's, 'g, 'a) run_state \<Rightarrow> bool" where
  "none_forgotten s \<longleftrightarrow>
     (\<forall>(req, resp)\<in>set (rn_issued s).
        map_of (ss_tracker (rn_service s)) (xp_token_hash resp) \<noteq> None \<or>
        xp_token_hash resp \<in> set (rn_revoked s))"

text \<open>Every grant is on record, under an id that has been seen.\<close>

definition all_recorded ::
  "('a \<Rightarrow> audit_entry \<Rightarrow> bool) \<Rightarrow> ('p, 'w, 's, 'g, 'a) run_state \<Rightarrow> bool" where
  "all_recorded recorded s \<longleftrightarrow>
     (\<forall>(req, resp)\<in>set (rn_issued s). \<exists>e. recorded (ss_audit (rn_service s)) e \<and>
        AuditEntry_Validate e = None \<and> granted_entry e req resp \<and> ae_request_id e \<in> set (rn_ids s))"

lemma none_forgotten_exchange:
  assumes "none_forgotten s" and "exchange env sv rd i req (rn_service s) = (r, st')"
  shows "\<forall>(rq, resp)\<in>set (rn_issued s). map_of (ss_tracker st') (xp_token_hash resp) \<noteq> None \<or>
    xp_token_hash resp \<in> set (rn_revoked s)"
proof -
  have "map_of (ss_tracker st') h \<noteq> None" if "map_of (ss_tracker (rn_service s)) h \<noteq> None" for h
    using exchange_tracker [OF assms(2)] that by (elim disjE exE) simp_all
  then show ?thesis using assms(1) unfolding none_forgotten_def by fast
qed

lemma run_step_none_forgotten:
  assumes "run_step env sv s t" and "gm_wf (ss_tracker (rn_service s))" and "none_forgotten s"
  shows "none_forgotten t"
  using assms(1)
proof (cases rule: run_step.cases)
  case (granted rd i req resp st')
  with none_forgotten_exchange [OF assms(3) granted(2)] exchange_tracked [OF granted(2)]
  show ?thesis by (auto simp: none_forgotten_def)
next
  case (failed rd i req e st')
  with none_forgotten_exchange [OF assms(3) failed(2)] show ?thesis by (auto simp: none_forgotten_def)
next
  case (revocation now pick order rm st')
  with revokeExpiredTokens_tracker [OF assms(2) revocation(3,2)] assms(3)
  show ?thesis by (fastforce simp: none_forgotten_def)
qed

lemma run_step_inv:
  assumes "decodes_maps (ee_yaml env)" and "discovers (ee_oidc env) origin"
    and "run_step env sv s t" and inv: "service_inv sv origin (rn_service s)"
  shows "service_inv sv origin (rn_service t)"
  using assms(3)
proof (cases rule: run_step.cases)
  case (revocation now pick order rm st')
  have "gm_wf (ss_tracker (rn_service s))" using inv by (simp add: service_inv_def)
  from revokeExpiredTokens_tracker [OF this revocation(3,2)] revokeExpiredTokens_others [OF revocation(2)]
  show ?thesis using inv revocation(1) by (simp add: service_inv_def)
qed (use exchange_inv [OF assms(1,2) inv] in auto)

text \<open>An exchange under a new id keeps what is on record, and a grant adds its entry.\<close>

lemma exchange_keeps_record:
  assumes trail: "audit_trail (ab_Log (ee_audit env)) recorded"
    and "recorded (ss_audit st) e" and "ae_request_id e \<noteq> i" and "exchange env sv rd i req st = (r, st')"
  shows "recorded (ss_audit st') e"
  using exchange_trail [OF assms(4)]
proof (elim disjE exE conjE)
  fix e' :: audit_entry and x
  assume "ae_request_id e' = i" and l: "ab_Log (ee_audit env) (xr_log rd) e' (ss_audit st) = (x, ss_audit st')"
  with assms(3) have "ae_request_id e' \<noteq> ae_request_id e" by metis
  then show ?thesis by (rule audit_trail.log_keeps [OF trail assms(2) l])
qed (use assms(2) in simp)

definition on_file :: "('a \<Rightarrow> audit_entry \<Rightarrow> bool) \<Rightarrow> 'a \<Rightarrow> string set \<Rightarrow> exchange_request \<times> exchange_response \<Rightarrow> bool" where
  "on_file recorded log ids g \<longleftrightarrow>
     (\<exists>e. recorded log e \<and> AuditEntry_Validate e = None \<and> granted_entry e (fst g) (snd g) \<and> ae_request_id e \<in> ids)"

lemma all_recorded_iff:
  "all_recorded recorded s \<longleftrightarrow>
     (\<forall>g\<in>set (rn_issued s). on_file recorded (ss_audit (rn_service s)) (set (rn_ids s)) g)"
  by (simp add: all_recorded_def on_file_def split_beta)

lemma exchange_keeps_file:
  assumes "audit_trail (ab_Log (ee_audit env)) recorded" and "exchange env sv rd i req st = (r, st')"
    and "i \<notin> ids" and "on_file recorded (ss_audit st) ids g"
  shows "on_file recorded (ss_audit st') (insert i ids) g"
  using assms(3,4) exchange_keeps_record [OF assms(1) _ _ assms(2)] unfolding on_file_def by blast

lemma exchange_files_grant:
  assumes "audit_trail (ab_Log (ee_audit env)) recorded" and "exchange env sv rd i req st = (Some (Inr resp), st')"
  shows "on_file recorded (ss_audit st') (insert i ids) (req, resp)"
proof -
  obtain e where "recorded (ss_audit st') e" "AuditEntry_Validate e = None" "granted_entry e req resp"
    using exchange_audited [OF assms] by auto
  moreover have "xp_request_id resp = i" using assms(2) by (cases rule: exchange_granted_cases) simp
  ultimately show ?thesis by (auto simp: on_file_def granted_entry_def)
qed

lemma run_step_recorded:
  assumes trail: "audit_trail (ab_Log (ee_audit env)) recorded"
    and step: "run_step env sv s t" and rec: "all_recorded recorded s"
  shows "all_recorded recorded t"
  using step
proof (cases rule: run_step.cases)
  case (granted rd i req resp st')
  then show ?thesis
    using rec exchange_keeps_file [OF trail granted(2,3)] exchange_files_grant [OF trail granted(2)]
    by (simp add: all_recorded_iff)
next
  case (failed rd i req e st')
  then show ?thesis using rec exchange_keeps_file [OF trail failed(2,3)] by (simp add: all_recorded_iff)
next
  case (revocation now pick order rm st')
  with rec revokeExpiredTokens_others [OF revocation(2)] show ?thesis by (simp add: all_recorded_iff)
qed

lemma run_invariant:
  assumes "decodes_maps (ee_yaml env)" and "discovers (ee_oidc env) origin"
    and trail: "audit_trail (ab_Log (ee_audit env)) recorded"
    and "run env sv s t" and "service_inv sv origin (rn_service s)" and "rn_issued s = []"
  shows "service_inv sv origin (rn_service t) \<and> none_forgotten t \<and> all_recorded recorded t"
  using assms(4)
proof induction
  case run_start
  show ?case using assms(5,6) by (simp add: none_forgotten_def all_recorded_def)
next
  case (run_more t u)
  then have "gm_wf (ss_tracker (rn_service t))" by (simp add: service_inv_def)
  with run_more show ?case
    using run_step_inv [OF assms(1,2)] run_step_none_forgotten run_step_recorded [OF trail] by blast
qed

end
