(* ===== verification/End_To_End.thy ===== *)
theory End_To_End
  imports Service_Setup Service_Run
begin

text \<open>
  The service on the real GitHub clients: what every client operation keeps of the caches is kept by
  every exchange and every revocation round, and hence by every run. With the set-up of
  \<^verbatim>\<open>Service_Setup\<close> this carries the guarantees of one client call to the responses of the service.
\<close>

section \<open>What the clients keep\<close>

definition keeps :: "('g \<Rightarrow> bool) \<Rightarrow> 'g client_iface \<Rightarrow> bool" where
  "keeps P c \<longleftrightarrow> (\<forall>g. P g \<longrightarrow>
     (\<forall>req. P (snd (ci_RequestToken c req g))) \<and> (\<forall>tok. P (snd (ci_RevokeToken c tok g))) \<and>
     (\<forall>tok. P (snd (ci_RateLimit c tok g))) \<and> (\<forall>repo path. P (snd (ci_GetContents c repo path g))))"

definition all_keep :: "('g \<Rightarrow> bool) \<Rightarrow> (string, 'g client_iface) gomap \<Rightarrow> bool" where
  "all_keep P cs \<longleftrightarrow> (\<forall>c\<in>snd ` set cs. keeps P c)"

lemma keepsD:
  assumes "keeps P c" and "P g"
  shows "ci_RequestToken c req g = (r1, g1) \<Longrightarrow> P g1" "ci_RevokeToken c tok g = (r2, g2) \<Longrightarrow> P g2"
    "ci_RateLimit c tok g = (r3, g3) \<Longrightarrow> P g3" "ci_GetContents c repo path g = (r4, g4) \<Longrightarrow> P g4"
  using assms unfolding keeps_def by (metis snd_conv)+

lemma all_keepD: "all_keep P cs \<Longrightarrow> map_of cs k = Some c \<Longrightarrow> keeps P c"
  by (force simp: all_keep_def dest: map_of_SomeD)

lemma fetch_loop_github:
  assumes "keeps P client"
  shows "P (as_github st) \<Longrightarrow>
    P (as_github (snd (fetch_loop rx yaml client rd repository key paths ps st)))"
proof (induction ps arbitrary: st)
  case (Cons p ps)
  obtain r g where r: "ci_GetContents client repository p (as_github st) = (r, g)" by fastforce
  have g: "P g" using keepsD(4) [OF assms Cons.prems r] .
  then show ?case using Cons.IH [of "st\<lparr>as_github := g\<rparr>"] r by (auto split: sum.splits)
qed simp

lemma fetchPolicy_github:
  assumes "all_keep P (au_clients a)" and "P (as_github st)"
  shows "P (as_github (snd (fetchPolicy rx yaml a rd repository path st)))"
proof -
  have "P (as_github (snd (fetchPolicyFromGitHub rx yaml a rd repository resolved key st)))" for resolved key
    using assms(2)
    by (auto simp: fetchPolicyFromGitHub_def Let_def split: prod.splits sum.splits option.splits
        intro!: fetch_loop_github [of P] all_keepD [OF assms(1)])
  then show ?thesis
    using assms(2) by (auto simp: fetchPolicy_def Let_def split: list.splits option.splits)
qed

lemma Authorize_github:
  assumes "all_keep P (au_clients a)" and "P (as_github st)"
    and "Authorize rx yaml a now rd req st = (res, st')"
  shows "P (as_github st')"
  using assms(3) assms(2) fetchPolicy_github [OF assms(1,2), of rx yaml rd "ar_target_repository req" "pol_trust_policy_path (au_config a)"]
  by (auto simp: Authorize_def authorizeRepository_def split: if_splits option.splits prod.splits sum.splits)

lemma record_rate_github:
  assumes "keeps P c" and "P (as_github au)"
  shows "P (as_github (record_rate sv c rd k tok au))"
  using keepsD(3) [OF assms] by (auto simp: record_rate_def split: prod.splits sum.splits)

lemma exchange_github:
  assumes "all_keep P (sv_clients sv)" and same: "sv_clients sv = au_clients (sv_authorizer sv)"
    and "P (as_github (ss_auth st))" and run: "exchange env sv rd i req st = (r, st')"
  shows "P (as_github (ss_auth st'))"
proof -
  have auth: "P (as_github au)" if "Authorize rx yaml (sv_authorizer sv) now fr areq (ss_auth st) = (res, au)"
    for rx yaml now fr areq res au
    using Authorize_github [of P, OF _ assms(3) that] assms(1) same by simp
  show ?thesis
proof (rule exchange_cases [of sv req env rd i st])
  fix c os result au
  assume "Authorize (ee_rx env) (ee_yaml env) (sv_authorizer sv) (xr_central rd) (xr_fetch rd)
       (auth_request_of c req) (ss_auth st) = (result, au)"
    and mint: "exchange env sv rd i req st = exchange_mint env sv rd i c req result (st\<lparr>ss_oidc := os, ss_auth := au\<rparr>)"
  then have au: "P (as_github au)" using auth by blast
  let ?st = "st\<lparr>ss_oidc := os, ss_auth := au\<rparr>"
  show ?thesis
  proof (rule exchange_mint_cases [of sv rd req ?st env i c result])
    fix a :: app and s client err g e
    assume m: "map_of (sv_clients sv) (app_client_id a) = Some client"
      "ci_RequestToken client \<lparr>trq_repository = xq_target_repository req,
         trq_permissions = res_permissions result\<rparr> (as_github (ss_auth ?st)) = (Inl err, g)"
      and "exchange_mint env sv rd i c req result ?st =
        (Some (Inl (WithCaller e (oc_issuer c) (oc_subject c))),
         auditDenied env rd i c req ErrGitHubAPIError
           (?st\<lparr>ss_auth := (ss_auth ?st)\<lparr>as_store := s, as_github := g\<rparr>\<rparr>))"
    with mint run keepsD(1) [OF all_keepD [OF assms(1) m(1)], of g] au show ?thesis
      by (simp add: keepsD(1) [OF all_keepD [OF assms(1) m(1)]])
  next
    fix a s client tr g
    assume m: "map_of (sv_clients sv) (app_client_id a) = Some client"
      "ci_RequestToken client \<lparr>trq_repository = xq_target_repository req,
         trq_permissions = res_permissions result\<rparr> (as_github (ss_auth ?st)) = (Inr tr, g)"
      and fin: "exchange_mint env sv rd i c req result ?st =
        exchange_finish env rd i c req result a tr
          (?st\<lparr>ss_auth := record_rate sv client rd (app_client_id a) (trs_token tr)
             ((ss_auth ?st)\<lparr>as_store := s, as_github := g\<rparr>)\<rparr>)"
    have k: "keeps P client" using all_keepD [OF assms(1) m(1)] .
    have "P g" using keepsD(1) [OF k _ m(2)] au by simp
    then have "P (as_github (record_rate sv client rd (app_client_id a) (trs_token tr)
             ((ss_auth ?st)\<lparr>as_store := s, as_github := g\<rparr>)))" by (intro record_rate_github [OF k]) simp
    with fin mint run show ?thesis by (auto dest!: exchange_finish_state [OF sym])
  qed (use mint run au in auto)
qed (use assms auth in auto)
qed

lemma revoke_all_github:
  assumes "keeps P c"
  shows "P g \<Longrightarrow> revoke_all c es tr g = (rm, tr', g') \<Longrightarrow> P g'"
proof (induction es arbitrary: tr g rm)
  case (Cons e es)
  obtain h t where e: "e = (h, t)" by (cases e)
  obtain r g1 where r: "ci_RevokeToken c t g = (r, g1)" by fastforce
  have "P g1" using keepsD(2) [OF assms Cons.prems(1) r] .
  with Cons show ?case by (cases r) (auto simp: e r split: prod.splits)
qed simp

lemma revokeExpiredTokens_github:
  assumes "all_keep P (sv_clients sv)" and "P (as_github (ss_auth st))"
    and "revokeExpiredTokens sv now pick order st = (rm, st')"
  shows "P (as_github (ss_auth st'))"
proof (cases "TokenTracker_GetExpired now (ss_tracker st) = [] \<or> sv_clients sv = []")
  case False
  let ?c = "snd (sv_clients sv ! (pick mod length (sv_clients sv)))"
  have "keeps P ?c" using assms(1) False by (auto simp: all_keep_def)
  from revoke_all_github [OF this assms(2)] assms(3) False show ?thesis
    by (auto simp: revokeExpiredTokens_def Let_def split: prod.splits)
qed (use assms in \<open>auto simp: revokeExpiredTokens_def Let_def\<close>)

section \<open>The GitHub clients\<close>

text \<open>The caches of every client hold what GitHub answered.\<close>

definition github_genuine :: "('w, 'k) github_lib \<Rightarrow> 'w github_state \<Rightarrow> bool" where
  "github_genuine lib g \<longleftrightarrow> (\<forall>i. genuine lib (client_view i g))"

lemma new_github_state_genuine: "github_genuine lib (new_github_state w)"
  by (simp add: github_genuine_def new_github_state_def client_view_def genuine_def genuine_installations_def
      genuine_tokens_def newInstallationCache_def newTokenCache_def)

lemma on_client_view:
  "on_client i f g = (r, g') \<Longrightarrow> \<exists>st. f (client_view i g) = (r, st) \<and> client_view i g' = st"
  by (auto simp: on_client_def client_view_def split: prod.splits)

lemma on_client_genuine:
  assumes "\<And>st. genuine lib st \<Longrightarrow> genuine lib (snd (f st))" and "github_genuine lib g"
  shows "github_genuine lib (snd (on_client i f g))"
proof -
  obtain r st where f: "f (client_view i g) = (r, st)" by fastforce
  have "genuine lib st" using assms(1) [of "client_view i g"] assms(2) f by (simp add: github_genuine_def)
  moreover have "genuine lib (client_view j g)" for j using assms(2) by (simp add: github_genuine_def)
  ultimately show ?thesis
    unfolding github_genuine_def on_client_def f
    by (auto simp: client_view_def genuine_def genuine_installations_def genuine_tokens_def)
qed

lemma genuine_same:
  "cs_installations st' = cs_installations st \<Longrightarrow> cs_tokens st' = cs_tokens st \<Longrightarrow> genuine lib st \<Longrightarrow> genuine lib st'"
  using genuine_cong by blast

lemma RequestToken_genuine:
  assumes "genuine lib st"
  shows "genuine lib (snd (Client_RequestToken lib c req st))"
proof (cases "parseRepository (trq_repository req)")
  case (Inr p)
  obtain owner repo where p: "p = (owner, repo)" by (cases p)
  note parsed = Inr
  obtain x st1 where i: "getInstallationID lib c owner st = (x, st1)" by fastforce
  have g: "genuine lib st1" using getInstallationID_genuine [OF i assms] by simp
  show ?thesis
  proof (cases x)
    case [simp]: (Inr n)
    obtain r st' where t: "createInstallationToken lib c n repo (trq_permissions req) st1 = (r, st')" by fastforce
    from createInstallationToken_genuine [OF t] g show ?thesis
      by (cases r) (auto simp: Client_RequestToken_def parsed p i t intro: genuine_same)
  qed (simp add: Client_RequestToken_def parsed p i g)
qed (simp add: Client_RequestToken_def assms)

lemma GetContents_genuine:
  assumes "genuine lib st"
  shows "genuine lib (snd (Client_GetContents lib c repository path st))"
proof (cases "parseRepository repository")
  case (Inr p)
  obtain owner repo where p: "p = (owner, repo)" by (cases p)
  obtain r st' where l: "contents_loop lib c repository owner repo path 0 2 False st = (r, st')" by fastforce
  from contents_correct [OF l assms] show ?thesis by (simp add: Client_GetContents_def Inr p l)
qed (simp add: Client_GetContents_def assms)

lemma RevokeToken_state:
  "cs_installations (snd (Client_RevokeToken lib c tok st)) = cs_installations st \<and>
   cs_tokens (snd (Client_RevokeToken lib c tok st)) = cs_tokens st"
  by (auto simp: Client_RevokeToken_def split: sum.splits prod.splits option.splits dest: call_fields)

lemma RateLimit_state:
  "cs_installations (snd (Client_RateLimit lib c tok st)) = cs_installations st \<and>
   cs_tokens (snd (Client_RateLimit lib c tok st)) = cs_tokens st"
  by (auto simp: Client_RateLimit_def split: sum.splits prod.splits option.splits dest: call_fields)

lemma client_entry_keeps: "keeps (github_genuine lib) (client_entry lib i c)"
  unfolding keeps_def
  by (auto simp: client_entry_def client_ops_def RequestToken_genuine GetContents_genuine
      intro!: on_client_genuine intro: genuine_same [OF RevokeToken_state [THEN conjunct1] RevokeToken_state [THEN conjunct2]]
        genuine_same [OF RateLimit_state [THEN conjunct1] RateLimit_state [THEN conjunct2]])

section \<open>The selector store\<close>

lemma Authorize_store:
  assumes "rate_store (au_store a) view seen ok" and "ok (as_store st)"
    and "Authorize rx yaml a now rd req st = (res, st')"
  shows "as_store st' = as_store st"
proof -
  have "as_store st1 = as_store st" if "fetchPolicy rx yaml a fr r t st = (x, st1)" for fr r t x st1
    using assms(1,2) that by (intro fetchPolicy_store [of _ view seen ok]) auto
  with assms(3) show ?thesis
    by (auto simp: Authorize_def authorizeRepository_def split: if_splits option.splits prod.splits sum.splits)
qed

lemma record_rate_store:
  assumes "rate_store (sv_store sv) view seen ok" and "ok (as_store au)"
  shows "ok (as_store (record_rate sv c rd k tok au))"
  using assms(2) rate_store.RecordUsage_view(3) [OF assms]
  by (auto simp: record_rate_def split: prod.splits sum.splits)

lemma exchange_store:
  assumes store: "rate_store (sv_store sv) view seen ok" and built: "service_built rx sv"
    and "ok (as_store (ss_auth st))" and run: "exchange env sv rd i req st = (r, st')"
  shows "ok (as_store (ss_auth st'))"
proof -
  have auth: "as_store au = as_store (ss_auth st)"
    if "Authorize rx' yaml (sv_authorizer sv) now fr areq (ss_auth st) = (res, au)" for rx' yaml now fr areq res au
    using Authorize_store [of _ view seen ok, OF _ assms(3) that] store built by (auto simp: service_built_def)
  have sel: "s = st1" if "SelectApp (sv_store sv) (sv_selector sv) a b c d e st1 = (x, s)" "ok st1" for a b c d e st1 x s
    using rate_store.SelectApp_state [OF store that(2)] that(1) by (metis snd_conv)
  show ?thesis
  proof (rule exchange_cases [of sv req env rd i st])
    fix c os result au
    assume a: "Authorize (ee_rx env) (ee_yaml env) (sv_authorizer sv) (xr_central rd) (xr_fetch rd)
         (auth_request_of c req) (ss_auth st) = (result, au)"
      and mint: "exchange env sv rd i req st = exchange_mint env sv rd i c req result (st\<lparr>ss_oidc := os, ss_auth := au\<rparr>)"
    have ok: "ok (as_store au)" using auth [OF a] assms(3) by simp
    let ?st = "st\<lparr>ss_oidc := os, ss_auth := au\<rparr>"
    show ?thesis
    proof (rule exchange_mint_cases [of sv rd req ?st env i c result])
      fix a s client tr g
      assume s: "SelectApp (sv_store sv) (sv_selector sv) (sr_loop (xr_select rd)) (sr_now (xr_select rd))
           (sr_until (xr_select rd)) (sr_rand (xr_select rd)) (xq_target_repository req)
           (as_store (ss_auth ?st)) = (Inr a, s)"
        and fin: "exchange_mint env sv rd i c req result ?st =
          exchange_finish env rd i c req result a tr
            (?st\<lparr>ss_auth := record_rate sv client rd (app_client_id a) (trs_token tr)
               ((ss_auth ?st)\<lparr>as_store := s, as_github := g\<rparr>)\<rparr>)"
      have "s = as_store au" using sel [OF s] ok by simp
      then have "ok (as_store (record_rate sv client rd (app_client_id a) (trs_token tr)
               ((ss_auth ?st)\<lparr>as_store := s, as_github := g\<rparr>)))"
        using ok by (intro record_rate_store [OF store]) simp
      with fin mint run show ?thesis by (auto dest!: exchange_finish_state [OF sym])
    qed (use mint run ok in \<open>auto dest: sel\<close>)
  qed (use assms auth in auto)
qed

section \<open>Runs of a configured service\<close>

definition ready :: "('w, 'k) github_lib \<Rightarrow> ('s \<Rightarrow> bool) \<Rightarrow> ('p, 'o, 's, 'w github_state, 'a) service_state \<Rightarrow> bool" where
  "ready lib ok st \<longleftrightarrow> github_genuine lib (as_github (ss_auth st)) \<and> ok (as_store (ss_auth st))"

lemma exchange_ready:
  assumes "rate_store (sv_store sv) view seen ok" and "service_built rx sv"
    and "all_keep (github_genuine lib) (sv_clients sv)" and "ready lib ok st"
    and "exchange env sv rd i req st = (r, st')"
  shows "ready lib ok st'"
  using exchange_store [OF assms(1,2) _ assms(5)] exchange_github [OF assms(3) _ _ assms(5)] assms(2,4)
  by (simp add: ready_def service_built_def)

lemma revoke_ready:
  assumes "all_keep (github_genuine lib) (sv_clients sv)" and "ready lib ok st"
    and "revokeExpiredTokens sv now pick order st = (rm, st')"
  shows "ready lib ok st'"
  using revokeExpiredTokens_github [OF assms(1) _ assms(3)] revokeExpiredTokens_others [OF assms(3)] assms(2)
  by (simp add: ready_def)

lemma run_ready:
  assumes "rate_store (sv_store sv) view seen ok" and "service_built rx sv"
    and "all_keep (github_genuine lib) (sv_clients sv)"
    and "run env sv s t" and "ready lib ok (rn_service s)"
  shows "ready lib ok (rn_service t)"
  using assms(4,5)
proof (induction rule: run.induct)
  case (run_more t u)
  then have "ready lib ok (rn_service t)" by simp
  note kept = exchange_ready [OF assms(1-3) this] revoke_ready [OF assms(3) this]
  from run_more(2) show ?case by (elim run_stepE) (auto dest: kept)
qed

lemma run_service_inv:
  assumes "decodes_maps (ee_yaml env)" and "discovers (ee_oidc env) origin"
    and "run env sv s t" and "service_inv sv origin (rn_service s)"
  shows "service_inv sv origin (rn_service t)"
  using assms(3,4) by (induction rule: run.induct) (auto intro: run_step_inv [OF assms(1,2)])

section \<open>The service that a configuration describes\<close>

lemma buildDependencies_Inr:
  assumes "buildDependencies rx lib read_file parse_key (Inr store) (Inr audit) cfg = (Inr (built, closers), released)"
  obtains sel where "NewSelector (buildApps cfg) (Some store) = Inr sel"
    "NewService rx lib read_file parse_key (Some cfg) \<lparr>dep_selector = Some (sel, store), dep_audit = Some audit\<rparr> = Inr built"
    "closers = [ResService, ResStore]" "released = []"
  using assms by (auto simp: buildDependencies_def split: sum.splits)

text \<open>One GitHub client per app, made for that app, and the service the exchange's theorems are about.\<close>

lemma configured_service:
  assumes valid: "Config_Validate cfg = None"
    and build: "buildDependencies rx lib read_file parse_key (Inr store) (Inr audit) cfg =
      (Inr ((sv, cache, tracker), closers), released)"
  shows "service_built rx sv" and "sv_store sv = store" and "sel_apps (sv_selector sv) = buildApps cfg"
    and "au_config (sv_authorizer sv) = cf_policy cfg"
    and "cache = newPolicyCache 0" and "tracker = NewTokenTracker" and "released = []"
    and "all_keep (github_genuine lib) (sv_clients sv)"
    and "\<forall>a\<in>set (buildApps cfg). \<exists>c. cl_client_id c = app_client_id a \<and>
      map_of (sv_clients sv) (app_client_id a) = Some (client_entry lib (app_client_id a) c)"
proof -
  obtain sel where sel: "NewSelector (buildApps cfg) (Some store) = Inr sel"
    and new: "NewService rx lib read_file parse_key (Some cfg)
      \<lparr>dep_selector = Some (sel, store), dep_audit = Some audit\<rparr> = Inr (sv, cache, tracker)"
    and "released = []"
    using build by (rule buildDependencies_Inr)
  have ok: "config_ok cfg" using valid by (simp add: Config_Validate_None)
  note built = NewService_built [OF new ok]
  from new obtain clients where c: "buildGitHubClients read_file parse_key cfg = Inr clients"
    and sv: "sv_selector sv = sel" "sv_store sv = store"
      "sv_clients sv = map (\<lambda>(i, c). (i, client_entry lib i c)) clients"
    by (rule NewService_cases) simp
  note ids = buildGitHubClients_ids [OF c]
  show "service_built rx sv" "sv_store sv = store" "au_config (sv_authorizer sv) = cf_policy cfg"
    "cache = newPolicyCache 0" "tracker = NewTokenTracker" "released = []"
    using built sv \<open>released = []\<close> by simp_all
  show "sel_apps (sv_selector sv) = buildApps cfg"
    using sel sv(1) by (auto simp: NewSelector_def split: if_splits dest: sym)
  show "all_keep (github_genuine lib) (sv_clients sv)"
    by (auto simp: all_keep_def sv client_entry_keeps)
  show "\<forall>a\<in>set (buildApps cfg). \<exists>c. cl_client_id c = app_client_id a \<and>
      map_of (sv_clients sv) (app_client_id a) = Some (client_entry lib (app_client_id a) c)"
  proof
    fix a assume "a \<in> set (buildApps cfg)"
    then have "app_client_id a \<in> dom (map_of clients)" using ids by (auto simp: buildApps_def)
    then obtain c where c: "map_of clients (app_client_id a) = Some c" by blast
    then have "cl_client_id c = app_client_id a" using ids by (auto dest: map_of_SomeD)
    moreover have "map_of (sv_clients sv) (app_client_id a) = Some (client_entry lib (app_client_id a) c)"
      using c unfolding sv(3) by (induction clients) (auto split: if_splits)
    ultimately show "\<exists>c. cl_client_id c = app_client_id a \<and>
      map_of (sv_clients sv) (app_client_id a) = Some (client_entry lib (app_client_id a) c)" by blast
  qed
qed

lemma parseOwner_construct:
  assumes "parseOwner (constructRepository owner repo) = Inr o'" and "owner \<noteq> []" and "CHR ''/'' \<notin> set owner"
  shows "o' = owner"
proof -
  have "takeWhile (\<lambda>x. x \<noteq> CHR ''/'') (owner @ ''/'' @ repo) = owner"
    using assms(3) by (subst takeWhile_append2) auto
  with assms(1) show ?thesis
    by (auto simp: parseOwner_def constructRepository_def eval_nat_numeral split: list.splits if_splits)
qed

text \<open>Permissions that a validated policy can authorise are never empty, and a map.\<close>

lemma requested_or_policy_some:
  assumes "file_good f" and "p \<in> set (pf_trust_policies f)" and "gm_wf (ar_requested_permissions req)"
  shows "requested_or_policy req p \<noteq> [] \<and> gm_wf (requested_or_policy req p)"
proof -
  have "tp_permissions p \<noteq> []" "gm_wf (tp_permissions p)"
    using assms(1,2) by (auto simp: file_good_def file_ready_def maps_wf_def policy_ready_def)
  with assms(3) show ?thesis by (simp add: requested_or_policy_def)
qed

text \<open>A grant of a service in a ready state, down to the call that created the token.\<close>

lemma ready_grant:
  assumes built: "service_built (ee_rx env) sv" and store: "rate_store (sv_store sv) view seen ok"
    and clients: "\<forall>a\<in>set (sel_apps (sv_selector sv)). \<exists>c. cl_client_id c = app_client_id a \<and>
      map_of (sv_clients sv) (app_client_id a) = Some (client_entry lib (app_client_id a) c)"
    and keep: "all_keep (github_genuine lib) (sv_clients sv)" and ready: "ready lib ok st"
    and run: "exchange env sv rd i req st = (Some (Inr resp), st')"
  obtains a c owner repo inst gh perms w w' tr where
    "a \<in> set (sel_apps (sv_selector sv))" "app_client_id a = xp_client_id resp" "app_organization a = owner"
    "cl_client_id c = xp_client_id resp" "xq_target_repository req = constructRepository owner repo"
    "installation_of lib owner inst" "app_session lib c gh"
    "gl_create_token lib gh inst \<lparr>to_repositories = [repo], to_permissions = perms\<rparr> w = (Inr tr, w')"
    "trs_token tr = xp_token resp" "xp_expires_at resp \<le> trs_expires_at tr"
    "gm_wf (xp_permissions resp) \<Longrightarrow> xp_permissions resp \<noteq> [] \<Longrightarrow>
       \<forall>k\<in>fst ` set (xp_permissions resp). gl_field lib k = Some k \<Longrightarrow>
       \<exists>p. perms = Some p \<and> map_of p = map_of (xp_permissions resp)"
  using run
proof (cases rule: exchange_granted_cases)
  case (1 c os result au a s client tr g log)
  have au: "github_genuine lib (as_github au)"
    using Authorize_github [of "github_genuine lib", OF _ _ 1(3)] keep ready built
    by (simp add: ready_def service_built_def)
  have same: "as_store au = as_store (ss_auth st)"
    using Authorize_store [of _ view seen ok, OF _ _ 1(3)] store ready built
    by (simp add: ready_def service_built_def)
  have serves: "serves (sv_selector sv) (xq_target_repository req) a"
    using rate_store.SelectApp_Inr [OF store _ 1(5)] same ready by (simp add: ready_def)
  then obtain cl where cl: "cl_client_id cl = app_client_id a"
    "map_of (sv_clients sv) (app_client_id a) = Some (client_entry lib (app_client_id a) cl)"
    using clients by (auto simp: serves_def)
  let ?rq = "\<lparr>trq_repository = xq_target_repository req, trq_permissions = res_permissions result\<rparr>"
  have "client = client_entry lib (app_client_id a) cl" using 1(6) cl by simp
  then have "on_client (app_client_id a) (Client_RequestToken lib cl ?rq) (as_github au) = (Inr tr, g)"
    using 1(7) by (simp add: client_entry_def client_ops_def)
  from on_client_view [OF this] obtain st1 where call: "Client_RequestToken lib cl ?rq (client_view (app_client_id a) (as_github au)) = (Inr tr, st1)"
    by (elim exE conjE)
  have "genuine lib (client_view (app_client_id a) (as_github au))" using au by (simp add: github_genuine_def)
  from Client_RequestToken_scope [OF call this] obtain owner repo inst gh perms w w' where
    t: "xq_target_repository req = constructRepository owner repo" "owner \<noteq> []" "CHR ''/'' \<notin> set owner"
      "installation_of lib owner inst" "app_session lib cl gh"
      "gl_create_token lib gh inst \<lparr>to_repositories = [repo], to_permissions = perms\<rparr> w = (Inr tr, w')"
    and perms: "perms = toInstallationPermissions lib (res_permissions result)" by auto
  have "app_organization a = owner"
    using serves t(1-3) parseOwner_construct by (auto simp: serves_def)
  moreover have "\<exists>p. perms = Some p \<and> map_of p = map_of (xp_permissions resp)"
    if "gm_wf (xp_permissions resp)" "xp_permissions resp \<noteq> []"
      "\<forall>k\<in>fst ` set (xp_permissions resp). gl_field lib k = Some k"
    using that decode_fields_exact by (simp add: perms 1(9) toInstallationPermissions_def)
  ultimately show thesis
    using serves cl t 1(9) by (intro that [of a owner cl repo inst gh perms w tr w'])
      (simp_all add: serves_def capExpiry_def Let_def)
qed

text \<open>
  What a grant means outside the service: GitHub created the token for an installation of the owner of the
  requested repository, restricted to that one repository, in a session signed with the key of a configured
  app of that owner.
\<close>

definition scoped_grant :: "app_config \<Rightarrow> ('w, 'k) github_lib \<Rightarrow> exchange_request \<Rightarrow> exchange_response \<Rightarrow> bool" where
  "scoped_grant cfg lib req resp \<longleftrightarrow>
     (\<exists>client owner repo inst gh perms w1 w2 tr.
        \<lparr>app_client_id = xp_client_id resp, app_organization = owner\<rparr> \<in> set (buildApps cfg) \<and>
        cl_client_id client = xp_client_id resp \<and>
        xq_target_repository req = constructRepository owner repo \<and>
        installation_of lib owner inst \<and> app_session lib client gh \<and>
        gl_create_token lib gh inst \<lparr>to_repositories = [repo], to_permissions = perms\<rparr> w1 = (Inr tr, w2) \<and>
        trs_token tr = xp_token resp \<and> xp_expires_at resp \<le> trs_expires_at tr \<and> xp_permissions resp \<noteq> [] \<and>
        ((\<forall>k\<in>fst ` set (xp_permissions resp). gl_field lib k = Some k) \<longrightarrow>
           (\<exists>p. perms = Some p \<and> map_of p = map_of (xp_permissions resp))))"

lemma configured_grant:
  assumes valid: "Config_Validate cfg = None"
    and build: "buildDependencies (ee_rx env) lib read_file parse_key (Inr store) (Inr audit) cfg =
      (Inr ((sv, cache, tracker), closers), released)"
    and store: "rate_store store view seen ok" and libs: "decodes_maps (ee_yaml env)" "discovers (ee_oidc env) origin"
    and inv: "service_inv sv origin st" and ready: "ready lib ok st" and wf: "gm_wf (xq_requested_permissions req)"
    and run: "exchange env sv rd i req st = (Some (Inr resp), st')"
  shows "scoped_grant cfg lib req resp"
proof -
  note built = configured_service [OF valid build]
  have store': "rate_store (sv_store sv) view seen ok" using store built(2) by simp
  have apps: "\<forall>a\<in>set (sel_apps (sv_selector sv)). \<exists>c. cl_client_id c = app_client_id a \<and>
      map_of (sv_clients sv) (app_client_id a) = Some (client_entry lib (app_client_id a) c)"
    using built(3,9) by simp
  obtain c f p where good: "file_good f" and auth: "authorizes (ee_rx env) (au_config (sv_authorizer sv))
      (xr_central rd) (auth_request_of c req) f p"
    and granted: "xp_permissions resp = requested_or_policy (auth_request_of c req) p"
    using exchange_authorized [OF built(1) libs inv wf run] by blast
  have "p \<in> set (pf_trust_policies f)" and "gm_wf (ar_requested_permissions (auth_request_of c req))"
    using auth wf by (simp_all add: authorizes_def auth_request_of_def)
  from requested_or_policy_some [OF good this]
  have perms: "xp_permissions resp \<noteq> [] \<and> gm_wf (xp_permissions resp)" by (simp add: granted)
  show ?thesis
  proof (rule ready_grant [OF built(1) store' apps built(8) ready run])
    fix a :: app and c owner repo inst gh perms w1 w2 tr
    assume g: "a \<in> set (sel_apps (sv_selector sv))" "app_client_id a = xp_client_id resp"
        "app_organization a = owner" "cl_client_id c = xp_client_id resp"
        "xq_target_repository req = constructRepository owner repo" "installation_of lib owner inst"
        "app_session lib c gh"
        "gl_create_token lib gh inst \<lparr>to_repositories = [repo], to_permissions = perms\<rparr> w1 = (Inr tr, w2)"
        "trs_token tr = xp_token resp" "xp_expires_at resp \<le> trs_expires_at tr"
      and exact: "gm_wf (xp_permissions resp) \<Longrightarrow> xp_permissions resp \<noteq> [] \<Longrightarrow>
        \<forall>k\<in>fst ` set (xp_permissions resp). gl_field lib k = Some k \<Longrightarrow>
        \<exists>p. perms = Some p \<and> map_of p = map_of (xp_permissions resp)"
    have "a = \<lparr>app_client_id = xp_client_id resp, app_organization = owner\<rparr>"
      using g(2,3) by (intro app.equality) simp_all
    then have "\<lparr>app_client_id = xp_client_id resp, app_organization = owner\<rparr> \<in> set (buildApps cfg)"
      using g(1) built(3) by simp
    with g(4-10) perms exact show ?thesis
      unfolding scoped_grant_def
      by - (rule exI [of _ c], rule exI [of _ owner], rule exI [of _ repo], rule exI [of _ inst],
        rule exI [of _ gh], rule exI [of _ perms], rule exI [of _ w1], rule exI [of _ w2], rule exI [of _ tr], simp)
  qed
qed

text \<open>The state that the built service starts in.\<close>

lemma configured_start:
  assumes "Config_Validate cfg = None"
    and "buildDependencies rx lib read_file parse_key (Inr store) (Inr audit) cfg =
      (Inr ((sv, cache, tracker), closers), released)"
    and "ok contents"
    and "st = \<lparr>ss_oidc = \<lparr>os_providers = [], os_network = n\<rparr>,
      ss_auth = \<lparr>as_store = contents, as_cache = cache, as_github = new_github_state w\<rparr>,
      ss_tracker = tracker, ss_audit = trail\<rparr>"
  shows "service_inv sv origin st" and "ready lib ok st"
  using configured_service(5,6) [OF assms(1,2)] assms(3,4) new_github_state_genuine
  by (simp_all add: service_inv_def providers_ok_def ready_def)

end
