(* ===== verification/Sample_Service.thy ===== *)
theory Sample_Service
  imports Service_Run Memory_Store
begin

text \<open>
  A small deployment on which the general statements are evaluated: one trusted issuer, one GitHub
  App with the in-memory store and the console audit log, and a trust policy file that its GitHub
  client serves. The libraries are the simplest functions that meet the stated hypotheses: patterns
  match literally, one content decodes, one token parses.
\<close>

definition sample_rx :: regex_engine where
  "sample_rx = \<lparr>rx_error = (\<lambda>p. if p = ''('' then Some (msg ''missing closing )'') else None),
                rx_match = (\<lambda>r s. r = Regexp s)\<rparr>"

definition sample_provider :: provider_config where
  "sample_provider =
     \<lparr>prov_issuer = ''https://idp'', prov_name = ''idp'',
      prov_required_claims = [(''owner'', ''octo'')], prov_forbidden_claims = [(''event'', ''fork'')],
      prov_time_restrictions = Some \<lparr>tr_allowed_days = [], tr_allowed_hours = Some \<lparr>hr_start = 22, hr_end = 6\<rparr>\<rparr>\<rparr>"

definition sample_config :: policy_config where
  "sample_config =
     \<lparr>pol_version = ''1.0'', pol_trust_policy_path = ''gate/{org}'', pol_default_token_ttl = 900,
      pol_max_token_ttl = 3600, pol_require_explicit_policy = False, pol_github_api_base_url = [],
      pol_github_raw_base_url = [], pol_providers = [sample_provider],
      pol_max_permissions = [(''contents'', ''write''), (''issues'', ''none'')]\<rparr>"

definition sample_policy :: trust_policy where
  "sample_policy =
     \<lparr>tp_name = ''deploy'', tp_description = [], tp_issuer = ''https://idp'',
      tp_rules = [\<lparr>rule_name = ''main'', rule_logic = [],
        rule_conditions = [\<lparr>cond_field = ''ref'', cond_pattern = ''main'', cond_compiled = None\<rparr>]\<rparr>],
      tp_permissions = [(''contents'', ''read'')], tp_token_ttl = 600\<rparr>"

definition sample_file :: policy_file where
  "sample_file = \<lparr>pf_version = ''1.0'', pf_trust_policies = [sample_policy]\<rparr>"

definition sample_yaml :: yaml_decoder where
  "sample_yaml content = (if content = ''policy'' then Inr sample_file else Inl (msg ''not a policy''))"

text \<open>The GitHub of the sample counts the tokens it has issued.\<close>

definition sample_client :: "nat client_iface" where
  "sample_client =
     \<lparr>ci_RequestToken = (\<lambda>rq n. (Inr \<lparr>trs_token = ''ghs_'' @ trq_repository rq, trs_expires_at = of_unix 3600\<rparr>, Suc n)),
      ci_RevokeToken = (\<lambda>t n. (None, n)),
      ci_RateLimit = (\<lambda>t n. (Inr \<lparr>rli_remaining = 4000, rli_reset_at = of_unix 3600\<rparr>, n)),
      ci_GetContents = (\<lambda>r p n. (if p = ''gate/octo.yml'' then Inr ''policy''
                                 else Inl (GhSentinel ErrFileNotFound (msg p)), n))\<rparr>"

definition sample_app :: app where
  "sample_app = \<lparr>app_client_id = ''app-1'', app_organization = ''octo''\<rparr>"

definition sample_authorizer :: "(memory_store, nat) authorizer" where
  "sample_authorizer =
     \<lparr>au_config = sample_config, au_selector = \<lparr>sel_apps = [sample_app]\<rparr>, au_store = memory_ops,
      au_clients = [(''app-1'', sample_client)],
      au_patterns = [(''octo'', Regexp ''octo''), (''fork'', Regexp ''fork'')]\<rparr>"

definition sample_service :: "(memory_store, nat) service" where
  "sample_service =
     \<lparr>sv_oidc = \<lparr>va_audience = ''gate'', va_issuers = [''https://idp'']\<rparr>,
      sv_authorizer = sample_authorizer, sv_selector = \<lparr>sel_apps = [sample_app]\<rparr>,
      sv_store = memory_ops, sv_clients = [(''app-1'', sample_client)], sv_max_ttl = 3600\<rparr>"

definition sample_oidc :: "(string, nat) oidc_lib" where
  "sample_oidc =
     \<lparr>ol_parse = (\<lambda>raw. if raw = ''jwt'' then
         Inr \<lparr>jt_issuer = ''https://idp'', jt_subject = ''repo:octo/app'', jt_audience = [''gate''],
              jt_expiration = of_unix 600, jt_issued_at = of_unix 0,
              jt_private_claims = [(''owner'', CStr ''octo''), (''ref'', CStr ''main'')]\<rparr>
         else Inl (msg ''malformed'')),
      ol_discover = (\<lambda>iss n. (Inr iss, Suc n)),
      ol_verify = (\<lambda>p aud raw n. (None, n))\<rparr>"

definition sample_env :: "(string, nat, audit_entry list) exchange_env" where
  "sample_env =
     \<lparr>ee_rx = sample_rx, ee_yaml = sample_yaml, ee_oidc = sample_oidc,
      ee_audit = \<lparr>ab_Log = ConsoleLogger_Log\<rparr>, ee_sha256 = (\<lambda>s. s), ee_sprint_v = (\<lambda>v. [])\<rparr>"

definition sample_state :: "(string, nat, memory_store, nat, audit_entry list) service_state" where
  "sample_state =
     \<lparr>ss_oidc = \<lparr>os_providers = [], os_network = 0\<rparr>,
      ss_auth = \<lparr>as_store = NewMemoryStore, as_cache = newPolicyCache 0, as_github = 0\<rparr>,
      ss_tracker = NewTokenTracker, ss_audit = []\<rparr>"

definition sample_select :: select_readings where
  "sample_select = \<lparr>sr_loop = of_unix 10, sr_now = of_unix 10, sr_until = of_unix 10, sr_rand = 7\<rparr>"

definition sample_readings :: exchange_readings where
  "sample_readings =
     \<lparr>xr_central = of_unix 10,
      xr_fetch = \<lparr>fr_get = of_unix 10, fr_get_again = of_unix 10, fr_select = sample_select,
                  fr_set = of_unix 10, fr_range = []\<rparr>,
      xr_select = sample_select, xr_record = of_unix 11, xr_cap = of_unix 12, xr_audit = of_unix 12,
      xr_log = of_unix 12\<rparr>"

definition sample_request :: exchange_request where
  "sample_request =
     \<lparr>xq_oidc_token = ''jwt'', xq_target_repository = ''octo/app'', xq_policy_name = [],
      xq_requested_permissions = [], xq_requested_ttl = 0\<rparr>"

definition sample_response :: exchange_response where
  "sample_response =
     \<lparr>xp_token = ''ghs_octo/app'', xp_expires_at = of_unix 612, xp_matched_policy = ''deploy'',
      xp_permissions = [(''contents'', ''read'')], xp_request_id = ''req-1'', xp_issuer = ''https://idp'',
      xp_subject = ''repo:octo/app'', xp_client_id = ''app-1'',
      xp_token_hash = HashString (\<lambda>s. s) ''ghs_octo/app'', xp_ttl = 600\<rparr>"

definition sample_after :: "(string, nat, memory_store, nat, audit_entry list) service_state" where
  "sample_after = snd (exchange sample_env sample_service sample_readings ''req-1'' sample_request sample_state)"

lemma sample_granted:
  "fst (exchange sample_env sample_service sample_readings ''req-1'' sample_request sample_state) =
     Some (Inr sample_response)"
  by code_simp

lemma sample_exchange:
  "exchange sample_env sample_service sample_readings ''req-1'' sample_request sample_state =
     (Some (Inr sample_response), sample_after)"
  by (rule prod_eqI) (simp_all add: sample_granted sample_after_def)

text \<open>The same service on a day when the audit log is down.\<close>

definition sample_env_down :: "(string, nat, audit_entry list) exchange_env" where
  "sample_env_down = sample_env\<lparr>ee_audit := \<lparr>ab_Log = (\<lambda>now e s. (Some (PersistFailure no_text), s))\<rparr>\<rparr>"

definition sample_claims :: oidc_claims where
  "sample_claims =
     \<lparr>oc_issuer = ''https://idp'', oc_subject = ''repo:octo/app'', oc_audience = [''gate''],
      oc_expires_at = of_unix 600, oc_issued_at = of_unix 0,
      oc_custom = [(''owner'', CStr ''octo''), (''ref'', CStr ''main'')]\<rparr>"

definition sample_result :: auth_result where
  "sample_result =
     \<lparr>res_allowed = True, res_matched_policy = ''deploy'', res_permissions = [(''contents'', ''read'')],
      res_ttl = 600, res_deny_reason = None\<rparr>"

section \<open>The sample meets the hypotheses of the general statements\<close>

lemma sample_built: "service_built (ee_rx sample_env) sample_service"
proof -
  have "PolicyConfig_Validate sample_config = None" by code_simp
  moreover have "compileClaimPatterns sample_rx (pol_providers sample_config) =
      Inr [(''octo'', Regexp ''octo''), (''fork'', Regexp ''fork'')]" by code_simp
  ultimately show ?thesis
    by (simp add: service_built_def authorizer_built_def sample_service_def sample_authorizer_def
        sample_env_def)
      (simp add: sample_config_def Issuers_def sample_provider_def)
qed

lemma sample_decodes: "decodes_maps (ee_yaml sample_env)"
  by (auto simp: decodes_maps_def sample_env_def sample_yaml_def maps_wf_def sample_file_def
      sample_policy_def gm_wf_def split: if_splits)

lemma sample_discovers: "discovers (ee_oidc sample_env) (\<lambda>iss p. p = iss)"
  by (simp add: discovers_def sample_env_def sample_oidc_def)

lemma sample_inv: "service_inv sample_service (\<lambda>iss p. p = iss) sample_state"
  by (simp add: service_inv_def sample_state_def providers_ok_def)

lemma sample_store: "rate_store (sv_store sample_service) states_at (\<lambda>t. t) memory_inv"
  using mem.rate_store_axioms by (simp add: sample_service_def)

lemma sample_store_ok: "memory_inv (as_store (ss_auth sample_state))"
  by (simp add: sample_state_def)

lemma sample_trail: "audit_trail (ab_Log (ee_audit sample_env)) (\<lambda>out e. e \<in> set out)"
  using console.audit_trail_axioms by (simp add: sample_env_def)

lemma sample_request_wf: "gm_wf (xq_requested_permissions sample_request)"
  by (simp add: sample_request_def gm_wf_def)

lemma sample_response_simps [simp]:
  "xp_ttl sample_response = 600" "xp_token sample_response = ''ghs_octo/app''"
  "xp_subject sample_response = ''repo:octo/app''" "xp_request_id sample_response = ''req-1''"
  "xp_expires_at sample_response = of_unix 612" "xp_matched_policy sample_response = ''deploy''"
  "xp_permissions sample_response = [(''contents'', ''read'')]"
  "xp_client_id sample_response = ''app-1''" "xp_issuer sample_response = ''https://idp''"
  by (simp_all add: sample_response_def)

text \<open>The run that makes this one exchange.\<close>

definition sample_run0 :: "(string, nat, memory_store, nat, audit_entry list) run_state" where
  "sample_run0 = \<lparr>rn_service = sample_state, rn_issued = [], rn_revoked = [], rn_ids = []\<rparr>"

definition sample_run1 :: "(string, nat, memory_store, nat, audit_entry list) run_state" where
  "sample_run1 = \<lparr>rn_service = sample_after, rn_issued = [(sample_request, sample_response)],
                  rn_revoked = [], rn_ids = [''req-1'']\<rparr>"

lemma sample_run: "run sample_env sample_service sample_run0 sample_run1"
proof (rule run_more [OF run_start])
  have "exchange sample_env sample_service sample_readings ''req-1'' sample_request
      (rn_service sample_run0) = (Some (Inr sample_response), sample_after)"
    by (simp add: sample_run0_def sample_exchange)
  from run_step.granted [OF this]
  show "run_step sample_env sample_service sample_run0 sample_run1"
    by (simp add: sample_run0_def sample_run1_def)
qed

lemma sample_tracked:
  "gm_wf (ss_tracker sample_after)" "sv_clients sample_service = [(''app-1'', sample_client)]"
  using exchange_inv [OF sample_decodes sample_discovers sample_inv sample_exchange]
  by (simp_all add: service_inv_def sample_service_def)

end
