(* ===== verification/Sample_Deployment.thy ===== *)
theory Sample_Deployment
  imports End_To_End Sample_Service
begin

text \<open>
  The sample deployment built from a configuration, with the GitHub client of the program on a small
  GitHub: \<open>octo\<close> is an organisation with one installation and one trust policy file.
\<close>

definition octo_lib :: "(nat, unit) github_lib" where
  "octo_lib =
     \<lparr>gl_now = (\<lambda>w. (of_unix (int w), Suc w)),
      gl_range_installations = (\<lambda>m w. m),
      gl_range_tokens = (\<lambda>m w. m),
      gl_timer = (\<lambda>d w. (None, w + 2)),
      gl_sign = (\<lambda>claims key. Inr (''jwt:'' @ jc_iss claims)),
      gl_parse_url = (\<lambda>u. None),
      gl_field = Some,
      gl_find_org = (\<lambda>gh owner w. (if owner = ''octo'' then Inr 7 else Inl (ApiError (Some 404) no_text), w)),
      gl_find_user = (\<lambda>gh owner w. (Inl (ApiError (Some 404) no_text), w)),
      gl_create_token = (\<lambda>gh i opts w. (if i = 7 then Inr \<lparr>trs_token = ''ghs_7'', trs_expires_at = of_unix 3600\<rparr>
         else Inl (ApiError (Some 404) no_text), w)),
      gl_revoke = (\<lambda>gh w. (None, w)),
      gl_rate_limit = (\<lambda>gh w. (Inr (Some \<lparr>rli_remaining = 4999, rli_reset_at = of_unix 3600\<rparr>), w)),
      gl_get_contents = (\<lambda>gh owner repo path w.
         (if gs_token gh = ''ghs_7'' \<and> path = ''gate/octo.yml'' then Inr (Some (Inr ''policy''))
          else Inl (ApiError (Some 404) no_text), w))\<rparr>"

definition octo_config :: app_config where
  "octo_config =
     \<lparr>cf_logger = \<lparr>lg_level = ''info'', lg_format = ''json''\<rparr>,
      cf_audit = \<lparr>ac_backend = [], ac_dynamodb = None, ac_sql = None\<rparr>,
      cf_selector = \<lparr>sc_type = ''memory'', sc_redis = None, sc_dynamodb = None\<rparr>,
      cf_policy = sample_config,
      cf_server = \<lparr>svc_port = 8080, svc_read_timeout = 1, svc_write_timeout = 1, svc_shutdown_timeout = 1,
        svc_request_timeout = 1, svc_idle_timeout = 1, svc_wait_timeout = 1,
        svc_tls = \<lparr>tls_cert_file_path = [], tls_key_file_path = []\<rparr>\<rparr>,
      cf_oidc = \<lparr>oc_cfg_audience = ''gate''\<rparr>,
      cf_origin = \<lparr>or_enabled = False, or_header_name = [], or_header_value = []\<rparr>,
      cf_fips = \<lparr>fp_enabled = False, fp_mode = []\<rparr>,
      cf_otel = \<lparr>ot_enabled = False, ot_service_name = [], ot_endpoint = [], ot_protocol = [], ot_insecure = False,
        ot_sample_rate = FVal 1, ot_exporter_timeout = 0\<rparr>,
      cf_github_apps = [\<lparr>ga_client_id = ''app-1'', ga_private_key_path = ''/key.pem'', ga_organization = ''octo''\<rparr>],
      cf_aws_region = []\<rparr>"

definition octo_read :: "string \<Rightarrow> gotext + string" where
  "octo_read path = (if path = ''/key.pem'' then Inr ''PEM'' else Inl (msg ''no such file''))"

definition octo_parse_key :: "string \<Rightarrow> key_error + unit" where
  "octo_parse_key pem = Inr ()"

definition octo_build ::
  "(build_error + ((memory_store, nat github_state) service \<times> policy_cache \<times> token_tracker) \<times> resource list)
     \<times> resource list" where
  "octo_build = buildDependencies sample_rx octo_lib octo_read octo_parse_key (Inr memory_ops)
     (Inr (ee_audit sample_env)) octo_config"

definition octo_service :: "(memory_store, nat github_state) service" where
  "octo_service = fst (fst (projr (fst octo_build)))"

definition octo_start ::
  "(string, nat, memory_store, nat github_state, audit_entry list) service_state" where
  "octo_start =
     \<lparr>ss_oidc = \<lparr>os_providers = [], os_network = 0\<rparr>,
      ss_auth = \<lparr>as_store = NewMemoryStore, as_cache = newPolicyCache 0, as_github = new_github_state 0\<rparr>,
      ss_tracker = NewTokenTracker, ss_audit = []\<rparr>"

definition octo_grant ::
  "(exchange_error + exchange_response) option \<times>
   (string, nat, memory_store, nat github_state, audit_entry list) service_state" where
  "octo_grant = exchange sample_env octo_service sample_readings ''req-1'' sample_request octo_start"

lemma octo_valid: "Config_Validate octo_config = None"
proof -
  have "PolicyConfig_Validate sample_config = None" by code_simp
  then show ?thesis
    by (simp add: Config_Validate_None config_ok_def octo_config_def audit_ok_def selector_ok_def server_ok_def otel_ok_def)
qed

lemma octo_built_ok: "\<not> isl (fst octo_build)"
  by code_simp

lemma octo_granted: "case fst octo_grant of Some r \<Rightarrow> \<not> isl r | None \<Rightarrow> False"
  by code_simp

lemma octo_response:
  obtains resp st' where "octo_grant = (Some (Inr resp), st')"
proof -
  obtain x st' where x: "octo_grant = (x, st')" by fastforce
  have "case x of Some r \<Rightarrow> \<not> isl r | None \<Rightarrow> False" using octo_granted unfolding x by simp
  then obtain resp where "x = Some (Inr resp)" by (cases x; cases "the x") auto
  with x that show thesis by blast
qed

end
