(* ===== verification/Http_Api.thy ===== *)
theory Http_Api
  imports Exchange App_Config
begin

text \<open>
  The HTTP surface: the exchange handler (\<^verbatim>\<open>cmd/server/handlers/exchange.go\<close>) and the middlewares
  \<^verbatim>\<open>NormalizePath\<close>, \<^verbatim>\<open>SecurityHeaders\<close> and \<^verbatim>\<open>OriginVerify\<close> (\<^verbatim>\<open>cmd/server/middlewares\<close>). A
  handler maps a request and the response headers written so far to a response and a new state;
  a middleware maps handlers to handlers. The span and the measurements of the handler are in
  \<^verbatim>\<open>Observability\<close>; the outcome label is part of what \<^verbatim>\<open>writeError\<close> returns.
\<close>

record http_request =
  hq_request_id :: string
  hq_method :: string
  hq_path :: string
  hq_raw_path :: string
  hq_header :: "string \<Rightarrow> string"
  hq_tls :: bool
  hq_body :: string

text \<open>
  The JSON bodies. Fields tagged \<^verbatim>\<open>json:"-"\<close> are not in the body; \<^verbatim>\<open>Details\<close> is never copied into
  an \<^verbatim>\<open>ErrorResponse\<close>.
\<close>

record error_response =
  er_code :: string
  er_message :: gotext
  er_request_id :: string
  er_retry_after :: int

record token_body =
  tb_token :: string
  tb_expires_at :: time
  tb_matched_policy :: string
  tb_permissions :: "(string, string) gomap"
  tb_request_id :: string

datatype http_body =
    ErrorBody error_response
  | TokenBody token_body
  | FieldsBody "(string, string) gomap"
  | InfoBody bool string
  | EmptyBody

record http_response =
  hp_status :: int
  hp_headers :: "(string, string) gomap"
  hp_body :: http_body

text \<open>\<open>None\<close> is a panic that unwinds through the handler.\<close>

type_synonym 's handler =
  "http_request \<Rightarrow> (string, string) gomap \<Rightarrow> 's \<Rightarrow> http_response option \<times> 's"

section \<open>Status codes and errors\<close>

definition httpStatusCode :: "string \<Rightarrow> int" where
  "httpStatusCode code =
     (if code = ErrInvalidRequest then 400
      else if code = ErrInvalidToken then 401
      else if code = ErrRateLimited then 429
      else if code = ErrTrustPolicyNotFound then 403
      else if code = ErrPolicyNotFound \<or> code = ErrRepositoryNotFound_sts then 404
      else if code = ErrGitHubAPIError then 502
      else if code = ErrPolicyLoadFailed \<or> code = ErrInternalError then 500
      else 403)"

definition writeError ::
  "(string, string) gomap \<Rightarrow> string \<Rightarrow> gotext \<Rightarrow> string \<Rightarrow> int \<Rightarrow> http_response \<times> string" where
  "writeError hdrs code message requestID retryAfter =
     (let hdrs = (if code = ErrRateLimited \<and> retryAfter > 0
                  then AList.update ''Retry-After'' (itoa retryAfter) hdrs else hdrs)
      in (\<lparr>hp_status = httpStatusCode code,
           hp_headers = hdrs,
           hp_body = ErrorBody \<lparr>er_code = code, er_message = message, er_request_id = requestID,
                                er_retry_after = retryAfter\<rparr>\<rparr>,
          map ascii_lower code))"

definition SanitizedInputErrorHandler :: "http_request \<Rightarrow> (string, string) gomap \<Rightarrow> http_response" where
  "SanitizedInputErrorHandler r hdrs =
     \<lparr>hp_status = 400, hp_headers = hdrs,
      hp_body = ErrorBody \<lparr>er_code = ErrInvalidRequest, er_message = msg ''Invalid request'',
                           er_request_id = hq_request_id r, er_retry_after = 0\<rparr>\<rparr>"

section \<open>The exchange handler\<close>

text \<open>
  What the interface \<^verbatim>\<open>Exchanger\<close> may return as an error: an \<^verbatim>\<open>*ExchangeError\<close> or another error.
\<close>

datatype exchanger_error = AnExchangeError exchange_error | OtherError gotext

type_synonym 's exchanger =
  "string \<Rightarrow> exchange_request \<Rightarrow> 's \<Rightarrow> (exchanger_error + exchange_response) option \<times> 's"

record handler_outcome =
  ho_response :: "http_response option"
  ho_outcome :: string
  ho_issuer :: string
  ho_subject :: string
  ho_issued :: bool

definition response_body :: "exchange_response \<Rightarrow> token_body" where
  "response_body p =
     \<lparr>tb_token = xp_token p, tb_expires_at = xp_expires_at p, tb_matched_policy = xp_matched_policy p,
      tb_permissions = xp_permissions p, tb_request_id = xp_request_id p\<rparr>"

definition errored :: "http_response \<times> string \<Rightarrow> string \<Rightarrow> string \<Rightarrow> handler_outcome" where
  "errored w issuer subject =
     \<lparr>ho_response = Some (fst w), ho_outcome = snd w, ho_issuer = issuer, ho_subject = subject,
      ho_issued = False\<rparr>"

text \<open>
  \<open>input\<close> is the decoded body, absent when the context holds no \<^verbatim>\<open>*ExchangeInput\<close>. The last two
  components feed the caller's metric, \<open>ho_issued\<close> the counter of issued tokens.
\<close>

definition ExchangeHandler_Exchange ::
  "'s exchanger \<Rightarrow> exchange_request option \<Rightarrow> http_request \<Rightarrow> (string, string) gomap \<Rightarrow> 's
     \<Rightarrow> handler_outcome \<times> 's" where
  "ExchangeHandler_Exchange service input r hdrs s =
     (case input of
        None \<Rightarrow>
          (errored (writeError hdrs ErrInvalidRequest (msg ''Invalid request'') (hq_request_id r) 0) [] [], s)
      | Some body \<Rightarrow>
          (case service (hq_request_id r) body s of
             (None, s') \<Rightarrow>
               (\<lparr>ho_response = None, ho_outcome = ''panic'', ho_issuer = [], ho_subject = [], ho_issued = False\<rparr>, s')
           | (Some (Inl (AnExchangeError e)), s') \<Rightarrow>
               (errored (writeError hdrs (xe_code e) (xe_message e) (xe_request_id e) (xe_retry_after e))
                  (xe_issuer e) (xe_subject e), s')
           | (Some (Inl (OtherError e)), s') \<Rightarrow>
               (errored (writeError hdrs ErrInternalError (msg ''Internal server error'') (hq_request_id r) 0)
                  [] [], s')
           | (Some (Inr p), s') \<Rightarrow>
               (\<lparr>ho_response = Some \<lparr>hp_status = 200, hp_headers = hdrs,
                                     hp_body = TokenBody (response_body p)\<rparr>,
                 ho_outcome = ''ok'', ho_issuer = xp_issuer p, ho_subject = xp_subject p,
                 ho_issued = True\<rparr>, s')))"

definition exchange_handler :: "'s exchanger \<Rightarrow> exchange_request option \<Rightarrow> 's handler" where
  "exchange_handler service input r hdrs s =
     (case ExchangeHandler_Exchange service input r hdrs s of (out, s') \<Rightarrow> (ho_response out, s'))"

section \<open>Middlewares\<close>

text \<open>The loop over the length of the kept prefix.\<close>

fun strip_loop :: "string \<Rightarrow> nat \<Rightarrow> nat" where
  "strip_loop p end_pos =
     (if end_pos > 1 \<and> p ! (end_pos - 1) = CHR ''/'' then strip_loop p (end_pos - 1) else end_pos)"

declare strip_loop.simps [simp del]

definition stripTrailingSlashes :: "string \<Rightarrow> string \<times> bool" where
  "stripTrailingSlashes p =
     (let end_pos = strip_loop p (length p)
      in if end_pos = length p then (p, False) else (take end_pos p, True))"

definition NormalizePath :: "'s handler \<Rightarrow> 's handler" where
  "NormalizePath nxt r hdrs s =
     (case stripTrailingSlashes (hq_path r) of (path, pathChanged) \<Rightarrow>
      case stripTrailingSlashes (hq_raw_path r) of (raw, rawChanged) \<Rightarrow>
        if \<not> pathChanged \<and> \<not> rawChanged then nxt r hdrs s
        else nxt (r\<lparr>hq_path := path, hq_raw_path := raw\<rparr>) hdrs s)"

definition hstsMaxAge :: int where "hstsMaxAge = 31536000"

definition security_headers :: "http_request \<Rightarrow> (string, string) gomap \<Rightarrow> (string, string) gomap" where
  "security_headers r hdrs =
     (let h = AList.update ''X-Content-Type-Options'' ''nosniff'' hdrs;
          h = AList.update ''X-Frame-Options'' ''DENY'' h;
          h = AList.update ''X-XSS-Protection'' ''1; mode=block'' h;
          h = AList.update ''Content-Security-Policy'' 
                (''default-src 'none'; frame-ancestors 'none'' @ [CHR 0x27]) h;
          h = AList.update ''Referrer-Policy'' ''no-referrer'' h
      in if hq_tls r \<or> hq_header r ''X-Forwarded-Proto'' = ''https''
         then AList.update ''Strict-Transport-Security''
                (''max-age='' @ itoa hstsMaxAge @ ''; includeSubDomains'') h
         else h)"

definition SecurityHeaders :: "'s handler \<Rightarrow> 's handler" where
  "SecurityHeaders nxt r hdrs s = nxt r (security_headers r hdrs) s"

text \<open>\<^verbatim>\<open>subtle.ConstantTimeCompare\<close>: 1 when the contents are equal.\<close>

definition ConstantTimeCompare :: "string \<Rightarrow> string \<Rightarrow> int" where
  "ConstantTimeCompare x y = (if x = y then 1 else 0)"

definition OriginVerify :: "origin_config \<Rightarrow> 's handler \<Rightarrow> 's handler" where
  "OriginVerify cfg nxt =
     (if \<not> or_enabled cfg then nxt
      else (\<lambda>r hdrs s.
        let value = hq_header r (or_header_name cfg)
        in if value = [] \<or> ConstantTimeCompare value (or_header_value cfg) \<noteq> 1
           then (Some \<lparr>hp_status = 403, hp_headers = hdrs,
                       hp_body = FieldsBody
                         [(''error'', ''Forbidden''),
                          (''error_code'', ''ORIGIN_VERIFICATION_FAILED''),
                          (''request_id'', hq_request_id r)]\<rparr>, s)
           else nxt r hdrs s))"

text \<open>
  The part of the router's chain (\<^verbatim>\<open>Init\<close> of \<^verbatim>\<open>cmd/server/server.go\<close>) that these middlewares form in
  front of an endpoint of \<^verbatim>\<open>/api/v1\<close>, in the order of registration.
\<close>

definition api_chain :: "origin_config \<Rightarrow> 's handler \<Rightarrow> 's handler" where
  "api_chain cfg endpoint = NormalizePath (SecurityHeaders (OriginVerify cfg endpoint))"

section \<open>Path normalisation\<close>

lemma strip_loop_le: "strip_loop p n \<le> n"
  by (induction p n rule: strip_loop.induct) (subst strip_loop.simps, auto)

lemma strip_loop_end:
  "\<not> (1 < strip_loop p n \<and> p ! (strip_loop p n - 1) = CHR ''/'')"
  by (induction p n rule: strip_loop.induct) (subst (1 2) strip_loop.simps, auto)

lemma strip_loop_slashes: "strip_loop p n \<le> i \<Longrightarrow> i < n \<Longrightarrow> p ! i = CHR ''/''"
proof (induction p n rule: strip_loop.induct)
  case (1 p n)
  show ?case
  proof (cases "n > 1 \<and> p ! (n - 1) = CHR ''/''")
    case True
    then have "strip_loop p n = strip_loop p (n - 1)" by (subst strip_loop.simps) simp
    with 1 True show ?thesis by (cases "i = n - 1") auto
  next
    case False
    then have "strip_loop p n = n" by (subst strip_loop.simps) auto
    with 1 show ?thesis by simp
  qed
qed

lemma strip_loop_pos: "0 < n \<Longrightarrow> 0 < strip_loop p n"
  by (induction p n rule: strip_loop.induct) (subst strip_loop.simps, auto)

text \<open>The result, and the claim of change.\<close>

lemma strip_fst: "fst (stripTrailingSlashes p) = take (strip_loop p (length p)) p"
  by (simp add: stripTrailingSlashes_def Let_def)

lemma strip_changed: "snd (stripTrailingSlashes p) \<longleftrightarrow> fst (stripTrailingSlashes p) \<noteq> p"
proof -
  have "take n p = p \<longleftrightarrow> n = length p" if "n \<le> length p" for n
    using that by (metis length_take min.absorb2 take_all order_refl)
  then show ?thesis
    using strip_loop_le [of p "length p"] by (simp add: stripTrailingSlashes_def Let_def)
qed

text \<open>Canonical: empty, the root, or not ending in a slash.\<close>

definition canonical_path :: "string \<Rightarrow> bool" where
  "canonical_path p \<longleftrightarrow> length p \<le> 1 \<or> last p \<noteq> CHR ''/''"

lemma strip_canonical: "canonical_path (fst (stripTrailingSlashes p))"
proof -
  let ?n = "strip_loop p (length p)"
  have n: "?n \<le> length p" by (rule strip_loop_le)
  show ?thesis
  proof (cases "?n \<le> 1")
    case False
    then have "p ! (?n - 1) \<noteq> CHR ''/''" using strip_loop_end [of p "length p"] by simp
    moreover have "last (take ?n p) = p ! (?n - 1)"
      using False n by (subst last_conv_nth) auto
    ultimately show ?thesis by (simp add: strip_fst canonical_path_def)
  qed (auto simp: strip_fst canonical_path_def min_def)
qed

lemma strip_suffix: "\<exists>k. p = fst (stripTrailingSlashes p) @ replicate k (CHR ''/'')"
proof -
  let ?n = "strip_loop p (length p)"
  have "drop ?n p = replicate (length p - ?n) (CHR ''/'')"
    using strip_loop_le [of p "length p"]
    by (intro nth_equalityI) (simp_all add: strip_loop_slashes [where n = "length p"])
  then show ?thesis
    unfolding strip_fst by (intro exI [of _ "length p - ?n"]) (metis append_take_drop_id)
qed

lemma strip_id: "canonical_path p \<Longrightarrow> stripTrailingSlashes p = (p, False)"
proof -
  assume "canonical_path p"
  then have "strip_loop p (length p) = length p"
    by (cases "p = []") (subst strip_loop.simps, auto simp: canonical_path_def last_conv_nth)+
  then show ?thesis by (simp add: stripTrailingSlashes_def)
qed

lemma NormalizePath_eq:
  "NormalizePath nxt r hdrs s =
     nxt (r\<lparr>hq_path := fst (stripTrailingSlashes (hq_path r)),
           hq_raw_path := fst (stripTrailingSlashes (hq_raw_path r))\<rparr>) hdrs s"
proof (cases "snd (stripTrailingSlashes (hq_path r)) \<or> snd (stripTrailingSlashes (hq_raw_path r))")
  case False
  then have "fst (stripTrailingSlashes (hq_path r)) = hq_path r"
    and "fst (stripTrailingSlashes (hq_raw_path r)) = hq_raw_path r"
    using strip_changed by blast+
  with False show ?thesis
    by (cases "stripTrailingSlashes (hq_path r)"; cases "stripTrailingSlashes (hq_raw_path r)")
      (simp add: NormalizePath_def)
qed (auto simp: NormalizePath_def split: prod.splits)

lemma NormalizePath_idem: "NormalizePath (NormalizePath nxt) = NormalizePath nxt"
  by (rule ext)+ (simp add: NormalizePath_eq strip_id strip_canonical)

section \<open>The origin check\<close>

definition origin_ok :: "origin_config \<Rightarrow> http_request \<Rightarrow> bool" where
  "origin_ok cfg r \<longleftrightarrow> or_enabled cfg \<longrightarrow>
     hq_header r (or_header_name cfg) = or_header_value cfg \<and> or_header_value cfg \<noteq> []"

lemma OriginVerify_ok: "origin_ok cfg r \<Longrightarrow> OriginVerify cfg nxt r hdrs s = nxt r hdrs s"
  by (auto simp: OriginVerify_def origin_ok_def ConstantTimeCompare_def Let_def)

lemma OriginVerify_refuses:
  assumes "\<not> origin_ok cfg r"
  shows "\<exists>p. OriginVerify cfg nxt r hdrs s = (Some p, s) \<and> hp_status p = 403 \<and> hp_headers p = hdrs"
  using assms by (auto simp: OriginVerify_def origin_ok_def ConstantTimeCompare_def Let_def)

text \<open>Without the shared secret, a request to \<^verbatim>\<open>/api/v1\<close> ends before the endpoint.\<close>

lemma api_chain_refuses:
  assumes "\<not> origin_ok cfg r"
  shows "\<exists>p. api_chain cfg endpoint r hdrs s = (Some p, s) \<and> hp_status p = 403 \<and>
    map_of (hp_headers p) ''X-Content-Type-Options'' = Some ''nosniff''"
proof -
  let ?r = "r\<lparr>hq_path := fst (stripTrailingSlashes (hq_path r)),
              hq_raw_path := fst (stripTrailingSlashes (hq_raw_path r))\<rparr>"
  have "\<not> origin_ok cfg ?r" using assms by (simp add: origin_ok_def)
  from OriginVerify_refuses [OF this, where nxt = endpoint and hdrs = "security_headers ?r hdrs" and s = s]
  obtain p where "OriginVerify cfg endpoint ?r (security_headers ?r hdrs) s = (Some p, s)"
    "hp_status p = 403" "hp_headers p = security_headers ?r hdrs" by blast
  then show ?thesis
    by (auto simp: api_chain_def NormalizePath_eq SecurityHeaders_def security_headers_def Let_def)
qed

section \<open>Error responses\<close>

lemma httpStatusCode_values:
  "httpStatusCode code \<in> {400, 401, 403, 404, 429, 500, 502}"
  by (simp add: httpStatusCode_def)

text \<open>The denial codes of the authoriser, as HTTP sees them.\<close>

lemma httpStatusCode_denial:
  "httpStatusCode (code_string c) =
     (if c = PolicyNotFound \<or> c = RepositoryNotFound then 404
      else if c = PolicyLoadFailed then 500 else 403)"
  by (cases c) (simp_all add: httpStatusCode_def sts_codes)

lemma writeError_retry:
  "map_of (hp_headers (fst (writeError [] code m i n))) ''Retry-After'' =
     (if code = ErrRateLimited \<and> 0 < n then Some (itoa n) else None)"
  by (simp add: writeError_def Let_def)

lemma handler_status:
  assumes "ExchangeHandler_Exchange service input r hdrs s = (out, s')" and "ho_response out = Some p"
  shows "(hp_status p = 200 \<longleftrightarrow> ho_issued out) \<and>
    (ho_issued out \<longleftrightarrow> (\<exists>body resp. input = Some body \<and>
       service (hq_request_id r) body s = (Some (Inr resp), s') \<and> hp_body p = TokenBody (response_body resp)))"
proof -
  have err: "hp_status (fst (writeError h c m i n)) \<noteq> 200" for h c m i n
    using httpStatusCode_values [of c] by (auto simp: writeError_def)
  show ?thesis
  proof (cases input)
    case None
    with assms err show ?thesis by (auto simp: ExchangeHandler_Exchange_def errored_def)
  next
    case (Some req)
    obtain res t where res: "service (hq_request_id r) req s = (res, t)" by fastforce
    consider "res = None" | e where "res = Some (Inl (AnExchangeError e))"
      | e where "res = Some (Inl (OtherError e))" | resp where "res = Some (Inr resp)"
      by (metis exchanger_error.exhaust option.exhaust sum.exhaust)
    then show ?thesis
      by cases (use assms err Some res in \<open>auto simp: ExchangeHandler_Exchange_def errored_def\<close>)
  qed
qed

text \<open>A client sees neither the details of a failure nor the identity it was attributed to.\<close>

lemma handler_hides_details:
  assumes "service (hq_request_id r) body s = (Some (Inl (AnExchangeError e)), s')"
    and "service' (hq_request_id r) body s =
      (Some (Inl (AnExchangeError (e\<lparr>xe_details := d, xe_issuer := iss, xe_subject := sub\<rparr>))), s')"
  shows "ho_response (fst (ExchangeHandler_Exchange service (Some body) r hdrs s)) =
    ho_response (fst (ExchangeHandler_Exchange service' (Some body) r hdrs s))"
  using assms by (simp add: ExchangeHandler_Exchange_def errored_def)

section \<open>Properties\<close>

text \<open>Success means a grant. The exchange handler answers 200 exactly when the service returned a
  response, and the body then holds that response's token and public fields; a failure of any kind is
  answered with one of 400, 401, 403, 404, 429, 500 and 502.\<close>

lemma exchange_handler_status:
  assumes "ExchangeHandler_Exchange service input r hdrs s = (out, s')" and "ho_response out = Some p"
  shows "(hp_status p = 200 \<longleftrightarrow>
      (\<exists>body resp. input = Some body \<and> service (hq_request_id r) body s = (Some (Inr resp), s') \<and>
         hp_body p = TokenBody (response_body resp))) \<and>
    hp_status p \<in> {200, 400, 401, 403, 404, 429, 500, 502}"
proof -
  have "hp_status p = 200 \<or> hp_status p \<in> range httpStatusCode"
    using assms by (auto simp: ExchangeHandler_Exchange_def errored_def writeError_def Let_def
        split: option.splits prod.splits sum.splits exchanger_error.splits)
  then have "hp_status p \<in> {200, 400, 401, 403, 404, 429, 500, 502}"
  proof
    assume "hp_status p \<in> range httpStatusCode"
    then obtain c where "hp_status p = httpStatusCode c" by auto
    then show ?thesis using httpStatusCode_values [of c] by auto
  qed simp
  then show ?thesis using handler_status [OF assms] by blast
qed

definition example_http :: http_request where
  "example_http = \<lparr>hq_request_id = ''r1'', hq_method = ''POST'', hq_path = ''/api/v1/exchange/'', hq_raw_path = [],
                   hq_header = (\<lambda>k. if k = ''X-Origin'' then ''s3cret'' else []), hq_tls = False,
                   hq_body = []\<rparr>"

definition example_body :: exchange_request where
  "example_body = \<lparr>xq_oidc_token = ''t'', xq_target_repository = ''o/r'', xq_policy_name = [],
                   xq_requested_permissions = [], xq_requested_ttl = 0\<rparr>"

text \<open>The status of a denial. Of the authoriser's codes, POLICY_NOT_FOUND and REPOSITORY_NOT_FOUND are
  answered with 404, POLICY_LOAD_FAILED with 500, all others with 403; and a Retry-After header is set
  exactly for RATE_LIMITED with a positive delay.\<close>

lemma denial_status:
  "httpStatusCode (code_string c) =
     (if c \<in> {PolicyNotFound, RepositoryNotFound} then 404 else if c = PolicyLoadFailed then 500 else 403) \<and>
   map_of (hp_headers (fst (writeError [] code m i n))) ''Retry-After'' =
     (if code = ErrRateLimited \<and> 0 < n then Some (itoa n) else None)"
  using httpStatusCode_denial [of c] writeError_retry [of code m i n] by simp

text \<open>Failures do not leak. The response to a failed exchange does not depend on the details of the
  failure or on the identity it is attributed to.\<close>

lemma failure_hides_details:
  assumes "service (hq_request_id r) body s = (Some (Inl (AnExchangeError e)), s')"
    and "service' (hq_request_id r) body s =
      (Some (Inl (AnExchangeError (e\<lparr>xe_details := d, xe_issuer := iss, xe_subject := sub\<rparr>))), s')"
  shows "ho_response (fst (ExchangeHandler_Exchange service (Some body) r hdrs s)) =
    ho_response (fst (ExchangeHandler_Exchange service' (Some body) r hdrs s))"
  using assms by (rule handler_hides_details)


text \<open>The shared secret guards the API. With origin verification enabled, a request to /api/v1 without
  the configured non-empty header value is answered with 403 and the security headers, and the
  endpoint is not run: its state stays as it was; with the right value the check changes nothing.\<close>

lemma origin_verification:
  "(\<not> origin_ok cfg r \<longrightarrow>
      (\<exists>p. api_chain cfg endpoint r hdrs s = (Some p, s) \<and> hp_status p = 403 \<and>
         map_of (hp_headers p) ''X-Content-Type-Options'' = Some ''nosniff'')) \<and>
   (origin_ok cfg r \<longrightarrow> api_chain cfg endpoint r hdrs s = NormalizePath (SecurityHeaders endpoint) r hdrs s)"
proof -
  have "OriginVerify cfg endpoint r' h s' = endpoint r' h s'" if "origin_ok cfg r" "hq_header r' = hq_header r" for r' h s'
    using that by (intro OriginVerify_ok) (simp add: origin_ok_def)
  then show ?thesis
    using api_chain_refuses [of cfg r endpoint hdrs s]
    by (auto simp: api_chain_def NormalizePath_eq SecurityHeaders_def)
qed

text \<open>Path normalisation. stripTrailingSlashes removes slashes from the end only, leaves a path that is
  empty, the root or does not end in a slash, and reports a change exactly when there is one; applying
  the middleware twice is applying it once.\<close>

lemma stripTrailingSlashes_correct:
  "(\<exists>k. p = fst (stripTrailingSlashes p) @ replicate k (CHR ''/'')) \<and>
   (length (fst (stripTrailingSlashes p)) \<le> 1 \<or> last (fst (stripTrailingSlashes p)) \<noteq> CHR ''/'') \<and>
   (snd (stripTrailingSlashes p) \<longleftrightarrow> fst (stripTrailingSlashes p) \<noteq> p) \<and>
   NormalizePath (NormalizePath nxt) = NormalizePath nxt"
  using strip_suffix strip_canonical [of p] strip_changed NormalizePath_idem
  unfolding canonical_path_def by blast


end
