(* ===== verification/Service_Api.thy ===== *)
theory Service_Api
  imports Service_Run Http_Api
begin

text \<open>
  The service as its callers see it (\<^verbatim>\<open>internal/sts/sts.go\<close>): the public \<^verbatim>\<open>Exchange\<close>, which wraps
  \<^verbatim>\<open>exchange\<close> with one structured log line, the revocation loop and \<^verbatim>\<open>Close\<close>. The exchange handler of
  \<^verbatim>\<open>Http_Api\<close> runs on it. The state of \<^verbatim>\<open>Exchange\<close> is the service's with the lines logged so far, the
  newest first.
\<close>

section \<open>Log lines\<close>

datatype log_level = LevelDebug | LevelInfo | LevelWarn | LevelError

datatype log_value = LogString string | LogText gotext | LogInt int | LogTime time

record log_line =
  ll_level :: log_level
  ll_message :: string
  ll_attrs :: "(string \<times> log_value) list"

definition granted_line :: "string \<Rightarrow> exchange_request \<Rightarrow> exchange_response \<Rightarrow> log_line" where
  "granted_line requestID req resp =
     \<lparr>ll_level = LevelInfo, ll_message = ''token exchange granted'',
      ll_attrs =
        [(''request_id'', LogString requestID),
         (''repository'', LogString (xq_target_repository req)),
         (''issuer'', LogString (xp_issuer resp)),
         (''subject'', LogString (xp_subject resp)),
         (''policy'', LogString (xp_matched_policy resp)),
         (''client_id'', LogString (xp_client_id resp)),
         (''token_hash'', LogString (xp_token_hash resp)),
         (''ttl'', LogInt (xp_ttl resp)),
         (''expires_at'', LogTime (xp_expires_at resp)),
         (''permissions_count'', LogInt (int (length (xp_permissions resp))))]\<rparr>"

definition denied_line :: "exchange_request \<Rightarrow> exchange_error \<Rightarrow> log_line" where
  "denied_line req exErr =
     \<lparr>ll_level = (if xe_code exErr = ErrInternalError then LevelError else LevelWarn),
      ll_message = ''token exchange denied'',
      ll_attrs =
        [(''request_id'', LogString (xe_request_id exErr)),
         (''repository'', LogString (xq_target_repository req)),
         (''code'', LogString (xe_code exErr)),
         (''message'', LogText (xe_message exErr))] @
        (if xe_issuer exErr \<noteq> [] then [(''issuer'', LogString (xe_issuer exErr))] else []) @
        (if xe_subject exErr \<noteq> [] then [(''subject'', LogString (xe_subject exErr))] else []) @
        (if xe_details exErr \<noteq> no_text then [(''details'', LogText (xe_details exErr))] else [])\<rparr>"

definition logExchange ::
  "string \<Rightarrow> exchange_request \<Rightarrow> exchanger_error + exchange_response \<Rightarrow> log_line" where
  "logExchange requestID req result =
     (case result of
        Inr resp \<Rightarrow> granted_line requestID req resp
      | Inl (AnExchangeError exErr) \<Rightarrow> denied_line req exErr
      | Inl (OtherError err) \<Rightarrow>
          \<lparr>ll_level = LevelError, ll_message = ''token exchange failed'',
           ll_attrs = [(''request_id'', LogString requestID), (''repository'', LogString (xq_target_repository req)),
                       (''error'', LogText err)]\<rparr>)"

section \<open>The public operations\<close>

text \<open>A panic of \<^verbatim>\<open>exchange\<close> unwinds through \<^verbatim>\<open>Exchange\<close> before anything is logged.\<close>

definition Service_Exchange ::
  "('p, 'w, 'a) exchange_env \<Rightarrow> ('s, 'g) service \<Rightarrow> exchange_readings
     \<Rightarrow> (('p, 'w, 's, 'g, 'a) service_state \<times> log_line list) exchanger" where
  "Service_Exchange env sv rd requestID req s =
     (case exchange env sv rd requestID req (fst s) of
        (None, st) \<Rightarrow> (None, (st, snd s))
      | (Some r, st) \<Rightarrow>
          (let result = (case r of Inl e \<Rightarrow> Inl (AnExchangeError e) | Inr resp \<Rightarrow> Inr resp)
           in (Some result, (st, logExchange requestID req result # snd s))))"

text \<open>
  What the goroutine of \<^verbatim>\<open>runRevocationLoop\<close> receives: a tick, with what its revocation round reads of
  the clock and of the range over maps, or the cancellation of its context.
\<close>

datatype loop_event = Tick time nat "(string, string) gomap" | Cancelled

fun revocation_loop ::
  "('s, 'g) service \<Rightarrow> loop_event list \<Rightarrow> ('p, 'w, 's, 'g, 'a) service_state
     \<Rightarrow> string list \<times> ('p, 'w, 's, 'g, 'a) service_state" where
  "revocation_loop sv [] st = ([], st)"
| "revocation_loop sv (Cancelled # events) st = ([], st)"
| "revocation_loop sv (Tick now pick order # events) st =
     (case revokeExpiredTokens sv now pick order st of
        (removed, st') \<Rightarrow>
          (case revocation_loop sv events st' of (removed', st'') \<Rightarrow> (removed @ removed', st'')))"

text \<open>\<^verbatim>\<open>Close\<close> cancels the loop and closes the audit backend; \<open>close_audit\<close> is the backend's \<^verbatim>\<open>Close\<close>.\<close>

definition Service_Close :: "('a \<Rightarrow> gotext option \<times> 'a) \<Rightarrow> ('p, 'w, 's, 'g, 'a) service_state
     \<Rightarrow> loop_event list \<times> gotext option \<times> ('p, 'w, 's, 'g, 'a) service_state" where
  "Service_Close close_audit st =
     (case close_audit (ss_audit st) of (err, trail) \<Rightarrow> ([Cancelled], err, st\<lparr>ss_audit := trail\<rparr>))"

section \<open>Lines say what was answered, and no secret\<close>

lemma Service_Exchange_cases:
  obtains (granted) resp st where "exchange env sv rd i req (fst s) = (Some (Inr resp), st)"
      "Service_Exchange env sv rd i req s = (Some (Inr resp), (st, granted_line i req resp # snd s))"
  | (refused) e st where "exchange env sv rd i req (fst s) = (Some (Inl e), st)"
      "Service_Exchange env sv rd i req s = (Some (Inl (AnExchangeError e)), (st, denied_line req e # snd s))"
proof -
  obtain r st where r: "exchange env sv rd i req (fst s) = (r, st)" by fastforce
  then obtain x where "r = Some x" using exchange_some [of env sv rd i req "fst s"] by auto
  with r show ?thesis
    by (cases x) (auto simp: Service_Exchange_def logExchange_def Let_def intro: granted refused)
qed

text \<open>Changing the caller's token or the issued token changes no line.\<close>

lemma logExchange_no_secret:
  "logExchange i (req\<lparr>xq_oidc_token := x\<rparr>) (Inr (resp\<lparr>xp_token := y\<rparr>)) = logExchange i req (Inr resp)"
  "logExchange i (req\<lparr>xq_oidc_token := x\<rparr>) (Inl e) = logExchange i req (Inl e)"
  by (cases e) (simp_all add: logExchange_def granted_line_def denied_line_def split: exchanger_error.split)

section \<open>The revocation loop\<close>

text \<open>What each round ranges over is the map it was given.\<close>

fun ranges_ok :: "('s, 'g) service \<Rightarrow> loop_event list \<Rightarrow> ('p, 'w, 's, 'g, 'a) service_state \<Rightarrow> bool" where
  "ranges_ok sv [] st \<longleftrightarrow> True"
| "ranges_ok sv (Cancelled # events) st \<longleftrightarrow> True"
| "ranges_ok sv (Tick now pick order # events) st \<longleftrightarrow>
     gm_range (TokenTracker_GetExpired now (ss_tracker st)) order \<and>
     ranges_ok sv events (snd (revokeExpiredTokens sv now pick order st))"

text \<open>
  An outage of GitHub that ends: \<open>patience\<close> bounds the number of failed revocations that are still to
  come.
\<close>

definition patient :: "('g \<Rightarrow> nat) \<Rightarrow> 'g client_iface \<Rightarrow> bool" where
  "patient patience c \<longleftrightarrow>
     (\<forall>t g. case ci_RevokeToken c t g of
        (None, g') \<Rightarrow> patience g' \<le> patience g
      | (Some err, g') \<Rightarrow> patience g' < patience g)"

lemma revoke_all_patience:
  assumes "patient patience c"
  shows "revoke_all c es tr g = (rm, tr', g') \<Longrightarrow>
    patience g' \<le> patience g \<and> (\<forall>h\<in>fst ` set es. h \<notin> set rm \<longrightarrow> patience g' < patience g)"
proof (induction es arbitrary: tr g rm)
  case (Cons e es)
  obtain h t where e: "e = (h, t)" by (cases e)
  obtain r g1 where r: "ci_RevokeToken c t g = (r, g1)" by fastforce
  show ?case
  proof (cases r)
    case None
    then have le: "patience g1 \<le> patience g" using assms r unfolding patient_def by (metis (mono_tags, lifting) case_prod_conv option.simps(4))
    obtain rm1 where rec: "revoke_all c es (TokenTracker_Remove h tr) g1 = (rm1, tr', g')" and rm: "rm = h # rm1"
      using Cons.prems by (auto simp: e r None split: prod.splits)
    from Cons.IH [OF rec] le show ?thesis by (auto simp: e rm)
  next
    case (Some err)
    then have less: "patience g1 < patience g" using assms r unfolding patient_def by (metis (mono_tags, lifting) case_prod_conv option.simps(5))
    from Cons.prems r Some have rec: "revoke_all c es tr g1 = (rm, tr', g')" by (simp add: e)
    from Cons.IH [OF rec] less show ?thesis by (auto simp: e)
  qed
qed simp

text \<open>One round: an expired token is removed, or a failed revocation was used up.\<close>

lemma round_progress:
  assumes patient: "\<forall>c\<in>snd ` set (sv_clients sv). patient patience c" and "sv_clients sv \<noteq> []"
    and wf: "gm_wf (ss_tracker st)" and order: "gm_range (TokenTracker_GetExpired now (ss_tracker st)) order"
    and "map_of (ss_tracker st) h = Some e" and "tt_expires e < now"
    and run: "revokeExpiredTokens sv now pick order st = (rm, st')"
  shows "h \<in> set rm \<or> patience (as_github (ss_auth st')) < patience (as_github (ss_auth st))"
proof -
  have expired: "map_of (TokenTracker_GetExpired now (ss_tracker st)) h \<noteq> None"
    using assms(5,6) GetExpired_lookup [OF wf, of now h] by auto
  then have ne: "TokenTracker_GetExpired now (ss_tracker st) \<noteq> []" by auto
  let ?c = "snd (sv_clients sv ! (pick mod length (sv_clients sv)))"
  have "patient patience ?c" using patient assms(2) by auto
  note progress = revoke_all_patience [OF this]
  obtain rm1 tr g where all: "revoke_all ?c order (ss_tracker st) (as_github (ss_auth st)) = (rm1, tr, g)"
    using prod_cases3 by blast
  have "h \<in> fst ` set order"
    using expired order by (simp add: gm_range_set map_of_eq_None_iff)
  with progress [OF all] run ne assms(2) all show ?thesis
    by (auto simp: revokeExpiredTokens_def Let_def)
qed

lemma loop_keeps_away:
  "gm_wf (ss_tracker st) \<Longrightarrow> ranges_ok sv events st \<Longrightarrow> revocation_loop sv events st = (rm, st') \<Longrightarrow>
     map_of (ss_tracker st) h = None \<Longrightarrow> map_of (ss_tracker st') h = None"
proof (induction sv events st arbitrary: rm rule: revocation_loop.induct)
  case (3 sv now pick order events st)
  obtain rm1 st1 where r: "revokeExpiredTokens sv now pick order st = (rm1, st1)" by fastforce
  from revokeExpiredTokens_tracker [OF "3.prems"(1) _ r] "3.prems" r
  have "gm_wf (ss_tracker st1)" "map_of (ss_tracker st1) h = None" by simp_all
  with "3.IH" [OF r [symmetric]] "3.prems" r show ?case by (auto split: prod.splits)
qed simp_all

lemma loop_revokes:
  assumes patient: "\<forall>c\<in>snd ` set (sv_clients sv). patient patience c" and "sv_clients sv \<noteq> []"
    and "gm_wf (ss_tracker st)" and "ranges_ok sv events st" and "revocation_loop sv events st = (rm, st')"
    and "map_of (ss_tracker st) h = Some e"
    and "\<forall>ev\<in>set events. \<exists>now pick order. ev = Tick now pick order \<and> tt_expires e < now"
    and "patience (as_github (ss_auth st)) < length events"
  shows "h \<in> set rm \<and> map_of (ss_tracker st') h = None"
  using assms(3-)
proof (induction events arbitrary: st rm)
  case (Cons ev events)
  from Cons.prems(5) obtain now pick order where ev: "ev = Tick now pick order" and late: "tt_expires e < now" by auto
  obtain rm1 st1 where r: "revokeExpiredTokens sv now pick order st = (rm1, st1)" by fastforce
  obtain rm2 where rest: "revocation_loop sv events st1 = (rm2, st')" and rm: "rm = rm1 @ rm2"
    using Cons.prems(3) by (auto simp: ev r split: prod.splits)
  have order: "gm_range (TokenTracker_GetExpired now (ss_tracker st)) order" and ok: "ranges_ok sv events st1"
    using Cons.prems(2) r by (simp_all add: ev)
  note t = revokeExpiredTokens_tracker [OF Cons.prems(1) order r]
  show ?case
  proof (cases "h \<in> set rm1")
    case True
    with t have "map_of (ss_tracker st1) h = None" by simp
    with loop_keeps_away [OF _ ok rest] t True show ?thesis by (simp add: rm)
  next
    case False
    then have less: "patience (as_github (ss_auth st1)) < patience (as_github (ss_auth st))"
      using round_progress [OF patient assms(2) Cons.prems(1) order Cons.prems(4) late r] by blast
    have "h \<in> set rm2 \<and> map_of (ss_tracker st') h = None"
    proof (rule Cons.IH [OF _ ok rest])
      show "gm_wf (ss_tracker st1)" "map_of (ss_tracker st1) h = Some e" using t False Cons.prems(4) by simp_all
      show "patience (as_github (ss_auth st1)) < length events" using less Cons.prems(6) by simp
    qed (use Cons.prems(5) in auto)
    then show ?thesis by (simp add: rm)
  qed
qed simp

section \<open>The endpoint\<close>

lemma mint_error_id:
  "exchange_mint env sv rd i c req result st = (Some (Inl e), st') \<Longrightarrow> xe_request_id e = i"
  by (auto simp: exchange_mint_def exchange_finish_def Let_def
      split: prod.splits sum.splits select_error.splits option.splits)

lemma exchange_error_id:
  assumes "exchange env sv rd i req st = (Some (Inl e), st')"
  shows "xe_request_id e = i"
  by (rule exchange_cases [of sv req env rd i st]) (use assms in \<open>auto dest: mint_error_id [OF sym]\<close>)

text \<open>The endpoint answers every request and logs every exchange once.\<close>

lemma endpoint_response:
  assumes "exchange_handler (Service_Exchange env sv rd) input r hdrs (st, lines) = (out, (st', lines'))"
  shows "\<exists>p. out = Some p \<and> hp_status p \<in> {200, 400, 401, 403, 404, 429, 500, 502} \<and>
    (input = None \<longrightarrow> hp_status p = 400 \<and> st' = st \<and> lines' = lines) \<and>
    (\<forall>body. input = Some body \<longrightarrow>
       (\<exists>l. lines' = l # lines \<and> (''request_id'', LogString (hq_request_id r)) \<in> set (ll_attrs l) \<and>
          (ll_level l = LevelInfo \<longleftrightarrow> hp_status p = 200) \<and> (ll_level l = LevelError \<longrightarrow> hp_status p = 500) \<and>
          (hp_status p = 200 \<longrightarrow> (\<exists>resp. exchange env sv rd (hq_request_id r) body st = (Some (Inr resp), st') \<and>
             hp_body p = TokenBody (response_body resp)))))"
proof (cases input)
  case None
  with assms show ?thesis
    by (auto simp: exchange_handler_def ExchangeHandler_Exchange_def errored_def writeError_def Let_def
        httpStatusCode_def sts_codes)
next
  case (Some body)
  show ?thesis
  proof (cases rule: Service_Exchange_cases [of env sv rd "hq_request_id r" body "(st, lines)"])
    case (granted resp st1)
    with assms show ?thesis
      by (auto simp: exchange_handler_def ExchangeHandler_Exchange_def Some granted_line_def)
  next
    case (refused e st1)
    have "xe_request_id e = hq_request_id r" using refused(1) by (rule exchange_error_id)
    moreover have "httpStatusCode c \<noteq> 200" for c using httpStatusCode_values [of c] by auto
    moreover have "httpStatusCode ErrInternalError = 500" by (simp add: httpStatusCode_def sts_codes)
    ultimately show ?thesis
      using assms refused httpStatusCode_values [of "xe_code e"]
      by (auto simp: exchange_handler_def ExchangeHandler_Exchange_def Some errored_def writeError_def Let_def
          denied_line_def)
  qed
qed

end
