(* ===== verification/Observability.thy ===== *)
theory Observability
  imports Service_Api
begin

text \<open>
  What an exchange leaves for its operators: the spans and log lines of \<^verbatim>\<open>Service.exchange\<close>
  (\<^verbatim>\<open>internal/sts/sts.go\<close>), the error lines of a revocation round, and the span, the log line and the
  measurements of the exchange handler (\<^verbatim>\<open>cmd/server/handlers/exchange.go\<close>).

  Spans and lines are in the order of creation, the newest first. Each deferred \<^verbatim>\<open>End\<close> runs when the
  function returns, so a span is the value it has then.
\<close>

section \<open>Spans\<close>

text \<open>\<open>sn_status\<close> is the description of the status \<^verbatim>\<open>codes.Error\<close>, when that was set.\<close>

record trace_span =
  sn_name :: string
  sn_attrs :: "(string \<times> string) list"
  sn_errors :: "gotext list"
  sn_status :: "gotext option"

definition StartSpan :: "string \<Rightarrow> trace_span" where
  "StartSpan name = \<lparr>sn_name = name, sn_attrs = [], sn_errors = [], sn_status = None\<rparr>"

definition SetAttribute :: "string \<Rightarrow> string \<Rightarrow> trace_span \<Rightarrow> trace_span" where
  "SetAttribute k v sp = sp\<lparr>sn_attrs := sn_attrs sp @ [(k, v)]\<rparr>"

definition RecordError :: "gotext \<Rightarrow> trace_span \<Rightarrow> trace_span" where
  "RecordError err sp = sp\<lparr>sn_errors := sn_errors sp @ [err]\<rparr>"

definition SetError :: "gotext \<Rightarrow> trace_span \<Rightarrow> trace_span" where
  "SetError description sp = sp\<lparr>sn_status := Some description\<rparr>"

lemmas span_defs = StartSpan_def SetAttribute_def RecordError_def SetError_def

section \<open>What an exchange emits\<close>

text \<open>The four spans, by the result of the call that each of them covers.\<close>

definition validate_span :: "oidc_error + oidc_claims \<Rightarrow> trace_span" where
  "validate_span r =
     (case r of
        Inl err \<Rightarrow>
          SetError (msg ''oidc validation failed'') (RecordError (oidc_error_text err) (StartSpan ''ValidateOIDC''))
      | Inr claims \<Rightarrow> SetAttribute ''issuer'' (oc_issuer claims) (StartSpan ''ValidateOIDC''))"

text \<open>A denial without a reason panics before the status is set.\<close>

definition policy_span :: "auth_result \<Rightarrow> trace_span" where
  "policy_span result =
     (if \<not> res_allowed result
      then (case res_deny_reason result of
              None \<Rightarrow> StartSpan ''EvaluatePolicy''
            | Some d \<Rightarrow> SetError (msg (code_string (de_code d))) (StartSpan ''EvaluatePolicy''))
      else SetAttribute ''matched_policy'' (res_matched_policy result) (StartSpan ''EvaluatePolicy''))"

definition select_span :: "select_error + app \<Rightarrow> trace_span" where
  "select_span r =
     (case r of
        Inl err \<Rightarrow>
          SetError (msg ''app selection failed'') (RecordError (select_error_text err) (StartSpan ''SelectApp''))
      | Inr chosen \<Rightarrow> SetAttribute ''client_id'' (app_client_id chosen) (StartSpan ''SelectApp''))"

definition mint_span :: "gh_error option \<Rightarrow> trace_span" where
  "mint_span r =
     (case r of
        Some err \<Rightarrow>
          SetError (msg ''github token request failed'')
            (RecordError (gh_error_text err) (StartSpan ''MintInstallationToken''))
      | None \<Rightarrow> StartSpan ''MintInstallationToken'')"

text \<open>The lines of the calls whose failure is only logged.\<close>

definition validated_line :: "string \<Rightarrow> oidc_claims \<Rightarrow> log_line" where
  "validated_line requestID claims =
     \<lparr>ll_level = LevelDebug, ll_message = ''oidc validated'',
      ll_attrs =
        [(''request_id'', LogString requestID),
         (''issuer'', LogString (oc_issuer claims)),
         (''subject'', LogString (oc_subject claims)),
         (''expires_at'', LogTime (oc_expires_at claims))]\<rparr>"

definition selected_line :: "string \<Rightarrow> app \<Rightarrow> log_line" where
  "selected_line requestID chosen =
     \<lparr>ll_level = LevelDebug, ll_message = ''github app selected'',
      ll_attrs = [(''request_id'', LogString requestID), (''client_id'', LogString (app_client_id chosen))]\<rparr>"

definition warning :: "string \<Rightarrow> string \<times> string \<Rightarrow> gotext \<Rightarrow> log_line" where
  "warning message subj err =
     \<lparr>ll_level = LevelWarn, ll_message = message,
      ll_attrs = [(fst subj, LogString (snd subj)), (''error'', LogText err)]\<rparr>"

fun record_error_text :: "record_error \<Rightarrow> gotext" where
  "record_error_text (RecordingUsage e) = Sprintf ''recording usage: %w'' [AErr (store_error_text e)]"

definition denied_lines ::
  "('p, 'w, 'a) exchange_env \<Rightarrow> exchange_readings \<Rightarrow> string \<Rightarrow> oidc_claims \<Rightarrow> exchange_request
     \<Rightarrow> string \<Rightarrow> 'a \<Rightarrow> log_line list" where
  "denied_lines env rd requestID claims req reason au =
     (case fst (ab_Log (ee_audit env) (xr_log rd) (denied_entry env rd requestID claims req reason) au) of
        Some err \<Rightarrow> [warning ''audit log failed'' (''request_id'', requestID) (audit_error_text err)]
      | None \<Rightarrow> [])"

definition rate_lines ::
  "('s, 'g) service \<Rightarrow> 'g client_iface \<Rightarrow> exchange_readings \<Rightarrow> string \<Rightarrow> string
     \<Rightarrow> ('s, 'g) auth_state \<Rightarrow> log_line list" where
  "rate_lines sv client rd clientID token au =
     (case fst (ci_RateLimit client token (as_github au)) of
        Inl err \<Rightarrow> [warning ''rate limit query failed'' (''client_id'', clientID) (gh_error_text err)]
      | Inr info \<Rightarrow>
          (case fst (RecordUsage (sv_store sv) (xr_record rd) clientID (rli_remaining info) (rli_reset_at info)
                       (as_store au)) of
             Some err \<Rightarrow> [warning ''record usage failed'' (''client_id'', clientID) (record_error_text err)]
           | None \<Rightarrow> []))"

text \<open>From the authorisation on, beside \<open>exchange_mint\<close>.\<close>

definition mint_emits ::
  "('p, 'w, 'a) exchange_env \<Rightarrow> ('s, 'g) service \<Rightarrow> exchange_readings \<Rightarrow> string \<Rightarrow> oidc_claims
     \<Rightarrow> exchange_request \<Rightarrow> auth_result \<Rightarrow> ('p, 'w, 's, 'g, 'a) service_state
     \<Rightarrow> trace_span list \<times> log_line list" where
  "mint_emits env sv rd requestID claims req result st =
     (case SelectApp (sv_store sv) (sv_selector sv) (sr_loop (xr_select rd)) (sr_now (xr_select rd))
             (sr_until (xr_select rd)) (sr_rand (xr_select rd)) (xq_target_repository req)
             (as_store (ss_auth st)) of
        (Inl err, s) \<Rightarrow>
          ([select_span (Inl err)],
           denied_lines env rd requestID claims req
             (case err of ExhaustedError n \<Rightarrow> ErrRateLimited | _ \<Rightarrow> ErrAppSelectionFailed) (ss_audit st))
      | (Inr chosen, s) \<Rightarrow>
          (case map_of (sv_clients sv) (app_client_id chosen) of
             None \<Rightarrow>
               ([select_span (Inr chosen)],
                denied_lines env rd requestID claims req ErrClientNotFound (ss_audit st) @
                [selected_line requestID chosen])
           | Some client \<Rightarrow>
               (case ci_RequestToken client
                       \<lparr>trq_repository = xq_target_repository req,
                        trq_permissions = res_permissions result\<rparr> (as_github (ss_auth st)) of
                  (Inl err, g) \<Rightarrow>
                    ([mint_span (Some err), select_span (Inr chosen)],
                     denied_lines env rd requestID claims req ErrGitHubAPIError (ss_audit st) @
                     [selected_line requestID chosen])
                | (Inr tokenResp, g) \<Rightarrow>
                    ([mint_span None, select_span (Inr chosen)],
                     rate_lines sv client rd (app_client_id chosen) (trs_token tokenResp)
                       ((ss_auth st)\<lparr>as_store := s, as_github := g\<rparr>) @
                     [selected_line requestID chosen]))))"

text \<open>Beside \<open>exchange\<close>.\<close>

definition exchange_emits ::
  "('p, 'w, 'a) exchange_env \<Rightarrow> ('s, 'g) service \<Rightarrow> exchange_readings \<Rightarrow> string
     \<Rightarrow> exchange_request \<Rightarrow> ('p, 'w, 's, 'g, 'a) service_state \<Rightarrow> trace_span list \<times> log_line list" where
  "exchange_emits env sv rd requestID req st =
     (case validateRequest (sv_max_ttl sv) req of
        Some validationErr \<Rightarrow> ([], [])
      | None \<Rightarrow>
          (case Validator_Validate (ee_oidc env) (sv_oidc sv) (xq_oidc_token req) (ss_oidc st) of
             (Inl err, os) \<Rightarrow> ([validate_span (Inl err)], [])
           | (Inr claims, os) \<Rightarrow>
               (case Authorize (ee_rx env) (ee_yaml env) (sv_authorizer sv) (xr_central rd) (xr_fetch rd)
                       (auth_request_of claims req) (ss_auth st) of
                  (result, au) \<Rightarrow>
                    (case (if \<not> res_allowed result
                           then ([], case res_deny_reason result of
                                       None \<Rightarrow> []
                                     | Some d \<Rightarrow>
                                         denied_lines env rd requestID claims req (code_string (de_code d))
                                           (ss_audit st))
                           else mint_emits env sv rd requestID claims req result
                                  (st\<lparr>ss_oidc := os, ss_auth := au\<rparr>)) of
                       (spans, lines) \<Rightarrow>
                         (spans @ [policy_span result, validate_span (Inr claims)],
                          lines @ [validated_line requestID claims])))))"

text \<open>A revocation round logs each token that GitHub did not revoke.\<close>

fun revoke_lines :: "'g client_iface \<Rightarrow> (string \<times> string) list \<Rightarrow> 'g \<Rightarrow> log_line list" where
  "revoke_lines client [] g = []"
| "revoke_lines client ((hash, token) # es) g =
     (case ci_RevokeToken client token g of
        (Some err, g') \<Rightarrow>
          revoke_lines client es g' @
          [\<lparr>ll_level = LevelError, ll_message = ''failed to revoke token'',
            ll_attrs = [(''token_hash'', LogString hash), (''error'', LogText (gh_error_text err))]\<rparr>]
      | (None, g') \<Rightarrow> revoke_lines client es g')"

section \<open>What the handler emits\<close>

text \<open>
  \<open>answer\<close> is what the service returned, \<open>None\<close> when it panicked; \<open>panicked\<close> is the text of the value of
  that panic.
\<close>

definition handler_span ::
  "string \<Rightarrow> exchange_request option \<Rightarrow> (exchanger_error + exchange_response) option \<Rightarrow> trace_span" where
  "handler_span panicked input answer =
     (let span = StartSpan ''TokenExchange''
      in case input of
           None \<Rightarrow> SetError (msg ''Invalid request'') span
         | Some body \<Rightarrow>
             (let span = SetAttribute ''repository'' (xq_target_repository body) span
              in case answer of
                   None \<Rightarrow> SetAttribute ''panic.value'' panicked (SetError (msg ''handler panic'') span)
                 | Some (Inl (AnExchangeError e)) \<Rightarrow>
                     SetError (xe_message e) (RecordError (ExchangeError_Error e) span)
                 | Some (Inl (OtherError e)) \<Rightarrow>
                     SetError (msg ''Internal server error'') (RecordError e span)
                 | Some (Inr p) \<Rightarrow> SetAttribute ''matched_policy'' (xp_matched_policy p) span))"

definition handler_lines ::
  "string \<Rightarrow> exchange_request option \<Rightarrow> (exchanger_error + exchange_response) option \<Rightarrow> log_line list" where
  "handler_lines panicked input answer =
     (if input \<noteq> None \<and> answer = None
      then [\<lparr>ll_level = LevelError, ll_message = ''Exchange handler panic'',
              ll_attrs = [(''panic'', LogString panicked)]\<rparr>]
      else [])"

datatype measurement =
    ExchangeDuration duration
  | ExchangeCount string
  | CallerExchange string string string
  | TokenIssued string

text \<open>The deferred function measures after the rest of the handler, newest first here as well.\<close>

definition handler_measurements ::
  "duration \<Rightarrow> exchange_request option \<Rightarrow> handler_outcome \<Rightarrow> measurement list" where
  "handler_measurements elapsed input out =
     (if ho_issuer out \<noteq> [] \<or> ho_subject out \<noteq> []
      then [CallerExchange (ho_subject out) (ho_issuer out) (ho_outcome out)] else []) @
     [ExchangeCount (ho_outcome out), ExchangeDuration elapsed] @
     (case input of
        None \<Rightarrow> []
      | Some body \<Rightarrow> if ho_issued out then [TokenIssued (xq_target_repository body)] else [])"

text \<open>A call of the handler with what its measurements read.\<close>

record 's handler_call =
  hc_service :: "'s exchanger"
  hc_input :: "exchange_request option"
  hc_request :: http_request
  hc_headers :: "(string, string) gomap"
  hc_elapsed :: duration

fun handle_calls ::
  "'s handler_call list \<Rightarrow> 's \<Rightarrow> http_response option list \<times> measurement list \<times> 's" where
  "handle_calls [] s = ([], [], s)"
| "handle_calls (c # cs) s =
     (case ExchangeHandler_Exchange (hc_service c) (hc_input c) (hc_request c) (hc_headers c) s of
        (out, s') \<Rightarrow>
          (case handle_calls cs s' of
             (ps, ms, s'') \<Rightarrow>
               (ho_response out # ps, ms @ handler_measurements (hc_elapsed c) (hc_input c) out, s'')))"

section \<open>What the spans of an exchange tell\<close>

definition span_names :: "string list" where
  "span_names = [''ValidateOIDC'', ''EvaluatePolicy'', ''SelectApp'', ''MintInstallationToken'']"

text \<open>
  What can be read off the spans, without the answer: in which step an exchange ended, and as what.
  An exchange that fails with no failed span found no client for the app, or could not write the grant
  to the audit log.
\<close>

definition failure_told :: "trace_span list \<Rightarrow> exchange_error \<Rightarrow> bool" where
  "failure_told spans e \<longleftrightarrow>
     (case spans of
        [] \<Rightarrow> xe_code e = ErrInvalidRequest
      | sp # rest \<Rightarrow>
          (case sn_status sp of
             None \<Rightarrow> 3 \<le> length spans \<and> xe_code e = ErrInternalError
           | Some t \<Rightarrow>
               (if length spans = 1 then xe_code e = ErrInvalidToken
                else if length spans = 2 then xe_code e \<in> range code_string \<and> t = msg (xe_code e)
                else if length spans = 3 then xe_code e \<in> {ErrRateLimited, ErrInternalError}
                else xe_code e = ErrGitHubAPIError)))"

definition grant_told :: "trace_span list \<Rightarrow> exchange_response \<Rightarrow> bool" where
  "grant_told spans resp \<longleftrightarrow>
     (\<forall>sp\<in>set spans. sn_status sp = None) \<and>
     map sn_attrs (rev spans) =
       [[(''issuer'', xp_issuer resp)], [(''matched_policy'', xp_matched_policy resp)],
        [(''client_id'', xp_client_id resp)], []]"

definition trace_told :: "trace_span list \<Rightarrow> exchange_error + exchange_response \<Rightarrow> bool" where
  "trace_told spans r \<longleftrightarrow>
     map sn_name (rev spans) = take (length spans) span_names \<and>
     (\<forall>sp\<in>set (tl spans). sn_status sp = None) \<and>
     (case r of Inl e \<Rightarrow> failure_told spans e | Inr resp \<Rightarrow> grant_told spans resp)"

lemma mint_trace:
  assumes "exchange_mint env sv rd i c req result st = (Some r, st')" and "res_allowed result"
    and "mint_emits env sv rd i c req result st = (spans, lines)"
  shows "trace_told (spans @ [policy_span result, validate_span (Inr c)]) r"
proof -
  note emits = mint_emits_def select_span_def mint_span_def policy_span_def validate_span_def span_defs
    span_names_def trace_told_def failure_told_def grant_told_def
  show ?thesis
  proof (cases rule: exchange_mint_cases [of sv rd req st env i c result])
    case (minted a s client tr g)
    with assms show ?thesis
      by (auto simp: emits exchange_finish_def Let_def split: prod.splits option.splits)
  qed (use assms in \<open>auto simp: emits\<close>)
qed

lemma exchange_trace:
  assumes "exchange env sv rd i req st = (Some r, st')" and "exchange_emits env sv rd i req st = (spans, lines)"
  shows "trace_told spans r"
proof -
  note emits = exchange_emits_def policy_span_def validate_span_def span_defs span_names_def
    trace_told_def failure_told_def
  show ?thesis
  proof (cases rule: exchange_cases [of sv req env rd i st])
    case (passed c os result au)
    let ?st = "st\<lparr>ss_oidc := os, ss_auth := au\<rparr>"
    obtain spans' lines' where mint: "mint_emits env sv rd i c req result ?st = (spans', lines')" by fastforce
    with assms(2) passed have "spans = spans' @ [policy_span result, validate_span (Inr c)]"
      by (simp add: exchange_emits_def)
    then show ?thesis using mint_trace [OF _ passed(4) mint] assms(1) passed(5) by simp
  qed (use assms in \<open>auto simp: emits\<close>)
qed

text \<open>Nothing in between is above the level of a warning; the outcome has the line of \<open>Service_Api\<close>.\<close>

lemma rate_lines_level: "l \<in> set (rate_lines sv client rd clientID token au) \<Longrightarrow> ll_level l = LevelWarn"
  by (auto simp: rate_lines_def warning_def split: sum.splits option.splits)

lemma denied_lines_level: "l \<in> set (denied_lines env rd i c req reason au) \<Longrightarrow> ll_level l = LevelWarn"
  by (auto simp: denied_lines_def warning_def split: option.splits)

lemma mint_emits_level:
  "l \<in> set (snd (mint_emits env sv rd i c req result st)) \<Longrightarrow> ll_level l \<in> {LevelDebug, LevelWarn}"
  by (auto simp: mint_emits_def selected_line_def rate_lines_level denied_lines_level
      split: prod.splits sum.splits option.splits)

lemma exchange_emits_level:
  assumes "l \<in> set (snd (exchange_emits env sv rd i req st))"
  shows "ll_level l \<in> {LevelDebug, LevelWarn}"
  using assms mint_emits_level [of l]
  by (auto simp: exchange_emits_def validated_line_def denied_lines_level
      split: option.splits prod.splits sum.splits if_splits dest!: sndI)

text \<open>A round reports each token that it keeps, and no other.\<close>

lemma revoke_lines_kept:
  "revoke_all client es tr g = (rm, tr', g') \<Longrightarrow> distinct (map fst es) \<Longrightarrow>
     map (\<lambda>l. map_of (ll_attrs l) ''token_hash'') (revoke_lines client es g) =
       rev (map (\<lambda>h. Some (LogString h)) (filter (\<lambda>h. h \<notin> set rm) (map fst es)))"
proof (induction es arbitrary: tr g rm)
  case (Cons e es)
  obtain h t where e: "e = (h, t)" by (cases e)
  obtain r g1 where r: "ci_RevokeToken client t g = (r, g1)" by fastforce
  show ?case
  proof (cases r)
    case None
    then obtain rm1 where rec: "revoke_all client es (TokenTracker_Remove h tr) g1 = (rm1, tr', g')" "rm = h # rm1"
      using Cons.prems(1) by (auto simp: e r split: prod.splits)
    moreover have "filter (\<lambda>k. k \<noteq> h \<and> k \<notin> set rm1) (map fst es) = filter (\<lambda>k. k \<notin> set rm1) (map fst es)"
      using Cons.prems(2) by (intro filter_cong) (auto simp: e)
    ultimately show ?thesis using Cons.IH [OF rec(1)] Cons.prems(2) None by (simp add: e r)
  next
    case (Some err)
    then have rec: "revoke_all client es tr g1 = (rm, tr', g')" using Cons.prems(1) by (simp add: e r)
    moreover from revoke_all_tracker [OF rec] have "h \<notin> set rm" using Cons.prems(2) by (auto simp: e)
    ultimately show ?thesis using Cons.IH [OF rec] Cons.prems(2) Some by (simp add: e r)
  qed
qed simp

section \<open>The measurements of the handler\<close>

text \<open>What a list of measurements says, oldest first.\<close>

fun outcomes :: "measurement list \<Rightarrow> string list" where
  "outcomes [] = []"
| "outcomes (ExchangeCount l # ms) = outcomes ms @ [l]"
| "outcomes (m # ms) = outcomes ms"

fun issued_for :: "measurement list \<Rightarrow> string list" where
  "issued_for [] = []"
| "issued_for (TokenIssued r # ms) = issued_for ms @ [r]"
| "issued_for (m # ms) = issued_for ms"

fun durations :: "measurement list \<Rightarrow> duration list" where
  "durations [] = []"
| "durations (ExchangeDuration d # ms) = durations ms @ [d]"
| "durations (m # ms) = durations ms"

lemma outcomes_append [simp]: "outcomes (ms @ ns) = outcomes ns @ outcomes ms"
  by (induction ms rule: outcomes.induct) simp_all

lemma issued_append [simp]: "issued_for (ms @ ns) = issued_for ns @ issued_for ms"
  by (induction ms rule: issued_for.induct) simp_all

lemma durations_append [simp]: "durations (ms @ ns) = durations ns @ durations ms"
  by (induction ms rule: durations.induct) simp_all

text \<open>The label of a response, and the repository that it opens.\<close>

definition response_label :: "http_response \<Rightarrow> string" where
  "response_label p = (case hp_body p of ErrorBody e \<Rightarrow> map ascii_lower (er_code e) | _ \<Rightarrow> ''ok'')"

fun opened :: "'s handler_call \<Rightarrow> http_response \<Rightarrow> string list" where
  "opened c p =
     (case (hc_input c, hp_body p) of
        (Some body, TokenBody t) \<Rightarrow> [xq_target_repository body]
      | _ \<Rightarrow> [])"

text \<open>An exchanger that does not panic and whose codes are no \<open>ok\<close> in lower case.\<close>

definition plain_codes :: "'s exchanger \<Rightarrow> bool" where
  "plain_codes service \<longleftrightarrow>
     (\<forall>i body s. case fst (service i body s) of
        None \<Rightarrow> False
      | Some (Inl (AnExchangeError e)) \<Rightarrow> 2 < length (xe_code e)
      | _ \<Rightarrow> True)"

lemma label_length: "2 < length code \<Longrightarrow> map ascii_lower code \<noteq> ''ok''"
  by (auto dest: arg_cong [of _ _ length])

lemma handler_measured:
  assumes "plain_codes (hc_service c)"
    and "ExchangeHandler_Exchange (hc_service c) (hc_input c) (hc_request c) (hc_headers c) s = (out, s')"
  obtains p where "ho_response out = Some p"
    "outcomes (handler_measurements d (hc_input c) out) = [response_label p]"
    "durations (handler_measurements d (hc_input c) out) = [d]"
    "issued_for (handler_measurements d (hc_input c) out) = opened c p"
    "response_label p = ''ok'' \<longleftrightarrow> hp_status p = 200"
proof (cases "hc_input c")
  case None
  with assms(2) show ?thesis
    by (intro that) (auto simp: ExchangeHandler_Exchange_def errored_def writeError_def handler_measurements_def
        response_label_def Let_def httpStatusCode_def sts_codes ascii_lower_def)
next
  case (Some body)
  obtain r t where r: "hc_service c (hq_request_id (hc_request c)) body s = (r, t)" by fastforce
  have "httpStatusCode k \<noteq> 200" for k using httpStatusCode_values [of k] by auto
  moreover have "map ascii_lower ErrInternalError \<noteq> ''ok''" by (simp add: label_length sts_codes)
  moreover have "case r of None \<Rightarrow> False | Some (Inl (AnExchangeError e)) \<Rightarrow> 2 < length (xe_code e) | _ \<Rightarrow> True"
    using assms(1) r unfolding plain_codes_def by (metis fst_conv)
  ultimately show ?thesis
    using assms(2) Some r
    by (intro that [of "the (ho_response out)"])
      (auto simp: ExchangeHandler_Exchange_def errored_def writeError_def handler_measurements_def
        response_label_def Let_def label_length split: option.splits sum.splits exchanger_error.splits)
qed

text \<open>The measurements of any sequence of calls agree with the responses, call by call.\<close>

lemma calls_measured:
  assumes "\<forall>c\<in>set cs. plain_codes (hc_service c)" and "handle_calls cs s = (ps, ms, s')"
  shows "\<exists>qs. ps = map Some qs \<and> outcomes ms = map response_label qs \<and> durations ms = map hc_elapsed cs \<and>
    issued_for ms = concat (map2 opened cs qs) \<and> (\<forall>q\<in>set qs. response_label q = ''ok'' \<longleftrightarrow> hp_status q = 200)"
  using assms
proof (induction cs arbitrary: s ps ms)
  case (Cons c cs)
  obtain out s1 where out: "ExchangeHandler_Exchange (hc_service c) (hc_input c) (hc_request c) (hc_headers c) s = (out, s1)"
    by fastforce
  obtain ps1 ms1 where rest: "handle_calls cs s1 = (ps1, ms1, s')"
    and ps: "ps = ho_response out # ps1" "ms = ms1 @ handler_measurements (hc_elapsed c) (hc_input c) out"
    using Cons.prems(2) by (auto simp: out split: prod.splits)
  from Cons.prems(1) have plain: "plain_codes (hc_service c)" by simp
  obtain p where p: "ho_response out = Some p"
    "outcomes (handler_measurements (hc_elapsed c) (hc_input c) out) = [response_label p]"
    "durations (handler_measurements (hc_elapsed c) (hc_input c) out) = [hc_elapsed c]"
    "issued_for (handler_measurements (hc_elapsed c) (hc_input c) out) = opened c p"
    "response_label p = ''ok'' \<longleftrightarrow> hp_status p = 200"
    using handler_measured [OF plain out] by metis
  from Cons.IH [OF _ rest] Cons.prems(1) obtain qs where qs: "ps1 = map Some qs" "outcomes ms1 = map response_label qs"
      "durations ms1 = map hc_elapsed cs" "issued_for ms1 = concat (map2 opened cs qs)"
      "\<forall>q\<in>set qs. response_label q = ''ok'' \<longleftrightarrow> hp_status q = 200"
    by auto
  show ?case
  proof (intro exI conjI)
    show "ps = map Some (p # qs)" by (simp add: ps p(1) qs(1))
  qed (use p qs in \<open>simp_all add: ps del: opened.simps\<close>)
qed simp

section \<open>The service's exchanger\<close>

lemma exchange_error_code:
  assumes "exchange env sv rd i req st = (Some (Inl e), st')"
  shows "2 < length (xe_code e)"
proof -
  obtain spans lines where "exchange_emits env sv rd i req st = (spans, lines)" by fastforce
  from exchange_trace [OF assms this] have "failure_told spans e" by (simp add: trace_told_def)
  moreover have "2 < length (code_string k)" for k by (cases k) simp_all
  ultimately show ?thesis
    by (auto simp: failure_told_def sts_codes split: list.splits option.splits if_splits)
qed

lemma Service_Exchange_plain: "plain_codes (Service_Exchange env sv rd)"
  unfolding plain_codes_def
proof (intro allI)
  fix i body s
  show "case fst (Service_Exchange env sv rd i body s) of None \<Rightarrow> False
      | Some (Inl (AnExchangeError e)) \<Rightarrow> 2 < length (xe_code e) | _ \<Rightarrow> True"
    by (cases rule: Service_Exchange_cases [of env sv rd i body s]) (auto dest: exchange_error_code)
qed

text \<open>The caller is the one of the verified token, and empty when there is none.\<close>

definition verified_caller ::
  "('p, 'w, 'a) exchange_env \<Rightarrow> ('s, 'g) service \<Rightarrow> exchange_request
     \<Rightarrow> ('p, 'w, 's, 'g, 'a) service_state \<Rightarrow> string \<times> string" where
  "verified_caller env sv req st =
     (if validateRequest (sv_max_ttl sv) req = None
      then (case fst (Validator_Validate (ee_oidc env) (sv_oidc sv) (xq_oidc_token req) (ss_oidc st)) of
              Inl err \<Rightarrow> ([], [])
            | Inr c \<Rightarrow> (oc_issuer c, oc_subject c))
      else ([], []))"

lemma exchange_caller:
  assumes "exchange env sv rd i req st = (Some r, st')"
  shows "(case r of Inl e \<Rightarrow> (xe_issuer e, xe_subject e) | Inr resp \<Rightarrow> (xp_issuer resp, xp_subject resp)) =
    verified_caller env sv req st"
proof (cases rule: exchange_cases [of sv req env rd i st])
  case (passed c os' result au)
  show ?thesis
  proof (cases rule: exchange_mint_cases [of sv rd req "st\<lparr>ss_oidc := os', ss_auth := au\<rparr>" env i c result])
    case (minted a s client tr g)
    with passed assms show ?thesis
      by (auto simp: verified_caller_def exchange_finish_def Let_def split: prod.splits option.splits)
  qed (use passed assms in \<open>auto simp: verified_caller_def\<close>)
qed (use assms in \<open>auto simp: verified_caller_def\<close>)

lemma caller_measured:
  assumes "ExchangeHandler_Exchange (Service_Exchange env sv rd) (Some body) r hdrs s = (out, s')"
  shows "(ho_issuer out, ho_subject out) = verified_caller env sv body (fst s)"
proof (cases rule: Service_Exchange_cases [of env sv rd "hq_request_id r" body s])
  case (granted resp st)
  with exchange_caller [OF granted(1)] assms show ?thesis by (auto simp: ExchangeHandler_Exchange_def)
next
  case (refused e st)
  with exchange_caller [OF refused(1)] assms show ?thesis by (auto simp: ExchangeHandler_Exchange_def errored_def)
qed

text \<open>The span of the handler has failed exactly when the answer is not a token.\<close>

lemma handler_span_failed:
  assumes "ExchangeHandler_Exchange service input r hdrs s = (out, s')" and "ho_response out = Some p"
    and "answer = (case input of None \<Rightarrow> None | Some body \<Rightarrow> fst (service (hq_request_id r) body s))"
  shows "sn_status (handler_span panicked input answer) = None \<longleftrightarrow> hp_status p = 200"
    and "handler_lines panicked input answer = []"
proof -
  have not200: "httpStatusCode k \<noteq> 200" for k using httpStatusCode_values [of k] by auto
  show "sn_status (handler_span panicked input answer) = None \<longleftrightarrow> hp_status p = 200"
    using assms by (auto simp: ExchangeHandler_Exchange_def handler_span_def span_defs errored_def writeError_def Let_def not200
        split: option.splits prod.splits sum.splits exchanger_error.splits)
  show "handler_lines panicked input answer = []"
    using assms by (auto simp: ExchangeHandler_Exchange_def handler_lines_def
        split: option.splits prod.splits sum.splits exchanger_error.splits)
qed

end
