(* ===== verification/Logging.thy ===== *)
theory Logging
  imports App_Config
begin

text \<open>
  Logging: the handlers of \<^verbatim>\<open>internal/logger/slogext\<close>, the global logger (\<^verbatim>\<open>internal/logger/logger.go\<close>) and
  the adapter for GORM (\<^verbatim>\<open>internal/logger/gorm.go\<close>). The interface \<^verbatim>\<open>slog.Handler\<close> is a record of
  operations on leaf handlers with the laws of the locale \<open>log_handler\<close>; the handlers of the program
  are trees over such leaves. The text of a line is not rendered, its attributes are kept.
\<close>

section \<open>Levels and records\<close>

text \<open>\<^verbatim>\<open>slog.Level\<close> is an integer.\<close>

definition SlogDebug :: int where "SlogDebug = - 4"
definition SlogInfo :: int where "SlogInfo = 0"
definition SlogWarn :: int where "SlogWarn = 4"
definition SlogError :: int where "SlogError = 8"

definition GetSlogLevel :: "string \<Rightarrow> int" where
  "GetSlogLevel level =
     (if level = ''debug'' then SlogDebug
      else if level = LogLevelInfo then SlogInfo
      else if level = ''warn'' then SlogWarn
      else if level = ''error'' then SlogError
      else SlogInfo)"

datatype attr_value = LString string | LText gotext | LDuration duration | LInt int | LBool bool

text \<open>The key of an attribute with the groups that qualify it, outermost first.\<close>

type_synonym log_attr = "string list \<times> attr_value"

record log_record =
  lr_level :: int
  lr_message :: gotext
  lr_attrs :: "log_attr list"

definition attr :: "string \<Rightarrow> attr_value \<Rightarrow> log_attr" where
  "attr key v = ([key], v)"

definition in_group :: "string \<Rightarrow> log_attr \<Rightarrow> log_attr" where
  "in_group name a = (name # fst a, snd a)"

text \<open>The OpenTelemetry span of a context, when it carries one that is valid.\<close>

type_synonym log_context = "(string \<times> string) option"

section \<open>Handlers\<close>

text \<open>The interface \<^verbatim>\<open>slog.Handler\<close>; a handler may fail and writes to the world \<open>'w\<close>.\<close>

record ('l, 'w) leaf_ops =
  lo_enabled :: "'l \<Rightarrow> log_context \<Rightarrow> int \<Rightarrow> bool"
  lo_handle :: "'l \<Rightarrow> log_context \<Rightarrow> log_record \<Rightarrow> 'w \<Rightarrow> gotext option \<times> 'w"
  lo_with_attrs :: "log_attr list \<Rightarrow> 'l \<Rightarrow> 'l"
  lo_with_group :: "string \<Rightarrow> 'l \<Rightarrow> 'l"

datatype 'l log_tree = Leaf 'l | TraceHandler "'l log_tree" | FanoutHandler "'l log_tree list"

text \<open>\<^verbatim>\<open>errors.Join\<close>: nothing without errors.\<close>

datatype log_error = LeafError gotext | JoinError "log_error list"

definition errors_Join :: "log_error list \<Rightarrow> log_error option" where
  "errors_Join errs = (if errs = [] then None else Some (JoinError errs))"

fun Enabled :: "('l, 'w) leaf_ops \<Rightarrow> 'l log_tree \<Rightarrow> log_context \<Rightarrow> int \<Rightarrow> bool" where
  "Enabled ops (Leaf l) c level \<longleftrightarrow> lo_enabled ops l c level"
| "Enabled ops (TraceHandler h) c level \<longleftrightarrow> Enabled ops h c level"
| "Enabled ops (FanoutHandler children) c level \<longleftrightarrow> (\<exists>h\<in>set children. Enabled ops h c level)"

definition enrich :: "log_context \<Rightarrow> log_record \<Rightarrow> log_record" where
  "enrich c r =
     (case c of
        None \<Rightarrow> r
      | Some (trace_id, span_id) \<Rightarrow>
          r\<lparr>lr_attrs := lr_attrs r @ [attr ''trace_id'' (LString trace_id), attr ''span_id'' (LString span_id)]\<rparr>)"

text \<open>Each child of a fanout gets the record it was given: the source hands it a clone.\<close>

fun Handle ::
  "('l, 'w) leaf_ops \<Rightarrow> 'l log_tree \<Rightarrow> log_context \<Rightarrow> log_record \<Rightarrow> 'w \<Rightarrow> log_error option \<times> 'w"
and fanout ::
  "('l, 'w) leaf_ops \<Rightarrow> 'l log_tree list \<Rightarrow> log_context \<Rightarrow> log_record \<Rightarrow> 'w \<Rightarrow> log_error list \<times> 'w" where
  "Handle ops (Leaf l) c r w =
     (case lo_handle ops l c r w of (err, w') \<Rightarrow> (map_option LeafError err, w'))"
| "Handle ops (TraceHandler h) c r w = Handle ops h c (enrich c r) w"
| "Handle ops (FanoutHandler children) c r w =
     (case fanout ops children c r w of (errs, w') \<Rightarrow> (errors_Join errs, w'))"
| "fanout ops [] c r w = ([], w)"
| "fanout ops (h # hs) c r w =
     (if \<not> Enabled ops h c (lr_level r) then fanout ops hs c r w
      else case Handle ops h c r w of (err, w1) \<Rightarrow>
           case fanout ops hs c r w1 of (errs, w2) \<Rightarrow>
             ((case err of None \<Rightarrow> errs | Some e \<Rightarrow> e # errs), w2))"

fun WithAttrs :: "('l, 'w) leaf_ops \<Rightarrow> log_attr list \<Rightarrow> 'l log_tree \<Rightarrow> 'l log_tree" where
  "WithAttrs ops attrs (Leaf l) = Leaf (lo_with_attrs ops attrs l)"
| "WithAttrs ops attrs (TraceHandler h) = TraceHandler (WithAttrs ops attrs h)"
| "WithAttrs ops attrs (FanoutHandler children) = FanoutHandler (map (WithAttrs ops attrs) children)"

fun WithGroup :: "('l, 'w) leaf_ops \<Rightarrow> string \<Rightarrow> 'l log_tree \<Rightarrow> 'l log_tree" where
  "WithGroup ops name (Leaf l) = Leaf (lo_with_group ops name l)"
| "WithGroup ops name (TraceHandler h) = TraceHandler (WithGroup ops name h)"
| "WithGroup ops name (FanoutHandler children) = FanoutHandler (map (WithGroup ops name) children)"

text \<open>What a \<^verbatim>\<open>slog.Logger\<close> does with a record: the handler is asked first, its error is dropped.\<close>

definition slog_log :: "('l, 'w) leaf_ops \<Rightarrow> 'l log_tree \<Rightarrow> log_context \<Rightarrow> log_record \<Rightarrow> 'w \<Rightarrow> 'w" where
  "slog_log ops h c r w = (if Enabled ops h c (lr_level r) then snd (Handle ops h c r w) else w)"

section \<open>A tree of handlers is its leaves\<close>

text \<open>The leaves from left to right, each with the number of trace handlers above it.\<close>

fun leaves :: "'l log_tree \<Rightarrow> (nat \<times> 'l) list" where
  "leaves (Leaf l) = [(0, l)]"
| "leaves (TraceHandler h) = map (map_prod Suc id) (leaves h)"
| "leaves (FanoutHandler children) = concat (map leaves children)"

fun deliver ::
  "('l, 'w) leaf_ops \<Rightarrow> (nat \<times> 'l) list \<Rightarrow> log_context \<Rightarrow> log_record \<Rightarrow> 'w \<Rightarrow> gotext list \<times> 'w" where
  "deliver ops [] c r w = ([], w)"
| "deliver ops ((n, l) # ls) c r w =
     (if \<not> lo_enabled ops l c (lr_level r) then deliver ops ls c r w
      else case lo_handle ops l c ((enrich c ^^ n) r) w of (err, w1) \<Rightarrow>
           case deliver ops ls c r w1 of (errs, w2) \<Rightarrow>
             ((case err of None \<Rightarrow> errs | Some e \<Rightarrow> e # errs), w2))"

fun error_list :: "log_error \<Rightarrow> gotext list" where
  "error_list (LeafError e) = [e]"
| "error_list (JoinError es) = concat (map error_list es)"

definition failures :: "log_error option \<Rightarrow> gotext list" where
  "failures err = (case err of None \<Rightarrow> [] | Some e \<Rightarrow> error_list e)"

lemma failures_simps [simp]:
  "failures None = []" "failures (Some e) = error_list e"
  "failures (map_option LeafError err) = (case err of None \<Rightarrow> [] | Some e \<Rightarrow> [e])"
  "failures (errors_Join errs) = concat (map error_list errs)"
  by (simp_all add: failures_def errors_Join_def split: option.split)

lemma enrich_level [simp]: "lr_level (enrich c r) = lr_level r"
  by (simp add: enrich_def split: option.split)

lemma enrich_funpow_level [simp]: "lr_level ((enrich c ^^ n) r) = lr_level r"
  by (induction n) simp_all

lemma deliver_append:
  "deliver ops (xs @ ys) c r w =
     (case deliver ops xs c r w of (es, w1) \<Rightarrow> case deliver ops ys c r w1 of (fs, w2) \<Rightarrow> (es @ fs, w2))"
  by (induction ops xs c r w rule: deliver.induct) (simp_all split: prod.split option.split)

lemma deliver_enriched:
  "deliver ops (map (map_prod Suc id) ls) c r w = deliver ops ls c (enrich c r) w"
proof (induction ls arbitrary: w)
  case (Cons x ls)
  then show ?case by (cases x) (simp add: funpow_swap1 split: prod.split)
qed simp

lemma Enabled_leaves: "Enabled ops h c level \<longleftrightarrow> (\<exists>(n, l)\<in>set (leaves h). lo_enabled ops l c level)"
  by (induction h) force+

lemma deliver_disabled:
  "\<forall>(n, l)\<in>set ls. \<not> lo_enabled ops l c (lr_level r) \<Longrightarrow> deliver ops ls c r w = ([], w)"
  by (induction ops ls c r w rule: deliver.induct) auto

text \<open>
  Handling a record that the tree accepts hands it to exactly the leaves that are enabled, in order,
  with the trace ids added by the handlers above them, and collects exactly their failures.
\<close>

lemma Handle_leaves:
  "Enabled ops h c (lr_level r) \<Longrightarrow>
     map_prod failures id (Handle ops h c r w) = deliver ops (leaves h) c r w"
  "map_prod (\<lambda>errs. concat (map error_list errs)) id (fanout ops hs c r w) =
     deliver ops (concat (map leaves hs)) c r w"
proof (induction ops h c r w and ops hs c r w rule: Handle_fanout.induct)
  case (2 ops h c r w)
  then show ?case by (simp add: deliver_enriched)
next
  case (5 ops h hs c r w)
  show ?case
  proof (cases "Enabled ops h c (lr_level r)")
    case True
    obtain err w1 where h: "Handle ops h c r w = (err, w1)" by fastforce
    obtain errs w2 where hs: "fanout ops hs c r w1 = (errs, w2)" by fastforce
    from 5(2) True h have "deliver ops (leaves h) c r w = (failures err, w1)"
      by simp
    moreover from 5(3) [OF _ h [symmetric]] hs True
    have "deliver ops (concat (map leaves hs)) c r w1 = (concat (map error_list errs), w2)" by simp
    ultimately show ?thesis using True by (simp add: h hs deliver_append split: option.split)
  next
    case False
    then have "deliver ops (leaves h) c r w = ([], w)"
      by (intro deliver_disabled) (auto simp: Enabled_leaves)
    with 5(1) False show ?thesis by (simp add: deliver_append split: prod.split)
  qed
qed (auto split: prod.splits option.splits)

lemma slog_log_leaves: "slog_log ops h c r w = snd (deliver ops (leaves h) c r w)"
proof (cases "Enabled ops h c (lr_level r)")
  case True
  from Handle_leaves(1) [OF True, of w] True show ?thesis
    by (metis slog_log_def snd_map_prod id_apply)
next
  case False
  then have "deliver ops (leaves h) c r w = ([], w)"
    by (intro deliver_disabled) (auto simp: Enabled_leaves)
  with False show ?thesis by (simp add: slog_log_def)
qed

section \<open>The contract of a handler\<close>

text \<open>
  What \<^verbatim>\<open>log/slog\<close> asks of a handler: attributes attached to it are the first of every record, and
  neither they nor a group change what is enabled. \<open>named\<close> is the group that qualifies the keys.
\<close>

definition preset :: "log_attr list \<Rightarrow> log_record \<Rightarrow> log_record" where
  "preset attrs r = r\<lparr>lr_attrs := attrs @ lr_attrs r\<rparr>"

definition grouped :: "string \<Rightarrow> log_record \<Rightarrow> log_record" where
  "grouped name r = r\<lparr>lr_attrs := map (in_group name) (lr_attrs r)\<rparr>"

lemma preset_level: "lr_level (preset attrs r) = lr_level r"
  by (simp add: preset_def)

locale slog_handler =
  fixes enabled :: "'h \<Rightarrow> log_context \<Rightarrow> int \<Rightarrow> bool"
    and handle :: "'h \<Rightarrow> log_context \<Rightarrow> log_record \<Rightarrow> 'w \<Rightarrow> 'e option \<times> 'w"
    and with_attrs :: "log_attr list \<Rightarrow> 'h \<Rightarrow> 'h"
    and with_group :: "string \<Rightarrow> 'h \<Rightarrow> 'h"
  assumes enabled_with_attrs: "enabled (with_attrs attrs h) c level \<longleftrightarrow> enabled h c level"
    and enabled_with_group: "enabled (with_group name h) c level \<longleftrightarrow> enabled h c level"
    and handle_with_attrs: "handle (with_attrs attrs h) c r w = handle h c (preset attrs r) w"
begin

text \<open>A logger with attributes logs what the logger without them would log with those attributes.\<close>

lemma logged_with_attrs:
  "(if enabled (with_attrs attrs h) c (lr_level r) then snd (handle (with_attrs attrs h) c r w) else w) =
   (if enabled h c (lr_level (preset attrs r)) then snd (handle h c (preset attrs r) w) else w)"
  by (simp add: enabled_with_attrs handle_with_attrs preset_def)

lemma with_attrs_twice:
  "handle (with_attrs attrs (with_attrs attrs' h)) c r w = handle (with_attrs (attrs' @ attrs) h) c r w"
  by (simp add: handle_with_attrs preset_def)

end

locale leaf_handler =
  slog_handler "lo_enabled ops" "lo_handle ops" "lo_with_attrs ops" "lo_with_group ops"
  for ops :: "('l, 'w) leaf_ops" +
  assumes handle_with_group: "name \<noteq> [] \<Longrightarrow> lo_handle ops (lo_with_group ops name l) c r w = lo_handle ops l c (grouped name r) w"
begin

lemma tree_enabled:
  "Enabled ops (WithAttrs ops attrs h) c level \<longleftrightarrow> Enabled ops h c level"
  "Enabled ops (WithGroup ops name h) c level \<longleftrightarrow> Enabled ops h c level"
  by (induction h) (simp_all add: enabled_with_attrs enabled_with_group)

lemma enrich_preset: "enrich c (preset attrs r) = preset attrs (enrich c r)"
  by (simp add: enrich_def preset_def split: option.split)

lemma fanout_with_attrs:
  assumes "\<And>h c r w. h \<in> set hs \<Longrightarrow> Handle ops (WithAttrs ops attrs h) c r w = Handle ops h c (preset attrs r) w"
  shows "fanout ops (map (WithAttrs ops attrs) hs) c r w = fanout ops hs c (preset attrs r) w"
  using assms by (induction hs arbitrary: w) (simp_all add: tree_enabled preset_level split: prod.split)

lemma tree_with_attrs: "Handle ops (WithAttrs ops attrs h) c r w = Handle ops h c (preset attrs r) w"
  by (induction h arbitrary: c r w) (simp_all add: handle_with_attrs enrich_preset fanout_with_attrs)

text \<open>
  A group opened below a trace handler qualifies the trace ids as well: for a valid span the record is
  not the one that the same group would make of the enriched record of an ungrouped handler.
\<close>

lemma trace_ids_grouped:
  assumes "name \<noteq> []"
  shows "Handle ops (WithGroup ops name (TraceHandler (Leaf l))) c r w =
    Handle ops (Leaf l) c (grouped name (enrich c r)) w"
  using assms by (simp add: handle_with_group)

end

text \<open>A tree over leaves that keep the contract keeps it.\<close>

sublocale leaf_handler \<subseteq> tree: slog_handler "Enabled ops" "Handle ops" "WithAttrs ops" "WithGroup ops"
  by unfold_locales (simp_all add: tree_enabled tree_with_attrs)

section \<open>The handlers of the global logger\<close>

text \<open>
  The JSON and text handlers of \<^verbatim>\<open>log/slog\<close> write a line per record to the standard output, which may be
  broken. The bridge to OpenTelemetry is a library.
\<close>

record stdout_handler =
  sh_format :: string
  sh_level :: int
  sh_groups :: "string list"
  sh_attrs :: "log_attr list"

record written_line =
  ln_format :: string
  ln_level :: int
  ln_message :: gotext
  ln_attrs :: "log_attr list"

record log_output =
  ou_lines :: "written_line list"
  ou_broken :: "gotext option"

definition qualify :: "string list \<Rightarrow> log_attr \<Rightarrow> log_attr" where
  "qualify groups a = (groups @ fst a, snd a)"

definition stdout_line :: "stdout_handler \<Rightarrow> log_record \<Rightarrow> written_line" where
  "stdout_line h r =
     \<lparr>ln_format = sh_format h, ln_level = lr_level r, ln_message = lr_message r,
      ln_attrs = sh_attrs h @ map (qualify (sh_groups h)) (lr_attrs r)\<rparr>"

definition stdout_ops :: "(stdout_handler, log_output) leaf_ops" where
  "stdout_ops =
     \<lparr>lo_enabled = (\<lambda>h c level. sh_level h \<le> level),
      lo_handle = (\<lambda>h c r w. case ou_broken w of
          Some err \<Rightarrow> (Some err, w)
        | None \<Rightarrow> (None, w\<lparr>ou_lines := ou_lines w @ [stdout_line h r]\<rparr>)),
      lo_with_attrs = (\<lambda>attrs h. h\<lparr>sh_attrs := sh_attrs h @ map (qualify (sh_groups h)) attrs\<rparr>),
      lo_with_group = (\<lambda>name h. if name = [] then h else h\<lparr>sh_groups := sh_groups h @ [name]\<rparr>)\<rparr>"

interpretation stdout: leaf_handler stdout_ops
  by unfold_locales
    (simp_all add: stdout_ops_def stdout_line_def preset_def grouped_def qualify_def in_group_def comp_def
      split: option.split)

datatype 'b log_leaf = Stdout stdout_handler | Bridge 'b

definition gate_ops :: "('b, 'w) leaf_ops \<Rightarrow> ('b log_leaf, log_output \<times> 'w) leaf_ops" where
  "gate_ops bridge =
     \<lparr>lo_enabled = (\<lambda>l. case l of Stdout h \<Rightarrow> lo_enabled stdout_ops h | Bridge b \<Rightarrow> lo_enabled bridge b),
      lo_handle = (\<lambda>l c r w. case l of
          Stdout h \<Rightarrow> (case lo_handle stdout_ops h c r (fst w) of (err, out) \<Rightarrow> (err, (out, snd w)))
        | Bridge b \<Rightarrow> (case lo_handle bridge b c r (snd w) of (err, b') \<Rightarrow> (err, (fst w, b')))),
      lo_with_attrs = (\<lambda>attrs l. case l of
          Stdout h \<Rightarrow> Stdout (lo_with_attrs stdout_ops attrs h)
        | Bridge b \<Rightarrow> Bridge (lo_with_attrs bridge attrs b)),
      lo_with_group = (\<lambda>name l. case l of
          Stdout h \<Rightarrow> Stdout (lo_with_group stdout_ops name h)
        | Bridge b \<Rightarrow> Bridge (lo_with_group bridge name b))\<rparr>"

text \<open>A bridge that keeps the contract makes the whole logger keep it.\<close>

lemma gate_ops_handler:
  assumes "leaf_handler bridge"
  shows "leaf_handler (gate_ops bridge)"
proof -
  note bridge = leaf_handler.axioms(1) [OF assms]
  note laws = slog_handler.enabled_with_attrs [OF bridge] slog_handler.enabled_with_group [OF bridge]
    slog_handler.handle_with_attrs [OF bridge] leaf_handler.handle_with_group [OF assms]
  show ?thesis
    by unfold_locales (simp_all add: gate_ops_def laws stdout.enabled_with_attrs stdout.enabled_with_group
        stdout.handle_with_attrs stdout.handle_with_group split: log_leaf.split)
qed

definition ProgramIdentifier :: string where "ProgramIdentifier = ''gate''"

definition NewStdoutHandler :: "string \<Rightarrow> int \<Rightarrow> stdout_handler" where
  "NewStdoutHandler format level = \<lparr>sh_format = format, sh_level = level, sh_groups = [], sh_attrs = []\<rparr>"

definition global_handler :: "(string \<Rightarrow> 'b) \<Rightarrow> string \<Rightarrow> string \<Rightarrow> bool \<Rightarrow> 'b log_leaf log_tree" where
  "global_handler new_bridge level format otelEnabled =
     (let stdoutHandler = Leaf (Stdout (NewStdoutHandler
            (if format = LogFormatJSON then LogFormatJSON else ''text'') (GetSlogLevel level)))
      in if otelEnabled
         then FanoutHandler [TraceHandler stdoutHandler, Leaf (Bridge (new_bridge ProgramIdentifier))]
         else stdoutHandler)"

text \<open>The new default logger reports itself.\<close>

definition SetGlobalLogger ::
  "('b, 'w) leaf_ops \<Rightarrow> (string \<Rightarrow> 'b) \<Rightarrow> string \<Rightarrow> string \<Rightarrow> bool \<Rightarrow> log_output \<times> 'w
     \<Rightarrow> 'b log_leaf log_tree \<times> log_output \<times> 'w" where
  "SetGlobalLogger bridge new_bridge level format otelEnabled w =
     (let handler = global_handler new_bridge level format otelEnabled
      in (handler, slog_log (gate_ops bridge) handler None
           \<lparr>lr_level = SlogDebug, lr_message = msg ''Global slog logger configured'',
            lr_attrs = [attr ''level'' (LString level), attr ''format'' (LString format),
                        attr ''otel_fanout'' (LBool otelEnabled)]\<rparr> w))"

definition InitDefaultLevel ::
  "('b, 'w) leaf_ops \<Rightarrow> (string \<Rightarrow> 'b) \<Rightarrow> log_output \<times> 'w \<Rightarrow> 'b log_leaf log_tree \<times> log_output \<times> 'w" where
  "InitDefaultLevel bridge new_bridge = SetGlobalLogger bridge new_bridge LogLevelInfo LogFormatJSON False"

section \<open>The logger of GORM\<close>

text \<open>\<^verbatim>\<open>gormlogger.LogLevel\<close>, from silent to info.\<close>

definition Gorm_Silent :: int where "Gorm_Silent = 1"
definition Gorm_Error :: int where "Gorm_Error = 2"
definition Gorm_Warn :: int where "Gorm_Warn = 3"
definition Gorm_Info :: int where "Gorm_Info = 4"

definition defaultSlowThreshold :: duration where "defaultSlowThreshold = 200 * 1000000"

record gorm_logger =
  gl_level :: int
  gl_slow_threshold :: duration
  gl_ignore_not_found :: bool

type_synonym gorm_option = "gorm_logger \<Rightarrow> gorm_logger"

definition WithSlowThreshold :: "duration \<Rightarrow> gorm_option" where
  "WithSlowThreshold d l = l\<lparr>gl_slow_threshold := d\<rparr>"

definition WithIgnoreRecordNotFoundError :: gorm_option where
  "WithIgnoreRecordNotFoundError l = l\<lparr>gl_ignore_not_found := True\<rparr>"

definition NewGormLogger :: "gorm_option list \<Rightarrow> gorm_logger" where
  "NewGormLogger opts =
     foldl (\<lambda>l opt. opt l)
       \<lparr>gl_level = Gorm_Warn, gl_slow_threshold = defaultSlowThreshold, gl_ignore_not_found = False\<rparr> opts"

definition LogMode :: "gorm_logger \<Rightarrow> int \<Rightarrow> gorm_logger" where
  "LogMode g level = g\<lparr>gl_level := level\<rparr>"

text \<open>The record that a call hands to the default logger, if any.\<close>

definition Gorm_message :: "int \<Rightarrow> int \<Rightarrow> gorm_logger \<Rightarrow> string \<Rightarrow> arg list \<Rightarrow> log_record option" where
  "Gorm_message threshold level g text args =
     (if gl_level g \<ge> threshold
      then Some \<lparr>lr_level = level, lr_message = Sprintf text args, lr_attrs = []\<rparr> else None)"

definition GormLogger_Info :: "gorm_logger \<Rightarrow> string \<Rightarrow> arg list \<Rightarrow> log_record option" where
  "GormLogger_Info = Gorm_message Gorm_Info SlogInfo"

definition GormLogger_Warn :: "gorm_logger \<Rightarrow> string \<Rightarrow> arg list \<Rightarrow> log_record option" where
  "GormLogger_Warn = Gorm_message Gorm_Warn SlogWarn"

definition GormLogger_Error :: "gorm_logger \<Rightarrow> string \<Rightarrow> arg list \<Rightarrow> log_record option" where
  "GormLogger_Error = Gorm_message Gorm_Error SlogError"

text \<open>An error of GORM: whether it is \<^verbatim>\<open>ErrRecordNotFound\<close>, and its text.\<close>

type_synonym gorm_error = "bool \<times> gotext"

definition GormLogger_Trace ::
  "gorm_logger \<Rightarrow> duration \<Rightarrow> string \<times> int \<Rightarrow> gorm_error option \<Rightarrow> log_record option" where
  "GormLogger_Trace g elapsed fc err =
     (if gl_level g \<le> Gorm_Silent then None
      else (case fc of (sql, rows) \<Rightarrow>
        let attrs = [attr ''latency'' (LDuration elapsed), attr ''rows'' (LInt rows), attr ''sql'' (LString sql)]
        in if err \<noteq> None \<and> (\<not> fst (the err) \<or> \<not> gl_ignore_not_found g)
           then Some \<lparr>lr_level = SlogError, lr_message = msg ''query error'',
                      lr_attrs = attrs @ [attr ''error'' (LText (snd (the err)))]\<rparr>
           else if gl_slow_threshold g > 0 \<and> elapsed > gl_slow_threshold g
           then Some \<lparr>lr_level = SlogWarn, lr_message = msg ''slow query'',
                      lr_attrs = attrs @ [attr ''threshold'' (LDuration (gl_slow_threshold g))]\<rparr>
           else if gl_level g \<ge> Gorm_Info
           then Some \<lparr>lr_level = SlogDebug, lr_message = msg ''query'', lr_attrs = attrs\<rparr>
           else None))"

lemmas gorm_levels = Gorm_Silent_def Gorm_Error_def Gorm_Warn_def Gorm_Info_def
lemmas slog_levels = SlogDebug_def SlogInfo_def SlogWarn_def SlogError_def

text \<open>
  What a statement leaves in the log. The logger of the service ignores missing records: it reports
  exactly the other errors, then the statements slower than 200 ms, and nothing else.
\<close>

lemma service_trace:
  "map_option lr_level (GormLogger_Trace (NewGormLogger [WithIgnoreRecordNotFoundError]) elapsed fc err) =
     (if \<exists>e. err = Some (False, e) then Some SlogError
      else if 200000000 < elapsed then Some SlogWarn else None)"
  by (cases err; cases fc) (auto simp: GormLogger_Trace_def NewGormLogger_def WithIgnoreRecordNotFoundError_def
      gorm_levels defaultSlowThreshold_def Let_def)

text \<open>
  \<^verbatim>\<open>LogMode\<close> restricts \<^verbatim>\<open>Warn\<close> but not the slow queries of \<^verbatim>\<open>Trace\<close>: at level error the first is dropped, the
  second is still written as a warning.
\<close>

lemma slow_query_at_error_level:
  assumes "0 < gl_slow_threshold g" and "gl_slow_threshold g < elapsed"
  shows "GormLogger_Warn (LogMode g Gorm_Error) text args = None"
    and "map_option lr_level (GormLogger_Trace (LogMode g Gorm_Error) elapsed fc None) = Some SlogWarn"
  using assms by (simp_all add: GormLogger_Warn_def Gorm_message_def GormLogger_Trace_def LogMode_def gorm_levels
      Let_def split: prod.split)

lemma LogMode_last: "LogMode (LogMode g l) l' = LogMode g l'"
  by (simp add: LogMode_def)

text \<open>A query is never logged at a level that a message of the same severity would not reach, slow ones apart.\<close>

lemma trace_levels:
  assumes "GormLogger_Trace g elapsed fc err = Some r"
  shows "lr_level r = SlogError \<and> Gorm_Error \<le> gl_level g \<or>
    lr_level r = SlogWarn \<and> gl_slow_threshold g < elapsed \<or> lr_level r = SlogDebug \<and> Gorm_Info \<le> gl_level g"
  using assms by (auto simp: GormLogger_Trace_def gorm_levels Let_def split: if_splits prod.splits)

section \<open>Properties\<close>

text \<open>C21: A tree of handlers is its leaves. However trace handlers and fanouts are nested, logging a record
  hands it to exactly the leaves that are enabled for its level, from left to right, each with the trace
  ids that the trace handlers above it add; and what the handler reports are exactly the failures of these
  leaves, none of which keeps the record from the others.\<close>

theorem handler_tree_leaves:
  "slog_log ops h c r w = snd (deliver ops (leaves h) c r w) \<and>
   (Enabled ops h c (lr_level r) \<longrightarrow> failures (fst (Handle ops h c r w)) = fst (deliver ops (leaves h) c r w)) \<and>
   (Enabled ops h c (lr_level r) \<longleftrightarrow> (\<exists>(n, l)\<in>set (leaves h). lo_enabled ops l c (lr_level r)))"
  using Handle_leaves(1) [of ops h c r w] slog_log_leaves Enabled_leaves by (metis fst_map_prod)

definition example_log :: log_record where
  "example_log = \<lparr>lr_level = SlogWarn, lr_message = msg ''hi'', lr_attrs = []\<rparr>"

lemma handler_tree_leaves_witness:
  "failures (fst (Handle stdout_ops (FanoutHandler
       [Leaf (NewStdoutHandler ''json'' SlogError), TraceHandler (Leaf (NewStdoutHandler ''text'' SlogDebug))])
     None example_log \<lparr>ou_lines = [], ou_broken = Some (msg ''pipe'')\<rparr>)) = [msg ''pipe'']"
proof -
  let ?h = "FanoutHandler [Leaf (NewStdoutHandler ''json'' SlogError), TraceHandler (Leaf (NewStdoutHandler ''text'' SlogDebug))]"
  let ?w = "\<lparr>ou_lines = [], ou_broken = Some (msg ''pipe'')\<rparr>"
  have "Enabled stdout_ops ?h None (lr_level example_log)" by code_simp
  moreover have "fst (deliver stdout_ops (leaves ?h) None example_log ?w) = [msg ''pipe'']" by code_simp
  ultimately show ?thesis using handler_tree_leaves [of stdout_ops ?h None example_log ?w] by simp
qed

text \<open>
  The global logger. A record at or above the configured level is one line on a standard output that works;
  with telemetry its line carries the ids of a valid span, and the bridge gets the record as it is, whatever
  the configured level and whether or not the standard output works.
\<close>

lemma global_logger_line:
  "slog_log (gate_ops bridge) (global_handler new_bridge level format otel) c r (out, b) =
    (if GetSlogLevel level \<le> lr_level r \<and> ou_broken out = None
     then out\<lparr>ou_lines := ou_lines out @
       [\<lparr>ln_format = (if format = LogFormatJSON then LogFormatJSON else ''text''), ln_level = lr_level r,
         ln_message = lr_message r, ln_attrs = lr_attrs (if otel then enrich c r else r)\<rparr>]\<rparr>
     else out,
     if otel \<and> lo_enabled bridge (new_bridge ProgramIdentifier) c (lr_level r)
     then snd (lo_handle bridge (new_bridge ProgramIdentifier) c r b) else b)"
proof -
  have q: "qualify [] = id" by (rule ext) (simp add: qualify_def)
  have e: "lr_level (enrich c r) = lr_level r" "lr_message (enrich c r) = lr_message r"
    by (simp_all add: enrich_def split: option.split)
  show ?thesis
    by (auto simp: slog_log_leaves global_handler_def gate_ops_def stdout_ops_def stdout_line_def
        NewStdoutHandler_def Let_def q e split: prod.split option.split)
qed

end
