(* ===== verification/Http_Router.thy ===== *)
theory Http_Router
  imports Http_Api Logging Crypto_Utils
begin

text \<open>
  The router that \<^verbatim>\<open>Init\<close> of \<^verbatim>\<open>cmd/server/server.go\<close> builds: the information endpoint
  (\<^verbatim>\<open>handlers/info.go\<close>), the construction of the exchange handler (\<^verbatim>\<open>handlers/exchange.go\<close>), the route
  labels (\<^verbatim>\<open>middlewares/otel.go\<close>) and the whole chain of middlewares. The middlewares of chi, httplog,
  otelhttp and httpin are parameters; what is used of them are the laws of \<open>library_ok\<close>.
\<close>

section \<open>Endpoints\<close>

definition GetInfo :: "bool \<Rightarrow> string \<Rightarrow> 's handler" where
  "GetInfo fips providersSHA256 r hdrs s =
     (Some \<lparr>hp_status = 200, hp_headers = hdrs, hp_body = InfoBody fips providersSHA256\<rparr>, s)"

text \<open>\<open>register\<close> is what the meter answers when an instrument of that name is created.\<close>

definition NewExchangeHandler :: "(string \<Rightarrow> gotext option) \<Rightarrow> 's exchanger \<Rightarrow> gotext + 's exchanger" where
  "NewExchangeHandler register service =
     (case register ''token_exchange_total'' of
        Some err \<Rightarrow> Inl (Sprintf ''registering token exchange counter: %w'' [AErr err])
      | None \<Rightarrow>
     (case register ''token_exchange_duration_seconds'' of
        Some err \<Rightarrow> Inl (Sprintf ''registering token exchange duration histogram: %w'' [AErr err])
      | None \<Rightarrow>
     (case register ''token_issued_total'' of
        Some err \<Rightarrow> Inl (Sprintf ''registering token issued counter: %w'' [AErr err])
      | None \<Rightarrow>
     (case register ''caller_exchange_total'' of
        Some err \<Rightarrow> Inl (Sprintf ''registering caller exchange counter: %w'' [AErr err])
      | None \<Rightarrow> Inr service))))"

lemma NewExchangeHandler_Inr:
  "NewExchangeHandler register service = Inr h \<longleftrightarrow> h = service \<and>
     (\<forall>name\<in>{''token_exchange_total'', ''token_exchange_duration_seconds'', ''token_issued_total'',
        ''caller_exchange_total''}. register name = None)"
  by (auto simp: NewExchangeHandler_def split: option.splits)

section \<open>The router\<close>

text \<open>
  The middlewares of the libraries, the path that chi routes by, the pattern it matched and whether the
  context of a request has a labeler, and the decoding of the body. The state of a handler is that of
  the service with the labels set so far.
\<close>

type_synonym labels = "(string \<times> string) list"

record 's library =
  lb_CleanPath :: "'s handler \<Rightarrow> 's handler"
  lb_Heartbeat :: "string \<Rightarrow> 's handler \<Rightarrow> 's handler"
  lb_otelhttp :: "string \<Rightarrow> 's handler \<Rightarrow> 's handler"
  lb_RequestID :: "'s handler \<Rightarrow> 's handler"
  lb_RequestLogger :: "int \<Rightarrow> bool \<Rightarrow> (http_request \<Rightarrow> int \<Rightarrow> bool) \<Rightarrow> 's handler \<Rightarrow> 's handler"
  lb_Timeout :: "duration \<Rightarrow> 's handler \<Rightarrow> 's handler"
  lb_RequestSize :: "int \<Rightarrow> 's handler \<Rightarrow> 's handler"
  lb_route_path :: "http_request \<Rightarrow> string"
  lb_pattern :: "http_request \<Rightarrow> string option"
  lb_labeler :: "http_request \<Rightarrow> bool"
  lb_decode :: "http_request \<Rightarrow> exchange_request option"

definition healthPath :: string where "healthPath = ''/health''"
definition maxBodyBytes :: int where "maxBodyBytes = 1048576"

definition ChiRouteLabeler ::
  "('s \<times> labels) library \<Rightarrow> ('s \<times> labels) handler \<Rightarrow> ('s \<times> labels) handler" where
  "ChiRouteLabeler lib nxt r hdrs st =
     (case nxt r hdrs st of
        (None, st') \<Rightarrow> (None, st')
      | (Some p, (s, labels)) \<Rightarrow>
          (Some p, (s,
             case lb_pattern lib r of
               None \<Rightarrow> labels
             | Some route \<Rightarrow>
                 if route = [] \<or> \<not> lb_labeler lib r then labels else labels @ [(''http.route'', route)])))"

text \<open>What chi answers itself.\<close>

definition NotFound :: "'s handler" where
  "NotFound r hdrs s =
     (Some \<lparr>hp_status = 404,
            hp_headers = AList.update ''X-Content-Type-Options'' ''nosniff''
              (AList.update ''Content-Type'' ''text/plain; charset=utf-8'' hdrs),
            hp_body = EmptyBody\<rparr>, s)"

definition MethodNotAllowed :: "string \<Rightarrow> 's handler" where
  "MethodNotAllowed allowed r hdrs s =
     (Some \<lparr>hp_status = 405, hp_headers = AList.update ''Allow'' allowed hdrs, hp_body = EmptyBody\<rparr>, s)"

definition exchange_endpoint :: "('s \<times> labels) library \<Rightarrow> 's exchanger \<Rightarrow> ('s \<times> labels) handler" where
  "exchange_endpoint lib service r hdrs st =
     (case lb_decode lib r of
        None \<Rightarrow> (Some (SanitizedInputErrorHandler r hdrs), st)
      | Some body \<Rightarrow>
          (case exchange_handler service (Some body) r hdrs (fst st) of (out, s) \<Rightarrow> (out, (s, snd st))))"

definition api_routes ::
  "('s \<times> labels) library \<Rightarrow> bool \<Rightarrow> string \<Rightarrow> 's exchanger \<Rightarrow> string \<Rightarrow> ('s \<times> labels) handler" where
  "api_routes lib fips sha service path r hdrs st =
     (if path = ''/info''
      then if hq_method r = ''GET'' then GetInfo fips sha r hdrs st else MethodNotAllowed ''GET'' r hdrs st
      else if path = ''/exchange''
      then if hq_method r = ''POST'' then exchange_endpoint lib service r hdrs st
           else MethodNotAllowed ''POST'' r hdrs st
      else NotFound r hdrs st)"

text \<open>The routes below \<^verbatim>\<open>/api/v1\<close> are a router of their own, with the origin check in front of all of them.\<close>

definition mounted :: "string \<Rightarrow> string \<Rightarrow> string option" where
  "mounted prefix path =
     (let rest = drop (length prefix) path
      in if take (length prefix) path = prefix \<and> (rest = [] \<or> hd rest = CHR ''/'') then Some rest else None)"

lemma mounted_Some: "mounted prefix path = Some rest \<Longrightarrow> path = prefix @ rest"
proof -
  assume "mounted prefix path = Some rest"
  then have "take (length prefix) path = prefix" "drop (length prefix) path = rest"
    by (auto simp: mounted_def Let_def split: if_splits)
  then show "path = prefix @ rest" by (metis append_take_drop_id)
qed

definition routes ::
  "('s \<times> labels) library \<Rightarrow> origin_config \<Rightarrow> bool \<Rightarrow> string \<Rightarrow> 's exchanger \<Rightarrow> ('s \<times> labels) handler" where
  "routes lib cfg fips sha service r hdrs st =
     (case mounted ''/api/v1'' (lb_route_path lib r) of
        None \<Rightarrow> NotFound r hdrs st
      | Some rest \<Rightarrow> OriginVerify cfg (api_routes lib fips sha service rest) r hdrs st)"

definition skip_log :: "http_request \<Rightarrow> int \<Rightarrow> bool" where
  "skip_log req respStatus \<longleftrightarrow> hq_path req = healthPath \<and> respStatus = 200"

text \<open>chi wraps an endpoint in the middlewares in use, the first one outermost.\<close>

definition chain :: "('s handler \<Rightarrow> 's handler) list \<Rightarrow> 's handler \<Rightarrow> 's handler" where
  "chain middlewares endpoint = foldr (\<lambda>m h. m h) middlewares endpoint"

definition root_middlewares ::
  "('s \<times> labels) library \<Rightarrow> app_config \<Rightarrow> (('s \<times> labels) handler \<Rightarrow> ('s \<times> labels) handler) list" where
  "root_middlewares lib cfg =
     [NormalizePath,
      lb_CleanPath lib,
      lb_Heartbeat lib healthPath,
      lb_otelhttp lib ProgramIdentifier,
      ChiRouteLabeler lib,
      lb_RequestID lib,
      lb_RequestLogger lib SlogInfo True skip_log,
      lb_Timeout lib (svc_request_timeout (cf_server cfg)),
      lb_RequestSize lib maxBodyBytes,
      SecurityHeaders]"

definition router ::
  "('s \<times> labels) library \<Rightarrow> app_config \<Rightarrow> bool \<Rightarrow> string \<Rightarrow> 's exchanger \<Rightarrow> ('s \<times> labels) handler" where
  "router lib cfg fips sha service =
     chain (root_middlewares lib cfg) (routes lib (cf_origin cfg) fips sha service)"

text \<open>The part of \<^verbatim>\<open>Init\<close> after the dependencies.\<close>

definition Init_router ::
  "('s \<times> labels) library \<Rightarrow> app_config \<Rightarrow> (string \<Rightarrow> string) \<Rightarrow> bool \<Rightarrow> (string \<Rightarrow> gotext option) \<Rightarrow> 's exchanger
     \<Rightarrow> gotext + ('s \<times> labels) handler" where
  "Init_router lib cfg sha256 fips register service =
     (case NewExchangeHandler register service of
        Inl err \<Rightarrow> Inl err
      | Inr exchangeHandler \<Rightarrow>
          Inr (router lib cfg fips (IssuersFingerprint sha256 (cf_policy cfg)) exchangeHandler))"

section \<open>What middlewares may do\<close>

text \<open>
  Laws that the middlewares keep. \<open>confined\<close>: a middleware asks the rest of the chain only about requests
  with the headers of its own. \<open>relays\<close>: it changes the service only through the rest of the chain, so it
  keeps what that keeps; and a body with a token was answered by the rest of the chain, in such a state, to a
  request with the same headers and method. \<open>keeps_answers\<close>: it does not panic where the rest does not.
\<close>

definition confined :: "('s handler \<Rightarrow> 's handler) \<Rightarrow> bool" where
  "confined m \<longleftrightarrow>
     (\<forall>h k r hdrs s.
        (\<forall>r' hdrs' s'. hq_header r' = hq_header r \<longrightarrow> h r' hdrs' s' = k r' hdrs' s') \<longrightarrow>
        m h r hdrs s = m k r hdrs s)"

definition keeps_service :: "('s \<Rightarrow> bool) \<Rightarrow> ('s \<times> labels) handler \<Rightarrow> bool" where
  "keeps_service J h \<longleftrightarrow> (\<forall>r hdrs st. J (fst st) \<longrightarrow> J (fst (snd (h r hdrs st))))"

definition yields :: "('s \<Rightarrow> bool) \<Rightarrow> ('s \<times> labels) handler \<Rightarrow> http_request \<Rightarrow> token_body \<Rightarrow> bool" where
  "yields J h r t \<longleftrightarrow>
     (\<exists>r' hdrs st p st'. hq_header r' = hq_header r \<and> hq_method r' = hq_method r \<and> J (fst st) \<and>
        h r' hdrs st = (Some p, st') \<and> hp_body p = TokenBody t)"

definition relays :: "(('s \<times> labels) handler \<Rightarrow> ('s \<times> labels) handler) \<Rightarrow> bool" where
  "relays m \<longleftrightarrow>
     (\<forall>J h. keeps_service J h \<longrightarrow>
        keeps_service J (m h) \<and> (\<forall>r t. yields J (m h) r t \<longrightarrow> yields J h r t))"

definition answers :: "'s handler \<Rightarrow> bool" where
  "answers h \<longleftrightarrow> (\<forall>r hdrs s. fst (h r hdrs s) \<noteq> None)"

definition keeps_answers :: "('s handler \<Rightarrow> 's handler) \<Rightarrow> bool" where
  "keeps_answers m \<longleftrightarrow> (\<forall>h. answers h \<longrightarrow> answers (m h))"

definition library_middlewares ::
  "('s \<times> labels) library \<Rightarrow> (('s \<times> labels) handler \<Rightarrow> ('s \<times> labels) handler) list" where
  "library_middlewares lib =
     [lb_CleanPath lib, lb_Heartbeat lib healthPath, lb_otelhttp lib ProgramIdentifier, lb_RequestID lib,
      lb_RequestLogger lib SlogInfo True skip_log]"

text \<open>
  With \<^verbatim>\<open>RecoverPanics\<close> the request logger answers whatever the handler behind it does. It lets only
  \<^verbatim>\<open>http.ErrAbortHandler\<close> through, which no handler of the program raises.
\<close>

definition library_ok :: "app_config \<Rightarrow> ('s \<times> labels) library \<Rightarrow> bool" where
  "library_ok cfg lib \<longleftrightarrow>
     (\<forall>m\<in>set (library_middlewares lib @
          [lb_Timeout lib (svc_request_timeout (cf_server cfg)), lb_RequestSize lib maxBodyBytes]).
        confined m \<and> relays m) \<and>
     (\<forall>m\<in>set (library_middlewares lib). keeps_answers m) \<and>
     (\<forall>h. answers (lb_RequestLogger lib SlogInfo True skip_log h))"

lemma confinedD:
  assumes "confined m" and "\<And>r' hdrs' s'. hq_header r' = hq_header r \<Longrightarrow> h r' hdrs' s' = k r' hdrs' s'"
  shows "m h r hdrs s = m k r hdrs s"
  using assms unfolding confined_def by blast

lemma chain_simps [simp]: "chain [] h = h" "chain (m # ms) h = m (chain ms h)"
  by (simp_all add: chain_def)

lemma chain_append: "chain (ms @ ns) h = chain ms (chain ns h)"
  by (induction ms) simp_all

lemma confined_chain:
  assumes "\<forall>m\<in>set ms. confined m" and "\<And>r' hdrs' s'. hq_header r' = hq_header r \<Longrightarrow> h r' hdrs' s' = k r' hdrs' s'"
  shows "chain ms h r hdrs s = chain ms k r hdrs s"
  using assms
proof (induction ms arbitrary: r hdrs s)
  case (Cons m ms)
  then have "chain ms h r' hdrs' s' = chain ms k r' hdrs' s'" if "hq_header r' = hq_header r" for r' hdrs' s'
    using that by simp
  with Cons.prems(1) show ?case by (auto intro: confinedD)
qed simp

lemma keeps_serviceD: "keeps_service J h \<Longrightarrow> h r hdrs st = (out, st') \<Longrightarrow> J (fst st) \<Longrightarrow> J (fst st')"
  unfolding keeps_service_def by (metis snd_conv)

lemma relaysD:
  assumes "relays m" and "keeps_service J h"
  shows "keeps_service J (m h)" and "yields J (m h) r t \<Longrightarrow> yields J h r t"
  using assms unfolding relays_def by blast+

lemma relays_chain:
  assumes "\<forall>m\<in>set ms. relays m" and "keeps_service J h"
  shows "keeps_service J (chain ms h)" and "yields J (chain ms h) r t \<Longrightarrow> yields J h r t"
proof -
  have "keeps_service J (chain ms h) \<and> (yields J (chain ms h) r t \<longrightarrow> yields J h r t)"
    using assms by (induction ms) (auto dest: relaysD)
  then show "keeps_service J (chain ms h)" "yields J (chain ms h) r t \<Longrightarrow> yields J h r t" by blast+
qed

lemma keeps_answersD: "keeps_answers m \<Longrightarrow> answers h \<Longrightarrow> answers (m h)"
  unfolding keeps_answers_def by blast

lemma answers_chain: "\<forall>m\<in>set ms. keeps_answers m \<Longrightarrow> answers h \<Longrightarrow> answers (chain ms h)"
  by (induction ms) (simp_all add: keeps_answersD)

lemma yieldsI:
  "h r' hdrs st = (Some p, st') \<Longrightarrow> hp_body p = TokenBody t \<Longrightarrow> J (fst st) \<Longrightarrow> hq_header r' = hq_header r \<Longrightarrow>
     hq_method r' = hq_method r \<Longrightarrow> yields J h r t"
  unfolding yields_def by blast

lemma yields_similar:
  "yields J h r' t \<Longrightarrow> hq_header r' = hq_header r \<Longrightarrow> hq_method r' = hq_method r \<Longrightarrow> yields J h r t"
  unfolding yields_def by metis

lemma relaysI:
  assumes "\<And>J h r hdrs st out st'. keeps_service J h \<Longrightarrow> J (fst st) \<Longrightarrow> m h r hdrs st = (out, st') \<Longrightarrow>
      J (fst st') \<and> (\<forall>p t. out = Some p \<longrightarrow> hp_body p = TokenBody t \<longrightarrow> yields J h r t)"
  shows "relays m"
  unfolding relays_def
proof (intro allI impI conjI)
  fix J :: "'a \<Rightarrow> bool" and h r t
  assume keeps: "keeps_service J h"
  show "keeps_service J (m h)"
    unfolding keeps_service_def by (metis assms [OF keeps] prod.collapse)
  assume "yields J (m h) r t"
  then obtain r' hdrs st p st' where r': "hq_header r' = hq_header r" "hq_method r' = hq_method r"
    and run: "J (fst st)" "m h r' hdrs st = (Some p, st')" "hp_body p = TokenBody t"
    unfolding yields_def by blast
  from assms [OF keeps run(1,2)] run(3) have "yields J h r' t" by blast
  then show "yields J h r t" using r' by (rule yields_similar)
qed

text \<open>The middlewares of the program keep the laws.\<close>

lemma NormalizePath_laws: "confined NormalizePath" "relays NormalizePath" "keeps_answers NormalizePath"
proof -
  show "confined NormalizePath" by (simp add: confined_def NormalizePath_eq)
  show "relays NormalizePath"
    by (rule relaysI) (auto simp: NormalizePath_eq intro: yieldsI dest: keeps_serviceD)
  show "keeps_answers NormalizePath" by (auto simp: keeps_answers_def answers_def NormalizePath_eq)
qed

lemma SecurityHeaders_laws: "confined SecurityHeaders" "relays SecurityHeaders"
proof -
  show "confined SecurityHeaders" by (simp add: confined_def SecurityHeaders_def)
  show "relays SecurityHeaders"
    by (rule relaysI) (auto simp: SecurityHeaders_def intro: yieldsI dest: keeps_serviceD)
qed

lemma ChiRouteLabeler_parts:
  "fst (ChiRouteLabeler lib h r hdrs st) = fst (h r hdrs st)"
  "fst (snd (ChiRouteLabeler lib h r hdrs st)) = fst (snd (h r hdrs st))"
  by (simp_all add: ChiRouteLabeler_def split: prod.split option.split)

lemma ChiRouteLabeler_laws:
  "confined (ChiRouteLabeler lib)" "relays (ChiRouteLabeler lib)" "keeps_answers (ChiRouteLabeler lib)"
proof -
  show "confined (ChiRouteLabeler lib)" by (simp add: confined_def ChiRouteLabeler_def)
  show "relays (ChiRouteLabeler lib)"
  proof (rule relaysI)
    fix J :: "'a \<Rightarrow> bool" and h r hdrs st out st'
    assume keeps: "keeps_service J h" and J: "J (fst st)" and run: "ChiRouteLabeler lib h r hdrs st = (out, st')"
    obtain st1 where h: "h r hdrs st = (out, st1)" and st1: "fst st' = fst st1"
      using ChiRouteLabeler_parts [of lib h r hdrs st] run by (metis prod.collapse fst_conv snd_conv)
    from keeps_serviceD [OF keeps h J] have "J (fst st')" by (simp add: st1)
    with h J show "J (fst st') \<and> (\<forall>p t. out = Some p \<longrightarrow> hp_body p = TokenBody t \<longrightarrow> yields J h r t)"
      by (auto intro: yieldsI)
  qed
  show "keeps_answers (ChiRouteLabeler lib)" by (simp add: keeps_answers_def answers_def ChiRouteLabeler_parts)
qed

section \<open>The routes\<close>

text \<open>Without the secret the routes do not depend on the endpoints.\<close>

lemma routes_refuse:
  assumes "\<not> origin_ok cfg r"
  shows "routes lib cfg fips sha service r hdrs st = routes lib cfg fips' sha' service' r hdrs st"
proof -
  have "OriginVerify cfg h r hdrs st = OriginVerify cfg k r hdrs st" for h k
    using assms by (auto simp: OriginVerify_def origin_ok_def ConstantTimeCompare_def Let_def)
  then show ?thesis by (auto simp: routes_def split: option.split)
qed

text \<open>A token is what the service granted to a request to the exchange route.\<close>

lemma exchange_endpoint_token:
  assumes "exchange_endpoint lib service r hdrs st = (Some p, st')" and "hp_body p = TokenBody t"
  shows "\<exists>body resp s'. lb_decode lib r = Some body \<and>
    service (hq_request_id r) body (fst st) = (Some (Inr resp), s') \<and> t = response_body resp"
  using assms
  by (auto simp: exchange_endpoint_def SanitizedInputErrorHandler_def exchange_handler_def
      ExchangeHandler_Exchange_def errored_def writeError_def Let_def
      split: option.splits prod.splits sum.splits exchanger_error.splits)

lemma routes_token:
  assumes "routes lib cfg fips sha service r hdrs st = (Some p, st')" and "hp_body p = TokenBody t"
  shows "origin_ok cfg r \<and> hq_method r = ''POST'' \<and> lb_route_path lib r = ''/api/v1/exchange'' \<and>
    (\<exists>body resp s'. lb_decode lib r = Some body \<and>
       service (hq_request_id r) body (fst st) = (Some (Inr resp), s') \<and> t = response_body resp)"
proof -
  have ok: "origin_ok cfg r"
  proof (rule ccontr)
    assume "\<not> origin_ok cfg r"
    then show False using assms by (auto simp: routes_def OriginVerify_def origin_ok_def ConstantTimeCompare_def
        NotFound_def Let_def split: if_splits option.splits)
  qed
  with assms have *: "hq_method r = ''POST''" "mounted ''/api/v1'' (lb_route_path lib r) = Some ''/exchange''"
    "exchange_endpoint lib service r hdrs st = (Some p, st')"
    by (auto simp: routes_def OriginVerify_ok api_routes_def NotFound_def MethodNotAllowed_def GetInfo_def
        split: if_splits option.splits)
  then have "lb_route_path lib r = ''/api/v1/exchange''" using mounted_Some by fastforce
  with ok * exchange_endpoint_token [OF *(3) assms(2)] show ?thesis by blast
qed


text \<open>What the service keeps when it is asked about decoded bodies, the routes keep.\<close>

definition service_keeps ::
  "('s \<times> labels) library \<Rightarrow> ('s \<Rightarrow> bool) \<Rightarrow> 's exchanger \<Rightarrow> bool" where
  "service_keeps lib J service \<longleftrightarrow>
     (\<forall>r body i s. lb_decode lib r = Some body \<longrightarrow> J s \<longrightarrow> J (snd (service i body s)))"

lemma exchange_handler_state:
  "snd (exchange_handler service (Some body) r hdrs s) = snd (service (hq_request_id r) body s)"
  by (auto simp: exchange_handler_def ExchangeHandler_Exchange_def errored_def
      split: prod.split option.split sum.split exchanger_error.split)

lemma routes_keep:
  assumes "service_keeps lib J service"
  shows "keeps_service J (routes lib cfg fips sha service)"
proof -
  have "J (fst (snd (exchange_endpoint lib service r hdrs st)))" if "J (fst st)" for r hdrs st
  proof (cases "lb_decode lib r")
    case (Some body)
    with assms that have "J (snd (exchange_handler service (Some body) r hdrs (fst st)))"
      unfolding exchange_handler_state service_keeps_def by blast
    with Some show ?thesis
      by (cases "exchange_handler service (Some body) r hdrs (fst st)") (simp add: exchange_endpoint_def)
  qed (use that in \<open>simp add: exchange_endpoint_def\<close>)
  then have "J (fst (snd (api_routes lib fips sha service path r hdrs st)))" if "J (fst st)" for path r hdrs st
    using that by (simp add: api_routes_def GetInfo_def MethodNotAllowed_def NotFound_def)
  then show ?thesis
    by (auto simp: keeps_service_def routes_def OriginVerify_def NotFound_def Let_def split: option.split)
qed

section \<open>The router as a whole\<close>

lemma root_middlewares_laws:
  assumes "library_ok cfg lib"
  shows "\<forall>m\<in>set (root_middlewares lib cfg). confined m \<and> relays m"
  using assms NormalizePath_laws SecurityHeaders_laws ChiRouteLabeler_laws
  by (auto simp: root_middlewares_def library_ok_def library_middlewares_def)

lemma router_answers:
  assumes lib: "library_ok cfg lib"
  shows "answers (router lib cfg fips sha service)"
proof -
  let ?outer = "[NormalizePath, lb_CleanPath lib, lb_Heartbeat lib healthPath, lb_otelhttp lib ProgramIdentifier,
    ChiRouteLabeler lib, lb_RequestID lib]"
  have "\<forall>m\<in>set ?outer. keeps_answers m"
    using lib NormalizePath_laws ChiRouteLabeler_laws by (auto simp: library_ok_def library_middlewares_def)
  moreover have "answers (lb_RequestLogger lib SlogInfo True skip_log h)" for h
    using lib by (simp add: library_ok_def)
  ultimately have "answers (chain ?outer (lb_RequestLogger lib SlogInfo True skip_log h))" for h
    by (intro answers_chain)
  then show ?thesis by (simp add: router_def root_middlewares_def)
qed

lemma router_refuses:
  assumes "library_ok cfg lib" and "\<not> origin_ok (cf_origin cfg) r"
  shows "router lib cfg fips sha service r hdrs st = router lib cfg fips' sha' service' r hdrs st"
  unfolding router_def
proof (rule confined_chain)
  show "routes lib (cf_origin cfg) fips sha service r' hdrs' s' = routes lib (cf_origin cfg) fips' sha' service' r' hdrs' s'"
    if "hq_header r' = hq_header r" for r' hdrs' s'
    using assms(2) that by (intro routes_refuse) (simp add: origin_ok_def)
qed (use root_middlewares_laws [OF assms(1)] in blast)

lemma router_keeps:
  assumes "library_ok cfg lib" and "service_keeps lib J service"
  shows "keeps_service J (router lib cfg fips sha service)"
  unfolding router_def
  by (rule relays_chain(1)) (use root_middlewares_laws [OF assms(1)] routes_keep [OF assms(2)] in blast)+

text \<open>A token is what the service granted, in a state that the service keeps.\<close>

lemma router_token:
  assumes lib: "library_ok cfg lib" and keeps: "service_keeps lib J service" and J: "J (fst st)"
    and run: "router lib cfg fips sha service r hdrs st = (Some p, st')" and t: "hp_body p = TokenBody t"
  shows "origin_ok (cf_origin cfg) r" and "hq_method r = ''POST''"
    and "\<exists>r' body s resp s'. lb_route_path lib r' = ''/api/v1/exchange'' \<and> lb_decode lib r' = Some body \<and> J s \<and>
      service (hq_request_id r') body s = (Some (Inr resp), s') \<and> t = response_body resp"
proof -
  have "yields J (router lib cfg fips sha service) r t" using run t J by (rule yieldsI) (rule refl)+
  then have "yields J (chain (root_middlewares lib cfg) (routes lib (cf_origin cfg) fips sha service)) r t"
    by (simp add: router_def)
  then have "yields J (routes lib (cf_origin cfg) fips sha service) r t"
    by (rule relays_chain(2) [rotated 2]) (use root_middlewares_laws [OF lib] routes_keep [OF keeps] in blast)+
  then obtain r' hdrs' s1 p' s2 where r': "hq_header r' = hq_header r" "hq_method r' = hq_method r" and s1: "J (fst s1)"
    and run': "routes lib (cf_origin cfg) fips sha service r' hdrs' s1 = (Some p', s2)" "hp_body p' = TokenBody t"
    unfolding yields_def by blast
  note token = routes_token [OF run']
  then show "origin_ok (cf_origin cfg) r" using r'(1) by (simp add: origin_ok_def)
  show "hq_method r = ''POST''" using token r'(2) by simp
  show "\<exists>r' body s resp s'. lb_route_path lib r' = ''/api/v1/exchange'' \<and> lb_decode lib r' = Some body \<and> J s \<and>
      service (hq_request_id r') body s = (Some (Inr resp), s') \<and> t = response_body resp"
    using token s1 by blast
qed

section \<open>A library\<close>

text \<open>A library whose middlewares pass requests on, and whose request logger answers a panic with 500.\<close>

definition recover_panics :: "'s handler \<Rightarrow> 's handler" where
  "recover_panics h r hdrs s =
     (case h r hdrs s of
        (None, s') \<Rightarrow> (Some \<lparr>hp_status = 500, hp_headers = hdrs, hp_body = EmptyBody\<rparr>, s')
      | (Some p, s') \<Rightarrow> (Some p, s'))"

definition plain_library :: "(http_request \<Rightarrow> exchange_request option) \<Rightarrow> ('s \<times> labels) library" where
  "plain_library decode =
     \<lparr>lb_CleanPath = (\<lambda>h. h), lb_Heartbeat = (\<lambda>path h. h), lb_otelhttp = (\<lambda>name h. h), lb_RequestID = (\<lambda>h. h),
      lb_RequestLogger = (\<lambda>level recover skip. recover_panics),
      lb_Timeout = (\<lambda>d h. h), lb_RequestSize = (\<lambda>n h. h),
      lb_route_path = hq_path, lb_pattern = (\<lambda>r. Some (hq_path r)), lb_labeler = (\<lambda>r. True),
      lb_decode = decode\<rparr>"

lemma identity_laws: "confined (\<lambda>h. h)" "relays (\<lambda>h. h)" "keeps_answers (\<lambda>h. h)"
  by (simp_all add: confined_def relays_def keeps_answers_def)

lemma recover_panics_answers: "answers (recover_panics h)"
  by (simp add: answers_def recover_panics_def split: prod.split option.split)

lemma recover_panics_laws:
  "confined recover_panics" "relays recover_panics" "keeps_answers recover_panics"
proof -
  show "confined recover_panics" by (simp add: confined_def recover_panics_def)
  show "relays recover_panics"
    by (rule relaysI) (auto simp: recover_panics_def intro: yieldsI dest: keeps_serviceD split: prod.splits option.splits)
  show "keeps_answers recover_panics" unfolding keeps_answers_def by (blast intro: recover_panics_answers)
qed

lemma plain_library_ok: "library_ok cfg (plain_library decode)"
  by (simp add: library_ok_def library_middlewares_def plain_library_def identity_laws recover_panics_laws
      recover_panics_answers)

end
