(* ===== verification/Served_Api.thy ===== *)
theory Served_Api
  imports Http_Router Service_Api End_To_End
begin

text \<open>
  The service that a configuration describes behind the router that the server builds for it: the state of
  the process over any sequence of HTTP requests and revocation rounds, and what a token on the wire means.
  A request is answered before the next one here; how the calls of concurrent requests interleave is in
  \<open>Service_Interleaved\<close>.
\<close>

inductive served ::
  "('p, 'o, 'a) exchange_env \<Rightarrow> ('s, 'g) service
     \<Rightarrow> ((('p, 'o, 's, 'g, 'a) service_state \<times> log_line list) \<times> labels) library \<Rightarrow> app_config \<Rightarrow> bool \<Rightarrow> string
     \<Rightarrow> (('p, 'o, 's, 'g, 'a) service_state \<times> log_line list) \<times> labels
     \<Rightarrow> (('p, 'o, 's, 'g, 'a) service_state \<times> log_line list) \<times> labels \<Rightarrow> bool"
  for env sv hlib cfg fips sha s where
  served_start: "served env sv hlib cfg fips sha s s"
| served_request: "served env sv hlib cfg fips sha s t \<Longrightarrow>
    router hlib cfg fips sha (Service_Exchange env sv rd) r [] t = (out, u) \<Longrightarrow>
    served env sv hlib cfg fips sha s u"
| served_round: "served env sv hlib cfg fips sha s ((st, lines), labels) \<Longrightarrow>
    gm_range (TokenTracker_GetExpired now (ss_tracker st)) order \<Longrightarrow>
    revokeExpiredTokens sv now pick order st = (removed, st') \<Longrightarrow>
    served env sv hlib cfg fips sha s ((st', lines), labels)"

text \<open>A decoded JSON object is a Go map, with distinct keys.\<close>

definition decodes_requests :: "'l library \<Rightarrow> bool" where
  "decodes_requests hlib \<longleftrightarrow>
     (\<forall>r body. lb_decode hlib r = Some body \<longrightarrow> gm_wf (xq_requested_permissions body))"

definition kept ::
  "('s, 'w github_state) service \<Rightarrow> (string \<Rightarrow> 'p \<Rightarrow> bool) \<Rightarrow> ('w, 'k) github_lib \<Rightarrow> ('s \<Rightarrow> bool)
     \<Rightarrow> ('p, 'o, 's, 'w github_state, 'a) service_state \<times> log_line list \<Rightarrow> bool" where
  "kept sv origin lib ok s \<longleftrightarrow> service_inv sv origin (fst s) \<and> ready lib ok (fst s)"

lemma Service_Exchange_state:
  "fst (snd (Service_Exchange env sv rd i body s)) = snd (exchange env sv rd i body (fst s))"
  by (simp add: Service_Exchange_def Let_def split: prod.split option.split)

lemma Service_Exchange_keeps:
  assumes "rate_store (sv_store sv) view seen ok" and "service_built rx sv"
    and "all_keep (github_genuine lib) (sv_clients sv)"
    and "decodes_maps (ee_yaml env)" and "discovers (ee_oidc env) origin"
  shows "service_keeps hlib (kept sv origin lib ok) (Service_Exchange env sv rd)"
  unfolding service_keeps_def kept_def Service_Exchange_state
  using exchange_ready [OF assms(1-3) _ prod.collapse [symmetric]]
    exchange_inv [OF assms(4,5) _ prod.collapse [symmetric]] by blast

lemma served_kept:
  assumes store: "rate_store (sv_store sv) view seen ok" and built: "service_built rx sv"
    and keep: "all_keep (github_genuine lib) (sv_clients sv)"
    and libs: "decodes_maps (ee_yaml env)" "discovers (ee_oidc env) origin" and hlib: "library_ok cfg hlib"
    and "served env sv hlib cfg fips sha s t" and "kept sv origin lib ok (fst s)"
  shows "kept sv origin lib ok (fst t)"
  using assms(7,8)
proof (induction rule: served.induct)
  case (served_request t rd r out u)
  from router_keeps [OF hlib Service_Exchange_keeps [OF store built keep libs]] served_request.hyps(2)
    served_request.IH [OF served_request.prems]
  show ?case by (rule keeps_serviceD)
next
  case (served_round st lines labels now order pick removed st')
  then have inv: "service_inv sv origin st" and ready: "ready lib ok st" by (simp_all add: kept_def)
  have "service_inv sv origin st'"
    using run_step_inv [OF libs run_step.revocation [of sv now pick order "\<lparr>rn_service = st, rn_issued = [],
      rn_revoked = [], rn_ids = []\<rparr>" removed st']] served_round inv by simp
  with revoke_ready [OF keep ready served_round.hyps(3)] show ?case by (simp add: kept_def)
qed

text \<open>A token on the wire is a scoped grant to a request that was let in.\<close>

lemma served_token:
  assumes valid: "Config_Validate cfg = None"
    and build: "buildDependencies (ee_rx env) lib read_file parse_key (Inr store) (Inr audit) cfg =
      (Inr ((sv, cache, tracker), closers), released)"
    and store: "rate_store store view seen ok" and libs: "decodes_maps (ee_yaml env)" "discovers (ee_oidc env) origin"
    and hlib: "library_ok cfg hlib" "decodes_requests hlib" and kept: "kept sv origin lib ok (fst st)"
    and run: "router hlib cfg fips sha (Service_Exchange env sv rd) r [] st = (Some p, st')"
    and t: "hp_body p = TokenBody t"
  shows "origin_ok (cf_origin cfg) r" and "hq_method r = ''POST''"
    and "\<exists>r' body resp. lb_decode hlib r' = Some body \<and> scoped_grant cfg lib body resp \<and> t = response_body resp"
proof -
  note built = configured_service [OF valid build]
  have "rate_store (sv_store sv) view seen ok" using store built(2) by simp
  note token = router_token [OF hlib(1) Service_Exchange_keeps [OF this built(1,8) libs] kept run t]
  then show "origin_ok (cf_origin cfg) r" and "hq_method r = ''POST''" by blast+
  from token(3) obtain r' body s resp s' where body: "lb_decode hlib r' = Some body" and s: "kept sv origin lib ok s"
    and grant: "Service_Exchange env sv rd (hq_request_id r') body s = (Some (Inr resp), s')" and tb: "t = response_body resp"
    by blast
  have ex: "\<exists>st'. exchange env sv rd (hq_request_id r') body (fst s) = (Some (Inr resp), st')"
    using grant by (cases rule: Service_Exchange_cases [of env sv rd "hq_request_id r'" body s]) auto
  have "gm_wf (xq_requested_permissions body)" using hlib(2) body unfolding decodes_requests_def by blast
  with ex s have "scoped_grant cfg lib body resp"
    using configured_grant [OF valid build store libs] unfolding kept_def by blast
  with body tb show "\<exists>r' body resp. lb_decode hlib r' = Some body \<and> scoped_grant cfg lib body resp \<and> t = response_body resp"
    by blast
qed

end
