(* ===== verification/Exchange_Stages.thy ===== *)
theory Exchange_Stages
  imports End_To_End
begin

text \<open>
  An exchange as the sequence of its calls. The server runs every request in a goroutine of its own
  (\<^verbatim>\<open>internal/sts/sts.go\<close>), so the calls that one exchange makes of the shared components come between
  those of others. Here an exchange is a sequence of stages, each of which makes one call that is
  atomic in the program: a load or store of a map under its lock, or one request to the network.
  \<^verbatim>\<open>Validate\<close>, \<^verbatim>\<open>Authorize\<close> and \<^verbatim>\<open>fetchPolicy\<close> are split into theirs. In a row the stages compute
  \<^verbatim>\<open>exchange\<close>; \<^verbatim>\<open>Service_Interleaved\<close> interleaves them.
\<close>

section \<open>The stages\<close>

text \<open>
  What a request carries from call to call: the parsed token, the provider, the claims; the key under
  which the policy file is cached and its resolved path, the client and the paths still to try, the
  outcome of the fetch; the decision, the app, the token.
\<close>

datatype ('p, 'g) stage =
    Arrived
  | Resolving jwt_token
  | Discovering jwt_token
  | Keeping jwt_token 'p
  | Verifying jwt_token 'p
  | Validated oidc_claims
  | Looking oidc_claims string string
  | Joining oidc_claims string string
  | Choosing oidc_claims string string
  | Reading oidc_claims string "'g client_iface" "string list" "string list"
  | Storing oidc_claims string policy_file
  | Loaded oidc_claims "fetch_error + policy_file"
  | Authorized oidc_claims auth_result
  | Selected oidc_claims auth_result app "'g client_iface"
  | Minted oidc_claims auth_result app "'g client_iface" token_response
  | Metered oidc_claims auth_result app token_response rate_limit_info
  | Counted oidc_claims auth_result app token_response
  | Tracked oidc_claims auth_result app token_response
  | Refused oidc_claims string exchange_error
  | Answered "(exchange_error + exchange_response) option"

definition bad_token :: "string \<Rightarrow> oidc_error \<Rightarrow> ('p, 'g) stage" where
  "bad_token requestID err =
     Answered (Some (Inl (ExchangeError ErrInvalidToken (msg ''OIDC token validation failed'')
       (oidc_error_text err) requestID)))"

definition refuse :: "string \<Rightarrow> oidc_claims \<Rightarrow> denial_error option \<Rightarrow> ('p, 'g) stage" where
  "refuse requestID claims reason =
     (case reason of
        None \<Rightarrow> Answered None
      | Some d \<Rightarrow>
          Refused claims (code_string (de_code d))
            (WithCaller (ExchangeError (code_string (de_code d)) (de_message d) (de_details d) requestID)
               (oc_issuer claims) (oc_subject claims)))"

definition claims_of :: "jwt_token \<Rightarrow> oidc_claims" where
  "claims_of parsed =
     \<lparr>oc_issuer = jt_issuer parsed, oc_subject = jt_subject parsed, oc_audience = jt_audience parsed,
      oc_expires_at = jt_expiration parsed, oc_issued_at = jt_issued_at parsed,
      oc_custom = jt_private_claims parsed\<rparr>"

definition answer_of ::
  "('p, 'w, 'a) exchange_env \<Rightarrow> exchange_readings \<Rightarrow> string \<Rightarrow> oidc_claims \<Rightarrow> auth_result \<Rightarrow> app
     \<Rightarrow> token_response \<Rightarrow> exchange_response" where
  "answer_of env rd requestID claims result chosen tokenResp =
     \<lparr>xp_token = trs_token tokenResp,
      xp_expires_at = capExpiry (xr_cap rd) (trs_expires_at tokenResp) (res_ttl result),
      xp_matched_policy = res_matched_policy result,
      xp_permissions = res_permissions result,
      xp_request_id = requestID,
      xp_issuer = oc_issuer claims,
      xp_subject = oc_subject claims,
      xp_client_id = app_client_id chosen,
      xp_token_hash = HashString (ee_sha256 env) (trs_token tokenResp),
      xp_ttl = res_ttl result\<rparr>"

section \<open>One call\<close>

text \<open>Validation: \<^verbatim>\<open>Service.validateRequest\<close>, then \<^verbatim>\<open>Validator.Validate\<close> up to its next call.\<close>

fun validate_call ::
  "('p, 'w, 'a) exchange_env \<Rightarrow> ('s, 'g) service \<Rightarrow> string \<Rightarrow> exchange_request \<Rightarrow> ('p, 'g) stage
     \<Rightarrow> ('p, 'w) oidc_state \<Rightarrow> ('p, 'g) stage \<times> ('p, 'w) oidc_state" where
  "validate_call env sv i req Arrived os =
     ((case validateRequest (sv_max_ttl sv) req of
         Some validationErr \<Rightarrow>
           Answered (Some (Inl (ExchangeError ErrInvalidRequest (msg ''Invalid request'') validationErr i)))
       | None \<Rightarrow>
           if xq_oidc_token req = [] then bad_token i ErrEmptyToken
           else case ol_parse (ee_oidc env) (xq_oidc_token req) of
             Inl err \<Rightarrow> bad_token i (ErrParsing err)
           | Inr parsed \<Rightarrow>
               if jt_issuer parsed = [] then bad_token i ErrMissingIssuer
               else if jt_issuer parsed \<notin> set (va_issuers (sv_oidc sv)) then bad_token i (ErrIssuerDenied (jt_issuer parsed))
               else Resolving parsed), os)"
| "validate_call env sv i req (Resolving parsed) os =
     ((case map_of (os_providers os) (jt_issuer parsed) of
         Some p \<Rightarrow> Verifying parsed p
       | None \<Rightarrow> Discovering parsed), os)"
| "validate_call env sv i req (Discovering parsed) os =
     (case ol_discover (ee_oidc env) (jt_issuer parsed) (os_network os) of
        (Inl err, w) \<Rightarrow> (bad_token i (ErrDiscovering (jt_issuer parsed) err), os\<lparr>os_network := w\<rparr>)
      | (Inr p, w) \<Rightarrow> (Keeping parsed p, os\<lparr>os_network := w\<rparr>))"
| "validate_call env sv i req (Keeping parsed p) os =
     (case load_or_store (jt_issuer parsed) p (os_providers os) of
        (actual, m) \<Rightarrow> (Verifying parsed actual, os\<lparr>os_providers := m\<rparr>))"
| "validate_call env sv i req (Verifying parsed p) os =
     (case ol_verify (ee_oidc env) p (va_audience (sv_oidc sv)) (xq_oidc_token req) (os_network os) of
        (Some err, w) \<Rightarrow> (bad_token i (ErrVerifying err), os\<lparr>os_network := w\<rparr>)
      | (None, w) \<Rightarrow> (Validated (claims_of parsed), os\<lparr>os_network := w\<rparr>))"
| "validate_call env sv i req g os = (g, os)"

text \<open>
  Authorisation: \<^verbatim>\<open>Authorize\<close> and \<^verbatim>\<open>fetchPolicy\<close>. In \<open>Joining\<close> the request enters \<^verbatim>\<open>singleflight\<close>; it looks
  again if it is the one that flies.
\<close>

fun authorize_call ::
  "('p, 'w, 'a) exchange_env \<Rightarrow> ('s, 'g) service \<Rightarrow> exchange_readings \<Rightarrow> string \<Rightarrow> exchange_request \<Rightarrow> ('p, 'g) stage
     \<Rightarrow> ('s, 'g) auth_state \<Rightarrow> ('p, 'g) stage \<times> ('s, 'g) auth_state" where
  "authorize_call env sv rd i req (Validated c) au =
     ((case denied_early (ee_rx env) (sv_authorizer sv) (xr_central rd) (auth_request_of c req) of
         Some denial \<Rightarrow> refuse i c (Some denial)
       | None \<Rightarrow>
           (case splitN (CHR ''/'') 2 (xq_target_repository req) of
              [org, repo] \<Rightarrow>
                if org = [] \<or> repo = []
                then Loaded c (Inl (FetchFailure (Sprintf ''invalid repository format: %s'' [AStr (xq_target_repository req)])))
                else let resolved = replace_all ''{org}'' org (pol_trust_policy_path (au_config (sv_authorizer sv)))
                     in Looking c (xq_target_repository req @ '':'' @ resolved) resolved
            | _ \<Rightarrow> Loaded c (Inl (FetchFailure (Sprintf ''invalid repository format: %s'' [AStr (xq_target_repository req)]))))),
      au)"
| "authorize_call env sv rd i req (Looking c key resolved) au =
     ((case policyCache_get (fr_get (xr_fetch rd)) (as_cache au) key of
         Some cached \<Rightarrow> Loaded c (Inr cached)
       | None \<Rightarrow> Joining c key resolved), au)"
| "authorize_call env sv rd i req (Joining c key resolved) au =
     ((case policyCache_get (fr_get_again (xr_fetch rd)) (as_cache au) key of
         Some cached \<Rightarrow> Loaded c (Inr cached)
       | None \<Rightarrow> Choosing c key resolved), au)"
| "authorize_call env sv rd i req (Choosing c key resolved) au =
     (let a = sv_authorizer sv; rs = fr_select (xr_fetch rd)
      in case SelectApp (au_store a) (au_selector a) (sr_loop rs) (sr_now rs) (sr_until rs) (sr_rand rs)
                (xq_target_repository req) (as_store au) of
           (r, s) \<Rightarrow>
             ((case r of
                 Inl err \<Rightarrow> Loaded c (Inl (FetchFailure (Sprintf ''selecting GitHub App: %w'' [AErr (select_error_text err)])))
               | Inr chosen \<Rightarrow>
                   (case map_of (au_clients a) (app_client_id chosen) of
                      None \<Rightarrow> Loaded c (Inl (FetchFailure (Sprintf ''no GitHub client for app %s'' [AStr (app_client_id chosen)])))
                    | Some client \<Rightarrow> Reading c key client (extensionVariants resolved) (extensionVariants resolved))),
              au\<lparr>as_store := s\<rparr>))"
| "authorize_call env sv rd i req (Reading c key client paths []) au =
     (Loaded c (Inl (ErrPolicyFileNotFound (msg (strings_Join paths '', '')))), au)"
| "authorize_call env sv rd i req (Reading c key client paths (fullPath # rest)) au =
     (case ci_GetContents client (xq_target_repository req) fullPath (as_github au) of
        (r, g) \<Rightarrow>
          ((case r of
              Inr content \<Rightarrow>
                (case parseAndValidate (ee_rx env) (ee_yaml env) content of
                   Inl parseErr \<Rightarrow> Loaded c (Inl (FetchFailure parseErr))
                 | Inr policy \<Rightarrow> Storing c key policy)
            | Inl err \<Rightarrow>
                if gh_is err ErrRepositoryNotFound \<or> gh_is err ErrInstallationNotFound
                then Loaded c (Inl (ErrRepositoryNotAccessible (msg (xq_target_repository req))))
                else if \<not> gh_is err ErrFileNotFound
                then Loaded c (Inl (FetchFailure (Sprintf ''fetching %s: %w''
                       [AStr fullPath, AErr (gh_error_text err)])))
                else if rest = [] then Loaded c (Inl (ErrPolicyFileNotFound (msg (strings_Join paths '', ''))))
                else Reading c key client paths rest),
           au\<lparr>as_github := g\<rparr>))"
| "authorize_call env sv rd i req (Storing c key policy) au =
     (Loaded c (Inr policy),
      au\<lparr>as_cache := policyCache_set (fr_set (xr_fetch rd)) (fr_range (xr_fetch rd)) (as_cache au) key policy\<rparr>)"
| "authorize_call env sv rd i req (Loaded c r) au =
     (let result = decide (ee_rx env) (au_config (sv_authorizer sv)) (auth_request_of c req) r
      in ((if res_allowed result then Authorized c result else refuse i c (res_deny_reason result)), au))"
| "authorize_call env sv rd i req g au = (g, au)"

text \<open>
  Minting: the rest of \<^verbatim>\<open>exchange\<close>. A refusal is audited before it is answered; the failures of the
  rate-limit query and of recording usage are only logged.
\<close>

fun mint_call ::
  "('p, 'w, 'a) exchange_env \<Rightarrow> ('s, 'g) service \<Rightarrow> exchange_readings \<Rightarrow> string \<Rightarrow> exchange_request \<Rightarrow> ('p, 'g) stage
     \<Rightarrow> ('p, 'w, 's, 'g, 'a) service_state \<Rightarrow> ('p, 'g) stage \<times> ('p, 'w, 's, 'g, 'a) service_state" where
  "mint_call env sv rd i req (Authorized c result) st =
     (case SelectApp (sv_store sv) (sv_selector sv) (sr_loop (xr_select rd)) (sr_now (xr_select rd))
             (sr_until (xr_select rd)) (sr_rand (xr_select rd)) (xq_target_repository req)
             (as_store (ss_auth st)) of
        (r, s) \<Rightarrow>
          ((case r of
              Inl (ExhaustedError n) \<Rightarrow>
                Refused c ErrRateLimited
                  (WithCaller ((ExchangeError ErrRateLimited (msg ''All GitHub Apps exhausted rate limits'')
                     no_text i)\<lparr>xe_retry_after := n\<rparr>) (oc_issuer c) (oc_subject c))
            | Inl err \<Rightarrow>
                Refused c ErrAppSelectionFailed
                  (WithCaller (ExchangeError ErrInternalError (msg ''Failed to select GitHub App'')
                     (select_error_text err) i) (oc_issuer c) (oc_subject c))
            | Inr chosen \<Rightarrow>
                (case map_of (sv_clients sv) (app_client_id chosen) of
                   None \<Rightarrow>
                     Refused c ErrClientNotFound
                       (WithCaller (ExchangeError ErrInternalError (msg ''GitHub client not found for app'')
                          (msg (app_client_id chosen)) i) (oc_issuer c) (oc_subject c))
                 | Some client \<Rightarrow> Selected c result chosen client)),
           st\<lparr>ss_auth := (ss_auth st)\<lparr>as_store := s\<rparr>\<rparr>))"
| "mint_call env sv rd i req (Refused c reason e) st =
     (Answered (Some (Inl e)), auditDenied env rd i c req reason st)"
| "mint_call env sv rd i req (Selected c result chosen client) st =
     (case ci_RequestToken client
             \<lparr>trq_repository = xq_target_repository req, trq_permissions = res_permissions result\<rparr>
             (as_github (ss_auth st)) of
        (r, g) \<Rightarrow>
          ((case r of
              Inl err \<Rightarrow>
                Refused c ErrGitHubAPIError
                  (WithCaller (ExchangeError ErrGitHubAPIError (msg ''Failed to request GitHub token'')
                     (gh_error_text err) i) (oc_issuer c) (oc_subject c))
            | Inr tokenResp \<Rightarrow> Minted c result chosen client tokenResp),
           st\<lparr>ss_auth := (ss_auth st)\<lparr>as_github := g\<rparr>\<rparr>))"
| "mint_call env sv rd i req (Minted c result chosen client tokenResp) st =
     (case ci_RateLimit client (trs_token tokenResp) (as_github (ss_auth st)) of
        (r, g) \<Rightarrow>
          ((case r of
              Inl err \<Rightarrow> Counted c result chosen tokenResp
            | Inr info \<Rightarrow> Metered c result chosen tokenResp info),
           st\<lparr>ss_auth := (ss_auth st)\<lparr>as_github := g\<rparr>\<rparr>))"
| "mint_call env sv rd i req (Metered c result chosen tokenResp info) st =
     (Counted c result chosen tokenResp,
      st\<lparr>ss_auth := (ss_auth st)\<lparr>as_store :=
         snd (RecordUsage (sv_store sv) (xr_record rd) (app_client_id chosen) (rli_remaining info)
           (rli_reset_at info) (as_store (ss_auth st)))\<rparr>\<rparr>)"
| "mint_call env sv rd i req (Counted c result chosen tokenResp) st =
     (Tracked c result chosen tokenResp,
      st\<lparr>ss_tracker := TokenTracker_Record (HashString (ee_sha256 env) (trs_token tokenResp)) (trs_token tokenResp)
         (capExpiry (xr_cap rd) (trs_expires_at tokenResp) (res_ttl result)) (ss_tracker st)\<rparr>)"
| "mint_call env sv rd i req (Tracked c result chosen tokenResp) st =
     (case auditGranted env rd i c req result (app_client_id chosen)
             (HashString (ee_sha256 env) (trs_token tokenResp)) (ss_audit st) of
        (r, trail) \<Rightarrow>
          (Answered (Some (case r of
              Some err \<Rightarrow> Inl (WithCaller (ExchangeError ErrInternalError (msg ''Audit log failed'')
                (audit_error_text err) i) (oc_issuer c) (oc_subject c))
            | None \<Rightarrow> Inr (answer_of env rd i c result chosen tokenResp))),
           st\<lparr>ss_audit := trail\<rparr>))"
| "mint_call env sv rd i req g st = (g, st)"

text \<open>Where a stage belongs.\<close>

fun validating :: "('p, 'g) stage \<Rightarrow> bool" where
  "validating Arrived \<longleftrightarrow> True"
| "validating (Resolving t) \<longleftrightarrow> True"
| "validating (Discovering t) \<longleftrightarrow> True"
| "validating (Keeping t p) \<longleftrightarrow> True"
| "validating (Verifying t p) \<longleftrightarrow> True"
| "validating g \<longleftrightarrow> False"

fun authorizing :: "('p, 'g) stage \<Rightarrow> bool" where
  "authorizing (Validated c) \<longleftrightarrow> True"
| "authorizing (Looking c key resolved) \<longleftrightarrow> True"
| "authorizing (Joining c key resolved) \<longleftrightarrow> True"
| "authorizing (Choosing c key resolved) \<longleftrightarrow> True"
| "authorizing (Reading c key client paths rest) \<longleftrightarrow> True"
| "authorizing (Storing c key policy) \<longleftrightarrow> True"
| "authorizing (Loaded c r) \<longleftrightarrow> True"
| "authorizing g \<longleftrightarrow> False"

definition advance ::
  "('p, 'w, 'a) exchange_env \<Rightarrow> ('s, 'g) service \<Rightarrow> exchange_readings \<Rightarrow> string \<Rightarrow> exchange_request \<Rightarrow> ('p, 'g) stage
     \<Rightarrow> ('p, 'w, 's, 'g, 'a) service_state \<Rightarrow> ('p, 'g) stage \<times> ('p, 'w, 's, 'g, 'a) service_state" where
  "advance env sv rd i req g st =
     (if validating g
      then (case validate_call env sv i req g (ss_oidc st) of (g', os) \<Rightarrow> (g', st\<lparr>ss_oidc := os\<rparr>))
      else if authorizing g
      then (case authorize_call env sv rd i req g (ss_auth st) of (g', au) \<Rightarrow> (g', st\<lparr>ss_auth := au\<rparr>))
      else mint_call env sv rd i req g st)"

section \<open>Every request is answered\<close>

text \<open>How many calls a stage is at most away from the answer; two paths are tried at most.\<close>

fun remaining :: "('p, 'g) stage \<Rightarrow> nat" where
  "remaining Arrived = 19"
| "remaining (Resolving t) = 18"
| "remaining (Discovering t) = 17"
| "remaining (Keeping t p) = 16"
| "remaining (Verifying t p) = 15"
| "remaining (Validated c) = 14"
| "remaining (Looking c key resolved) = 13"
| "remaining (Joining c key resolved) = 12"
| "remaining (Choosing c key resolved) = 11"
| "remaining (Reading c key client paths rest) = 8 + max 1 (length rest)"
| "remaining (Storing c key policy) = 8"
| "remaining (Loaded c r) = 7"
| "remaining (Authorized c res) = 6"
| "remaining (Selected c res a client) = 5"
| "remaining (Minted c res a client t) = 4"
| "remaining (Metered c res a t info) = 3"
| "remaining (Counted c res a t) = 2"
| "remaining (Tracked c res a t) = 1"
| "remaining (Refused c reason e) = 1"
| "remaining (Answered r) = 0"

lemma extensionVariants_length: "length (extensionVariants path) \<le> 2"
  by (simp add: extensionVariants_def Let_def)

lemma remaining_errors [simp]:
  "remaining (bad_token i err) = 0" "remaining (refuse i c d) \<le> 1"
  by (simp_all add: bad_token_def refuse_def split: option.split)

lemma validate_call_remaining:
  "validate_call env sv i req g os = (g', os') \<Longrightarrow> validating g \<Longrightarrow> remaining g' < remaining g"
  by (cases g) (auto split: option.splits sum.splits prod.splits if_splits)

lemma authorize_call_remaining:
  assumes "authorize_call env sv rd i req g au = (g', au')" and "authorizing g"
  shows "remaining g' < remaining g"
proof -
  have refuse: "remaining (refuse i c d) < n" if "1 < n" for c d n
    using that by (simp add: refuse_def split: option.split)
  show ?thesis
  proof (cases g)
    case (Choosing c key resolved)
    with assms extensionVariants_length [of resolved] show ?thesis
      by (auto simp: Let_def split: option.splits sum.splits prod.splits)
  next
    case (Reading c key client paths rest)
    with assms show ?thesis
      by (cases rest) (auto simp: max_def Suc_le_eq split: option.splits sum.splits prod.splits if_splits)
  qed (use assms in \<open>auto simp: Let_def refuse split: option.splits sum.splits prod.splits list.splits if_splits\<close>)
qed

lemma mint_call_remaining:
  "mint_call env sv rd i req g st = (g', st') \<Longrightarrow> \<not> validating g \<Longrightarrow> \<not> authorizing g \<Longrightarrow>
     remaining g' \<le> remaining g - 1"
  by (cases g) (auto split: option.splits prod.splits sum.splits select_error.splits)

lemma advance_remaining:
  "advance env sv rd i req g st = (g', st') \<Longrightarrow> remaining g' \<le> remaining g - 1"
  unfolding advance_def
  by (auto split: if_splits prod.splits dest: validate_call_remaining authorize_call_remaining mint_call_remaining)

fun stages ::
  "('p, 'w, 'a) exchange_env \<Rightarrow> ('s, 'g) service \<Rightarrow> exchange_readings \<Rightarrow> string \<Rightarrow> exchange_request
     \<Rightarrow> nat \<Rightarrow> ('p, 'g) stage \<Rightarrow> ('p, 'w, 's, 'g, 'a) service_state
     \<Rightarrow> ('p, 'g) stage \<times> ('p, 'w, 's, 'g, 'a) service_state" where
  "stages env sv rd i req 0 g st = (g, st)"
| "stages env sv rd i req (Suc n) g st =
     (case advance env sv rd i req g st of (g', st') \<Rightarrow> stages env sv rd i req n g' st')"

lemma advance_answered [simp]: "advance env sv rd i req (Answered r) st = (Answered r, st)"
  by (simp add: advance_def)

lemma stages_answered [simp]: "stages env sv rd i req n (Answered r) st = (Answered r, st)"
  by (induction n) simp_all

lemma remaining_0: "remaining g = 0 \<Longrightarrow> \<exists>r. g = Answered r"
  by (cases g) simp_all

lemma stages_end:
  "remaining g \<le> n \<Longrightarrow> \<exists>r st'. stages env sv rd i req n g st = (Answered r, st')"
proof (induction n arbitrary: g st)
  case 0
  then show ?case using remaining_0 by auto
next
  case (Suc n)
  obtain g' st' where adv: "advance env sv rd i req g st = (g', st')" by fastforce
  have "remaining g' \<le> n" using advance_remaining [OF adv] Suc.prems by linarith
  from Suc.IH [OF this] adv show ?case by simp
qed

section \<open>In a row the stages are the exchange\<close>

text \<open>\<open>leads\<close> says that a stage gets to another one, undisturbed.\<close>

definition leads ::
  "('p, 'w, 'a) exchange_env \<Rightarrow> ('s, 'g) service \<Rightarrow> exchange_readings \<Rightarrow> string \<Rightarrow> exchange_request
     \<Rightarrow> ('p, 'g) stage \<Rightarrow> ('p, 'w, 's, 'g, 'a) service_state \<Rightarrow> ('p, 'g) stage
     \<Rightarrow> ('p, 'w, 's, 'g, 'a) service_state \<Rightarrow> bool" where
  "leads env sv rd i req g st g' st' \<longleftrightarrow> (\<exists>n. stages env sv rd i req n g st = (g', st'))"

lemma leads_refl: "leads env sv rd i req g st g st"
  unfolding leads_def by (rule exI [of _ 0]) simp

lemma leads_step:
  "advance env sv rd i req g st = (g1, st1) \<Longrightarrow> leads env sv rd i req g1 st1 g' st' \<Longrightarrow>
     leads env sv rd i req g st g' st'"
  unfolding leads_def by (elim exE) (rule_tac x = "Suc n" in exI, simp)

lemma stages_add:
  "stages env sv rd i req (m + n) g st =
     (case stages env sv rd i req m g st of (g', st') \<Rightarrow> stages env sv rd i req n g' st')"
  by (induction m arbitrary: g st) (simp_all split: prod.split)

lemma leads_trans:
  assumes "leads env sv rd i req g st g1 st1" and "leads env sv rd i req g1 st1 g2 st2"
  shows "leads env sv rd i req g st g2 st2"
proof -
  from assms obtain m n where "stages env sv rd i req m g st = (g1, st1)" "stages env sv rd i req n g1 st1 = (g2, st2)"
    by (auto simp: leads_def)
  then have "stages env sv rd i req (m + n) g st = (g2, st2)" by (simp add: stages_add)
  then show ?thesis by (auto simp: leads_def)
qed

lemma leads_answered:
  assumes "leads env sv rd i req g st (Answered r) st'" and "remaining g \<le> n"
  shows "stages env sv rd i req n g st = (Answered r, st')"
proof -
  from assms(1) obtain m where m: "stages env sv rd i req m g st = (Answered r, st')" by (auto simp: leads_def)
  obtain r' st'' where n: "stages env sv rd i req n g st = (Answered r', st'')" using stages_end [OF assms(2)] by blast
  have "stages env sv rd i req (m + n) g st = (Answered r, st')" by (simp add: stages_add m)
  moreover have "stages env sv rd i req (n + m) g st = (Answered r', st'')" by (simp add: stages_add n)
  ultimately show ?thesis using n by (simp add: add.commute)
qed

lemma leads_1: "advance env sv rd i req g st = (g', st') \<Longrightarrow> leads env sv rd i req g st g' st'"
  by (rule leads_step [OF _ leads_refl])

text \<open>\<^verbatim>\<open>Validate\<close>.\<close>

text \<open>A provider comes from the cache, or from a discovery that is then kept.\<close>

lemma stages_provider:
  assumes p: "Validator_provider (ee_oidc env) (jt_issuer t) (ss_oidc st) = (p, os1)"
  shows "leads env sv rd i req (Resolving t) st
    (case p of Inl err \<Rightarrow> bad_token i (ErrDiscovering (jt_issuer t) err) | Inr q \<Rightarrow> Verifying t q) (st\<lparr>ss_oidc := os1\<rparr>)"
proof (cases "map_of (os_providers (ss_oidc st)) (jt_issuer t)")
  case (Some q)
  with p show ?thesis by (intro leads_1) (auto simp: advance_def Validator_provider_def)
next
  case None
  obtain d w where d: "ol_discover (ee_oidc env) (jt_issuer t) (os_network (ss_oidc st)) = (d, w)" by fastforce
  have disc: "leads env sv rd i req (Resolving t) st (Discovering t) st"
    by (rule leads_1) (simp add: advance_def None)
  show ?thesis
  proof (cases d)
    case (Inl err)
    have "leads env sv rd i req (Discovering t) st (bad_token i (ErrDiscovering (jt_issuer t) err)) (st\<lparr>ss_oidc := os1\<rparr>)"
      by (rule leads_1) (use p d None Inl in \<open>auto simp: advance_def Validator_provider_def\<close>)
    from leads_trans [OF disc this] p None d Inl show ?thesis by (auto simp: Validator_provider_def)
  next
    case (Inr q)
    have "leads env sv rd i req (Discovering t) st (Keeping t q) (st\<lparr>ss_oidc := (ss_oidc st)\<lparr>os_network := w\<rparr>\<rparr>)"
      by (rule leads_1) (simp add: advance_def d Inr)
    moreover have "leads env sv rd i req (Keeping t q) (st\<lparr>ss_oidc := (ss_oidc st)\<lparr>os_network := w\<rparr>\<rparr>)
        (Verifying t q) (st\<lparr>ss_oidc := os1\<rparr>)" and "p = Inr q"
      using p d None Inr by (auto simp: advance_def Validator_provider_def load_or_store_def intro!: leads_1)
    ultimately show ?thesis using leads_trans [OF leads_trans [OF disc]] by simp
  qed
qed

lemma stages_validate:
  assumes valid: "validateRequest (sv_max_ttl sv) req = None"
    and run: "Validator_Validate (ee_oidc env) (sv_oidc sv) (xq_oidc_token req) (ss_oidc st) = (r, os)"
  shows "leads env sv rd i req Arrived st (case r of Inl err \<Rightarrow> bad_token i err | Inr c \<Rightarrow> Validated c) (st\<lparr>ss_oidc := os\<rparr>)"
proof (cases "xq_oidc_token req = [] \<or> isl (ol_parse (ee_oidc env) (xq_oidc_token req))")
  case True
  with valid run have "advance env sv rd i req Arrived st =
      ((case r of Inl err \<Rightarrow> bad_token i err | Inr c \<Rightarrow> Validated c), st\<lparr>ss_oidc := os\<rparr>)"
    by (auto simp: advance_def Validator_Validate_def isl_def)
  then show ?thesis by (rule leads_1)
next
  case False
  then obtain t where t: "ol_parse (ee_oidc env) (xq_oidc_token req) = Inr t" "xq_oidc_token req \<noteq> []"
    by (cases "ol_parse (ee_oidc env) (xq_oidc_token req)") simp_all
  show ?thesis
  proof (cases "jt_issuer t = [] \<or> jt_issuer t \<notin> set (va_issuers (sv_oidc sv))")
    case True
    with valid run t have "advance env sv rd i req Arrived st =
        ((case r of Inl err \<Rightarrow> bad_token i err | Inr c \<Rightarrow> Validated c), st\<lparr>ss_oidc := os\<rparr>)"
      by (auto simp: advance_def Validator_Validate_def Let_def)
    then show ?thesis by (rule leads_1)
  next
    case iss: False
    obtain p os1 where p: "Validator_provider (ee_oidc env) (jt_issuer t) (ss_oidc st) = (p, os1)" by fastforce
    have a: "leads env sv rd i req Arrived st (Resolving t) st"
      by (rule leads_1) (use iss t valid in \<open>simp add: advance_def\<close>)
    note b = stages_provider [OF p, of sv rd i req]
    have c: "leads env sv rd i req
        (case p of Inl err \<Rightarrow> bad_token i (ErrDiscovering (jt_issuer t) err) | Inr q \<Rightarrow> Verifying t q) (st\<lparr>ss_oidc := os1\<rparr>)
        (case r of Inl err \<Rightarrow> bad_token i err | Inr c \<Rightarrow> Validated c) (st\<lparr>ss_oidc := os\<rparr>)"
    proof (cases p)
      case (Inl err)
      with run t iss p show ?thesis
        by (auto simp: Validator_Validate_def Let_def intro: leads_refl)
    next
      case (Inr q)
      with run t iss p show ?thesis
        by (intro leads_1) (auto simp: Validator_Validate_def Let_def advance_def claims_of_def split: prod.splits option.splits)
    qed
    show ?thesis by (rule leads_trans [OF leads_trans [OF a b] c])
  qed
qed

text \<open>\<^verbatim>\<open>fetchPolicyFromGitHub\<close>, \<^verbatim>\<open>fetchPolicy\<close> and \<^verbatim>\<open>Authorize\<close>.\<close>

lemma stages_fetch_loop:
  "rest \<noteq> [] \<Longrightarrow>
   fetch_loop (ee_rx env) (ee_yaml env) client (xr_fetch rd) (xq_target_repository req) key paths rest (ss_auth st) = (r, au) \<Longrightarrow>
   leads env sv rd i req (Reading c key client paths rest) st (Loaded c r) (st\<lparr>ss_auth := au\<rparr>)"
proof (induction rest arbitrary: st)
  case (Cons p rest)
  obtain x g where x: "ci_GetContents client (xq_target_repository req) p (as_github (ss_auth st)) = (x, g)" by fastforce
  let ?st = "st\<lparr>ss_auth := (ss_auth st)\<lparr>as_github := g\<rparr>\<rparr>"
  show ?case
  proof (cases x)
    case (Inr content)
    show ?thesis
    proof (cases "parseAndValidate (ee_rx env) (ee_yaml env) content")
      case (Inl err)
      then show ?thesis using Cons.prems x Inr by (intro leads_1) (auto simp: advance_def)
    next
      case (Inr f)
      note f = Inr
      have "leads env sv rd i req (Reading c key client paths (p # rest)) st (Storing c key f) ?st"
        by (rule leads_1) (simp add: advance_def x \<open>x = Inr content\<close> f)
      moreover have "leads env sv rd i req (Storing c key f) ?st (Loaded c r) (st\<lparr>ss_auth := au\<rparr>)"
        using Cons.prems x f \<open>x = Inr content\<close> by (intro leads_1) (auto simp: advance_def)
      ultimately show ?thesis by (rule leads_trans)
    qed
  next
    case (Inl err)
    show ?thesis
    proof (cases "gh_is err ErrFileNotFound \<and> \<not> gh_is err ErrRepositoryNotFound \<and>
        \<not> gh_is err ErrInstallationNotFound \<and> rest \<noteq> []")
      case True
      have "leads env sv rd i req (Reading c key client paths (p # rest)) st (Reading c key client paths rest) ?st"
        by (rule leads_1) (use True x Inl in \<open>simp add: advance_def\<close>)
      moreover have "leads env sv rd i req (Reading c key client paths rest) ?st (Loaded c r) (?st\<lparr>ss_auth := au\<rparr>)"
        using Cons.prems x Inl True by (intro Cons.IH) auto
      ultimately show ?thesis using leads_trans by fastforce
    next
      case False
      then show ?thesis using Cons.prems x Inl by (intro leads_1) (auto simp: advance_def split: if_splits)
    qed
  qed
qed simp

lemma stages_choosing:
  assumes "fetchPolicyFromGitHub (ee_rx env) (ee_yaml env) (sv_authorizer sv) (xr_fetch rd)
      (xq_target_repository req) resolved key (ss_auth st) = (r, au)"
  shows "leads env sv rd i req (Choosing c key resolved) st (Loaded c r) (st\<lparr>ss_auth := au\<rparr>)"
proof -
  let ?a = "sv_authorizer sv" and ?rs = "fr_select (xr_fetch rd)"
  obtain x s where sel: "SelectApp (au_store ?a) (au_selector ?a) (sr_loop ?rs) (sr_now ?rs) (sr_until ?rs)
      (sr_rand ?rs) (xq_target_repository req) (as_store (ss_auth st)) = (x, s)" by fastforce
  show ?thesis
  proof (cases "\<exists>a client. x = Inr a \<and> map_of (au_clients ?a) (app_client_id a) = Some client")
    case True
    then obtain a client where a: "x = Inr a" "map_of (au_clients ?a) (app_client_id a) = Some client" by blast
    let ?st = "st\<lparr>ss_auth := (ss_auth st)\<lparr>as_store := s\<rparr>\<rparr>" and ?ps = "extensionVariants resolved"
    have "leads env sv rd i req (Choosing c key resolved) st (Reading c key client ?ps ?ps) ?st"
      by (rule leads_1) (simp add: advance_def Let_def sel a)
    moreover have "leads env sv rd i req (Reading c key client ?ps ?ps) ?st (Loaded c r) (?st\<lparr>ss_auth := au\<rparr>)"
      using assms by (intro stages_fetch_loop) (simp_all add: fetchPolicyFromGitHub_def sel a Let_def)
    ultimately show ?thesis using leads_trans by fastforce
  next
    case False
    with assms sel show ?thesis
      by (intro leads_1) (auto simp: advance_def fetchPolicyFromGitHub_def Let_def split: sum.splits option.splits)
  qed
qed

lemma stages_fetch:
  assumes early: "denied_early (ee_rx env) (sv_authorizer sv) (xr_central rd) (auth_request_of c req) = None"
    and run: "fetchPolicy (ee_rx env) (ee_yaml env) (sv_authorizer sv) (xr_fetch rd) (xq_target_repository req)
      (pol_trust_policy_path (au_config (sv_authorizer sv))) (ss_auth st) = (r, au)"
  shows "leads env sv rd i req (Validated c) st (Loaded c r) (st\<lparr>ss_auth := au\<rparr>)"
proof (cases "\<exists>org repo. splitN (CHR ''/'') 2 (xq_target_repository req) = [org, repo] \<and> org \<noteq> [] \<and> repo \<noteq> []")
  case False
  with early run show ?thesis
    by (intro leads_1) (auto simp: advance_def fetchPolicy_def split: list.splits if_splits)
next
  case True
  then obtain org repo where split: "splitN (CHR ''/'') 2 (xq_target_repository req) = [org, repo]" "org \<noteq> []" "repo \<noteq> []"
    by blast
  define resolved where "resolved = replace_all ''{org}'' org (pol_trust_policy_path (au_config (sv_authorizer sv)))"
  define key where "key = xq_target_repository req @ '':'' @ resolved"
  have look: "leads env sv rd i req (Validated c) st (Looking c key resolved) st"
    by (rule leads_1) (simp add: advance_def early split Let_def key_def resolved_def)
  show ?thesis
  proof (cases "policyCache_get (fr_get (xr_fetch rd)) (as_cache (ss_auth st)) key")
    case (Some f)
    have "leads env sv rd i req (Looking c key resolved) st (Loaded c r) (st\<lparr>ss_auth := au\<rparr>)"
      using Some run split by (intro leads_1) (auto simp: advance_def fetchPolicy_def Let_def key_def resolved_def)
    with look show ?thesis by (rule leads_trans)
  next
    case None
    have join: "leads env sv rd i req (Looking c key resolved) st (Joining c key resolved) st"
      by (rule leads_1) (simp add: advance_def None)
    show ?thesis
    proof (cases "policyCache_get (fr_get_again (xr_fetch rd)) (as_cache (ss_auth st)) key")
      case (Some f)
      have "leads env sv rd i req (Joining c key resolved) st (Loaded c r) (st\<lparr>ss_auth := au\<rparr>)"
        using Some None run split by (intro leads_1) (auto simp: advance_def fetchPolicy_def Let_def key_def resolved_def)
      with leads_trans [OF look join] show ?thesis by (rule leads_trans)
    next
      case again: None
      have "leads env sv rd i req (Joining c key resolved) st (Choosing c key resolved) st"
        by (rule leads_1) (simp add: advance_def again)
      moreover have "leads env sv rd i req (Choosing c key resolved) st (Loaded c r) (st\<lparr>ss_auth := au\<rparr>)"
        using None again run split by (intro stages_choosing) (simp add: fetchPolicy_def Let_def key_def resolved_def)
      ultimately show ?thesis using leads_trans [OF look join] leads_trans by metis
    qed
  qed
qed

lemma stages_authorize:
  assumes run: "Authorize (ee_rx env) (ee_yaml env) (sv_authorizer sv) (xr_central rd) (xr_fetch rd)
      (auth_request_of c req) (ss_auth st) = (result, au)"
  shows "leads env sv rd i req (Validated c) st
    (if res_allowed result then Authorized c result else refuse i c (res_deny_reason result)) (st\<lparr>ss_auth := au\<rparr>)"
proof (cases "denied_early (ee_rx env) (sv_authorizer sv) (xr_central rd) (auth_request_of c req)")
  case (Some d)
  with run show ?thesis by (intro leads_1) (auto simp: advance_def Authorize_parts)
next
  case None
  obtain r au' where f: "fetchPolicy (ee_rx env) (ee_yaml env) (sv_authorizer sv) (xr_fetch rd) (xq_target_repository req)
      (pol_trust_policy_path (au_config (sv_authorizer sv))) (ss_auth st) = (r, au')" by fastforce
  with run None have "result = decide (ee_rx env) (au_config (sv_authorizer sv)) (auth_request_of c req) r" "au' = au"
    by (simp_all add: Authorize_parts)
  then have "leads env sv rd i req (Loaded c r) (st\<lparr>ss_auth := au'\<rparr>)
      (if res_allowed result then Authorized c result else refuse i c (res_deny_reason result)) (st\<lparr>ss_auth := au\<rparr>)"
    by (intro leads_1) (simp add: advance_def Let_def)
  with stages_fetch [OF None f] show ?thesis by (rule leads_trans)
qed

text \<open>The rest, and the whole.\<close>

lemma stages_finish:
  assumes "exchange_finish env rd i c req res a t st = (r, st')"
  shows "leads env sv rd i req (Counted c res a t) st (Answered r) st'"
  by (rule leads_step, simp add: advance_def, rule leads_1)
    (use assms in \<open>auto simp: advance_def exchange_finish_def answer_of_def Let_def split: prod.splits option.splits\<close>)

lemma stages_mint:
  assumes run: "exchange_mint env sv rd i c req res st = (r, st')"
  shows "leads env sv rd i req (Authorized c res) st (Answered r) st'"
proof (cases rule: exchange_mint_cases [of sv rd req st env i c res])
  case (minted a s client t g)
  let ?st = "st\<lparr>ss_auth := (ss_auth st)\<lparr>as_store := s, as_github := g\<rparr>\<rparr>"
  have "leads env sv rd i req (Authorized c res) st (Selected c res a client) (st\<lparr>ss_auth := (ss_auth st)\<lparr>as_store := s\<rparr>\<rparr>)"
    by (rule leads_1) (simp add: advance_def minted(1,2))
  moreover have "leads env sv rd i req (Selected c res a client) (st\<lparr>ss_auth := (ss_auth st)\<lparr>as_store := s\<rparr>\<rparr>)
      (Minted c res a client t) ?st"
    by (rule leads_1) (simp add: advance_def minted(3))
  ultimately have "leads env sv rd i req (Authorized c res) st (Minted c res a client t) ?st"
    by (rule leads_trans)
  moreover have "leads env sv rd i req (Minted c res a client t) ?st (Counted c res a t)
      (st\<lparr>ss_auth := record_rate sv client rd (app_client_id a) (trs_token t) (ss_auth ?st)\<rparr>)"
  proof (cases "ci_RateLimit client (trs_token t) g")
    case (Pair x g')
    then show ?thesis
    proof (cases x)
      case (Inl err)
      with Pair show ?thesis by (intro leads_1) (simp add: advance_def record_rate_def)
    next
      case (Inr info)
      let ?st' = "?st\<lparr>ss_auth := (ss_auth ?st)\<lparr>as_github := g'\<rparr>\<rparr>"
      have "leads env sv rd i req (Minted c res a client t) ?st (Metered c res a t info) ?st'"
        using Pair Inr by (intro leads_1) (simp add: advance_def)
      moreover have "leads env sv rd i req (Metered c res a t info) ?st' (Counted c res a t)
          (st\<lparr>ss_auth := record_rate sv client rd (app_client_id a) (trs_token t) (ss_auth ?st)\<rparr>)"
        using Pair Inr by (intro leads_1) (simp add: advance_def record_rate_def)
      ultimately show ?thesis by (rule leads_trans)
    qed
  qed
  ultimately have "leads env sv rd i req (Authorized c res) st (Counted c res a t)
      (st\<lparr>ss_auth := record_rate sv client rd (app_client_id a) (trs_token t) (ss_auth ?st)\<rparr>)"
    by (rule leads_trans)
  then show ?thesis
    by (rule leads_trans) (rule stages_finish, use minted(4) run in simp)
next
  case (no_token a s client err g e)
  with run show ?thesis
    by (auto simp: advance_def exchange_mint_def Let_def intro!: leads_step [OF _ leads_step [OF _ leads_1]])
qed (use run in \<open>auto simp: advance_def exchange_mint_def Let_def intro!: leads_step [OF _ leads_1]
    split: select_error.splits\<close>)

lemma stages_all:
  "stages env sv rd i req 19 Arrived st =
     (case exchange env sv rd i req st of (r, st') \<Rightarrow> (Answered r, st'))"
proof -
  have "leads env sv rd i req Arrived st (Answered (fst (exchange env sv rd i req st))) (snd (exchange env sv rd i req st))"
  proof (cases rule: exchange_cases [of sv req env rd i st])
    case (invalid err)
    then show ?thesis by (intro leads_1) (simp add: advance_def)
  next
    case (bad_token err os)
    from stages_validate [OF bad_token(1,2), where i = i and rd = rd] bad_token(3) show ?thesis by (simp add: bad_token_def)
  next
    case (refused c os result au d)
    let ?e = "WithCaller (ExchangeError (code_string (de_code d)) (de_message d) (de_details d) i) (oc_issuer c) (oc_subject c)"
    have "leads env sv rd i req Arrived st (Validated c) (st\<lparr>ss_oidc := os\<rparr>)"
      using stages_validate [OF refused(1,2), where i = i and rd = rd] by simp
    moreover have "leads env sv rd i req (Validated c) (st\<lparr>ss_oidc := os\<rparr>) (Refused c (code_string (de_code d)) ?e)
        (st\<lparr>ss_oidc := os, ss_auth := au\<rparr>)"
      using stages_authorize [of env sv rd c req "st\<lparr>ss_oidc := os\<rparr>" result au i] refused(3-5) by (simp add: refuse_def)
    moreover have "leads env sv rd i req (Refused c (code_string (de_code d)) ?e) (st\<lparr>ss_oidc := os, ss_auth := au\<rparr>)
        (Answered (fst (exchange env sv rd i req st))) (snd (exchange env sv rd i req st))"
      by (rule leads_1) (simp add: advance_def refused(6))
    ultimately show ?thesis using leads_trans by metis
  next
    case (passed c os result au)
    have "leads env sv rd i req Arrived st (Validated c) (st\<lparr>ss_oidc := os\<rparr>)"
      using stages_validate [OF passed(1,2), where i = i and rd = rd] by simp
    moreover have "leads env sv rd i req (Validated c) (st\<lparr>ss_oidc := os\<rparr>) (Authorized c result)
        (st\<lparr>ss_oidc := os, ss_auth := au\<rparr>)"
      using stages_authorize [of env sv rd c req "st\<lparr>ss_oidc := os\<rparr>" result au i] passed(3,4) by simp
    moreover have "leads env sv rd i req (Authorized c result) (st\<lparr>ss_oidc := os, ss_auth := au\<rparr>)
        (Answered (fst (exchange env sv rd i req st))) (snd (exchange env sv rd i req st))"
      by (rule stages_mint) (simp add: passed(5))
    ultimately show ?thesis using leads_trans by metis
  qed
  from leads_answered [OF this] show ?thesis by (simp split: prod.split)
qed

end
