(* ===== verification/Service_Interleaved.thy ===== *)
theory Service_Interleaved
  imports Exchange_Stages
begin

text \<open>
  Concurrent requests. The system interleaves the calls of any number of exchanges (the stages of
  \<^verbatim>\<open>Exchange_Stages\<close>) with the revocations and removals of revocation rounds, and with the outcomes that
  \<^verbatim>\<open>singleflight\<close> hands from the request that fetched a policy to those that waited for it
  (\<^verbatim>\<open>internal/sts/sts.go\<close>, \<^verbatim>\<open>internal/sts/authorizer/policy_fetch.go\<close>). Its invariant says what each
  stage of each request has established and what the shared state keeps.
\<close>

section \<open>The system\<close>

text \<open>
  A request in progress, with what its calls will read of the clock and of random numbers; and a
  goroutine of a revocation round, which revokes a token and then removes it from the tracker.
  \<open>sy_flights\<close> records the outcomes of the fetches by their key, \<open>sy_revoked\<close> the hashes of the tokens
  whose revocation GitHub confirmed.
\<close>

record ('p, 'g) job =
  jb_id :: string
  jb_request :: exchange_request
  jb_readings :: exchange_readings
  jb_stage :: "('p, 'g) stage"

datatype 'g revoker = ToRevoke "'g client_iface" string string | ToRemove string

record ('p, 'w, 's, 'g, 'a) system =
  sy_service :: "('p, 'w, 's, 'g, 'a) service_state"
  sy_jobs :: "('p, 'g) job list"
  sy_flights :: "(string \<times> (fetch_error + policy_file)) list"
  sy_revokers :: "'g revoker list"
  sy_revoked :: "string list"

text \<open>The outcome of a fetch, when a call lands it.\<close>

fun flight_key :: "('p, 'g) stage \<Rightarrow> string option" where
  "flight_key (Joining c key resolved) = Some key"
| "flight_key (Choosing c key resolved) = Some key"
| "flight_key (Reading c key client paths rest) = Some key"
| "flight_key (Storing c key policy) = Some key"
| "flight_key g = None"

fun_cases flight_key_SomeE: "flight_key g = Some key"

definition landed :: "('p, 'g) stage \<Rightarrow> ('p, 'g) stage \<Rightarrow> (string \<times> (fetch_error + policy_file)) list" where
  "landed g g' =
     (case (flight_key g, g') of
        (Some key, Loaded c r) \<Rightarrow> [(key, r)]
      | _ \<Rightarrow> [])"

text \<open>
  A request arrives with an id of its own and with a map of permissions. Which outcomes a waiting
  request can get is not restricted to the flights it overlapped; neither is the number of flights
  for a key. A round starts when the one before has ended, with a snapshot of the expired tokens.
\<close>

inductive system_step ::
  "('p, 'w, 'a) exchange_env \<Rightarrow> ('s, 'g) service \<Rightarrow> ('p, 'w, 's, 'g, 'a) system
     \<Rightarrow> ('p, 'w, 's, 'g, 'a) system \<Rightarrow> bool"
  for env sv where
  arrival: "i \<notin> jb_id ` set (sy_jobs s) \<Longrightarrow> gm_wf (xq_requested_permissions req) \<Longrightarrow>
    system_step env sv s
      (s\<lparr>sy_jobs := \<lparr>jb_id = i, jb_request = req, jb_readings = rd, jb_stage = Arrived\<rparr> # sy_jobs s\<rparr>)"
| call: "sy_jobs s = js @ j # ks \<Longrightarrow>
    advance env sv (jb_readings j) (jb_id j) (jb_request j) (jb_stage j) (sy_service s) = (g, st) \<Longrightarrow>
    system_step env sv s
      (s\<lparr>sy_jobs := js @ j\<lparr>jb_stage := g\<rparr> # ks, sy_service := st,
         sy_flights := landed (jb_stage j) g @ sy_flights s\<rparr>)"
| shared: "sy_jobs s = js @ j # ks \<Longrightarrow> jb_stage j = Joining c key resolved \<Longrightarrow> (key, r) \<in> set (sy_flights s) \<Longrightarrow>
    system_step env sv s (s\<lparr>sy_jobs := js @ j\<lparr>jb_stage := Loaded c r\<rparr> # ks\<rparr>)"
| round: "sy_revokers s = [] \<Longrightarrow> gm_range (TokenTracker_GetExpired now (ss_tracker (sy_service s))) order \<Longrightarrow>
    c \<in> snd ` set (sv_clients sv) \<Longrightarrow>
    system_step env sv s (s\<lparr>sy_revokers := map (\<lambda>(h, t). ToRevoke c h t) order\<rparr>)"
| revoked: "sy_revokers s = rs @ ToRevoke c h t # us \<Longrightarrow>
    ci_RevokeToken c t (as_github (ss_auth (sy_service s))) = (None, g) \<Longrightarrow>
    system_step env sv s
      (s\<lparr>sy_revokers := rs @ ToRemove h # us, sy_revoked := h # sy_revoked s,
         sy_service := (sy_service s)\<lparr>ss_auth := (ss_auth (sy_service s))\<lparr>as_github := g\<rparr>\<rparr>\<rparr>)"
| not_revoked: "sy_revokers s = rs @ ToRevoke c h t # us \<Longrightarrow>
    ci_RevokeToken c t (as_github (ss_auth (sy_service s))) = (Some err, g) \<Longrightarrow>
    system_step env sv s
      (s\<lparr>sy_revokers := rs @ us,
         sy_service := (sy_service s)\<lparr>ss_auth := (ss_auth (sy_service s))\<lparr>as_github := g\<rparr>\<rparr>\<rparr>)"
| removed: "sy_revokers s = rs @ ToRemove h # us \<Longrightarrow>
    system_step env sv s
      (s\<lparr>sy_revokers := rs @ us,
         sy_service := (sy_service s)\<lparr>ss_tracker := TokenTracker_Remove h (ss_tracker (sy_service s))\<rparr>\<rparr>)"

inductive system_run ::
  "('p, 'w, 'a) exchange_env \<Rightarrow> ('s, 'g) service \<Rightarrow> ('p, 'w, 's, 'g, 'a) system
     \<Rightarrow> ('p, 'w, 's, 'g, 'a) system \<Rightarrow> bool"
  for env sv s where
  system_start: "system_run env sv s s"
| system_more: "system_run env sv s t \<Longrightarrow> system_step env sv t u \<Longrightarrow> system_run env sv s u"

definition system_at_rest :: "('p, 'w, 's, 'g, 'a) system \<Rightarrow> bool" where
  "system_at_rest s \<longleftrightarrow> sy_jobs s = [] \<and> sy_flights s = [] \<and> sy_revokers s = [] \<and> sy_revoked s = []"

section \<open>Where a policy file comes from\<close>

text \<open>
  The file was read by a client of the service from the repository itself, at the configured path,
  and validated.
\<close>

definition policy_of ::
  "('p, 'w, 'a) exchange_env \<Rightarrow> ('s, 'g) service \<Rightarrow> string \<Rightarrow> policy_file \<Rightarrow> bool" where
  "policy_of env sv repository f \<longleftrightarrow>
     file_good f \<and>
     (\<exists>org client path content g g'. parseOwner repository = Inr org \<and> client \<in> snd ` set (sv_clients sv) \<and>
        path \<in> set (extensionVariants
          (replace_all ''{org}'' org (pol_trust_policy_path (au_config (sv_authorizer sv))))) \<and>
        ci_GetContents client repository path g = (Inr content, g') \<and>
        parseAndValidate (ee_rx env) (ee_yaml env) content = Inr f)"

text \<open>The keys of the cache name the repository: a repository name holds no colon.\<close>

definition key_policy ::
  "('p, 'w, 'a) exchange_env \<Rightarrow> ('s, 'g) service \<Rightarrow> string \<Rightarrow> policy_file \<Rightarrow> bool" where
  "key_policy env sv key f \<longleftrightarrow>
     (\<exists>repository rest. key = repository @ CHR '':'' # rest \<and> CHR '':'' \<notin> set repository \<and> policy_of env sv repository f)"

lemma first_colon:
  "xs @ c # ys = xs' @ c # ys' \<Longrightarrow> c \<notin> set xs \<Longrightarrow> c \<notin> set xs' \<Longrightarrow> xs = xs'"
  by (auto simp: append_eq_append_conv2 append_eq_Cons_conv Cons_eq_append_conv)

lemma key_policy_of:
  assumes "key_policy env sv (repository @ CHR '':'' # rest) f" and "CHR '':'' \<notin> set repository"
  shows "policy_of env sv repository f"
  using assms first_colon unfolding key_policy_def by metis

lemma validateRequest_no_colon:
  assumes "validateRequest maxTTL req = None"
  shows "CHR '':'' \<notin> set (xq_target_repository req)"
proof -
  from assms obtain owner repo where parts: "splitN (CHR ''/'') 3 (xq_target_repository req) = [owner, repo]"
    and names: "validGitHubName owner" "validGitHubName repo"
    by (auto simp: validateRequest_None)
  have "xq_target_repository req = owner @ CHR ''/'' # repo"
    using join_splitN [of 3 "CHR ''/''" "xq_target_repository req"] by (simp add: parts)
  with names show ?thesis
    by (auto simp: validGitHubName_def list_all_iff github_name_char_def Let_def)
qed

section \<open>What each stage has established\<close>

text \<open>
  Facts that no later step of another request can undo, because they do not mention the shared
  state: the token was verified, a policy of the repository authorised the request, GitHub issued the
  token to an app that serves the repository.
\<close>

definition accepted ::
  "('p, 'w, 'a) exchange_env \<Rightarrow> ('s, 'g) service \<Rightarrow> exchange_request \<Rightarrow> jwt_token \<Rightarrow> bool" where
  "accepted env sv req t \<longleftrightarrow>
     validateRequest (sv_max_ttl sv) req = None \<and> ol_parse (ee_oidc env) (xq_oidc_token req) = Inr t \<and>
     jt_issuer t \<in> set (va_issuers (sv_oidc sv))"

definition verified ::
  "('p, 'w, 'a) exchange_env \<Rightarrow> ('s, 'g) service \<Rightarrow> (string \<Rightarrow> 'p \<Rightarrow> bool) \<Rightarrow> exchange_request \<Rightarrow> oidc_claims \<Rightarrow> bool" where
  "verified env sv origin req c \<longleftrightarrow>
     (\<exists>t p w w'. accepted env sv req t \<and> c = claims_of t \<and> origin (jt_issuer t) p \<and>
        ol_verify (ee_oidc env) p (va_audience (sv_oidc sv)) (xq_oidc_token req) w = (None, w'))"

definition cleared ::
  "('p, 'w, 'a) exchange_env \<Rightarrow> ('s, 'g) service \<Rightarrow> (string \<Rightarrow> 'p \<Rightarrow> bool) \<Rightarrow> time \<Rightarrow> exchange_request \<Rightarrow> oidc_claims \<Rightarrow> bool" where
  "cleared env sv origin now req c \<longleftrightarrow>
     verified env sv origin req c \<and>
     denied_early (ee_rx env) (sv_authorizer sv) now (auth_request_of c req) = None"

definition fetching :: "('s, 'g) service \<Rightarrow> exchange_request \<Rightarrow> string \<Rightarrow> string \<Rightarrow> bool" where
  "fetching sv req key resolved \<longleftrightarrow>
     (\<exists>org. parseOwner (xq_target_repository req) = Inr org \<and>
        resolved = replace_all ''{org}'' org (pol_trust_policy_path (au_config (sv_authorizer sv))) \<and>
        key = xq_target_repository req @ CHR '':'' # resolved)"

definition decided ::
  "('p, 'w, 'a) exchange_env \<Rightarrow> ('s, 'g) service \<Rightarrow> time \<Rightarrow> exchange_request \<Rightarrow> oidc_claims \<Rightarrow> auth_result \<Rightarrow> bool" where
  "decided env sv now req c res \<longleftrightarrow>
     (\<exists>f p. policy_of env sv (xq_target_repository req) f \<and>
        authorizes (ee_rx env) (au_config (sv_authorizer sv)) now (auth_request_of c req) f p \<and>
        res_matched_policy res = tp_name p \<and> tp_name p \<noteq> [] \<and>
        res_permissions res = requested_or_policy (auth_request_of c req) p \<and>
        res_ttl res = resolveTTL (au_config (sv_authorizer sv)) (auth_request_of c req) p \<and>
        0 < res_ttl res \<and> res_ttl res \<le> pol_max_token_ttl (au_config (sv_authorizer sv)))"

definition from_github ::
  "('s, 'g) service \<Rightarrow> exchange_request \<Rightarrow> auth_result \<Rightarrow> app \<Rightarrow> token_response \<Rightarrow> bool" where
  "from_github sv req res a t \<longleftrightarrow>
     serves (sv_selector sv) (xq_target_repository req) a \<and>
     (\<exists>client g g'. map_of (sv_clients sv) (app_client_id a) = Some client \<and>
        ci_RequestToken client \<lparr>trq_repository = xq_target_repository req,
          trq_permissions = res_permissions res\<rparr> g = (Inr t, g'))"

definition earned ::
  "('p, 'w, 'a) exchange_env \<Rightarrow> ('s, 'g) service \<Rightarrow> (string \<Rightarrow> 'p \<Rightarrow> bool) \<Rightarrow> time \<Rightarrow> exchange_request
     \<Rightarrow> oidc_claims \<Rightarrow> auth_result \<Rightarrow> app \<Rightarrow> token_response \<Rightarrow> bool" where
  "earned env sv origin now req c res a t \<longleftrightarrow>
     verified env sv origin req c \<and> decided env sv now req c res \<and> from_github sv req res a t"

fun stage_ok ::
  "('p, 'w, 'a) exchange_env \<Rightarrow> ('s, 'g) service \<Rightarrow> (string \<Rightarrow> 'p \<Rightarrow> bool) \<Rightarrow> exchange_readings \<Rightarrow> string
     \<Rightarrow> exchange_request \<Rightarrow> ('p, 'g) stage \<Rightarrow> bool" where
  "stage_ok env sv origin rd i req Arrived \<longleftrightarrow> True"
| "stage_ok env sv origin rd i req (Resolving t) \<longleftrightarrow> accepted env sv req t"
| "stage_ok env sv origin rd i req (Discovering t) \<longleftrightarrow> accepted env sv req t"
| "stage_ok env sv origin rd i req (Keeping t p) \<longleftrightarrow> accepted env sv req t \<and> origin (jt_issuer t) p"
| "stage_ok env sv origin rd i req (Verifying t p) \<longleftrightarrow> accepted env sv req t \<and> origin (jt_issuer t) p"
| "stage_ok env sv origin rd i req (Validated c) \<longleftrightarrow> verified env sv origin req c"
| "stage_ok env sv origin rd i req (Looking c key resolved) \<longleftrightarrow>
     cleared env sv origin (xr_central rd) req c \<and> fetching sv req key resolved"
| "stage_ok env sv origin rd i req (Joining c key resolved) \<longleftrightarrow>
     cleared env sv origin (xr_central rd) req c \<and> fetching sv req key resolved"
| "stage_ok env sv origin rd i req (Choosing c key resolved) \<longleftrightarrow>
     cleared env sv origin (xr_central rd) req c \<and> fetching sv req key resolved"
| "stage_ok env sv origin rd i req (Reading c key client paths rest) \<longleftrightarrow>
     cleared env sv origin (xr_central rd) req c \<and> client \<in> snd ` set (sv_clients sv) \<and>
     (\<exists>resolved. fetching sv req key resolved \<and> set rest \<subseteq> set (extensionVariants resolved))"
| "stage_ok env sv origin rd i req (Storing c key f) \<longleftrightarrow>
     cleared env sv origin (xr_central rd) req c \<and> policy_of env sv (xq_target_repository req) f \<and>
     (\<exists>resolved. fetching sv req key resolved)"
| "stage_ok env sv origin rd i req (Loaded c r) \<longleftrightarrow>
     cleared env sv origin (xr_central rd) req c \<and> (\<forall>f. r = Inr f \<longrightarrow> policy_of env sv (xq_target_repository req) f)"
| "stage_ok env sv origin rd i req (Authorized c res) \<longleftrightarrow>
     verified env sv origin req c \<and> decided env sv (xr_central rd) req c res"
| "stage_ok env sv origin rd i req (Selected c res a client) \<longleftrightarrow>
     verified env sv origin req c \<and> decided env sv (xr_central rd) req c res \<and>
     serves (sv_selector sv) (xq_target_repository req) a \<and>
     map_of (sv_clients sv) (app_client_id a) = Some client"
| "stage_ok env sv origin rd i req (Minted c res a client t) \<longleftrightarrow>
     earned env sv origin (xr_central rd) req c res a t"
| "stage_ok env sv origin rd i req (Metered c res a t info) \<longleftrightarrow>
     earned env sv origin (xr_central rd) req c res a t"
| "stage_ok env sv origin rd i req (Counted c res a t) \<longleftrightarrow>
     earned env sv origin (xr_central rd) req c res a t"
| "stage_ok env sv origin rd i req (Tracked c res a t) \<longleftrightarrow>
     earned env sv origin (xr_central rd) req c res a t"
| "stage_ok env sv origin rd i req (Refused c reason e) \<longleftrightarrow> True"
| "stage_ok env sv origin rd i req (Answered r) \<longleftrightarrow>
     r \<noteq> None \<and>
     (\<forall>resp. r = Some (Inr resp) \<longrightarrow>
        (\<exists>c res a t. earned env sv origin (xr_central rd) req c res a t \<and>
           resp = answer_of env rd i c res a t))"

lemma stage_ok_errors [simp]:
  "stage_ok env sv origin rd i req (bad_token i' err)"
  "stage_ok env sv origin rd i req (refuse i' c (Some d))"
  by (simp_all add: bad_token_def refuse_def)

text \<open>The shared state.\<close>

definition shared_ok ::
  "('p, 'w, 'a) exchange_env \<Rightarrow> ('s, 'g) service \<Rightarrow> (string \<Rightarrow> 'p \<Rightarrow> bool) \<Rightarrow> ('s \<Rightarrow> bool)
     \<Rightarrow> ('p, 'w, 's, 'g, 'a) service_state \<Rightarrow> bool" where
  "shared_ok env sv origin ok st \<longleftrightarrow>
     providers_ok (sv_oidc sv) origin (ss_oidc st) \<and>
     cache_each (key_policy env sv) (as_cache (ss_auth st)) \<and>
     ok (as_store (ss_auth st)) \<and> gm_wf (ss_tracker st)"

section \<open>One call\<close>

text \<open>Every call keeps the shared state well formed and establishes the facts of its stage.\<close>

lemma load_or_store_ok:
  assumes "providers_ok va origin os" and "iss \<in> set (va_issuers va)" and "origin iss p"
    and "load_or_store iss p (os_providers os) = (q, m)"
  shows "origin iss q \<and> providers_ok va origin (os\<lparr>os_providers := m\<rparr>)"
  using assms by (auto simp: load_or_store_def providers_ok_def split: option.splits if_splits)

lemma validate_call_ok:
  assumes disc: "discovers (ee_oidc env) origin" and os: "providers_ok (sv_oidc sv) origin os"
    and g: "stage_ok env sv origin rd i req g" "validating g"
    and run: "validate_call env sv i req g os = (g', os')"
  shows "stage_ok env sv origin rd i req g' \<and> providers_ok (sv_oidc sv) origin os'"
proof (cases g)
  case Arrived
  with run os show ?thesis
    by (auto simp: accepted_def split: option.splits sum.splits if_splits)
next
  case (Resolving t)
  with run os g show ?thesis by (auto simp: providers_ok_def split: option.splits)
next
  case (Discovering t)
  have "origin (jt_issuer t) p" if "ol_discover (ee_oidc env) (jt_issuer t) w = (Inr p, w')" for p w w'
    using disc that unfolding discovers_def by blast
  with run os g Discovering show ?thesis
    by (auto simp: providers_ok_def split: sum.splits prod.splits)
next
  case (Keeping t p)
  obtain q m where m: "load_or_store (jt_issuer t) p (os_providers os) = (q, m)" by fastforce
  show ?thesis using load_or_store_ok [OF os _ _ m] run g Keeping m by (auto simp: accepted_def)
next
  case (Verifying t p)
  have "verified env sv origin req (claims_of t)"
    if "ol_verify (ee_oidc env) p (va_audience (sv_oidc sv)) (xq_oidc_token req) w = (None, w')" for w w'
    using g Verifying that unfolding verified_def by auto
  with run os Verifying show ?thesis
    by (auto simp: providers_ok_def split: prod.splits option.splits)
qed (use g in simp_all)

lemma verified_facts:
  assumes "verified env sv origin req c"
  shows "validateRequest (sv_max_ttl sv) req = None" and "0 \<le> xq_requested_ttl req"
    and "CHR '':'' \<notin> set (xq_target_repository req)"
proof -
  show v: "validateRequest (sv_max_ttl sv) req = None" using assms by (auto simp: verified_def accepted_def)
  then show "0 \<le> xq_requested_ttl req" by (simp add: validateRequest_None)
  show "CHR '':'' \<notin> set (xq_target_repository req)" by (rule validateRequest_no_colon [OF v])
qed

lemma fetching_policy:
  assumes "fetching sv req key resolved" and "cleared env sv origin now req c" and "key_policy env sv key f"
  shows "policy_of env sv (xq_target_repository req) f"
proof -
  have "verified env sv origin req c" using assms(2) by (simp add: cleared_def)
  then have "CHR '':'' \<notin> set (xq_target_repository req)" by (rule verified_facts)
  with assms(1,3) show ?thesis by (auto simp: fetching_def intro: key_policy_of)
qed

lemma policy_fetching:
  assumes "fetching sv req key resolved" and "cleared env sv origin now req c"
    and "policy_of env sv (xq_target_repository req) f"
  shows "key_policy env sv key f"
proof -
  have "verified env sv origin req c" using assms(2) by (simp add: cleared_def)
  then have "CHR '':'' \<notin> set (xq_target_repository req)" by (rule verified_facts)
  with assms(1,3) show ?thesis by (auto simp: fetching_def key_policy_def)
qed

definition auth_ok ::
  "('p, 'w, 'a) exchange_env \<Rightarrow> ('s, 'g) service \<Rightarrow> ('s \<Rightarrow> bool) \<Rightarrow> ('s, 'g) auth_state \<Rightarrow> bool" where
  "auth_ok env sv ok au \<longleftrightarrow> cache_each (key_policy env sv) (as_cache au) \<and> ok (as_store au)"

lemma choosing_ok:
  assumes built: "service_built (ee_rx env) sv" and store: "rate_store (sv_store sv) view seen ok"
    and au: "auth_ok env sv ok au" and g: "stage_ok env sv origin rd i req (Choosing c key resolved)"
    and run: "authorize_call env sv rd i req (Choosing c key resolved) au = (g', au')"
  shows "stage_ok env sv origin rd i req g' \<and> auth_ok env sv ok au'"
proof -
  let ?a = "sv_authorizer sv" and ?rs = "fr_select (xr_fetch rd)"
  obtain x s where sel: "SelectApp (au_store ?a) (au_selector ?a) (sr_loop ?rs) (sr_now ?rs) (sr_until ?rs)
      (sr_rand ?rs) (xq_target_repository req) (as_store au) = (x, s)" by fastforce
  have clients: "au_clients ?a = sv_clients sv" and "rate_store (au_store ?a) view seen ok"
    using built store by (simp_all add: service_built_def)
  then have "s = as_store au" using rate_store.SelectApp_state [of "au_store ?a" view seen ok] au sel
    by (metis auth_ok_def snd_conv)
  then have au': "auth_ok env sv ok (au\<lparr>as_store := s\<rparr>)" using au by (simp add: auth_ok_def)
  have "client \<in> snd ` set (sv_clients sv)" if "map_of (sv_clients sv) k = Some client" for k client
    using map_of_SomeD [OF that] by force
  with run sel g au' clients show ?thesis
    by (auto simp: Let_def split: sum.splits option.splits)
qed

lemma reading_ok:
  assumes yaml: "decodes_maps (ee_yaml env)" and au: "auth_ok env sv ok au"
    and g: "stage_ok env sv origin rd i req (Reading c key client paths (p # rest))"
    and run: "authorize_call env sv rd i req (Reading c key client paths (p # rest)) au = (g', au')"
  shows "stage_ok env sv origin rd i req g' \<and> auth_ok env sv ok au'"
proof -
  obtain r gh where r: "ci_GetContents client (xq_target_repository req) p (as_github au) = (r, gh)" by fastforce
  from g obtain resolved where c: "cleared env sv origin (xr_central rd) req c" and client: "client \<in> snd ` set (sv_clients sv)"
    and f: "fetching sv req key resolved" and ps: "p \<in> set (extensionVariants resolved)" "set rest \<subseteq> set (extensionVariants resolved)"
    by auto
  have storing: "stage_ok env sv origin rd i req (Storing c key pf)"
    if "r = Inr content" "parseAndValidate (ee_rx env) (ee_yaml env) content = Inr pf" for content pf
  proof -
    have "file_good pf" using file_good_validated [OF yaml] that(2) by (simp add: validated_def)
    with that f client ps(1) r have "policy_of env sv (xq_target_repository req) pf"
      unfolding policy_of_def fetching_def by blast
    with c f show ?thesis by auto
  qed
  have reading: "stage_ok env sv origin rd i req (Reading c key client paths rest)"
    using c client f ps(2) by auto
  have loaded: "stage_ok env sv origin rd i req (Loaded c (Inl err))" for err
    using c by simp
  from run r storing reading loaded au show ?thesis
    by (auto simp: auth_ok_def simp del: stage_ok.simps split: sum.splits if_splits)
qed

lemma loaded_ok:
  assumes built: "service_built (ee_rx env) sv" and req: "gm_wf (xq_requested_permissions req)"
    and au: "auth_ok env sv ok au" and g: "stage_ok env sv origin rd i req (Loaded c r)"
    and run: "authorize_call env sv rd i req (Loaded c r) au = (g', au')"
  shows "stage_ok env sv origin rd i req g' \<and> auth_ok env sv ok au'"
proof -
  let ?cfg = "au_config (sv_authorizer sv)" and ?req = "auth_request_of c req"
  let ?res = "decide (ee_rx env) ?cfg ?req r"
  have c: "verified env sv origin req c"
    and early: "denied_early (ee_rx env) (sv_authorizer sv) (xr_central rd) ?req = None"
    using g by (simp_all add: cleared_def)
  show ?thesis
  proof (cases "res_allowed ?res")
    case True
    then obtain f where f: "r = Inr f" by (auto elim: decide_Inr)
    have policy: "policy_of env sv (xq_target_repository req) f" using g f by simp
    have "\<exists>p. authorizes (ee_rx env) ?cfg (xr_central rd) ?req f p \<and>
        res_matched_policy ?res = tp_name p \<and> tp_name p \<noteq> [] \<and>
        res_permissions ?res = requested_or_policy ?req p \<and> res_ttl ?res = resolveTTL ?cfg ?req p \<and>
        0 < res_ttl ?res \<and> res_ttl ?res \<le> pol_max_token_ttl ?cfg"
      using decide_sound [OF _ _ _ _ early, of f] built req policy True f verified_facts(2) [OF c]
      by (simp add: service_built_def policy_of_def)
    with policy have "decided env sv (xr_central rd) req c ?res" unfolding decided_def by blast
    with run True c au show ?thesis by (auto simp: Let_def)
  next
    case False
    with decide_shape [of "ee_rx env" ?cfg ?req r] obtain d where "res_deny_reason ?res = Some d" by auto
    with run False au show ?thesis by (auto simp: Let_def)
  qed
qed

lemma authorize_call_ok:
  assumes built: "service_built (ee_rx env) sv" and yaml: "decodes_maps (ee_yaml env)"
    and store: "rate_store (sv_store sv) view seen ok" and req: "gm_wf (xq_requested_permissions req)"
    and au: "auth_ok env sv ok au" and g: "stage_ok env sv origin rd i req g" "authorizing g"
    and run: "authorize_call env sv rd i req g au = (g', au')"
  shows "stage_ok env sv origin rd i req g' \<and> auth_ok env sv ok au'"
proof (cases g)
  case (Validated c)
  with run g au show ?thesis
    by (auto simp: cleared_def fetching_def parseOwner_def Let_def split: option.splits list.splits if_splits)
next
  case (Looking c key resolved)
  with run g au fetching_policy show ?thesis
    by (auto simp: auth_ok_def dest!: cache_each_get split: option.splits)
next
  case (Joining c key resolved)
  with run g au fetching_policy show ?thesis
    by (auto simp: auth_ok_def dest!: cache_each_get split: option.splits)
next
  case (Choosing c key resolved)
  with choosing_ok [OF built store au] g run show ?thesis by metis
next
  case (Reading c key client paths rest)
  show ?thesis
  proof (cases rest)
    case Nil
    with Reading run g au show ?thesis by auto
  next
    case (Cons p ps)
    with reading_ok [OF yaml au] Reading g run show ?thesis by metis
  qed
next
  case (Storing c key f)
  then obtain resolved where "fetching sv req key resolved" "cleared env sv origin (xr_central rd) req c"
      "policy_of env sv (xq_target_repository req) f" using g by auto
  then have "key_policy env sv key f" by (rule policy_fetching)
  with Storing run g au show ?thesis by (auto simp: auth_ok_def intro!: cache_each_set)
next
  case (Loaded c r)
  with loaded_ok [OF built req au] g run show ?thesis by metis
qed (use g in simp_all)

lemma shared_ok_updates:
  assumes "shared_ok env sv origin ok st"
  shows "shared_ok env sv origin ok (st\<lparr>ss_auth := (ss_auth st)\<lparr>as_github := g\<rparr>\<rparr>)"
    and "shared_ok env sv origin ok (st\<lparr>ss_audit := trail\<rparr>)"
    and "shared_ok env sv origin ok (auditDenied env' rd i c req reason st)"
    and "ok s \<Longrightarrow> shared_ok env sv origin ok (st\<lparr>ss_auth := (ss_auth st)\<lparr>as_store := s\<rparr>\<rparr>)"
    and "shared_ok env sv origin ok (st\<lparr>ss_tracker := TokenTracker_Record h t x (ss_tracker st)\<rparr>)"
    and "shared_ok env sv origin ok (st\<lparr>ss_tracker := TokenTracker_Remove h (ss_tracker st)\<rparr>)"
    and "providers_ok (sv_oidc sv) origin os \<Longrightarrow> shared_ok env sv origin ok (st\<lparr>ss_oidc := os\<rparr>)"
    and "auth_ok env sv ok au \<Longrightarrow> shared_ok env sv origin ok (st\<lparr>ss_auth := au\<rparr>)"
  using assms by (simp_all add: shared_ok_def auth_ok_def)

lemma shared_okD:
  assumes "shared_ok env sv origin ok st"
  shows "auth_ok env sv ok (ss_auth st)" and "providers_ok (sv_oidc sv) origin (ss_oidc st)"
    and "ok (as_store (ss_auth st))" and "gm_wf (ss_tracker st)"
  using assms by (simp_all add: shared_ok_def auth_ok_def)

lemma authorized_ok:
  assumes store: "rate_store (sv_store sv) view seen ok" and ok: "shared_ok env sv origin ok st"
    and g: "stage_ok env sv origin rd i req (Authorized c res)"
    and run: "mint_call env sv rd i req (Authorized c res) st = (g', st')"
  shows "stage_ok env sv origin rd i req g' \<and> shared_ok env sv origin ok st'"
proof -
  let ?rs = "xr_select rd"
  obtain x s where sel: "SelectApp (sv_store sv) (sv_selector sv) (sr_loop ?rs) (sr_now ?rs) (sr_until ?rs)
      (sr_rand ?rs) (xq_target_repository req) (as_store (ss_auth st)) = (x, s)" by fastforce
  have "s = as_store (ss_auth st)"
    using rate_store.SelectApp_state [OF store shared_okD(3) [OF ok]] sel by (metis snd_conv)
  then have st: "shared_ok env sv origin ok (st\<lparr>ss_auth := (ss_auth st)\<lparr>as_store := s\<rparr>\<rparr>)"
    using shared_ok_updates(4) [OF ok, of s] shared_okD(3) [OF ok] by blast
  have "serves (sv_selector sv) (xq_target_repository req) a" if "x = Inr a" for a
    using rate_store.SelectApp_Inr [OF store shared_okD(3) [OF ok]] sel that by metis
  with run sel g st show ?thesis
    by (auto split: sum.splits option.splits select_error.splits)
qed

lemma selected_ok:
  assumes ok: "shared_ok env sv origin ok st" and g: "stage_ok env sv origin rd i req (Selected c res a client)"
    and run: "mint_call env sv rd i req (Selected c res a client) st = (g', st')"
  shows "stage_ok env sv origin rd i req g' \<and> shared_ok env sv origin ok st'"
proof -
  have "stage_ok env sv origin rd i req (Minted c res a client t)"
    if "ci_RequestToken client \<lparr>trq_repository = xq_target_repository req, trq_permissions = res_permissions res\<rparr>
      (as_github (ss_auth st)) = (Inr t, gh)" for t gh
    using that g by (auto simp: earned_def from_github_def)
  then show ?thesis
    using run shared_ok_updates(1) [OF ok] by (auto simp del: stage_ok.simps(15) split: prod.splits sum.splits)
qed

lemma mint_call_ok:
  assumes store: "rate_store (sv_store sv) view seen ok" and ok: "shared_ok env sv origin ok st"
    and g: "stage_ok env sv origin rd i req g" "\<not> validating g" "\<not> authorizing g"
    and run: "mint_call env sv rd i req g st = (g', st')"
  shows "stage_ok env sv origin rd i req g' \<and> shared_ok env sv origin ok st'"
proof (cases g)
  case (Authorized c res)
  with authorized_ok [OF store ok] g run show ?thesis by metis
next
  case (Selected c res a client)
  with selected_ok [OF ok] g run show ?thesis by metis
next
  case (Metered c res a t info)
  have "shared_ok env sv origin ok st'"
    using rate_store.RecordUsage_view(3) [OF store shared_okD(3) [OF ok]] run Metered shared_ok_updates(4) [OF ok] by auto
  with run g Metered show ?thesis by auto
next
  case (Tracked c res a t)
  with run g shared_ok_updates(2) [OF ok] show ?thesis
    by (cases "fst (auditGranted env rd i c req res (app_client_id a)
          (HashString (ee_sha256 env) (trs_token t)) (ss_audit st))")
      (fastforce split: prod.splits)+
next
  case (Answered r)
  with run g ok show ?thesis by auto
qed (use g run shared_ok_updates [OF ok] in \<open>auto split: prod.splits sum.splits option.splits\<close>)

lemma advance_ok:
  assumes built: "service_built (ee_rx env) sv" and yaml: "decodes_maps (ee_yaml env)"
    and disc: "discovers (ee_oidc env) origin" and store: "rate_store (sv_store sv) view seen ok"
    and ok: "shared_ok env sv origin ok st" and req: "gm_wf (xq_requested_permissions req)"
    and g: "stage_ok env sv origin rd i req g" and run: "advance env sv rd i req g st = (g', st')"
  shows "stage_ok env sv origin rd i req g' \<and> shared_ok env sv origin ok st'"
proof -
  consider "validating g" | "\<not> validating g" "authorizing g" | "\<not> validating g" "\<not> authorizing g" by blast
  then show ?thesis
  proof cases
    case 1
    with validate_call_ok [OF disc shared_okD(2) [OF ok] g] run show ?thesis
      by (auto simp: advance_def intro: shared_ok_updates(7) [OF ok] split: prod.splits)
  next
    case 2
    with authorize_call_ok [OF built yaml store req shared_okD(1) [OF ok] g] run show ?thesis
      by (auto simp: advance_def intro: shared_ok_updates(8) [OF ok] split: prod.splits)
  next
    case 3
    with mint_call_ok [OF store ok g] run show ?thesis by (simp add: advance_def)
  qed
qed

section \<open>Tokens and their records\<close>

text \<open>The token of a stage that has it in the tracker, and the answers that must be on record.\<close>

definition held :: "('p, 'w, 's, 'g, 'a) system \<Rightarrow> string \<Rightarrow> bool" where
  "held s h \<longleftrightarrow> map_of (ss_tracker (sy_service s)) h \<noteq> None \<or> h \<in> set (sy_revoked s)"

fun stage_hash :: "('p, 'w, 'a) exchange_env \<Rightarrow> ('p, 'g) stage \<Rightarrow> string option" where
  "stage_hash env (Tracked c res a t) = Some (HashString (ee_sha256 env) (trs_token t))"
| "stage_hash env (Answered (Some (Inr resp))) = Some (xp_token_hash resp)"
| "stage_hash env g = None"

definition on_record :: "('a \<Rightarrow> audit_entry \<Rightarrow> bool) \<Rightarrow> 'a \<Rightarrow> ('p, 'g) job \<Rightarrow> bool" where
  "on_record recorded trail j \<longleftrightarrow>
     (\<forall>resp. jb_stage j = Answered (Some (Inr resp)) \<longrightarrow>
        (\<exists>e. recorded trail e \<and> ae_request_id e = jb_id j \<and> AuditEntry_Validate e = None \<and>
           granted_entry e (jb_request j) resp))"

text \<open>Validation and authorisation touch neither the tracker nor the audit log and answer no token.\<close>

lemma stage_hash_errors [simp]:
  "stage_hash env (bad_token i err) = None" "stage_hash env (refuse i c d) = None"
  by (simp_all add: bad_token_def refuse_def split: option.split)

lemma early_calls:
  "validate_call env sv i req g os = (g', os') \<Longrightarrow> validating g \<Longrightarrow> stage_hash env g' = None"
  "authorize_call env sv rd i req g au = (g', au') \<Longrightarrow> authorizing g \<Longrightarrow> stage_hash env g' = None"
  subgoal by (cases g) (auto split: option.splits prod.splits sum.splits if_splits)
  subgoal
    by (erule authorize_call.elims)
      (auto simp: Let_def split: option.splits prod.splits sum.splits list.splits if_splits)
  done

lemma advance_cases [consumes 1, case_names early minting]:
  assumes "advance env sv rd i req g st = (g', st')"
  obtains "stage_hash env g' = None" "ss_tracker st' = ss_tracker st" "ss_audit st' = ss_audit st"
  | "\<not> validating g" "\<not> authorizing g" "mint_call env sv rd i req g st = (g', st')"
proof -
  consider "validating g" | "\<not> validating g" "authorizing g" | "\<not> validating g" "\<not> authorizing g" by blast
  then show thesis
  proof cases
    case 1
    then obtain os where v: "validate_call env sv i req g (ss_oidc st) = (g', os)" and st': "st' = st\<lparr>ss_oidc := os\<rparr>"
      using assms by (auto simp: advance_def split: prod.splits)
    from early_calls(1) [OF v 1] st' show thesis by (intro that(1)) simp_all
  next
    case 2
    then obtain au where a: "authorize_call env sv rd i req g (ss_auth st) = (g', au)" and st': "st' = st\<lparr>ss_auth := au\<rparr>"
      using assms by (auto simp: advance_def split: prod.splits)
    from early_calls(2) [OF a 2(2)] st' show thesis by (intro that(1)) simp_all
  next
    case 3
    with assms that(2) show thesis by (simp add: advance_def)
  qed
qed

lemma mint_call_tracker:
  assumes "mint_call env sv rd i req g st = (g', st')" and "\<not> validating g" and "\<not> authorizing g"
  shows "map_of (ss_tracker st) h \<noteq> None \<Longrightarrow> map_of (ss_tracker st') h \<noteq> None"
    and "stage_hash env g' = Some h \<Longrightarrow> stage_hash env g = Some h \<or> map_of (ss_tracker st') h \<noteq> None"
  using assms
  by (cases g; force simp: answer_of_def
      split: option.splits prod.splits sum.splits select_error.splits if_splits)+

lemma advance_tracker:
  assumes "advance env sv rd i req g st = (g', st')"
  shows "map_of (ss_tracker st) h \<noteq> None \<Longrightarrow> map_of (ss_tracker st') h \<noteq> None"
    and "stage_hash env g' = Some h \<Longrightarrow> stage_hash env g = Some h \<or> map_of (ss_tracker st') h \<noteq> None"
  using assms by (cases rule: advance_cases; use mint_call_tracker in fastforce)+

lemma mint_call_audit:
  assumes trail: "audit_trail (ab_Log (ee_audit env)) recorded"
    and run: "mint_call env sv rd i req g st = (g', st')"
  shows "recorded (ss_audit st) e \<Longrightarrow> ae_request_id e \<noteq> i \<Longrightarrow> recorded (ss_audit st') e"
    and "g' = Answered (Some (Inr resp)) \<Longrightarrow> g = Answered (Some (Inr resp)) \<and> st' = st \<or>
      (\<exists>e. recorded (ss_audit st') e \<and> ae_request_id e = i \<and> AuditEntry_Validate e = None \<and>
         granted_entry e req resp)"
proof -
  have keep: "recorded s' e" if "recorded s e" "ae_request_id e \<noteq> i" "ae_request_id e' = i"
      "ab_Log (ee_audit env) now e' s = (x, s')" for s s' e e' x now
    using audit_trail.log_keeps [OF trail that(1,4)] that(2,3) by simp
  have granted: "recorded s' e" if "recorded s e" "ae_request_id e \<noteq> i"
      "auditGranted env rd i c req res k h s = (x, s')" for s s' e c res k h x
    using that(3) unfolding auditGranted_def by (rule keep [OF that(1,2), rotated]) simp
  have denied: "recorded (ss_audit (auditDenied env rd i c req reason st)) e"
    if "recorded (ss_audit st) e" "ae_request_id e \<noteq> i" for e c reason
    unfolding auditDenied_def
    using keep [OF that, of "denied_entry env rd i c req reason" "xr_log rd"]
    by (simp add: denied_entry_def) (metis prod.collapse)
  show "recorded (ss_audit st) e \<Longrightarrow> ae_request_id e \<noteq> i \<Longrightarrow> recorded (ss_audit st') e"
    using run granted denied
    by (cases g) (auto split: option.splits prod.splits sum.splits select_error.splits if_splits)
  assume g': "g' = Answered (Some (Inr resp))"
  show "g = Answered (Some (Inr resp)) \<and> st' = st \<or>
      (\<exists>e. recorded (ss_audit st') e \<and> ae_request_id e = i \<and> AuditEntry_Validate e = None \<and>
         granted_entry e req resp)"
  proof (cases g)
    case (Tracked c res a t)
    with run g' obtain s' where l: "auditGranted env rd i c req res (app_client_id a)
        (HashString (ee_sha256 env) (trs_token t)) (ss_audit st) = (None, s')"
      and s': "st' = st\<lparr>ss_audit := s'\<rparr>" and resp: "resp = answer_of env rd i c res a t"
      by (auto split: prod.splits option.splits)
    obtain e where e: "ab_Log (ee_audit env) (xr_log rd) e (ss_audit st) = (None, s')"
      and "ae_request_id e = i" "granted_entry e req resp"
      using l unfolding auditGranted_def by (rule that) (simp_all add: granted_entry_def resp answer_of_def)
    moreover have "recorded (ss_audit st') e" "AuditEntry_Validate e = None"
      using audit_trail.log_ok [OF trail e] audit_trail.acknowledged_valid [OF trail e] s' by simp_all
    ultimately show ?thesis by blast
  qed (use run g' in \<open>auto split: option.splits prod.splits sum.splits select_error.splits if_splits\<close>)
qed

lemma advance_audit:
  assumes trail: "audit_trail (ab_Log (ee_audit env)) recorded"
    and run: "advance env sv rd i req g st = (g', st')"
  shows "recorded (ss_audit st) e \<Longrightarrow> ae_request_id e \<noteq> i \<Longrightarrow> recorded (ss_audit st') e"
    and "g' = Answered (Some (Inr resp)) \<Longrightarrow> g = Answered (Some (Inr resp)) \<and> st' = st \<or>
      (\<exists>e. recorded (ss_audit st') e \<and> ae_request_id e = i \<and> AuditEntry_Validate e = None \<and>
         granted_entry e req resp)"
  subgoal using run by (cases rule: advance_cases) (simp, metis mint_call_audit(1) [OF trail])
  subgoal using run by (cases rule: advance_cases) (simp, metis mint_call_audit(2) [OF trail])
  done

section \<open>The invariant of the system\<close>

definition job_ok ::
  "('p, 'w, 'a) exchange_env \<Rightarrow> ('s, 'g) service \<Rightarrow> (string \<Rightarrow> 'p \<Rightarrow> bool) \<Rightarrow> ('a \<Rightarrow> audit_entry \<Rightarrow> bool)
     \<Rightarrow> ('p, 'w, 's, 'g, 'a) system \<Rightarrow> ('p, 'g) job \<Rightarrow> bool" where
  "job_ok env sv origin recorded s j \<longleftrightarrow>
     gm_wf (xq_requested_permissions (jb_request j)) \<and>
     stage_ok env sv origin (jb_readings j) (jb_id j) (jb_request j) (jb_stage j) \<and>
     (\<forall>h. stage_hash env (jb_stage j) = Some h \<longrightarrow> held s h) \<and>
     on_record recorded (ss_audit (sy_service s)) j"

definition system_inv ::
  "('p, 'w, 'a) exchange_env \<Rightarrow> ('s, 'g) service \<Rightarrow> (string \<Rightarrow> 'p \<Rightarrow> bool) \<Rightarrow> ('s \<Rightarrow> bool)
     \<Rightarrow> ('a \<Rightarrow> audit_entry \<Rightarrow> bool) \<Rightarrow> ('p, 'w, 's, 'g, 'a) system \<Rightarrow> bool" where
  "system_inv env sv origin ok recorded s \<longleftrightarrow>
     shared_ok env sv origin ok (sy_service s) \<and> distinct (map jb_id (sy_jobs s)) \<and>
     (\<forall>j\<in>set (sy_jobs s). job_ok env sv origin recorded s j) \<and>
     (\<forall>key f. (key, Inr f) \<in> set (sy_flights s) \<longrightarrow> key_policy env sv key f) \<and>
     (\<forall>h. ToRemove h \<in> set (sy_revokers s) \<longrightarrow> h \<in> set (sy_revoked s))"

lemma system_inv_start:
  assumes "system_at_rest s" and "shared_ok env sv origin ok (sy_service s)"
  shows "system_inv env sv origin ok recorded s"
  using assms by (simp add: system_inv_def system_at_rest_def)

text \<open>What a step of another part of the system leaves of a job.\<close>

lemma job_ok_other:
  assumes "job_ok env sv origin recorded s j"
    and "\<And>h. held s h \<Longrightarrow> held t h"
    and "\<And>e. recorded (ss_audit (sy_service s)) e \<Longrightarrow> ae_request_id e = jb_id j \<Longrightarrow>
      recorded (ss_audit (sy_service t)) e"
  shows "job_ok env sv origin recorded t j"
  using assms unfolding job_ok_def on_record_def by meson

lemma landed_ok:
  assumes "stage_ok env sv origin rd i req g" and "stage_ok env sv origin rd i req g'"
    and "(key, Inr f) \<in> set (landed g g')"
  shows "key_policy env sv key f"
proof -
  obtain c where "flight_key g = Some key" and g': "g' = Loaded c (Inr f)"
    using assms(3) by (auto simp: landed_def split: option.splits stage.splits)
  then obtain resolved where "fetching sv req key resolved"
    using assms(1) by (elim flight_key_SomeE) auto
  with assms(2) g' show ?thesis by (auto intro: policy_fetching)
qed

lemma call_inv:
  assumes built: "service_built (ee_rx env) sv" and yaml: "decodes_maps (ee_yaml env)"
    and disc: "discovers (ee_oidc env) origin" and store: "rate_store (sv_store sv) view seen ok"
    and trail: "audit_trail (ab_Log (ee_audit env)) recorded"
    and inv: "system_inv env sv origin ok recorded s" and jobs: "sy_jobs s = js @ j # ks"
    and run: "advance env sv (jb_readings j) (jb_id j) (jb_request j) (jb_stage j) (sy_service s) = (g, st)"
  shows "system_inv env sv origin ok recorded 
    (s\<lparr>sy_jobs := js @ j\<lparr>jb_stage := g\<rparr> # ks, sy_service := st, sy_flights := landed (jb_stage j) g @ sy_flights s\<rparr>)"
    (is "system_inv env sv origin ok recorded ?t")
proof -
  have j: "job_ok env sv origin recorded s j" and shared: "shared_ok env sv origin ok (sy_service s)"
    using inv jobs by (simp_all add: system_inv_def)
  have held: "held s h \<Longrightarrow> held ?t h" for h
    using advance_tracker(1) [OF run] by (auto simp: held_def)
  have step: "stage_ok env sv origin (jb_readings j) (jb_id j) (jb_request j) g \<and> shared_ok env sv origin ok st"
    using advance_ok [OF built yaml disc store shared _ _ run] j by (simp add: job_ok_def)
  have "held ?t h" if "stage_hash env g = Some h" for h
    using advance_tracker(2) [OF run that]
  proof
    assume "stage_hash env (jb_stage j) = Some h"
    with j show ?thesis by (intro held) (simp add: job_ok_def)
  qed (simp add: held_def)
  moreover have "on_record recorded (ss_audit st) (j\<lparr>jb_stage := g\<rparr>)"
    using advance_audit(2) [OF trail run] j by (fastforce simp: on_record_def job_ok_def)
  ultimately have mine: "job_ok env sv origin recorded ?t (j\<lparr>jb_stage := g\<rparr>)"
    using step j by (simp add: job_ok_def)
  have "job_ok env sv origin recorded ?t k" if "k \<in> set js \<union> set ks" for k
  proof (rule job_ok_other)
    show "job_ok env sv origin recorded s k" using inv jobs that by (auto simp: system_inv_def)
    have "jb_id j \<notin> jb_id ` (set js \<union> set ks)" using inv jobs by (simp add: system_inv_def image_Un)
    with that have "jb_id k \<noteq> jb_id j" by (metis imageI)
    then show "recorded (ss_audit (sy_service ?t)) e"
      if "recorded (ss_audit (sy_service s)) e" "ae_request_id e = jb_id k" for e
      using advance_audit(1) [OF trail run that(1)] that(2) by simp
  qed (rule held)
  moreover have "key_policy env sv key f" if "(key, Inr f) \<in> set (landed (jb_stage j) g)" for key f
    by (rule landed_ok [OF _ conjunct1 [OF step] that]) (use j in \<open>simp add: job_ok_def\<close>)
  ultimately show ?thesis using mine step inv jobs by (auto simp: system_inv_def)
qed

text \<open>A request that shares a flight gets a policy of its own repository: the key names it.\<close>

lemma shared_inv:
  assumes inv: "system_inv env sv origin ok recorded s" and jobs: "sy_jobs s = js @ j # ks"
    and stage: "jb_stage j = Joining c key resolved" and flight: "(key, r) \<in> set (sy_flights s)"
  shows "system_inv env sv origin ok recorded (s\<lparr>sy_jobs := js @ j\<lparr>jb_stage := Loaded c r\<rparr> # ks\<rparr>)"
    (is "system_inv env sv origin ok recorded ?t")
proof -
  have j: "job_ok env sv origin recorded s j" using inv jobs by (simp add: system_inv_def)
  then have c: "cleared env sv origin (xr_central (jb_readings j)) (jb_request j) c"
    and f: "fetching sv (jb_request j) key resolved" by (simp_all add: job_ok_def stage)
  have "policy_of env sv (xq_target_repository (jb_request j)) f" if "r = Inr f" for f
    using inv flight that by (intro fetching_policy [OF f c]) (simp add: system_inv_def)
  with c j have "job_ok env sv origin recorded ?t (j\<lparr>jb_stage := Loaded c r\<rparr>)"
    by (simp add: job_ok_def on_record_def)
  moreover have "job_ok env sv origin recorded ?t k" if "k \<in> set js \<union> set ks" for k
  proof (rule job_ok_other)
    show "job_ok env sv origin recorded s k" using inv jobs that by (auto simp: system_inv_def)
  qed (simp_all add: held_def)
  ultimately show ?thesis using inv jobs by (auto simp: system_inv_def)
qed

lemma system_step_inv:
  assumes built: "service_built (ee_rx env) sv" and yaml: "decodes_maps (ee_yaml env)"
    and disc: "discovers (ee_oidc env) origin" and store: "rate_store (sv_store sv) view seen ok"
    and trail: "audit_trail (ab_Log (ee_audit env)) recorded"
    and inv: "system_inv env sv origin ok recorded s" and "system_step env sv s t"
  shows "system_inv env sv origin ok recorded t"
proof -
  have ok: "shared_ok env sv origin ok (sy_service s)" using inv by (simp add: system_inv_def)
  have rest: "job_ok env sv origin recorded u j"
    if "j \<in> set (sy_jobs s)" "ss_audit (sy_service u) = ss_audit (sy_service s)" "\<And>h. held s h \<Longrightarrow> held u h" for u j
    using inv that(1) by (intro job_ok_other [OF _ that(3)]) (simp_all add: system_inv_def that(2))
  from assms(7) show ?thesis
  proof (cases rule: system_step.cases)
    case (arrival i req rd)
    have "job_ok env sv origin recorded t \<lparr>jb_id = i, jb_request = req, jb_readings = rd, jb_stage = Arrived\<rparr>"
      using arrival(3) by (simp add: job_ok_def on_record_def)
    with arrival inv rest [of _ t] show ?thesis by (auto simp: system_inv_def held_def)
  next
    case (call js j ks g st)
    show ?thesis unfolding call(1) by (rule call_inv [OF built yaml disc store trail inv call(2,3)])
  next
    case (shared js j ks c key resolved r)
    show ?thesis unfolding shared(1) by (rule shared_inv [OF inv shared(2-4)])
  next
    case (round now order c)
    with inv rest [of _ t] show ?thesis by (auto simp: system_inv_def held_def)
  next
    case (revoked rs c h tok us g)
    with inv rest [of _ t] shared_ok_updates(1) [OF ok] show ?thesis
      by (auto simp: system_inv_def held_def)
  next
    case (not_revoked rs c h tok us err g)
    with inv rest [of _ t] shared_ok_updates(1) [OF ok] show ?thesis
      by (auto simp: system_inv_def held_def)
  next
    case (removed rs h us)
    have "h \<in> set (sy_revoked s)" using inv removed(2) by (simp add: system_inv_def)
    moreover have "gm_wf (ss_tracker (sy_service s))" by (rule shared_okD(4) [OF ok])
    ultimately have "held s k \<Longrightarrow> held t k" for k
      by (auto simp: held_def removed(1) split: if_splits)
    with removed inv rest [of _ t] shared_ok_updates(6) [OF ok] show ?thesis
      by (auto simp: system_inv_def)
  qed
qed

lemma system_run_inv:
  assumes built: "service_built (ee_rx env) sv" and yaml: "decodes_maps (ee_yaml env)"
    and disc: "discovers (ee_oidc env) origin" and store: "rate_store (sv_store sv) view seen ok"
    and trail: "audit_trail (ab_Log (ee_audit env)) recorded"
    and "system_run env sv s t" and "system_inv env sv origin ok recorded s"
  shows "system_inv env sv origin ok recorded t"
  using assms(6,7) by induction (auto intro: system_step_inv [OF built yaml disc store trail])

section \<open>Schedules\<close>

text \<open>
  The call that request \<open>i\<close> makes next, with the outcome that it lands, and the calls of a schedule
  of request ids.
\<close>

fun call_job ::
  "('p, 'w, 'a) exchange_env \<Rightarrow> ('s, 'g) service \<Rightarrow> string \<Rightarrow> ('p, 'g) job list \<Rightarrow> ('p, 'w, 's, 'g, 'a) service_state
     \<Rightarrow> ('p, 'g) job list \<times> (string \<times> (fetch_error + policy_file)) list \<times> ('p, 'w, 's, 'g, 'a) service_state" where
  "call_job env sv i [] st = ([], [], st)"
| "call_job env sv i (j # js) st =
     (if jb_id j = i
      then (case advance env sv (jb_readings j) (jb_id j) (jb_request j) (jb_stage j) st of
              (g, st') \<Rightarrow> (j\<lparr>jb_stage := g\<rparr> # js, landed (jb_stage j) g, st'))
      else (case call_job env sv i js st of (js', flights, st') \<Rightarrow> (j # js', flights, st')))"

fun schedule ::
  "('p, 'w, 'a) exchange_env \<Rightarrow> ('s, 'g) service \<Rightarrow> string list \<Rightarrow> ('p, 'w, 's, 'g, 'a) system
     \<Rightarrow> ('p, 'w, 's, 'g, 'a) system" where
  "schedule env sv [] s = s"
| "schedule env sv (i # is) s =
     (case call_job env sv i (sy_jobs s) (sy_service s) of
        (js, flights, st) \<Rightarrow>
          schedule env sv is (s\<lparr>sy_jobs := js, sy_service := st, sy_flights := flights @ sy_flights s\<rparr>))"

lemma call_job_cases:
  "call_job env sv i jobs st = (jobs', flights, st') \<Longrightarrow>
     jobs' = jobs \<and> flights = [] \<and> st' = st \<or>
     (\<exists>js j ks g. jobs = js @ j # ks \<and> jobs' = js @ j\<lparr>jb_stage := g\<rparr> # ks \<and> flights = landed (jb_stage j) g \<and>
        advance env sv (jb_readings j) (jb_id j) (jb_request j) (jb_stage j) st = (g, st'))"
proof (induction jobs arbitrary: jobs')
  case (Cons j js)
  show ?case
  proof (cases "jb_id j = i")
    case True
    with Cons.prems show ?thesis
      by (intro disjI2 exI [of _ "[]"] exI [of _ j] exI [of _ js]) (auto split: prod.splits)
  next
    case False
    then obtain js' where rec: "call_job env sv i js st = (js', flights, st')" and jobs': "jobs' = j # js'"
      using Cons.prems by (auto split: prod.splits)
    from Cons.IH [OF rec] show ?thesis
    proof (elim disjE exE conjE)
      fix as k ks g
      assume "js = as @ k # ks" "js' = as @ k\<lparr>jb_stage := g\<rparr> # ks" "flights = landed (jb_stage k) g"
        "advance env sv (jb_readings k) (jb_id k) (jb_request k) (jb_stage k) st = (g, st')"
      then show ?thesis
        by (intro disjI2 exI [of _ "j # as"] exI [of _ k] exI [of _ ks] exI [of _ g]) (simp add: jobs')
    qed (simp add: jobs')
  qed
qed simp

lemma schedule_run: "system_run env sv s t \<Longrightarrow> system_run env sv s (schedule env sv is t)"
proof (induction "is" arbitrary: t)
  case (Cons i "is")
  obtain js flights st where c: "call_job env sv i (sy_jobs t) (sy_service t) = (js, flights, st)"
    by (metis prod_cases3)
  have "system_run env sv s (t\<lparr>sy_jobs := js, sy_service := st, sy_flights := flights @ sy_flights t\<rparr>)"
    using call_job_cases [OF c]
  proof (elim disjE exE conjE)
    fix as j ks g
    assume "sy_jobs t = as @ j # ks" and js: "js = as @ j\<lparr>jb_stage := g\<rparr> # ks" "flights = landed (jb_stage j) g"
      and "advance env sv (jb_readings j) (jb_id j) (jb_request j) (jb_stage j) (sy_service t) = (g, st)"
    then show ?thesis unfolding js by (intro system_more [OF Cons.prems] system_step.call)
  qed (use Cons.prems in simp)
  from Cons.IH [OF this] c show ?case by simp
qed simp

text \<open>A request that makes its calls in a row goes through its stages.\<close>

lemma schedule_alone:
  "\<exists>flights. schedule env sv (replicate n (jb_id j)) (s\<lparr>sy_jobs := j # js, sy_service := st\<rparr>) =
     (case stages env sv (jb_readings j) (jb_id j) (jb_request j) n (jb_stage j) st of
        (g, st') \<Rightarrow> s\<lparr>sy_jobs := j\<lparr>jb_stage := g\<rparr> # js, sy_service := st', sy_flights := flights\<rparr>)"
proof (induction n arbitrary: j st s)
  case 0
  show ?case by (intro exI [of _ "sy_flights s"]) simp
next
  case (Suc n)
  obtain g st' where a: "advance env sv (jb_readings j) (jb_id j) (jb_request j) (jb_stage j) st = (g, st')" by fastforce
  from Suc.IH [where j = "j\<lparr>jb_stage := g\<rparr>" and s = "s\<lparr>sy_flights := landed (jb_stage j) g @ sy_flights s\<rparr>" and st = st']
  show ?case by (cases s) (auto simp: a split: prod.splits)
qed

end
