(* ===== verification/Backend_Close.thy ===== *)
theory Backend_Close
  imports Service_Api Database
begin

text \<open>
  How backends are closed: the audit backends (\<^verbatim>\<open>internal/sts/audit/backends\<close>) and the stores
  (\<^verbatim>\<open>internal/sts/selector/backends\<close>), and what closing the SQL backend means for the connection pool that
  \<^verbatim>\<open>internal/db/sql.go\<close> shares.
\<close>

section \<open>Closing\<close>

text \<open>The console and DynamoDB hold nothing.\<close>

definition ConsoleLogger_Close :: "'a \<Rightarrow> gotext option \<times> 'a" where
  "ConsoleLogger_Close out = (None, out)"

definition DynamoDBLogger_Close :: "'a \<Rightarrow> gotext option \<times> 'a" where
  "DynamoDBLogger_Close db = (None, db)"

definition DynamoDBStore_Close :: "'a \<Rightarrow> gotext option \<times> 'a" where
  "DynamoDBStore_Close db = (None, db)"

text \<open>A client of Redis that is no \<^verbatim>\<open>io.Closer\<close> is left alone.\<close>

definition RedisStore_Close :: "('w \<Rightarrow> gotext option \<times> 'w) option \<Rightarrow> 'w \<Rightarrow> gotext option \<times> 'w" where
  "RedisStore_Close closer w = (case closer of Some c \<Rightarrow> c w | None \<Rightarrow> (None, w))"

text \<open>\<open>underlying\<close> extracts the \<^verbatim>\<open>*sql.DB\<close> of the pool \<open>db\<close>, \<open>answer\<close> is what closing it answers.\<close>

definition SQLLogger_Close ::
  "('d, 'w) db_lib \<Rightarrow> ('d \<Rightarrow> gotext option) \<Rightarrow> ('d \<Rightarrow> 'w \<Rightarrow> gotext option) \<Rightarrow> 'd \<Rightarrow> ('d, 'w) db_state
     \<Rightarrow> gotext option \<times> ('d, 'w) db_state" where
  "SQLLogger_Close lib underlying answer db st =
     (case underlying db of
        Some err \<Rightarrow> (Some (Sprintf ''getting underlying db: %w'' [AErr err]), st)
      | None \<Rightarrow> (answer db (db_world st), st\<lparr>db_world := dl_close lib db (db_world st)\<rparr>))"

text \<open>Closing the service with a backend that holds nothing cannot fail and keeps every entry.\<close>

lemma Service_Close_nothing:
  "Service_Close ConsoleLogger_Close st = ([Cancelled], None, st)"
  "Service_Close DynamoDBLogger_Close st = ([Cancelled], None, st)"
  by (simp_all add: Service_Close_def ConsoleLogger_Close_def DynamoDBLogger_Close_def)

text \<open>
  After the SQL backend was closed no pool is open, although the instance still names the closed one; the
  next \<^verbatim>\<open>NewDB\<close> finds it dead and opens one new pool.
\<close>

lemma SQLLogger_Close_pool:
  assumes "tracks_pools lib opened" and "one_pool opened st" and "db_instance st = Some db"
    and "underlying db = None" and close: "SQLLogger_Close lib underlying answer db st = (err, st')"
  shows "opened (db_world st') = {}" and "db_instance st' = Some db"
  using assms tracks_poolsD(3) [OF assms(1)] by (auto simp: SQLLogger_Close_def one_pool_def)

lemma reopened_after_close:
  assumes lib: "tracks_pools lib opened" and pool: "one_pool opened st" "db_instance st = Some db" "underlying db = None"
    and close: "SQLLogger_Close lib underlying answer db st = (err, st')"
    and dead: "\<not> dl_alive lib db (db_world st')" and new: "NewDB lib dsn t st' = (Inr db', st'')"
  shows "one_pool opened st'' \<and> db_instance st'' = Some db'"
proof -
  note closed = SQLLogger_Close_pool [OF lib pool close]
  let ?st = "st'\<lparr>db_instance := None, db_world := dl_close lib db (db_world st')\<rparr>"
  have "opened (db_world ?st) = {}" "db_instance ?st = None"
    using closed tracks_poolsD(3) [OF lib] by simp_all
  moreover have "open_new lib dsn t ?st = (Inr db', st'')" using new closed dead by (simp add: NewDB_def)
  ultimately show ?thesis using open_new_pool [OF lib] by fastforce
qed

end
