(* ===== verification/Service_Start.thy ===== *)
theory Service_Start
  imports End_To_End
begin

text \<open>
  When the set-up of \<^verbatim>\<open>Service_Setup\<close> succeeds on a validated configuration, which errors remain, and
  which resources it releases on the way.
\<close>

section \<open>Loops that may fail\<close>

lemma fold_err_succeeds:
  assumes "\<And>s x s'. P s \<Longrightarrow> f s x = Inr s' \<Longrightarrow> P s'"
    and "\<And>s x. P s \<Longrightarrow> (\<exists>s'. f s x = Inr s') \<longleftrightarrow> Q x"
  shows "P s \<Longrightarrow> (\<exists>t. fold_err f s xs = Inr t) \<longleftrightarrow> (\<forall>x\<in>set xs. Q x)"
proof (induction xs arbitrary: s)
  case (Cons x xs)
  show ?case
  proof (cases "f s x")
    case (Inl e)
    then show ?thesis using assms(2) [OF Cons.prems, of x] by simp
  next
    case (Inr s')
    then have "Q x" using assms(2) [OF Cons.prems, of x] by auto
    with Inr Cons.IH [OF assms(1) [OF Cons.prems Inr]] show ?thesis by simp
  qed
qed simp

section \<open>Claim patterns\<close>

definition table_compiles :: "regex_engine \<Rightarrow> (string, regexp) gomap \<Rightarrow> bool" where
  "table_compiles rx pats \<longleftrightarrow> (\<forall>p. map_of pats p \<noteq> None \<longrightarrow> rx_error rx p = None)"

definition entries_compile :: "regex_engine \<Rightarrow> (string, string) gomap \<Rightarrow> bool" where
  "entries_compile rx es \<longleftrightarrow> (\<forall>(c, p)\<in>set es. rx_error rx p = None)"

lemma add_pattern_table:
  "table_compiles rx pats \<Longrightarrow> add_pattern rx pats e = Inr pats' \<Longrightarrow> table_compiles rx pats'"
  by (auto simp: add_pattern_def table_compiles_def regexp_Compile_def split: option.splits prod.splits sum.splits if_splits)

lemma add_pattern_succeeds:
  "table_compiles rx pats \<Longrightarrow> (\<exists>pats'. add_pattern rx pats e = Inr pats') \<longleftrightarrow> rx_error rx (snd e) = None"
  by (cases e) (auto simp: add_pattern_def table_compiles_def regexp_Compile_def split: option.splits)

lemma add_patterns_succeeds:
  "table_compiles rx pats \<Longrightarrow>
     (\<exists>pats'. fold_err (add_pattern rx) pats es = Inr pats') \<longleftrightarrow> entries_compile rx es"
  using fold_err_succeeds [of "table_compiles rx" "add_pattern rx" "\<lambda>e. rx_error rx (snd e) = None"]
  by (auto simp: entries_compile_def add_pattern_table add_pattern_succeeds)

lemma add_patterns_table:
  "table_compiles rx pats \<Longrightarrow> fold_err (add_pattern rx) pats es = Inr pats' \<Longrightarrow> table_compiles rx pats'"
  by (rule fold_err_invariant [where P = "table_compiles rx"]) (auto intro: add_pattern_table)

lemma compile_provider_succeeds:
  assumes "table_compiles rx pats"
  shows "(\<exists>pats'. compile_provider rx pats p = Inr pats') \<longleftrightarrow>
    entries_compile rx (prov_required_claims p) \<and> entries_compile rx (prov_forbidden_claims p)"
proof (cases "fold_err (add_pattern rx) pats (prov_required_claims p)")
  case (Inl e)
  with add_patterns_succeeds [OF assms, of "prov_required_claims p"] show ?thesis
    by (simp add: compile_provider_def)
next
  case (Inr t)
  with add_patterns_succeeds [OF assms, of "prov_required_claims p"]
    add_patterns_succeeds [OF add_patterns_table [OF assms Inr], of "prov_forbidden_claims p"]
  show ?thesis by (auto simp: compile_provider_def)
qed

lemma compile_provider_table:
  "table_compiles rx pats \<Longrightarrow> compile_provider rx pats p = Inr pats' \<Longrightarrow> table_compiles rx pats'"
  by (auto simp: compile_provider_def split: sum.splits dest: add_patterns_table)

lemma compileClaimPatterns_succeeds:
  "(\<exists>pats. compileClaimPatterns rx providers = Inr pats) \<longleftrightarrow>
     (\<forall>p\<in>set providers. entries_compile rx (prov_required_claims p) \<and> entries_compile rx (prov_forbidden_claims p))"
  unfolding compileClaimPatterns_def
  by (rule fold_err_succeeds [of "table_compiles rx"])
    (auto simp: compile_provider_table compile_provider_succeeds table_compiles_def [of rx "[]"])

section \<open>The clients\<close>

definition key_loads :: "(string \<Rightarrow> gotext + string) \<Rightarrow> (string \<Rightarrow> key_error + 'k) \<Rightarrow> string \<Rightarrow> bool" where
  "key_loads read_file parse_key path \<longleftrightarrow> (\<exists>pem key. read_file path = Inr pem \<and> parse_key pem = Inr key)"

lemma newClient_succeeds:
  "(\<exists>r. newClient parse_key opts w = Inr r) \<longleftrightarrow> (\<exists>key. parse_key (opt_private_key opts) = Inr key)"
  by (auto simp: newClient_def Let_def split: sum.splits)

lemma build_clients_succeeds:
  "(\<exists>cs. build_clients read_file parse_key base apps clients = Inr cs) \<longleftrightarrow>
     (\<forall>a\<in>set apps. key_loads read_file parse_key (ga_private_key_path a))"
proof (induction read_file parse_key base apps clients rule: build_clients.induct)
  case (2 read_file parse_key base appCfg apps clients)
  show ?case
  proof (cases "read_file (ga_private_key_path appCfg)")
    case (Inr pem)
    let ?new = "newClient parse_key \<lparr>opt_base_url = base, opt_client_id = ga_client_id appCfg,
        opt_private_key = pem, opt_timeout = 0\<rparr> ()"
    have s: "(\<exists>r. ?new = Inr r) \<longleftrightarrow> (\<exists>key. parse_key pem = Inr key)"
      using newClient_succeeds [of parse_key _ "()"] by simp
    show ?thesis
    proof (cases ?new)
      case (Inl e)
      with s show ?thesis by (auto simp: key_loads_def Inr)
    next
      case new: (Inr r)
      obtain c timeout st where r: "r = (c, timeout, st)" by (cases r)
      from new r have n: "?new = Inr (c, timeout, st)" by simp
      from s n have "key_loads read_file parse_key (ga_private_key_path appCfg)" by (auto simp: key_loads_def Inr)
      with "2.IH" [OF Inr n refl refl] n show ?thesis by (simp add: Inr)
    qed
  qed (simp add: key_loads_def)
qed simp

section \<open>The set-up\<close>

text \<open>What a validated configuration still has to satisfy for the service to start.\<close>

definition startable ::
  "regex_engine \<Rightarrow> (string \<Rightarrow> gotext + string) \<Rightarrow> (string \<Rightarrow> key_error + 'k) \<Rightarrow> app_config \<Rightarrow> bool" where
  "startable rx read_file parse_key cfg \<longleftrightarrow>
     cf_github_apps cfg \<noteq> [] \<and> pol_providers (cf_policy cfg) \<noteq> [] \<and>
     (\<forall>a\<in>set (cf_github_apps cfg). key_loads read_file parse_key (ga_private_key_path a)) \<and>
     (\<forall>p\<in>set (pol_providers (cf_policy cfg)).
        entries_compile rx (prov_required_claims p) \<and> entries_compile rx (prov_forbidden_claims p))"

lemma NewService_succeeds:
  assumes "oc_cfg_audience (cf_oidc cfg) \<noteq> []"
  shows "(\<exists>built. NewService rx lib read_file parse_key (Some cfg)
      \<lparr>dep_selector = Some (sel, store), dep_audit = Some audit\<rparr> = Inr built) \<longleftrightarrow> startable rx read_file parse_key cfg"
proof -
  have cl: "(\<exists>cs. buildGitHubClients read_file parse_key cfg = Inr cs) \<longleftrightarrow>
      (\<forall>a\<in>set (cf_github_apps cfg). key_loads read_file parse_key (ga_private_key_path a))"
    by (simp add: buildGitHubClients_def build_clients_succeeds)
  show ?thesis
    using assms cl
    by (cases "buildGitHubClients read_file parse_key cfg";
        cases "compileClaimPatterns rx (pol_providers (cf_policy cfg))")
      (auto simp: NewService_def NewValidator_def NewAuthorizer_def Issuers_def startable_def Let_def
        compileClaimPatterns_succeeds [symmetric] split: prod.splits)
qed

text \<open>The resources that exist when the set-up stops, in the order of their creation.\<close>

definition created :: "gotext + 's store_ops \<Rightarrow> gotext + 'a audit_backend \<Rightarrow> app_config \<Rightarrow> resource list" where
  "created store_result audit_result cfg =
     (if isl store_result then []
      else if cf_github_apps cfg = [] \<or> isl audit_result then [ResStore]
      else [ResStore, ResAudit])"

lemma buildDependencies_outcome:
  assumes "oc_cfg_audience (cf_oidc cfg) \<noteq> []"
    and "buildDependencies rx lib read_file parse_key store_result audit_result cfg = (r, released)"
  shows "(\<not> isl r \<longleftrightarrow> \<not> isl store_result \<and> \<not> isl audit_result \<and> startable rx read_file parse_key cfg)"
    and "isl r \<Longrightarrow> released = rev (created store_result audit_result cfg)"
    and "\<not> isl r \<Longrightarrow> released = [] \<and> snd (projr r) = [ResService, ResStore]"
proof -
  have sel: "NewSelector (buildApps cfg) (Some store) =
      (if cf_github_apps cfg = [] then Inl ErrNoApps else Inr \<lparr>sel_apps = buildApps cfg\<rparr>)" for store :: "'a store_ops"
    by (simp add: NewSelector_def buildApps_def)
  note built = NewService_succeeds [OF assms(1), of rx lib read_file parse_key]
  have no_apps: "\<not> startable rx read_file parse_key cfg" if "cf_github_apps cfg = []"
    using that by (simp add: startable_def)
  show "(\<not> isl r \<longleftrightarrow> \<not> isl store_result \<and> \<not> isl audit_result \<and> startable rx read_file parse_key cfg)"
  proof (cases "\<exists>store audit. store_result = Inr store \<and> audit_result = Inr audit \<and> cf_github_apps cfg \<noteq> []")
    case True
    then obtain store audit where t: "store_result = Inr store" "audit_result = Inr audit" "cf_github_apps cfg \<noteq> []"
      by blast
    show ?thesis
      using assms(2) t built [of "\<lparr>sel_apps = buildApps cfg\<rparr>" store audit]
      by (cases "NewService rx lib read_file parse_key (Some cfg)
            \<lparr>dep_selector = Some (\<lparr>sel_apps = buildApps cfg\<rparr>, store), dep_audit = Some audit\<rparr>")
        (auto simp: buildDependencies_def sel)
  next
    case False
    then show ?thesis
      using assms(2) no_apps
      by (cases store_result; cases audit_result) (auto simp: buildDependencies_def sel split: if_splits)
  qed
  show "isl r \<Longrightarrow> released = rev (created store_result audit_result cfg)"
    using assms(2) by (auto simp: buildDependencies_def sel created_def split: sum.splits if_splits)
  show "\<not> isl r \<Longrightarrow> released = [] \<and> snd (projr r) = [ResService, ResStore]"
    using assms(2) by (auto simp: buildDependencies_def sel split: sum.splits if_splits)
qed

end
