(* ===== verification/Server_Lifecycle.thy ===== *)
theory Server_Lifecycle
  imports Service_Start
begin

text \<open>
  The life of the server process: \<^verbatim>\<open>telemetry.Init\<close> (\<^verbatim>\<open>internal/telemetry/telemetry.go\<close>), \<^verbatim>\<open>Server.Init\<close>,
  \<^verbatim>\<open>serve\<close>, \<^verbatim>\<open>close\<close> and \<^verbatim>\<open>ServerCmd\<close> (\<^verbatim>\<open>cmd/server/server.go\<close>), as the resources they acquire and
  release. What the network, the SDK and the operating system answer are readings; the routes and
  middlewares that \<^verbatim>\<open>Init\<close> registers are in \<^verbatim>\<open>Http_Api\<close>.
\<close>

section \<open>Resources\<close>

datatype provider = TracerProvider | MeterProvider | LoggerProvider

instantiation provider :: enum
begin

definition enum_provider :: "provider list" where
  "enum_provider = [TracerProvider, MeterProvider, LoggerProvider]"
definition enum_all_provider :: "(provider \<Rightarrow> bool) \<Rightarrow> bool" where
  "enum_all_provider P \<longleftrightarrow> P TracerProvider \<and> P MeterProvider \<and> P LoggerProvider"
definition enum_ex_provider :: "(provider \<Rightarrow> bool) \<Rightarrow> bool" where
  "enum_ex_provider P \<longleftrightarrow> P TracerProvider \<or> P MeterProvider \<or> P LoggerProvider"

instance
proof
  show univ: "UNIV = set (enum_class.enum :: provider list)"
    by (auto simp: enum_provider_def intro: provider.exhaust)
  fix P :: "provider \<Rightarrow> bool"
  show "enum_class.enum_all P = Ball UNIV P" "enum_class.enum_ex P = Bex UNIV P"
    unfolding univ by (simp_all add: enum_provider_def enum_all_provider_def enum_ex_provider_def)
qed (simp add: enum_provider_def)

end

lemma all_providers: "(\<forall>k. P k) \<longleftrightarrow> P TracerProvider \<and> P MeterProvider \<and> P LoggerProvider"
  using enum_all_provider_def [of P] by simp

datatype held = Telemetry provider | Dependency resource | Listener

datatype event = Acquire held | Release held

text \<open>What is held after a sequence of events.\<close>

fun holding :: "event list \<Rightarrow> held list \<Rightarrow> held list" where
  "holding [] hs = hs"
| "holding (Acquire h # es) hs = holding es (h # hs)"
| "holding (Release h # es) hs = holding es (remove1 h hs)"

lemma holding_append: "holding (xs @ ys) hs = holding ys (holding xs hs)"
  by (induction xs hs rule: holding.induct) simp_all

section \<open>Telemetry\<close>

record telemetry_readings =
  ty_probe :: "gotext option"
  ty_resource :: "gotext option"
  ty_tracer :: "gotext option"
  ty_meter :: "gotext option"
  ty_logger :: "gotext option"

text \<open>The list of providers is what the returned shutdown function shuts down, in reverse.\<close>

definition telemetry_Init ::
  "otel_config \<Rightarrow> telemetry_readings \<Rightarrow> (gotext + provider list) \<times> event list" where
  "telemetry_Init cfg rd =
     (if \<not> ot_enabled cfg then (Inr [], [])
      else case ty_probe rd of
        Some err \<Rightarrow> (Inl (Sprintf ''OTel collector unreachable at %s: %w'' [AStr (ot_endpoint cfg), AErr err]), [])
      | None \<Rightarrow>
     (case ty_resource rd of
        Some err \<Rightarrow> (Inl (Sprintf ''building resource: %w'' [AErr err]), [])
      | None \<Rightarrow>
     (case ty_tracer rd of
        Some err \<Rightarrow> (Inl (Sprintf ''tracer provider: %w'' [AErr err]), [])
      | None \<Rightarrow>
     (case ty_meter rd of
        Some err \<Rightarrow>
          (Inl (Sprintf ''meter provider: %w'' [AErr err]),
           [Acquire (Telemetry TracerProvider), Release (Telemetry TracerProvider)])
      | None \<Rightarrow>
     (case ty_logger rd of
        Some err \<Rightarrow>
          (Inl (Sprintf ''logger provider: %w'' [AErr err]),
           [Acquire (Telemetry TracerProvider), Acquire (Telemetry MeterProvider),
            Release (Telemetry MeterProvider), Release (Telemetry TracerProvider)])
      | None \<Rightarrow>
          (Inr [TracerProvider, MeterProvider, LoggerProvider],
           [Acquire (Telemetry TracerProvider), Acquire (Telemetry MeterProvider),
            Acquire (Telemetry LoggerProvider)]))))))"

definition otel_shutdown :: "provider list \<Rightarrow> event list" where
  "otel_shutdown shutdowns = map (\<lambda>p. Release (Telemetry p)) (rev shutdowns)"

section \<open>Initialisation\<close>

datatype closer = ServiceClose | StoreClose | OtelShutdownCloser "provider list"

datatype init_error =
    TelemetryFailed gotext
  | DependenciesFailed build_error
  | HandlerFailed gotext

text \<open>The service's \<^verbatim>\<open>Close\<close> stops the revocation loop, then closes the audit backend.\<close>

fun run_closer :: "closer \<Rightarrow> event list" where
  "run_closer ServiceClose = [Release (Dependency ResService), Release (Dependency ResAudit)]"
| "run_closer StoreClose = [Release (Dependency ResStore)]"
| "run_closer (OtelShutdownCloser shutdowns) = otel_shutdown shutdowns"

text \<open>\<open>deps\<close> is the outcome of \<^verbatim>\<open>buildDependencies\<close> and \<open>made\<close> what it created on the way.\<close>

definition Server_Init ::
  "otel_config \<Rightarrow> telemetry_readings \<Rightarrow> (build_error + 'b \<times> resource list) \<times> resource list \<Rightarrow> resource list
     \<Rightarrow> gotext option \<Rightarrow> (init_error + closer list) \<times> event list" where
  "Server_Init otel rd deps made handler =
     (case telemetry_Init otel rd of
        (Inl err, es) \<Rightarrow> (Inl (TelemetryFailed err), es)
      | (Inr shutdowns, es) \<Rightarrow>
     (case deps of
        (Inl err, released) \<Rightarrow>
          (Inl (DependenciesFailed err),
           es @ map (Acquire \<circ> Dependency) made @ map (Release \<circ> Dependency) released @ otel_shutdown shutdowns)
      | (Inr (service, closers), released) \<Rightarrow>
          (let es = es @ map (Acquire \<circ> Dependency) [ResStore, ResAudit, ResService];
               closers = [ServiceClose, StoreClose] @ [OtelShutdownCloser shutdowns]
           in case handler of
                Some err \<Rightarrow> (Inl (HandlerFailed err), es @ otel_shutdown shutdowns)
              | None \<Rightarrow> (Inr closers, es))))"

section \<open>Serving\<close>

datatype serve_event = ShutdownSignal | ServeFailed gotext

datatype serve_error =
    BindingFailed string gotext
  | CertificateFailed gotext
  | ServerError gotext
  | ShutdownFailed gotext

record serve_readings =
  sr_listen :: "gotext option"
  sr_certificate :: "gotext option"
  sr_event :: serve_event
  sr_shutdown :: "gotext option"

text \<open>\<^verbatim>\<open>close\<close> runs every closer; their errors are only logged.\<close>

definition Server_close :: "closer list \<Rightarrow> event list" where
  "Server_close closers = concat (map run_closer closers)"

text \<open>A listener that serves is closed by \<^verbatim>\<open>Serve\<close> when it returns and by \<^verbatim>\<open>Shutdown\<close>.\<close>

definition serve :: "server_config \<Rightarrow> serve_readings \<Rightarrow> closer list \<Rightarrow> serve_error option \<times> event list" where
  "serve cfg rd closers =
     (case sr_listen rd of
        Some err \<Rightarrow> (Some (BindingFailed (GetAddr cfg) err), [])
      | None \<Rightarrow>
     (case (if TLSConfig_Enabled (svc_tls cfg) then sr_certificate rd else None) of
        Some err \<Rightarrow> (Some (CertificateFailed err), [Acquire Listener, Release Listener])
      | None \<Rightarrow>
     (case sr_event rd of
        ServeFailed err \<Rightarrow> (Some (ServerError err), [Acquire Listener, Release Listener])
      | ShutdownSignal \<Rightarrow>
          (case sr_shutdown rd of
             Some err \<Rightarrow> (Some (ShutdownFailed err), [Acquire Listener, Release Listener])
           | None \<Rightarrow> (None, [Acquire Listener, Release Listener] @ Server_close closers)))))"

definition ServerCmd ::
  "app_config \<Rightarrow> telemetry_readings \<Rightarrow> (build_error + 'b \<times> resource list) \<times> resource list \<Rightarrow> resource list
     \<Rightarrow> gotext option \<Rightarrow> serve_readings \<Rightarrow> (init_error + serve_error) option \<times> event list" where
  "ServerCmd cfg ty deps made handler rd =
     (case Server_Init (cf_otel cfg) ty deps made handler of
        (Inl err, es) \<Rightarrow> (Some (Inl err), es)
      | (Inr closers, es) \<Rightarrow>
          (case serve (cf_server cfg) rd closers of
             (err, es') \<Rightarrow> (map_option Inr err, es @ es')))"

section \<open>Who releases what\<close>

lemma telemetry_balanced:
  assumes "telemetry_Init cfg rd = (r, es)"
  shows "holding es hs = (case r of Inl err \<Rightarrow> hs | Inr ps \<Rightarrow> map Telemetry (rev ps) @ hs)"
  using assms by (auto simp: telemetry_Init_def split: if_splits option.splits)

lemma holding_shutdown: "holding (otel_shutdown ps) (map Telemetry (rev ps) @ hs) = hs"
  by (induction ps rule: rev_induct) (simp_all add: otel_shutdown_def)

lemma holding_released: "holding (map (Release \<circ> Dependency) rs) (map Dependency rs @ hs) = hs"
  by (induction rs) simp_all

lemma holding_acquired: "holding (map (Acquire \<circ> Dependency) rs) hs = map Dependency (rev rs) @ hs"
  by (induction rs arbitrary: hs) simp_all

text \<open>What is left when the dependencies fail: nothing, if they released what they had made.\<close>

lemma holding_failed_deps:
  assumes "released = rev made"
  shows "holding (map (Acquire \<circ> Dependency) made @ map (Release \<circ> Dependency) released) hs = hs"
  using assms by (simp add: holding_append holding_acquired holding_released)

lemma shutdown_skips:
  "holding (otel_shutdown ps) (map Dependency rs @ map Telemetry (rev ps) @ hs) = map Dependency rs @ hs"
proof -
  have "remove1 (Telemetry p) (map Dependency rs @ xs) = map Dependency rs @ remove1 (Telemetry p) xs" for p xs
    by (induction rs) simp_all
  then have step: "holding (map (\<lambda>p. Release (Telemetry p)) qs) (map Dependency rs @ xs) =
      map Dependency rs @ holding (map (\<lambda>p. Release (Telemetry p)) qs) xs" for qs xs
    by (induction qs arbitrary: xs) simp_all
  show ?thesis using holding_shutdown [of ps hs] unfolding otel_shutdown_def step by simp
qed

text \<open>The server stops gracefully: it started, served and was told to stop in time.\<close>

definition graceful :: "app_config \<Rightarrow> serve_readings \<Rightarrow> bool" where
  "graceful cfg rd \<longleftrightarrow> sr_listen rd = None \<and>
     (TLSConfig_Enabled (svc_tls (cf_server cfg)) \<longrightarrow> sr_certificate rd = None) \<and>
     sr_event rd = ShutdownSignal \<and> sr_shutdown rd = None"

lemma serve_outcome:
  assumes "serve (cf_server cfg) rd closers = (err, es)"
  shows "err = None \<longleftrightarrow> graceful cfg rd"
    and "holding es hs = (if graceful cfg rd then holding (Server_close closers) hs else hs)"
  using assms by (auto simp: serve_def graceful_def split: option.splits if_splits serve_event.splits)

lemma holding_close:
  "holding (Server_close [ServiceClose, StoreClose, OtelShutdownCloser ps])
     (map Dependency [ResService, ResAudit, ResStore] @ map Telemetry (rev ps)) = []"
  using holding_shutdown [of ps "[]"] by (simp add: Server_close_def holding_append)

text \<open>
  \<^verbatim>\<open>Init\<close> succeeds when everything started and the handler was made, and then everything is held. A failure
  of the handler leaves the dependencies; any other failure leaves nothing.
\<close>

definition init_started :: "app_config \<Rightarrow> telemetry_readings \<Rightarrow> (build_error + 'b) \<times> resource list \<Rightarrow> bool" where
  "init_started cfg ty deps \<longleftrightarrow> \<not> isl (fst (telemetry_Init (cf_otel cfg) ty)) \<and> \<not> isl (fst deps)"

lemma Server_Init_outcome:
  assumes run: "Server_Init (cf_otel cfg) ty deps made handler = (r, es)"
    and released: "isl (fst deps) \<Longrightarrow> snd deps = rev made"
  shows "case r of
      Inl err \<Rightarrow> \<not> (init_started cfg ty deps \<and> handler = None) \<and>
        holding es [] = (if init_started cfg ty deps then map Dependency [ResService, ResAudit, ResStore] else [])
    | Inr closers \<Rightarrow> init_started cfg ty deps \<and> handler = None \<and>
        (\<exists>ps. closers = [ServiceClose, StoreClose, OtelShutdownCloser ps] \<and>
           holding es [] = map Dependency [ResService, ResAudit, ResStore] @ map Telemetry (rev ps))"
proof -
  obtain t es1 where t: "telemetry_Init (cf_otel cfg) ty = (t, es1)" by fastforce
  note bal = telemetry_balanced [OF t, of "[]"]
  show ?thesis
  proof (cases t)
    case (Inl e)
    with run bal show ?thesis by (auto simp: Server_Init_def t init_started_def)
  next
    case ps: (Inr ps)
    obtain d rs where d: "deps = (d, rs)" by (cases deps)
    show ?thesis
    proof (cases d)
      case (Inl e)
      with run ps bal released show ?thesis
        using holding_shutdown [of ps "[]"] holding_failed_deps [of rs made "map Telemetry (rev ps)"]
        by (auto simp: Server_Init_def t d init_started_def holding_append)
    next
      case (Inr x)
      with run ps bal show ?thesis
        using shutdown_skips [of ps "[ResService, ResAudit, ResStore]" "[]"]
        by (cases x) (auto simp: Server_Init_def t d init_started_def holding_append Let_def split: option.splits)
    qed
  qed
qed

text \<open>
  The command ends without an error exactly when everything started and it was told to stop in time,
  and then it holds nothing. Of the failures, only those of telemetry and of the dependencies
  release what was acquired; every later one leaves the service, the store and the audit backend.
\<close>

lemma ServerCmd_outcome:
  assumes valid: "oc_cfg_audience (cf_oidc cfg) \<noteq> []"
    and deps: "deps = buildDependencies rx lib read_file parse_key store_result audit_result cfg"
    and run: "ServerCmd cfg ty deps (created store_result audit_result cfg) handler rd = (err, es)"
  shows "err = None \<longleftrightarrow> init_started cfg ty deps \<and> handler = None \<and> graceful cfg rd"
    and "holding es [] = [] \<longleftrightarrow> \<not> init_started cfg ty deps \<or> err = None"
    and "init_started cfg ty deps \<Longrightarrow> err \<noteq> None \<Longrightarrow>
      set (map Dependency [ResService, ResAudit, ResStore]) \<subseteq> set (holding es [])"
proof -
  obtain r es1 where init: "Server_Init (cf_otel cfg) ty deps (created store_result audit_result cfg) handler = (r, es1)"
    by fastforce
  have "isl (fst deps) \<Longrightarrow> snd deps = rev (created store_result audit_result cfg)"
    using buildDependencies_outcome [OF valid, of rx lib read_file parse_key store_result audit_result "fst deps" "snd deps"]
    by (cases "fst deps") (auto simp: deps)
  note i = Server_Init_outcome [OF init this]
  have "(err = None \<longleftrightarrow> init_started cfg ty deps \<and> handler = None \<and> graceful cfg rd) \<and>
    (holding es [] = [] \<longleftrightarrow> \<not> init_started cfg ty deps \<or> err = None) \<and>
    (init_started cfg ty deps \<longrightarrow> err \<noteq> None \<longrightarrow>
       set (map Dependency [ResService, ResAudit, ResStore]) \<subseteq> set (holding es []))"
  proof (cases r)
    case (Inl e)
    with run i show ?thesis by (auto simp: ServerCmd_def init)
  next
    case (Inr closers)
    obtain err1 es2 where v: "serve (cf_server cfg) rd closers = (err1, es2)" by fastforce
    with run Inr have "es = es1 @ es2" and "err = map_option Inr err1" by (auto simp: ServerCmd_def init)
    moreover note serve_outcome [OF v] holding_close
    ultimately show ?thesis using i Inr by (auto simp: holding_append)
  qed
  then show "err = None \<longleftrightarrow> init_started cfg ty deps \<and> handler = None \<and> graceful cfg rd"
    "holding es [] = [] \<longleftrightarrow> \<not> init_started cfg ty deps \<or> err = None"
    "init_started cfg ty deps \<Longrightarrow> err \<noteq> None \<Longrightarrow>
      set (map Dependency [ResService, ResAudit, ResStore]) \<subseteq> set (holding es [])"
    by blast+
qed

end
