(* ===== verification/Telemetry.thy ===== *)
theory Telemetry
  imports Server_Lifecycle Logging
begin

text \<open>
  The providers of OpenTelemetry (\<^verbatim>\<open>internal/telemetry/providers.go\<close>, \<^verbatim>\<open>resource.go\<close>) and the probe of the
  collector (\<^verbatim>\<open>telemetry.go\<close>): with which options they are created, and what their failures make of
  \<^verbatim>\<open>telemetry.Init\<close>, whose order of acquisition is in \<open>Server_Lifecycle\<close>. The SDK is a parameter.
\<close>

section \<open>The providers\<close>

datatype exporter_option = WithEndpoint string | WithTimeout duration | WithInsecure

text \<open>
  \<open>sdk_new\<close> is what creating an OTLP/gRPC exporter of a kind answers, \<open>sdk_merge\<close> merges the attributes of
  two resources, \<open>sdk_dial\<close> dials an address within a time.
\<close>

record 'r otel_sdk =
  sdk_default :: "(string \<times> string) list"
  sdk_merge :: "(string \<times> string) list \<Rightarrow> (string \<times> string) list \<Rightarrow> gotext + 'r"
  sdk_new :: "provider \<Rightarrow> exporter_option list \<Rightarrow> gotext option"
  sdk_dial :: "string \<Rightarrow> duration \<Rightarrow> gotext option"

record 'r sdk_provider =
  sp_kind :: provider
  sp_exporter :: "exporter_option list"
  sp_resource :: 'r
  sp_sample_rate :: "gofloat option"

definition exporter_options :: "otel_config \<Rightarrow> exporter_option list" where
  "exporter_options cfg =
     [WithEndpoint (ot_endpoint cfg), WithTimeout (ot_exporter_timeout cfg)] @
     (if ot_insecure cfg then [WithInsecure] else [])"

definition newLoggerProvider :: "'r otel_sdk \<Rightarrow> otel_config \<Rightarrow> 'r \<Rightarrow> gotext + 'r sdk_provider" where
  "newLoggerProvider sdk cfg res =
     (case sdk_new sdk LoggerProvider (exporter_options cfg) of
        Some err \<Rightarrow> Inl (Sprintf ''creating log exporter: %w'' [AErr err])
      | None \<Rightarrow> Inr \<lparr>sp_kind = LoggerProvider, sp_exporter = exporter_options cfg, sp_resource = res,
                     sp_sample_rate = None\<rparr>)"

definition newMeterProvider :: "'r otel_sdk \<Rightarrow> otel_config \<Rightarrow> 'r \<Rightarrow> gotext + 'r sdk_provider" where
  "newMeterProvider sdk cfg res =
     (case sdk_new sdk MeterProvider (exporter_options cfg) of
        Some err \<Rightarrow> Inl (Sprintf ''creating metric exporter: %w'' [AErr err])
      | None \<Rightarrow> Inr \<lparr>sp_kind = MeterProvider, sp_exporter = exporter_options cfg, sp_resource = res,
                     sp_sample_rate = None\<rparr>)"

definition newTracerProvider :: "'r otel_sdk \<Rightarrow> otel_config \<Rightarrow> 'r \<Rightarrow> gotext + 'r sdk_provider" where
  "newTracerProvider sdk cfg res =
     (case sdk_new sdk TracerProvider (exporter_options cfg) of
        Some err \<Rightarrow> Inl (Sprintf ''creating trace exporter: %w'' [AErr err])
      | None \<Rightarrow> Inr \<lparr>sp_kind = TracerProvider, sp_exporter = exporter_options cfg, sp_resource = res,
                     sp_sample_rate = Some (ot_sample_rate cfg)\<rparr>)"

definition newResource :: "'r otel_sdk \<Rightarrow> string \<Rightarrow> otel_config \<Rightarrow> gotext + 'r" where
  "newResource sdk version cfg =
     (let serviceName = (if ot_service_name cfg = [] then ProgramIdentifier else ot_service_name cfg)
      in sdk_merge sdk (sdk_default sdk) [(''service.name'', serviceName), (''service.version'', version)])"

definition probeCollector :: "'r otel_sdk \<Rightarrow> otel_config \<Rightarrow> gotext option" where
  "probeCollector sdk cfg = sdk_dial sdk (ot_endpoint cfg) (ot_exporter_timeout cfg)"

text \<open>The readings of \<^verbatim>\<open>Init\<close> that the SDK gives it.\<close>

definition failed :: "gotext + 'x \<Rightarrow> gotext option" where
  "failed r = (case r of Inl err \<Rightarrow> Some err | Inr x \<Rightarrow> None)"

definition sdk_readings :: "'r otel_sdk \<Rightarrow> string \<Rightarrow> otel_config \<Rightarrow> telemetry_readings" where
  "sdk_readings sdk version cfg =
     (case newResource sdk version cfg of
        Inl err \<Rightarrow>
          \<lparr>ty_probe = probeCollector sdk cfg, ty_resource = Some err, ty_tracer = None, ty_meter = None, ty_logger = None\<rparr>
      | Inr res \<Rightarrow>
          \<lparr>ty_probe = probeCollector sdk cfg, ty_resource = None, ty_tracer = failed (newTracerProvider sdk cfg res),
           ty_meter = failed (newMeterProvider sdk cfg res), ty_logger = failed (newLoggerProvider sdk cfg res)\<rparr>)"

text \<open>The shutdown function goes through all providers, the last one first, and joins their errors.\<close>

definition shutdown_errors :: "(provider \<Rightarrow> gotext option) \<Rightarrow> provider list \<Rightarrow> gotext list" where
  "shutdown_errors answer shutdowns = List.map_filter answer (rev shutdowns)"

section \<open>When telemetry starts\<close>

lemma provider_failures:
  "failed (newTracerProvider sdk cfg res) = None \<longleftrightarrow> sdk_new sdk TracerProvider (exporter_options cfg) = None"
  "failed (newMeterProvider sdk cfg res) = None \<longleftrightarrow> sdk_new sdk MeterProvider (exporter_options cfg) = None"
  "failed (newLoggerProvider sdk cfg res) = None \<longleftrightarrow> sdk_new sdk LoggerProvider (exporter_options cfg) = None"
  by (simp_all add: failed_def newTracerProvider_def newMeterProvider_def newLoggerProvider_def split: option.split)

text \<open>
  Telemetry starts exactly when it is off, or the collector is reachable, the resource can be built and
  the exporters of all three kinds can be created, all with the same options.
\<close>

lemma telemetry_starts:
  "fst (telemetry_Init cfg (sdk_readings sdk version cfg)) = Inr ps \<longleftrightarrow>
     (if ot_enabled cfg
      then probeCollector sdk cfg = None \<and> \<not> isl (newResource sdk version cfg) \<and>
           (\<forall>k. sdk_new sdk k (exporter_options cfg) = None) \<and>
           ps = [TracerProvider, MeterProvider, LoggerProvider]
      else ps = [])"
proof (cases "newResource sdk version cfg")
  case (Inr res)
  show ?thesis
    unfolding all_providers provider_failures [of sdk cfg res, symmetric] telemetry_Init_def sdk_readings_def Inr
    by (auto split: option.split)
qed (auto simp: telemetry_Init_def sdk_readings_def split: option.split)

text \<open>No exporter goes without transport security unless the configuration says so.\<close>

lemma secure_exporters:
  assumes "newTracerProvider sdk cfg res = Inr p \<or> newMeterProvider sdk cfg res = Inr p \<or> newLoggerProvider sdk cfg res = Inr p"
  shows "WithInsecure \<in> set (sp_exporter p) \<longleftrightarrow> ot_insecure cfg" and "WithEndpoint (ot_endpoint cfg) \<in> set (sp_exporter p)"
  using assms
  by (auto simp: newTracerProvider_def newMeterProvider_def newLoggerProvider_def exporter_options_def
      split: option.splits)

lemma shutdown_errors_empty: "shutdown_errors answer ps = [] \<longleftrightarrow> (\<forall>p\<in>set ps. answer p = None)"
  by (induction ps) (auto simp: shutdown_errors_def List.map_filter_def filter_empty_conv)

end
