(* ===== verification/Command_Line.thy ===== *)
theory Command_Line
  imports Telemetry Http_Router Database
begin

text \<open>
  The process (\<^verbatim>\<open>main.go\<close>, \<^verbatim>\<open>cmd/root.go\<close>, \<^verbatim>\<open>cmd/db\<close>): what a command line does, from the configuration that
  is loaded before every command (\<^verbatim>\<open>internal/config/config.go\<close>) to the exit code. Cobra's parsing of the
  arguments, viper's reading of a file and what the operating system answers are parameters.
\<close>

section \<open>Where the configuration is read from\<close>

definition ConfigRootLinux :: string where "ConfigRootLinux = ''/etc/''"
definition ConfigRootWindows :: string where
  "ConfigRootWindows = ''C:'' @ [CHR 0x5C] @ ''ProgramData'' @ [CHR 0x5C]"
definition ConfigRootDarwin :: string where "ConfigRootDarwin = ''/Library/Application Support/''"

text \<open>\<^verbatim>\<open>filepath.Join\<close> of a clean root, or of nothing, with a name.\<close>

definition filepath_Join :: "string \<Rightarrow> string \<Rightarrow> string \<Rightarrow> string" where
  "filepath_Join goos directory name =
     (let sep = (if goos = ''windows'' then CHR 0x5C else CHR ''/'')
      in if directory = [] then name
         else if last directory = sep then directory @ name else directory @ sep # name)"

definition getDirectory :: "string \<Rightarrow> string" where
  "getDirectory goos =
     filepath_Join goos
       (if goos = ''linux'' then ConfigRootLinux
        else if goos = ''windows'' then ConfigRootWindows
        else if goos = ''darwin'' then ConfigRootDarwin
        else [])
       ProgramIdentifier"

datatype config_source = ConfigFile string | SearchPaths "string list"

definition getViper :: "string \<Rightarrow> string \<Rightarrow> config_source" where
  "getViper goos path = (if path \<noteq> [] then ConfigFile path else SearchPaths [''.'', getDirectory goos])"

text \<open>\<open>bind\<close> is what viper answers to a key; an error is a panic.\<close>

definition mustBindEnv :: "(string \<Rightarrow> gotext option) \<Rightarrow> string list \<Rightarrow> gotext option" where
  "mustBindEnv bind keys =
     first_err (\<lambda>k. map_option (\<lambda>err. Sprintf ''failed to bind env var %s: %v'' [AStr k, AErr err]) (bind k)) keys"

section \<open>The process\<close>

datatype command =
    Root
  | Server
  | Db
  | Migrate
  | MigrateUp
  | MigrateDown
  | MigrateVersion
  | MigrateForce

record invocation =
  iv_command :: command
  iv_config :: string
  iv_version :: "64 word"

text \<open>
  What surrounds the process: cobra's parser, which also answers \<^verbatim>\<open>--help\<close> and \<^verbatim>\<open>--version\<close> itself
  (\<open>Inr None\<close>), viper, the bridge of the logger, the database and migration libraries, the OpenTelemetry
  SDK, and the server's readings; \<open>wd_build\<close> is \<^verbatim>\<open>buildDependencies\<close> with what it makes on the way.
\<close>

record ('v, 'b, 'x, 'd, 'm, 'w, 'r, 'h) outside =
  wd_parse :: "string list \<Rightarrow> gotext + invocation option"
  wd_goos :: string
  wd_version :: string
  wd_decoders :: "'v decoders"
  wd_env :: "string \<Rightarrow> 'v option"
  wd_read :: "config_source \<Rightarrow> 'v config_file"
  wd_file_used :: "config_source \<Rightarrow> string"
  wd_bridge :: "('b, 'x) leaf_ops"
  wd_new_bridge :: "string \<Rightarrow> 'b"
  wd_db :: "('d, 'w) db_lib"
  wd_migrator :: "('d, 'm) migrator_lib"
  wd_migrate :: "('m, 'w) migrate_ops"
  wd_sdk :: "'r otel_sdk"
  wd_build :: "app_config \<Rightarrow> ((build_error + 'h \<times> resource list) \<times> resource list) \<times> resource list"
  wd_register :: "string \<Rightarrow> gotext option"
  wd_serve :: serve_readings

record ('b, 'x, 'd, 'w) process =
  pr_current :: "app_config option"
  pr_logger :: "'b log_leaf log_tree"
  pr_output :: "log_output \<times> 'x"
  pr_db :: "('d, 'w) db_state"
  pr_events :: "event list"
  pr_migration :: "migrate_log list"

datatype process_error =
    ParsingFailed gotext
  | LoadingConfig load_error
  | ServerFailed "init_error + serve_error"
  | MigrationFailed command_error

definition set_logger ::
  "('v, 'b, 'x, 'd, 'm, 'w, 'r, 'h) outside \<Rightarrow> string \<Rightarrow> string \<Rightarrow> bool \<Rightarrow> ('b, 'x, 'd, 'w) process
     \<Rightarrow> ('b, 'x, 'd, 'w) process" where
  "set_logger wd level format otel p =
     (case SetGlobalLogger (wd_bridge wd) (wd_new_bridge wd) level format otel (pr_output p) of
        (h, out) \<Rightarrow> p\<lparr>pr_logger := h, pr_output := out\<rparr>)"

text \<open>The line of \<^verbatim>\<open>Load\<close> about the file, through the logger of that moment.\<close>

definition log_file :: "('v, 'b, 'x, 'd, 'm, 'w, 'r, 'h) outside \<Rightarrow> config_source \<Rightarrow> 'v config_file
     \<Rightarrow> ('b, 'x, 'd, 'w) process \<Rightarrow> ('b, 'x, 'd, 'w) process" where
  "log_file wd source file p =
     (let say = (\<lambda>level text attrs. p\<lparr>pr_output := slog_log (gate_ops (wd_bridge wd)) (pr_logger p) None
            \<lparr>lr_level = level, lr_message = msg text, lr_attrs = attrs\<rparr> (pr_output p)\<rparr>)
      in case file of
           FileNotFound \<Rightarrow> say SlogWarn ''No config file found, relying on env vars/defaults'' []
         | FileError err \<Rightarrow> p
         | FileRead f \<Rightarrow> say SlogDebug ''Using config file'' [attr ''file'' (LString (wd_file_used wd source))])"

text \<open>\<^verbatim>\<open>PersistentPreRunE\<close>: the configuration is loaded and the logger follows it.\<close>

definition PersistentPreRunE ::
  "('v, 'b, 'x, 'd, 'm, 'w, 'r, 'h) outside \<Rightarrow> string \<Rightarrow> ('b, 'x, 'd, 'w) process
     \<Rightarrow> process_error option \<times> ('b, 'x, 'd, 'w) process" where
  "PersistentPreRunE wd path p =
     (let source = getViper (wd_goos wd) path; file = wd_read wd source;
          p = log_file wd source file (set_logger wd LogLevelInfo LogFormatJSON False p)
      in case Load (wd_decoders wd) (wd_env wd) file (pr_current p) of
           (Inl err, current) \<Rightarrow> (Some (LoadingConfig err), p\<lparr>pr_current := current\<rparr>)
         | (Inr cfg, current) \<Rightarrow>
             (None, (set_logger wd (lg_level (cf_logger cfg)) (lg_format (cf_logger cfg)) False p)\<lparr>pr_current := current\<rparr>))"

text \<open>
  \<^verbatim>\<open>ServerCmd\<close> on the current configuration. Once telemetry has started, the logger is replaced by one that
  reports to it when it is enabled.
\<close>

definition handler_error :: "(string \<Rightarrow> gotext option) \<Rightarrow> gotext option" where
  "handler_error register = failed (NewExchangeHandler register (\<lambda>i req (s :: unit). (None, s)))"

definition run_server ::
  "('v, 'b, 'x, 'd, 'm, 'w, 'r, 'h) outside \<Rightarrow> app_config \<Rightarrow> ('b, 'x, 'd, 'w) process
     \<Rightarrow> process_error option \<times> ('b, 'x, 'd, 'w) process" where
  "run_server wd cfg p =
     (let ty = sdk_readings (wd_sdk wd) (wd_version wd) (cf_otel cfg)
      in case ServerCmd cfg ty (fst (wd_build wd cfg)) (snd (wd_build wd cfg)) (handler_error (wd_register wd))
                (wd_serve wd) of
           (err, es) \<Rightarrow>
             (map_option ServerFailed err,
              (if isl (fst (telemetry_Init (cf_otel cfg) ty)) then p
               else set_logger wd (lg_level (cf_logger cfg)) (lg_format (cf_logger cfg)) (ot_enabled (cf_otel cfg)) p)
              \<lparr>pr_events := pr_events p @ es\<rparr>))"

definition run_migration ::
  "(command_error option \<times> migrate_log list) \<times> ('d, 'w) db_state \<Rightarrow> ('b, 'x, 'd, 'w) process
     \<Rightarrow> process_error option \<times> ('b, 'x, 'd, 'w) process" where
  "run_migration r p =
     (case r of ((err, logs), db) \<Rightarrow>
        (map_option MigrationFailed err, p\<lparr>pr_db := db, pr_migration := pr_migration p @ logs\<rparr>))"

text \<open>The commands without a body of their own print their help.\<close>

definition run_command ::
  "('v, 'b, 'x, 'd, 'm, 'w, 'r, 'h) outside \<Rightarrow> invocation \<Rightarrow> ('b, 'x, 'd, 'w) process
     \<Rightarrow> (process_error option \<times> ('b, 'x, 'd, 'w) process) option" where
  "run_command wd iv p =
     (let current = pr_current p; version = iv_version iv
      in case iv_command iv of
           Root \<Rightarrow> Some (None, p)
         | Db \<Rightarrow> Some (None, p)
         | Migrate \<Rightarrow> Some (None, p)
         | Server \<Rightarrow> map_option (\<lambda>cfg. run_server wd cfg p) current
         | MigrateUp \<Rightarrow>
             Some (run_migration (migrateUpCmd (wd_db wd) (wd_migrator wd) (wd_migrate wd) current version (pr_db p)) p)
         | MigrateDown \<Rightarrow>
             Some (run_migration (migrateDownCmd (wd_db wd) (wd_migrator wd) (wd_migrate wd) current version (pr_db p)) p)
         | MigrateVersion \<Rightarrow>
             Some (run_migration (migrateVersionCmd (wd_db wd) (wd_migrator wd) (wd_migrate wd) current (pr_db p)) p)
         | MigrateForce \<Rightarrow>
             Some (run_migration (migrateForceCmd (wd_db wd) (wd_migrator wd) (wd_migrate wd) current version (pr_db p)) p))"

text \<open>\<open>None\<close> is a panic: the server command on no configuration.\<close>

definition Execute ::
  "('v, 'b, 'x, 'd, 'm, 'w, 'r, 'h) outside \<Rightarrow> string list \<Rightarrow> ('b, 'x, 'd, 'w) process
     \<Rightarrow> (process_error option \<times> int \<times> ('b, 'x, 'd, 'w) process) option" where
  "Execute wd args p =
     (case wd_parse wd args of
        Inl err \<Rightarrow> Some (Some (ParsingFailed err), 1, p)
      | Inr None \<Rightarrow> Some (None, 0, p)
      | Inr (Some iv) \<Rightarrow>
          (case PersistentPreRunE wd (iv_config iv) p of
             (Some err, p) \<Rightarrow> Some (Some err, 1, p)
           | (None, p) \<Rightarrow>
               (case run_command wd iv p of
                  None \<Rightarrow> None
                | Some (Some err, p) \<Rightarrow> Some (Some err, 1, p)
                | Some (None, p) \<Rightarrow> Some (None, 0, p))))"

text \<open>The error does not depend on the service.\<close>

lemma handler_error: "handler_error register = failed (NewExchangeHandler register service)"
  by (simp add: handler_error_def NewExchangeHandler_def failed_def split: option.split)

section \<open>What a command line does\<close>

lemma set_logger_keeps [simp]:
  "pr_current (set_logger wd level format otel p) = pr_current p"
  "pr_db (set_logger wd level format otel p) = pr_db p"
  "pr_events (set_logger wd level format otel p) = pr_events p"
  "pr_migration (set_logger wd level format otel p) = pr_migration p"
  by (simp_all add: set_logger_def split: prod.split)

lemma log_file_keeps [simp]:
  "pr_current (log_file wd source file p) = pr_current p"
  "pr_db (log_file wd source file p) = pr_db p"
  "pr_events (log_file wd source file p) = pr_events p"
  "pr_migration (log_file wd source file p) = pr_migration p"
  "pr_logger (log_file wd source file p) = pr_logger p"
  by (simp_all add: log_file_def Let_def split: config_file.split)

text \<open>Before a command runs, a valid configuration is current and nothing but the log was touched.\<close>

lemma PersistentPreRunE_outcome:
  assumes "PersistentPreRunE wd path p = (err, q)"
  shows "pr_db q = pr_db p \<and> pr_events q = pr_events p \<and> pr_migration q = pr_migration p \<and>
    (case fst (Load (wd_decoders wd) (wd_env wd) (wd_read wd (getViper (wd_goos wd) path)) (pr_current p)) of
       Inl e \<Rightarrow> err = Some (LoadingConfig e) \<and> pr_current q = pr_current p
     | Inr cfg \<Rightarrow> err = None \<and> pr_current q = Some cfg \<and> config_ok cfg \<and>
         pr_logger q = global_handler (wd_new_bridge wd) (lg_level (cf_logger cfg)) (lg_format (cf_logger cfg)) False)"
  using assms
  by (auto simp: PersistentPreRunE_def Load_def Let_def set_logger_def SetGlobalLogger_def
      Config_Validate_None [symmetric] split: prod.splits sum.splits option.splits config_file.splits)

text \<open>A valid configuration leaves the migration commands only the errors of the backend and the database.\<close>

lemma newDBMigrator_valid:
  assumes "config_ok cfg" and "newDBMigrator lib ml (Some cfg) st = (Inl err, st')"
  shows "err = ErrMigrationNotSupported \<and> ac_backend (cf_audit cfg) \<noteq> ''sql'' \<and> st' = st \<or>
    (\<exists>e. err = MigratorError e) \<and> ac_backend (cf_audit cfg) = ''sql''"
  using assms
  by (auto simp: newDBMigrator_def config_ok_def audit_ok_def IsMigrationSupported_def AuditBackendSQL_def
      split: if_splits option.splits prod.splits sum.splits)

lemma run_server_keeps:
  assumes "run_server wd cfg p = (err, q)"
  shows "pr_current q = pr_current p" "pr_db q = pr_db p" "pr_migration q = pr_migration p"
  using assms by (auto simp: run_server_def Let_def split: prod.splits)

lemma run_migration_keeps:
  assumes "run_migration r p = (err, q)"
  shows "pr_current q = pr_current p" "pr_events q = pr_events p"
  using assms by (auto simp: run_migration_def split: prod.splits)

definition migrates :: "command \<Rightarrow> bool" where
  "migrates c \<longleftrightarrow> c \<in> {MigrateUp, MigrateDown, MigrateVersion, MigrateForce}"

lemma run_command_current:
  assumes "run_command wd iv p = Some (err, q)"
  shows "pr_current q = pr_current p" and "\<not> migrates (iv_command iv) \<Longrightarrow> pr_db q = pr_db p \<and> pr_migration q = pr_migration p"
    and "iv_command iv \<noteq> Server \<Longrightarrow> pr_events q = pr_events p"
  using assms
  by (auto simp: run_command_def migrates_def Let_def dest: run_server_keeps run_migration_keeps split: command.splits)

text \<open>Without a SQL backend only \<^verbatim>\<open>up\<close> succeeds, by doing nothing.\<close>

lemma unsupported_migration:
  assumes "pr_current p = Some cfg" and "ac_backend (cf_audit cfg) \<noteq> ''sql''" and "migrates (iv_command iv)"
  shows "\<exists>q. run_command wd iv p =
      Some (if iv_command iv = MigrateUp then None else Some (MigrationFailed ErrMigrationNotSupported), q) \<and>
    pr_db q = pr_db p \<and> pr_migration q = pr_migration p @ (if iv_command iv = MigrateUp then [LogSkipped] else [])"
  using assms
  by (auto simp: run_command_def run_migration_def migrates_def migrateUpCmd_def migrateDownCmd_def
      migrateVersionCmd_def migrateForceCmd_def newDBMigrator_def IsMigrationSupported_def AuditBackendSQL_def Let_def)

lemma migration_errors:
  assumes "pr_current p = Some cfg" and "config_ok cfg" and "migrates (iv_command iv)"
    and "run_command wd iv p = Some (Some err, q)"
  shows "err \<notin> {MigrationFailed ErrConfigNotLoaded, MigrationFailed ErrSQLConfigRequired}"
proof -
  have "e \<notin> {ErrConfigNotLoaded, ErrSQLConfigRequired}" if "newDBMigrator lib ml (Some cfg) st = (Inl e, st')"
    for lib ml st e st'
    using newDBMigrator_valid [OF assms(2) that] by auto
  moreover have "err \<noteq> CommandFailed t" if "err \<in> {ErrConfigNotLoaded, ErrSQLConfigRequired}" for err t
    using that by auto
  ultimately show ?thesis
    using assms(1,3,4)
    by (fastforce simp: run_command_def run_migration_def migrates_def migrateUpCmd_def migrateDownCmd_def
        migrateVersionCmd_def migrateForceCmd_def finish_migration_def Let_def
        split: prod.splits sum.splits if_splits option.splits migrate_error.splits)
qed

section \<open>The server as a process\<close>

text \<open>
  With the real construction of the dependencies, the server process exits with 0 exactly when telemetry,
  the dependencies and the handler came up and it was told to stop and stopped in time, and then it has
  released all it acquired; an exit with 1 after the dependencies were built leaves them unreleased.
\<close>

lemma server_process:
  assumes parse: "wd_parse wd args = Inr (Some iv)" "iv_command iv = Server"
    and load: "fst (Load (wd_decoders wd) (wd_env wd) (wd_read wd (getViper (wd_goos wd) (iv_config iv))) (pr_current p)) = Inr cfg"
    and build: "wd_build wd cfg =
      (buildDependencies rx lib read_file parse_key store_result audit_result cfg, created store_result audit_result cfg)"
    and fresh: "pr_events p = []"
  defines "started \<equiv> \<not> isl (fst (telemetry_Init (cf_otel cfg) (sdk_readings (wd_sdk wd) (wd_version wd) (cf_otel cfg)))) \<and>
      \<not> isl (fst (fst (wd_build wd cfg)))"
  shows "\<exists>err code q. Execute wd args p = Some (err, code, q) \<and>
    (code = 0 \<longleftrightarrow> started \<and> handler_error (wd_register wd) = None \<and> graceful cfg (wd_serve wd)) \<and>
    (holding (pr_events q) [] = [] \<longleftrightarrow> \<not> started \<or> code = 0)"
proof -
  let ?ty = "sdk_readings (wd_sdk wd) (wd_version wd) (cf_otel cfg)"
  obtain e0 p1 where pre: "PersistentPreRunE wd (iv_config iv) p = (e0, p1)" by fastforce
  from PersistentPreRunE_outcome [OF pre] load fresh
  have p1: "e0 = None" "pr_current p1 = Some cfg" "config_ok cfg" "pr_events p1 = []" by simp_all
  obtain err es where run: "ServerCmd cfg ?ty (fst (wd_build wd cfg)) (snd (wd_build wd cfg))
      (handler_error (wd_register wd)) (wd_serve wd) = (err, es)" by fastforce
  obtain q where q: "run_server wd cfg p1 = (map_option ServerFailed err, q)" "pr_events q = es"
    using run p1(4) by (simp add: run_server_def Let_def)
  have "Execute wd args p = Some (map_option ServerFailed err, (if err = None then 0 else 1), q)"
    using parse pre p1 q(1) by (simp add: Execute_def run_command_def Let_def split: option.split)
  moreover have "oc_cfg_audience (cf_oidc cfg) \<noteq> []" using p1(3) by (simp add: config_ok_def)
  note out = ServerCmd_outcome [OF this _ run [unfolded build fst_conv snd_conv]]
  ultimately show ?thesis
    using out(1,2) [OF refl] q(2) by (auto simp: started_def init_started_def build)
qed

section \<open>Properties\<close>

text \<open>C20: The process. No command lacks a configuration; the exit code is 0 exactly when there is no error, else 1.
  A command runs only on a configuration that was loaded and is valid, which is then the current one; when
  loading fails, neither the database nor any resource of the server is touched. Only the server command
  acquires resources and only the migration commands touch the database; of these, with a loaded
  configuration, none fails for want of one, and without a SQL backend none touches the database.\<close>

theorem process_outcome:
  assumes "wd_parse wd args = Inr (Some iv)"
  shows "\<exists>err code q. Execute wd args p = Some (err, code, q) \<and> (code = 0 \<longleftrightarrow> err = None) \<and> code \<in> {0, 1} \<and>
    (case fst (Load (wd_decoders wd) (wd_env wd) (wd_read wd (getViper (wd_goos wd) (iv_config iv))) (pr_current p)) of
       Inl e \<Rightarrow> err = Some (LoadingConfig e) \<and> pr_current q = pr_current p \<and> pr_db q = pr_db p \<and>
         pr_events q = pr_events p
     | Inr cfg \<Rightarrow> pr_current q = Some cfg \<and> config_ok cfg \<and>
         (iv_command iv \<noteq> Server \<longrightarrow> pr_events q = pr_events p) \<and>
         (\<not> migrates (iv_command iv) \<or> ac_backend (cf_audit cfg) \<noteq> ''sql'' \<longrightarrow> pr_db q = pr_db p) \<and>
         (migrates (iv_command iv) \<longrightarrow>
            err \<notin> {Some (MigrationFailed ErrConfigNotLoaded), Some (MigrationFailed ErrSQLConfigRequired)} \<and>
            (ac_backend (cf_audit cfg) \<noteq> ''sql'' \<longrightarrow> (err = None \<longleftrightarrow> iv_command iv = MigrateUp))))"
proof -
  let ?load = "fst (Load (wd_decoders wd) (wd_env wd) (wd_read wd (getViper (wd_goos wd) (iv_config iv))) (pr_current p))"
  obtain err p1 where pre: "PersistentPreRunE wd (iv_config iv) p = (err, p1)" by fastforce
  note out = PersistentPreRunE_outcome [OF pre]
  show ?thesis
  proof (cases ?load)
    case (Inl e)
    with out pre assms show ?thesis by (simp add: Execute_def)
  next
    case (Inr cfg)
    with out have cfg: "err = None" "pr_current p1 = Some cfg" "config_ok cfg" "pr_db p1 = pr_db p"
      "pr_events p1 = pr_events p" by simp_all
    then have "run_command wd iv p1 \<noteq> None" by (simp add: run_command_def Let_def split: command.split)
    then obtain e q where run: "run_command wd iv p1 = Some (e, q)" by force
    have exec: "Execute wd args p = Some (e, (if e = None then 0 else 1), q)"
      using assms pre cfg(1) run by (simp add: Execute_def split: option.split)
    note keeps = run_command_current [OF run]
    have "pr_db q = pr_db p" if "\<not> migrates (iv_command iv) \<or> ac_backend (cf_audit cfg) \<noteq> ''sql''"
      using that keeps(2) unsupported_migration [OF cfg(2), of iv wd] run cfg(4) by fastforce
    moreover have "e \<notin> {Some (MigrationFailed ErrConfigNotLoaded), Some (MigrationFailed ErrSQLConfigRequired)}"
      if "migrates (iv_command iv)"
      using migration_errors [OF cfg(2,3) that] run by (cases e) auto
    moreover have "e = None \<longleftrightarrow> iv_command iv = MigrateUp" if "migrates (iv_command iv)" "ac_backend (cf_audit cfg) \<noteq> ''sql''"
      using unsupported_migration [OF cfg(2) that(2,1), of wd] run by (auto split: if_splits)
    ultimately show ?thesis
      using exec keeps(1,3) cfg Inr by simp
  qed
qed

text \<open>A process without a config file, with the path of the trust policy in its environment.\<close>

definition demo_invocation :: "string list \<Rightarrow> gotext + invocation option" where
  "demo_invocation args =
     (if args = [''db'', ''migrate'', ''up''] then Inr (Some \<lparr>iv_command = MigrateUp, iv_config = [], iv_version = 0\<rparr>)
      else if args = [''db'', ''migrate'', ''down''] then Inr (Some \<lparr>iv_command = MigrateDown, iv_config = [], iv_version = 0\<rparr>)
      else Inl (msg ''unknown command''))"

definition demo_outside :: "(string, unit, unit, nat, unit, nat list \<times> nat, unit, unit) outside" where
  "demo_outside =
     \<lparr>wd_parse = demo_invocation, wd_goos = ''linux'', wd_version = ''unknown'', wd_decoders = text_decoders,
      wd_env = only_path ''.github/gate.yaml'', wd_read = (\<lambda>source. FileNotFound), wd_file_used = (\<lambda>source. []),
      wd_bridge = \<lparr>lo_enabled = (\<lambda>l c level. False), lo_handle = (\<lambda>l c r w. (None, w)),
                    lo_with_attrs = (\<lambda>attrs l. l), lo_with_group = (\<lambda>name l. l)\<rparr>,
      wd_new_bridge = (\<lambda>name. ()), wd_db = demo_db, wd_migrator = demo_migrator, wd_migrate = demo_migrate,
      wd_sdk = \<lparr>sdk_default = [], sdk_merge = (\<lambda>a b. Inr ()), sdk_new = (\<lambda>k opts. None), sdk_dial = (\<lambda>a d. None)\<rparr>,
      wd_build = (\<lambda>cfg. ((Inr ((), [ResService, ResStore]), []), [ResStore, ResAudit, ResService])),
      wd_register = (\<lambda>name. None),
      wd_serve = \<lparr>sr_listen = None, sr_certificate = None, sr_event = ShutdownSignal, sr_shutdown = None\<rparr>\<rparr>"

definition demo_process :: "(unit, unit, nat, nat list \<times> nat) process" where
  "demo_process =
     \<lparr>pr_current = None, pr_logger = FanoutHandler [], pr_output = (\<lparr>ou_lines = [], ou_broken = None\<rparr>, ()),
      pr_db = \<lparr>db_instance = None, db_world = ([], 0)\<rparr>, pr_events = [], pr_migration = []\<rparr>"

lemma process_outcome_witness:
  "(\<exists>q. Execute demo_outside [''db'', ''migrate'', ''up''] demo_process = Some (None, 0, q) \<and> pr_db q = pr_db demo_process) \<and>
   (\<exists>err q. Execute demo_outside [''db'', ''migrate'', ''down''] demo_process = Some (Some err, 1, q) \<and>
      pr_db q = pr_db demo_process)"
proof -
  have "dec_string text_decoders ''.github/gate.yaml'' = Inr ''.github/gate.yaml''" by (simp add: text_decoders_def)
  from defaults_load [OF this, of None] obtain cfg where
    load: "Load text_decoders (only_path ''.github/gate.yaml'') FileNotFound None = (Inr cfg, Some cfg)"
    and backend: "ac_backend (cf_audit cfg) = []" by auto
  have up: "wd_parse demo_outside [''db'', ''migrate'', ''up''] = Inr (Some \<lparr>iv_command = MigrateUp, iv_config = [], iv_version = 0\<rparr>)"
    and down: "wd_parse demo_outside [''db'', ''migrate'', ''down''] = Inr (Some \<lparr>iv_command = MigrateDown, iv_config = [], iv_version = 0\<rparr>)"
    by (simp_all add: demo_outside_def demo_invocation_def)
  have l: "fst (Load (wd_decoders demo_outside) (wd_env demo_outside)
      (wd_read demo_outside (getViper (wd_goos demo_outside) [])) (pr_current demo_process)) = Inr cfg"
    using load by (simp add: demo_outside_def demo_process_def)
  show ?thesis
    using process_outcome [OF up, of demo_process] process_outcome [OF down, of demo_process]
    by (auto simp: l backend migrates_def)
qed

end
