(* ===== verification/Store_Backends.thy ===== *)
theory Store_Backends
  imports Memory_Store Dynamo_Store App_Selector
begin

text \<open>
  The three selector stores side by side. All implement the contract \<open>rate_store\<close>, so what they show
  after the same writes is the same, up to the precision of the stored numbers; and the selector's
  decision depends on nothing else.
\<close>

section \<open>The selector sees only the contents\<close>

lemma matching_states_cong:
  "map_of m1 = map_of m2 \<Longrightarrow> matching_states m1 acc as = matching_states m2 acc as"
  by (induction as arbitrary: acc) (auto split: option.splits)

lemma candidate_of_cong: "map_of m1 = map_of m2 \<Longrightarrow> candidate_of t m1 = candidate_of t m2"
  by (rule ext) (simp add: candidate_of_def)

lemma SelectApp_by_view:
  assumes "rate_store ops1 view1 norm1 ok1" and "rate_store ops2 view2 norm2 ok2"
    and "ok1 s1" and "ok2 s2" and "view1 s1 = view2 s2"
  shows "fst (SelectApp ops1 sel t_loop t_now t_until r repository s1) =
    fst (SelectApp ops2 sel t_loop t_now t_until r repository s2)"
proof -
  obtain m1 m2 where all: "so_get_all_states ops1 s1 = (Inr m1, s1)" "so_get_all_states ops2 s2 = (Inr m2, s2)"
    and "\<forall>k. map_of m1 k = map_option Some (view1 s1 k)" "\<forall>k. map_of m2 k = map_option Some (view2 s2 k)"
    using rate_store.get_all [OF assms(1,3)] rate_store.get_all [OF assms(2,4)] by blast
  then have "map_of m1 = map_of m2" using assms(5) by (intro ext) simp
  from candidate_of_cong [OF this] matching_states_cong [OF this] show ?thesis
    by (simp add: SelectApp_def all Let_def split: sum.split)
qed

lemma get_state_by_view:
  assumes "rate_store ops1 view1 norm1 ok1" and "rate_store ops2 view2 norm2 ok2"
    and "ok1 s1" and "ok2 s2" and "view1 s1 = view2 s2"
  shows "fst (so_get_state ops1 k s1) = fst (so_get_state ops2 k s2)"
  using rate_store.get_state [OF assms(1,3), of k] rate_store.get_state [OF assms(2,4), of k] assms(5) by simp

text \<open>Writes of states that a store keeps exactly.\<close>

lemma write_all_exact:
  assumes "rate_store ops view norm ok" and "ok s" and "\<forall>(k, t)\<in>set ws. norm t = t"
  shows "ok (rate_store.write_all ops ws s) \<and>
    view (rate_store.write_all ops ws s) = foldl (\<lambda>v (k, t). v(k := Some (keep_fresher t (v k)))) (view s) ws"
proof -
  have "foldl (\<lambda>v (k, t). v(k := Some (keep_fresher (norm t) (v k)))) v ws =
      foldl (\<lambda>v (k, t). v(k := Some (keep_fresher t (v k)))) v ws" for v
    using assms(3) by (induction ws arbitrary: v) auto
  with rate_store.write_all_view [OF assms(1,2), of ws] show ?thesis by simp
qed

text \<open>A state that whole seconds keep has 64-bit numbers.\<close>

lemma whole_seconds_numbers:
  assumes "whole_seconds t = t"
  shows "go_int (rs_remaining t) = rs_remaining t" "go_int (unix (rs_reset_at t)) = unix (rs_reset_at t)"
    "go_int (unix (rs_last_updated t)) = unix (rs_last_updated t)"
proof -
  from assms have "rs_remaining t = go_int (rs_remaining t)"
    and "rs_reset_at t = of_unix (go_int (unix (rs_reset_at t)))"
    and "rs_last_updated t = of_unix (go_int (unix (rs_last_updated t)))"
    by (metis whole_seconds_def rate_state.select_convs)+
  then show "go_int (rs_remaining t) = rs_remaining t" "go_int (unix (rs_reset_at t)) = unix (rs_reset_at t)"
    "go_int (unix (rs_last_updated t)) = unix (rs_last_updated t)"
    by (metis unix_of_unix)+
qed

section \<open>Properties\<close>


definition empty_redis :: redis where
  "empty_redis = \<lparr>rd_keys = [], rd_time = 100, rd_fault = None, rd_now = of_unix 100\<rparr>"

definition empty_table :: dynamo_table where
  "empty_table = \<lparr>dt_items = [], dt_fault = None, dt_now = of_unix 100\<rparr>"

lemma empty_stores [simp]:
  "redis_inv empty_redis" "dynamo_inv empty_table"
  "redis_view empty_redis = (\<lambda>k. None)" "dynamo_view empty_table = (\<lambda>k. None)"
  "states_at NewMemoryStore = (\<lambda>k. None)"
  by (auto simp: redis_inv_def dynamo_inv_def redis_view_def dynamo_view_def empty_redis_def empty_table_def
      hash_at_def states_at_def NewMemoryStore_def fun_eq_iff)

definition observed :: "int \<Rightarrow> int \<Rightarrow> rate_state" where
  "observed n reset = \<lparr>rs_remaining = n, rs_reset_at = of_unix reset, rs_last_updated = of_unix 100\<rparr>"

lemma observed_whole: "whole_seconds (observed 4000 3600) = observed 4000 3600"
  by code_simp


text \<open>C38: Encoding and decoding of stored states. An observation in whole seconds and 64-bit numbers that
  is written to Redis or DynamoDB under a key without a state reads back unchanged, and the states of
  all other clients stay as they are. The attributes of a DynamoDB item decode to the item.\<close>

theorem stored_state_roundtrip:
  assumes "redis_inv r" and "dynamo_inv d" and "whole_seconds t = t"
    and "redis_view r k = None" and "dynamo_view d k = None"
  shows "fst (RedisStore_GetState j (snd (RedisStore_SetState k (Some t) r))) =
      (if j = k then Inr t else fst (RedisStore_GetState j r)) \<and>
    fst (DynamoDBStore_GetState j (snd (DynamoDBStore_SetState ds k (Some t) d))) =
      (if j = k then Inr t else fst (DynamoDBStore_GetState j d)) \<and>
    UnmarshalMap (MarshalMap (fromRateLimitState k t)) = Inr (fromRateLimitState k t)"
proof -
  have fresh: "keep_fresher t None = t" by (simp add: keep_fresher_def IsFresherThan_def)
  have step: "fst (so_get_state ops j (snd (so_set_state ops k (Some t) s))) =
      (if j = k then Inr t else fst (so_get_state ops j s))"
    if st: "rate_store ops view whole_seconds ok" and ok: "ok s" and none: "view s k = None" for ops view ok s
    using rate_store.get_state [OF st rate_store.set_inv [OF st ok, of k "Some t"], of j]
      rate_store.get_state [OF st ok, of j] rate_store.set_view [OF st ok, of k t] none fresh assms(3)
    by simp
  have numbers: "go_int (rs_remaining t) = rs_remaining t" "go_int (unix (rs_reset_at t)) = unix (rs_reset_at t)"
    "go_int (unix (rs_last_updated t)) = unix (rs_last_updated t)"
    using whole_seconds_numbers [OF assms(3)] by simp_all
  show ?thesis
    using step [OF redis.rate_store_axioms [of "\<lambda>_. 0"] assms(1,4)]
      step [OF dynamodb.rate_store_axioms [of ds "\<lambda>_. 0"] assms(2,5)] numbers
    by (simp add: redis_ops_def dynamo_ops_def UnmarshalMap_MarshalMap fromRateLimitState_def go_item_def
        wrap64_def [of 0])
qed

lemma stored_state_roundtrip_witness:
  "fst (RedisStore_GetState ''a'' (snd (RedisStore_SetState ''a'' (Some (observed 4000 3600)) empty_redis))) =
     Inr (observed 4000 3600)"
  using stored_state_roundtrip [OF empty_stores(1,2) observed_whole, of "''a''" "''a''"] by simp



end
