(* ===== verification/Retry_Transport.thy ===== *)
theory Retry_Transport
  imports Go_Time Complex_Main
begin

text \<open>
  The retrying HTTP transport under the GitHub client, \<^verbatim>\<open>internal/clients/github/retry.go\<close>. The next
  transport, the timer and the random source act on an outside world \<open>'w\<close>. A body that has been
  read to its end and closed is \<open>None\<close>: a later reader gets nothing of it. The \<^verbatim>\<open>float64\<close> arithmetic of the backoff is
  modelled in the rationals; with the default configuration the values before the jitter are exact
  in \<^verbatim>\<open>float64\<close>, and the rounding of the jitter is below a nanosecond.
\<close>

section \<open>Configuration, requests and outcomes\<close>

record retry_config =
  rc_max_attempts :: int
  rc_initial_backoff :: duration
  rc_max_backoff :: duration
  rc_multiplier :: rat
  rc_jitter_fraction :: rat

definition DefaultRetryConfig :: retry_config where
  "DefaultRetryConfig =
     \<lparr>rc_max_attempts = 4,
      rc_initial_backoff = 2 * nano_second,
      rc_max_backoff = 10 * nano_second,
      rc_multiplier = 2,
      rc_jitter_fraction = 1 / 10\<rparr>"

record upstream_response =
  hr_status :: int
  hr_body :: "string option"

text \<open>
  What \<^verbatim>\<open>errors.AsType\<close> finds in the chain of an error: a \<^verbatim>\<open>net.Error\<close>, with its \<^verbatim>\<open>Timeout()\<close>; a
  \<^verbatim>\<open>*net.OpError\<close>; a \<^verbatim>\<open>*net.DNSError\<close>; and the text.
\<close>

record net_error =
  ne_net :: "bool option"
  ne_op :: bool
  ne_dns :: bool
  ne_text :: string

type_synonym outcome = "upstream_response option \<times> net_error option"

record 'w transport =
  rt_next :: "string option \<Rightarrow> 'w \<Rightarrow> outcome \<times> 'w"
  rt_wait :: "duration \<Rightarrow> 'w \<Rightarrow> net_error option \<times> 'w"
  rt_rand :: "'w \<Rightarrow> rat \<times> 'w"

section \<open>Decisions\<close>

definition shouldRetry :: "upstream_response option \<Rightarrow> bool" where
  "shouldRetry resp =
     (case resp of None \<Rightarrow> True | Some r \<Rightarrow> hr_status r \<ge> 400)"

fun strings_Contains :: "string \<Rightarrow> string \<Rightarrow> bool" where
  "strings_Contains [] sub \<longleftrightarrow> sub = []"
| "strings_Contains (c # s) sub \<longleftrightarrow> take (length sub) (c # s) = sub \<or> strings_Contains s sub"

definition isTransient :: "net_error option \<Rightarrow> bool" where
  "isTransient err =
     (case err of
        None \<Rightarrow> False
      | Some e \<Rightarrow>
          (case ne_net e of
             Some timeout \<Rightarrow> timeout
           | None \<Rightarrow>
               if ne_op e then True
               else if ne_dns e then True
               else strings_Contains (ne_text e) ''connection reset'' \<or>
                    strings_Contains (ne_text e) ''connection refused'' \<or>
                    strings_Contains (ne_text e) ''EOF''))"

text \<open>\<^verbatim>\<open>time.Duration(f)\<close> truncates toward zero.\<close>

definition trunc_duration :: "rat \<Rightarrow> int" where
  "trunc_duration x = (if x < 0 then \<lceil>x\<rceil> else \<lfloor>x\<rfloor>)"

fun scale :: "rat \<Rightarrow> nat \<Rightarrow> rat \<Rightarrow> rat" where
  "scale m 0 b = b"
| "scale m (Suc n) b = scale m n (b * m)"

definition calculateBackoff :: "retry_config \<Rightarrow> rat \<Rightarrow> nat \<Rightarrow> duration" where
  "calculateBackoff cfg rand attempt =
     (let backoff = scale (rc_multiplier cfg) (attempt - 1) (of_int (rc_initial_backoff cfg));
          backoff = (if backoff > of_int (rc_max_backoff cfg) then of_int (rc_max_backoff cfg) else backoff);
          jitter = backoff * rc_jitter_fraction cfg * (rand * 2 - 1);
          backoff = backoff + jitter;
          backoff = (if backoff < 0 then of_int (rc_initial_backoff cfg) else backoff)
      in trunc_duration backoff)"

section \<open>The round trip\<close>

definition drain :: "upstream_response \<Rightarrow> upstream_response" where
  "drain r = r\<lparr>hr_body := None\<rparr>"

text \<open>The wait before every attempt but the first; the context may end it.\<close>

definition pause :: "'w transport \<Rightarrow> retry_config \<Rightarrow> nat \<Rightarrow> 'w \<Rightarrow> net_error option \<times> 'w" where
  "pause t cfg attempt w =
     (if attempt > 0
      then (let (rand, w) = rt_rand t w in rt_wait t (calculateBackoff cfg rand attempt) w)
      else (None, w))"

text \<open>The loop, with \<open>left\<close> attempts to go.\<close>

fun retry_loop ::
  "'w transport \<Rightarrow> retry_config \<Rightarrow> string option \<Rightarrow> nat \<Rightarrow> nat \<Rightarrow> outcome \<Rightarrow> 'w \<Rightarrow> outcome \<times> 'w" where
  "retry_loop t cfg body attempt 0 (lastResp, lastErr) w =
     (case lastErr of Some e \<Rightarrow> ((None, Some e), w) | None \<Rightarrow> ((lastResp, None), w))"
| "retry_loop t cfg body attempt (Suc left) (lastResp, lastErr) w =
     (case pause t cfg attempt w of
        (Some err, w) \<Rightarrow> ((None, Some err), w)
      | (None, w) \<Rightarrow>
          (case rt_next t body w of
             ((resp, err), w) \<Rightarrow>
               if err = None \<and> \<not> shouldRetry resp then ((resp, None), w)
               else if err \<noteq> None \<and> \<not> isTransient err then ((resp, err), w)
               else retry_loop t cfg body (Suc attempt) left (map_option drain resp, err) w))"

text \<open>The request's body is none, unreadable, or its bytes; it is sent anew with each attempt.\<close>

definition RoundTrip ::
  "'w transport \<Rightarrow> retry_config \<Rightarrow> (net_error + string) option \<Rightarrow> 'w \<Rightarrow> outcome \<times> 'w" where
  "RoundTrip t cfg body w =
     (case body of
        Some (Inl err) \<Rightarrow> ((None, Some err), w)
      | Some (Inr bytes) \<Rightarrow> retry_loop t cfg (Some bytes) 0 (nat (rc_max_attempts cfg)) (None, None) w
      | None \<Rightarrow> retry_loop t cfg None 0 (nat (rc_max_attempts cfg)) (None, None) w)"

section \<open>What the loop computes\<close>

text \<open>
  The reference: of the first \<open>n\<close> outcomes, the first that is final; if none is, the last one, as a
  drained response or as its error.
\<close>

definition final :: "outcome \<Rightarrow> bool" where
  "final out \<longleftrightarrow>
     (case out of (resp, None) \<Rightarrow> \<not> shouldRetry resp | (resp, Some e) \<Rightarrow> \<not> isTransient (Some e))"

fun give_up :: "outcome \<Rightarrow> outcome" where
  "give_up (resp, Some e) = (None, Some e)"
| "give_up (resp, None) = (map_option drain resp, None)"

definition retry_spec :: "nat \<Rightarrow> outcome list \<Rightarrow> outcome" where
  "retry_spec n outs =
     (case filter final (take n outs) of o1 # _ \<Rightarrow> o1 | [] \<Rightarrow> give_up (last (take n outs)))"

definition tries :: "nat \<Rightarrow> outcome list \<Rightarrow> nat" where
  "tries n outs = min n (length (takeWhile (\<lambda>x. \<not> final x) (take n outs)) + 1)"

text \<open>
  A server with a script: it answers the attempts with the outcomes of a list, and records the
  bodies it is sent. The context is not cancelled.
\<close>

record script =
  sc_outcomes :: "outcome list"
  sc_bodies :: "string option list"

definition scripted :: "(nat \<Rightarrow> rat) \<Rightarrow> script transport" where
  "scripted rands =
     \<lparr>rt_next = (\<lambda>body w. (hd (sc_outcomes w),
         w\<lparr>sc_outcomes := tl (sc_outcomes w), sc_bodies := sc_bodies w @ [body]\<rparr>)),
      rt_wait = (\<lambda>d w. (None, w)),
      rt_rand = (\<lambda>w. (rands (length (sc_outcomes w)), w))\<rparr>"

lemma retry_step:
  "retry_loop (scripted rands) cfg body attempt (Suc left) acc \<lparr>sc_outcomes = x # outs, sc_bodies = bs\<rparr> =
     (if final x then (x, \<lparr>sc_outcomes = outs, sc_bodies = bs @ [body]\<rparr>)
      else retry_loop (scripted rands) cfg body (Suc attempt) left (map_option drain (fst x), snd x)
             \<lparr>sc_outcomes = outs, sc_bodies = bs @ [body]\<rparr>)"
  by (cases acc; cases x; cases "snd x")
    (auto simp: scripted_def pause_def final_def isTransient_def split: option.splits)

lemma retry_end:
  "retry_loop t cfg body attempt 0 (map_option drain (fst x), snd x) w = (give_up x, w)"
  by (cases x; cases "snd x") auto

lemma retry_loop_spec:
  "left \<le> length outs \<Longrightarrow> 0 < left \<Longrightarrow>
     retry_loop (scripted rands) cfg body attempt left acc \<lparr>sc_outcomes = outs, sc_bodies = bs\<rparr> =
     (retry_spec left outs,
      \<lparr>sc_outcomes = drop (tries left outs) outs, sc_bodies = bs @ replicate (tries left outs) body\<rparr>)"
proof (induction left arbitrary: outs attempt acc bs)
  case (Suc left)
  then obtain x outs' where outs: "outs = x # outs'" by (cases outs) auto
  show ?case
  proof (cases "final x")
    case True
    then show ?thesis by (simp add: outs retry_step retry_spec_def tries_def)
  next
    case False
    show ?thesis
    proof (cases left)
      case 0
      with False show ?thesis
        by (simp add: outs retry_step retry_end retry_spec_def tries_def del: retry_loop.simps)
    next
      case (Suc k)
      with Suc.prems outs have len: "left \<le> length outs'" "0 < left" by simp_all
      then have "take left outs' \<noteq> []" by auto
      then have "retry_spec (Suc left) outs = retry_spec left outs'" "tries (Suc left) outs = Suc (tries left outs')"
        using False by (auto simp: outs retry_spec_def tries_def split: list.splits)
      with Suc.IH [OF len] False show ?thesis
        by (simp add: outs retry_step)
    qed
  qed
qed simp

lemma tries_le: "tries n outs \<le> n"
  by (simp add: tries_def)

text \<open>A response that is returned without an error: it was good, or it was drained.\<close>

lemma retry_loop_response:
  assumes "retry_loop t cfg body attempt left (lr, le) w = ((Some r, None), w')"
    and "\<And>x. lr = Some x \<Longrightarrow> hr_body x = None"
  shows "hr_body r = None \<or> hr_status r < 400"
  using assms
proof (induction t cfg body attempt left "(lr, le)" w arbitrary: lr le rule: retry_loop.induct)
  case (1 t cfg body attempt lr le w)
  then show ?case by (cases le) auto
next
  case (2 t cfg body attempt left lr le w)
  obtain stop w1 where p: "pause t cfg attempt w = (stop, w1)" by (cases "pause t cfg attempt w")
  obtain resp err w2 where n: "rt_next t body w1 = ((resp, err), w2)" by (metis prod.collapse)
  have go: "stop = None" using 2(2) by (cases stop) (auto simp: p)
  consider "err = None" "\<not> shouldRetry resp" "resp = Some r"
    | "retry_loop t cfg body (Suc attempt) left (map_option drain resp, err) w2 = ((Some r, None), w')"
      "\<not> (err = None \<and> \<not> shouldRetry resp)" "\<not> (err \<noteq> None \<and> \<not> isTransient err)"
    using 2(2) by (auto simp: p go n split: if_splits)
  then show ?case
  proof cases
    case 1
    then show ?thesis by (simp add: shouldRetry_def)
  next
    case loop: 2
    show ?thesis
      by (rule "2.hyps" [OF p [symmetric, unfolded go] refl n [symmetric] refl loop(2,3) loop(1)])
        (auto simp: drain_def)
  qed
qed

section \<open>Backoff\<close>

lemma scale_power: "scale m n b = b * m ^ n"
  by (induction m n b rule: scale.induct) (simp_all add: ac_simps)

lemma trunc_bounds:
  "of_int a \<le> x \<Longrightarrow> x \<le> of_int b \<Longrightarrow> 0 \<le> a \<Longrightarrow> a \<le> trunc_duration x \<and> trunc_duration x \<le> b"
proof -
  assume a: "of_int a \<le> x" "x \<le> of_int b" "0 \<le> a"
  then have "\<not> x < 0" by (metis of_int_0_le_iff order.trans not_less)
  with a show ?thesis by (simp add: trunc_duration_def le_floor_iff floor_le_iff)
qed

text \<open>The value before the jitter.\<close>

definition base_backoff :: "retry_config \<Rightarrow> nat \<Rightarrow> rat" where
  "base_backoff cfg attempt =
     min (of_int (rc_max_backoff cfg)) (of_int (rc_initial_backoff cfg) * rc_multiplier cfg ^ (attempt - 1))"

lemma calculateBackoff_range:
  assumes "0 \<le> rand" "rand \<le> 1" and "0 \<le> rc_jitter_fraction cfg" "rc_jitter_fraction cfg \<le> 1"
    and base: "0 \<le> base_backoff cfg attempt" and "0 \<le> lo"
    and "of_int lo \<le> base_backoff cfg attempt * (1 - rc_jitter_fraction cfg)"
    and "base_backoff cfg attempt * (1 + rc_jitter_fraction cfg) \<le> of_int hi"
  shows "lo \<le> calculateBackoff cfg rand attempt \<and> calculateBackoff cfg rand attempt \<le> hi"
proof -
  let ?b = "base_backoff cfg attempt" and ?j = "rc_jitter_fraction cfg"
  let ?x = "?b + ?b * ?j * (rand * 2 - 1)"
  have bj: "0 \<le> ?b * ?j" using base assms(3) by simp
  have "\<bar>?b * ?j * (rand * 2 - 1)\<bar> \<le> ?b * ?j"
    unfolding abs_mult [of "?b * ?j"] abs_of_nonneg [OF bj]
    using mult_left_mono [OF _ bj, of "\<bar>rand * 2 - 1\<bar>" 1] assms(1,2) by (simp add: abs_le_iff)
  then have lo: "of_int lo \<le> ?x" and hi: "?x \<le> of_int hi"
    using assms(7,8) by (simp_all add: algebra_simps abs_le_iff)
  have "calculateBackoff cfg rand attempt = trunc_duration (if ?x < 0 then of_int (rc_initial_backoff cfg) else ?x)"
    by (simp add: calculateBackoff_def base_backoff_def scale_power Let_def min_def)
  moreover have "\<not> ?x < 0" using lo assms(6) by (metis of_int_0_le_iff order.trans not_less)
  ultimately show ?thesis using trunc_bounds [OF lo hi assms(6)] by simp
qed

section \<open>Properties\<close>

text \<open>The body of a request, when it can be read.\<close>

fun readable :: "(net_error + string) option \<Rightarrow> string option option" where
  "readable None = Some None"
| "readable (Some (Inr bytes)) = Some (Some bytes)"
| "readable (Some (Inl err)) = None"


definition status :: "int \<Rightarrow> outcome" where
  "status n = (Some \<lparr>hr_status = n, hr_body = Some ''{}''\<rparr>, None)"


text \<open>C36: What retrying costs. A response of status 400 or more that RoundTrip returns has lost its
  body: it was read to its end and closed for the next attempt, also after the last one. And a
  connection error, which the standard library makes a net.Error, is retried only when it is a
  timeout: a refused or reset connection is returned at once.\<close>

theorem RoundTrip_gaps:
  "(RoundTrip t cfg body w = ((Some r, None), w') \<and> 400 \<le> hr_status r \<longrightarrow> hr_body r = None) \<and>
   (ne_net e = Some False \<and> (ne_op e \<or> ne_dns e) \<and> rc_max_attempts cfg > 0 \<and> rt_next t None w = ((resp, Some e), w') \<longrightarrow>
      RoundTrip t cfg None w = ((resp, Some e), w'))"
proof (intro conjI impI)
  assume a: "RoundTrip t cfg body w = ((Some r, None), w') \<and> 400 \<le> hr_status r"
  then obtain b where "retry_loop t cfg b 0 (nat (rc_max_attempts cfg)) (None, None) w = ((Some r, None), w')"
    by (auto simp: RoundTrip_def split: option.splits sum.splits)
  from retry_loop_response [OF this] a show "hr_body r = None" by simp
next
  assume a: "ne_net e = Some False \<and> (ne_op e \<or> ne_dns e) \<and> rc_max_attempts cfg > 0 \<and> rt_next t None w = ((resp, Some e), w')"
  then obtain n where "nat (rc_max_attempts cfg) = Suc n" by (cases "nat (rc_max_attempts cfg)") auto
  with a show "RoundTrip t cfg None w = ((resp, Some e), w')"
    by (simp add: RoundTrip_def pause_def isTransient_def)
qed

definition refused :: net_error where
  "refused = \<lparr>ne_net = Some False, ne_op = True, ne_dns = False, ne_text = ''connection refused''\<rparr>"

definition failing :: "outcome \<Rightarrow> nat transport" where
  "failing out = \<lparr>rt_next = (\<lambda>body n. (out, Suc n)), rt_wait = (\<lambda>d n. (None, n)), rt_rand = (\<lambda>n. (0, n))\<rparr>"

lemma RoundTrip_gaps_witness:
  "RoundTrip (failing (None, Some refused)) DefaultRetryConfig None 0 = ((None, Some refused), 1) \<and>
   RoundTrip (failing (status 422)) DefaultRetryConfig None 0 =
     ((Some \<lparr>hr_status = 422, hr_body = None\<rparr>, None), 4)"
proof
  show "RoundTrip (failing (None, Some refused)) DefaultRetryConfig None 0 = ((None, Some refused), 1)"
    by (rule RoundTrip_gaps [THEN conjunct2, rule_format])
      (simp add: refused_def failing_def DefaultRetryConfig_def)
  have "RoundTrip (failing (status 422)) DefaultRetryConfig None 0 =
      ((Some (\<lparr>hr_status = 422, hr_body = None\<rparr>), None), 4)"
    by (simp add: RoundTrip_def DefaultRetryConfig_def failing_def status_def pause_def shouldRetry_def drain_def
        numeral_eq_Suc)
  then show "RoundTrip (failing (status 422)) DefaultRetryConfig None 0 =
      ((Some \<lparr>hr_status = 422, hr_body = None\<rparr>, None), 4)" .
qed

text \<open>Bounds of the backoff. With the default configuration and a random number between 0 and 1, the
  three waits are at least 1.8, 3.6 and 7.2 and at most 2.2, 4.4 and 8.8 seconds, so a round trip
  never waits longer than 15.4 seconds.\<close>

lemma default_backoff_bounds:
  assumes "0 \<le> r1 \<and> r1 < 1" "0 \<le> r2 \<and> r2 < 1" "0 \<le> r3 \<and> r3 < 1"
  shows "let d1 = calculateBackoff DefaultRetryConfig r1 1; d2 = calculateBackoff DefaultRetryConfig r2 2;
      d3 = calculateBackoff DefaultRetryConfig r3 3
    in 1800000000 \<le> d1 \<and> d1 \<le> 2200000000 \<and> 3600000000 \<le> d2 \<and> d2 \<le> 4400000000 \<and>
       7200000000 \<le> d3 \<and> d3 \<le> 8800000000 \<and> d1 + d2 + d3 \<le> 15400000000"
proof -
  note simps = base_backoff_def DefaultRetryConfig_def nano_second_def
  have "1800000000 \<le> calculateBackoff DefaultRetryConfig r1 1 \<and> calculateBackoff DefaultRetryConfig r1 1 \<le> 2200000000"
    by (rule calculateBackoff_range) (use assms(1) in \<open>simp_all add: simps\<close>)
  moreover have "3600000000 \<le> calculateBackoff DefaultRetryConfig r2 2 \<and> calculateBackoff DefaultRetryConfig r2 2 \<le> 4400000000"
    by (rule calculateBackoff_range) (use assms(2) in \<open>simp_all add: simps\<close>)
  moreover have "7200000000 \<le> calculateBackoff DefaultRetryConfig r3 3 \<and> calculateBackoff DefaultRetryConfig r3 3 \<le> 8800000000"
    by (rule calculateBackoff_range) (use assms(3) in \<open>simp_all add: simps\<close>)
  ultimately show ?thesis by (simp add: Let_def)
qed

end
