(* ===== verification/Spec2Isabelle.thy ===== *)
theory Spec2Isabelle
  imports Sample_Deployment Observability Served_Api Service_Interleaved Backend_Close Command_Line Store_Backends Retry_Transport
begin

text \<open>
  GATE exchanges OIDC tokens of CI systems for GitHub installation tokens. A request brings an OIDC
  token and a target repository; the service verifies the token, authorises the request by the
  organisation's central policy (layer 1) and by the trust policy file kept in the target repository
  (layer 2), selects a GitHub App of the repository's owner that has rate limit left, mints an
  installation token restricted to that repository and to the granted permissions, tracks the token
  for revocation at its promised expiry, and writes an audit entry. This development models the Go
  implementation under \<^verbatim>\<open>src/\<close> and proves what makes each part and their composition correct.

  \<^bold>\<open>Which theory models what.\<close>
  \<^item> Foundations: \<open>Gate_Prelude\<close> (errors as the left side of a sum, unrendered error texts, Go maps,
    string functions, loops that stop at the first error), \<open>Go_Time\<close> (instants, 64-bit durations),
    \<open>Go_Strconv\<close> (decimal numbers), \<open>Evicting_Cache\<close> (the replacement scheme of all bounded caches, as
    the locales \<open>bounded_cache\<close> and \<open>evicting_map\<close>), \<open>Paged_Scan\<close> (paged iteration, shared by two stores).
  \<^item> Central policy (\<^verbatim>\<open>internal/config/policy.go\<close>): \<open>Policy_Config\<close>. The other configuration sections,
    the defaults, environment variables and \<^verbatim>\<open>Load\<close> (\<^verbatim>\<open>internal/config\<close>): \<open>App_Config\<close>,
    over the key names and default values of \<open>Config_Keys\<close>.
  \<^item> The authoriser (\<^verbatim>\<open>internal/sts/authorizer\<close>): \<open>Permissions\<close>, \<open>Trust_Policy\<close>, \<open>Central_Auth\<close> (layer 1),
    \<open>Repository_Auth\<close> (layer 2), \<open>Policy_Cache\<close>, \<open>Policy_Fetch\<close>, \<open>Authorizer\<close> (both layers).
  \<^item> The app selector (\<^verbatim>\<open>internal/sts/selector\<close>): \<open>Rate_Limit\<close> (observations, and the contract of a store
    as the locale \<open>rate_store\<close>), \<open>App_Selector\<close> (whose client lemmas are proved in that locale), and the
    three stores that interpret it: \<open>Memory_Store\<close>, \<open>Redis_Store\<close> with its Lua script, \<open>Dynamo_Store\<close>;
    \<open>Store_Backends\<close> compares them.
  \<^item> GitHub (\<^verbatim>\<open>internal/clients/github\<close>): \<open>Github_Iface\<close> (\<^verbatim>\<open>ClientIface\<close>), \<open>Github_Caches\<close>, \<open>Github_Client\<close>,
    \<open>Retry_Transport\<close>.
  \<^item> Other parts of the service: \<open>Oidc_Validator\<close>, \<open>Crypto_Utils\<close>, \<open>Token_Tracker\<close>, \<open>Audit_Log\<close> (entries, the
    locale \<open>audit_trail\<close> and the three backends that interpret it), \<open>Database\<close> (connections, migrations).
  \<^item> The service (\<^verbatim>\<open>internal/sts/sts.go\<close>): \<open>Exchange\<close> (the operation), \<open>Exchange_Correct\<close> (one call),
    \<open>Service_Run\<close> (revocation; sequences of calls as the step relation \<open>run_step\<close>), \<open>Exchange_Stages\<close> (an
    exchange as its atomic calls), \<open>Service_Interleaved\<close> (concurrent requests as the step relation
    \<open>system_step\<close>), \<open>Service_Api\<close> (\<^verbatim>\<open>Exchange\<close> with its log line, the revocation loop, \<^verbatim>\<open>Close\<close>),
    \<open>Observability\<close> (the spans and lines of an exchange, the measurements of its endpoint).
  \<^item> Set-up: \<open>Service_Setup\<close> (\<^verbatim>\<open>NewService\<close>, stores, backends, \<^verbatim>\<open>buildDependencies\<close>), \<open>Service_Start\<close>
    (when it succeeds), \<open>End_To_End\<close> (the built service on the real client), \<open>Served_Api\<close> (that service behind the
    router, over any HTTP requests), \<open>Backend_Close\<close> (closing).
  \<^item> The server (\<^verbatim>\<open>cmd/server\<close>): \<open>Http_Api\<close> (exchange handler and middlewares), \<open>Http_Router\<close> (the other
    endpoints and the whole chain of middlewares), \<open>Server_Lifecycle\<close> (\<^verbatim>\<open>Init\<close>, \<^verbatim>\<open>serve\<close>, \<^verbatim>\<open>close\<close>).
  \<^item> The process: \<open>Logging\<close> (\<^verbatim>\<open>internal/logger\<close>: handlers as trees, with the contract of \<^verbatim>\<open>slog.Handler\<close> as
    the locales \<open>slog_handler\<close> and \<open>leaf_handler\<close>), \<open>Telemetry\<close> (\<^verbatim>\<open>internal/telemetry\<close>), \<open>Command_Line\<close>
    (\<^verbatim>\<open>cmd/root.go\<close>, \<^verbatim>\<open>cmd/db\<close>: from the arguments to the exit code).
  \<^item> \<open>Sample_Service\<close> and \<open>Sample_Deployment\<close> are the concrete deployments of the witnesses.

  \<^bold>\<open>How state and operations correspond to the code.\<close> A struct is a record and an operation a function
  from the state before to result and state after; a Go error is a value of an error datatype, a panic
  is \<open>None\<close>. A Go map is the list of its entries, in the order of the \<^verbatim>\<open>range\<close> over it where that
  matters; the order, clock readings and random numbers are arguments, so statements hold for all of
  them. A component behind a mutex is one step per operation. Machine integers are \<open>int\<close> with the
  wrap-around written out where a product of a duration may overflow, or words; the floating point
  numbers of the backoff are rationals. Error and log texts are kept as format and arguments.

  \<^bold>\<open>What is assumed of code outside the repository.\<close> Parameters stand for the regular expression engine,
  YAML and JWT parsing, go-oidc, SHA-256, PEM and RSA, go-github and the transport below it, GORM,
  golang-migrate, the AWS SDK and viper. The named hypotheses about them are: \<open>decodes_maps\<close> (a decoded
  map has distinct keys), \<open>discovers\<close> (discovery yields a provider of the issuer it was asked for),
  \<open>library_ok\<close> (the middlewares of chi, otelhttp and httplog pass on the headers and the method of a request,
  leave the service to the handlers behind them, make up no token, and the request logger recovers panics),
  \<open>decodes_requests\<close> (a decoded body has a map with distinct keys), \<open>tracks_pools\<close> (opening adds a pool, closing
  removes it), \<open>audit_trail\<close> and \<open>rate_store\<close> (proved for the
  backends of the repository), \<open>patient\<close> (GitHub refuses finitely many revocations). Redis commands and
  DynamoDB calls are modelled as their documentation describes them, with page sizes that the server
  chooses and the expiry of entries left to the server.

  \<^bold>\<open>What the lemmas show.\<close> Per component: validators accept exactly the well-formed values; operations
  keep their invariant and do what their specification says on every branch; caches stay within their
  bounds and never return stale entries; the stores agree with each other; decisions of both layers
  equal declarative specifications. Over the whole: this theory. Its first sections treat one exchange
  and sequences of exchanges; then the authoriser; then a service built from a configuration down to
  GitHub, its start, its process and its callers; finally concurrent requests.

  \<^bold>\<open>Bounds.\<close> No fuel is used: loops are structural recursions over lists or counters, or have termination
  proofs (paged scans, by the rest of the pages). A request is at most nineteen atomic calls
  long (\<open>uninterrupted_exchange\<close>).

  \<^bold>\<open>Not modelled, and why.\<close> The parsing and the help texts of cobra, the bodies of the library middlewares
  and the rendering of log lines are the libraries' own. Spans, lines and
  measurements are modelled up to their hand-over to the OpenTelemetry SDK and slog; attributes of spans are strings.
  The calls that are interleaved are one access of a cache, the tracker or the
  audit log under its lock, one operation of a store, and one request of a client to GitHub or to an
  issuer; what a remote store or the client does inside one of them is not split further. Fakes and containers of the tests are no part of the program.
\<close>

section \<open>The service\<close>

text \<open>C1: Soundness of a grant. When an exchange returns a token, the OIDC token came from an allowed
  issuer and was verified by a provider discovered at that issuer for the configured audience; a
  validated policy file holds a policy that authorises the request on both layers; and the
  permissions and the lifetime in the response are those that this policy and the organisation's
  ceilings leave, the lifetime positive and at most the configured maximum.\<close>

theorem granted_exchange_authorized:
  assumes "service_built (ee_rx env) sv" and "decodes_maps (ee_yaml env)"
    and "discovers (ee_oidc env) origin" and "service_inv sv origin st"
    and "gm_wf (xq_requested_permissions req)"
    and "exchange env sv rd i req st = (Some (Inr resp), st')"
  shows "\<exists>c f p. xp_issuer resp = oc_issuer c \<and> xp_subject resp = oc_subject c \<and>
    oc_issuer c \<in> set (va_issuers (sv_oidc sv)) \<and>
    (\<exists>t. ol_parse (ee_oidc env) (xq_oidc_token req) = Inr t \<and> jt_issuer t = oc_issuer c \<and>
       jt_subject t = oc_subject c \<and> jt_private_claims t = oc_custom c) \<and>
    (\<exists>q w w'. origin (oc_issuer c) q \<and>
       ol_verify (ee_oidc env) q (va_audience (sv_oidc sv)) (xq_oidc_token req) w = (None, w')) \<and>
    file_good f \<and> authorizes (ee_rx env) (au_config (sv_authorizer sv)) (xr_central rd)
      (auth_request_of c req) f p \<and>
    xp_matched_policy resp = tp_name p \<and> tp_name p \<noteq> [] \<and>
    xp_permissions resp = requested_or_policy (auth_request_of c req) p \<and>
    xp_ttl resp = resolveTTL (au_config (sv_authorizer sv)) (auth_request_of c req) p \<and>
    0 < xp_ttl resp \<and> xp_ttl resp \<le> pol_max_token_ttl (au_config (sv_authorizer sv))"
  using assms by (rule exchange_authorized)

lemma granted_exchange_authorized_witness:
  "\<exists>c f p. file_good f \<and> authorizes sample_rx sample_config (of_unix 10) (auth_request_of c sample_request) f p \<and>
     tp_name p = ''deploy'' \<and> oc_subject c = ''repo:octo/app''"
  using granted_exchange_authorized [OF sample_built sample_decodes sample_discovers sample_inv
      sample_request_wf sample_exchange]
  by (fastforce simp: sample_env_def sample_service_def sample_authorizer_def sample_readings_def)

text \<open>C12: A minted token is never lost. Whatever happens after GitHub issued the token, the rate-limit
  query, the recording of usage, a failing audit log, the tracker holds it under its hash, so that
  revocation will reach it; the response is then either the token or an INTERNAL_ERROR.\<close>

theorem minted_token_tracked:
  assumes "SelectApp (sv_store sv) (sv_selector sv) (sr_loop (xr_select rd)) (sr_now (xr_select rd))
      (sr_until (xr_select rd)) (sr_rand (xr_select rd)) (xq_target_repository req)
      (as_store (ss_auth st)) = (Inr a, s)"
    and "map_of (sv_clients sv) (app_client_id a) = Some client"
    and "ci_RequestToken client \<lparr>trq_repository = xq_target_repository req,
      trq_permissions = res_permissions result\<rparr> (as_github (ss_auth st)) = (Inr tr, g)"
    and "exchange_mint env sv rd i c req result st = (r, st')"
  shows "map_of (ss_tracker st') (HashString (ee_sha256 env) (trs_token tr)) =
      Some \<lparr>tt_token = trs_token tr,
            tt_expires = capExpiry (xr_cap rd) (trs_expires_at tr) (res_ttl result)\<rparr> \<and>
    ((\<exists>resp. r = Some (Inr resp) \<and> xp_token resp = trs_token tr) \<or>
     (\<exists>e. r = Some (Inl e) \<and> xe_code e = ErrInternalError))"
proof -
  from assms obtain st1 where fin: "exchange_finish env rd i c req result a tr st1 = (r, st')"
    by (auto simp: exchange_mint_def Let_def)
  with exchange_finish_state [OF fin] show ?thesis
    by (auto simp: exchange_finish_def Let_def split: prod.splits option.splits)
qed

lemma minted_token_tracked_witness:
  "map_of (ss_tracker (snd (exchange_mint sample_env_down sample_service sample_readings ''req-1''
       sample_claims sample_request sample_result sample_state)))
     (HashString (\<lambda>s. s) ''ghs_octo/app'') = Some \<lparr>tt_token = ''ghs_octo/app'', tt_expires = of_unix 612\<rparr>"
proof -
  have sel: "SelectApp (sv_store sample_service) (sv_selector sample_service) (sr_loop (xr_select sample_readings))
      (sr_now (xr_select sample_readings)) (sr_until (xr_select sample_readings))
      (sr_rand (xr_select sample_readings)) (xq_target_repository sample_request)
      (as_store (ss_auth sample_state)) = (Inr sample_app, NewMemoryStore)" by code_simp
  have client: "map_of (sv_clients sample_service) (app_client_id sample_app) = Some sample_client"
    by (simp add: sample_service_def sample_app_def)
  have tok: "ci_RequestToken sample_client \<lparr>trq_repository = xq_target_repository sample_request,
      trq_permissions = res_permissions sample_result\<rparr> (as_github (ss_auth sample_state)) =
      (Inr \<lparr>trs_token = ''ghs_octo/app'', trs_expires_at = of_unix 3600\<rparr>, 1)" by code_simp
  have cap: "capExpiry (xr_cap sample_readings) (of_unix 3600) (res_ttl sample_result) = of_unix 612"
    by code_simp
  have hash: "ee_sha256 sample_env_down = (\<lambda>s. s)" by (simp add: sample_env_down_def sample_env_def)
  show ?thesis
    using minted_token_tracked [OF sel client tok prod.collapse [symmetric],
        where env = sample_env_down and i = "''req-1''" and c = sample_claims]
    by (simp add: cap hash)
qed


text \<open>The sample with an organisation maximum of ten thousand million seconds, and a request for as many.\<close>

definition long_config :: policy_config where
  "long_config = sample_config\<lparr>pol_max_token_ttl := 10000000000\<rparr>"

definition long_service :: "(memory_store, nat) service" where
  "long_service = sample_service\<lparr>sv_max_ttl := 10000000000,
     sv_authorizer := sample_authorizer\<lparr>au_config := long_config\<rparr>\<rparr>"

definition long_env :: "(string, nat, audit_entry list) exchange_env" where
  "long_env = sample_env\<lparr>ee_yaml :=
     (\<lambda>content. Inr (sample_file\<lparr>pf_trust_policies := [sample_policy\<lparr>tp_token_ttl := 0\<rparr>]\<rparr>))\<rparr>"

definition long_request :: exchange_request where
  "long_request = sample_request\<lparr>xq_requested_ttl := 10000000000\<rparr>"

lemma long_granted:
  "(case fst (exchange long_env long_service sample_readings ''req-1'' long_request sample_state) of
      Some (Inr resp) \<Rightarrow> xp_ttl resp = 10000000000
    | _ \<Rightarrow> False)"
  by code_simp






section \<open>The authoriser\<close>

text \<open>C7: The decision of the authoriser. For an authoriser built from a validated configuration, a
  request with an issuer and a repository, and the policy file f that fetchPolicy returned: Authorize
  allows the request exactly when the matching mode picks a policy of f that authorises it, that is
  when layer 1 holds, a policy name is given if the configuration requires one, the policy is for the
  issuer and has a rule that holds, and every permission stays under its three ceilings.\<close>

theorem Authorize_correct:
  assumes "authorizer_built rx a" and "file_good f"
    and "gm_wf (ar_requested_permissions req)" and "ar_issuer req \<noteq> []" and "ar_target_repository req \<noteq> []"
    and "fetchPolicy rx yaml a rd (ar_target_repository req) (pol_trust_policy_path (au_config a)) st = (Inr f, st')"
  shows "res_allowed (fst (Authorize rx yaml a now rd req st)) \<longleftrightarrow>
    (\<exists>p. match_policy rx f req = Inr p \<and> authorizes rx (au_config a) now req f p)"
proof (cases "match_policy rx f req")
  case (Inl d)
  then show ?thesis
    using assms(6) by (auto simp: Authorize_def authorizeRepository_def split: option.splits)
next
  case (Inr p)
  with Authorize_complete [OF assms Inr] show ?thesis by simp
qed

definition sample_auth_request :: auth_request where
  "sample_auth_request = auth_request_of sample_claims sample_request"

lemma Authorize_correct_witness:
  "res_allowed (fst (Authorize sample_rx sample_yaml sample_authorizer (of_unix 10) (xr_fetch sample_readings)
     sample_auth_request (ss_auth sample_state))) \<and>
   (\<exists>p. authorizes sample_rx sample_config (of_unix 10) sample_auth_request (compile_file sample_file) p)"
proof -
  have built: "authorizer_built sample_rx sample_authorizer"
    using sample_built by (simp add: service_built_def sample_env_def sample_service_def)
  have "PolicyFile_Validate sample_rx sample_file = Inr (compile_file sample_file)" by code_simp
  then have good: "file_good (compile_file sample_file)"
    using PolicyFile_Validate_ready
    by (auto simp: file_good_def maps_wf_def compile_file_def sample_file_def sample_policy_def gm_wf_def)
  have "fst (fetchPolicy sample_rx sample_yaml sample_authorizer (xr_fetch sample_readings)
      (ar_target_repository sample_auth_request) (pol_trust_policy_path (au_config sample_authorizer))
      (ss_auth sample_state)) = Inr (compile_file sample_file)" by code_simp
  then obtain st' where fetch: "fetchPolicy sample_rx sample_yaml sample_authorizer (xr_fetch sample_readings)
      (ar_target_repository sample_auth_request) (pol_trust_policy_path (au_config sample_authorizer))
      (ss_auth sample_state) = (Inr (compile_file sample_file), st')" by (metis prod.collapse)
  have req: "gm_wf (ar_requested_permissions sample_auth_request)" "ar_issuer sample_auth_request \<noteq> []"
    "ar_target_repository sample_auth_request \<noteq> []"
    by (simp_all add: sample_auth_request_def sample_request_wf) (simp_all add: sample_claims_def sample_request_def)
  have allowed: "res_allowed (fst (Authorize sample_rx sample_yaml sample_authorizer (of_unix 10)
      (xr_fetch sample_readings) sample_auth_request (ss_auth sample_state)))" by code_simp
  have "au_config sample_authorizer = sample_config" by (simp add: sample_authorizer_def)
  then show ?thesis
    using Authorize_correct [OF built good req fetch] allowed
    by auto
qed

text \<open>C8: Soundness of the authoriser in any state that earlier requests left. When Authorize allows a
  request, there is a validated file with a policy that authorises it, the result names that policy,
  carries exactly the requested permissions (or the policy's) and a positive lifetime of at most the
  configured maximum.\<close>

theorem Authorize_allowed_sound:
  assumes "authorizer_built rx a" and "decodes_maps yaml" and "cache_all file_good (as_cache st)"
    and "gm_wf (ar_requested_permissions req)" and "0 \<le> ar_requested_ttl req"
    and "Authorize rx yaml a now rd req st = (res, st')" and "res_allowed res"
  shows "(\<exists>f p. file_good f \<and> authorizes rx (au_config a) now req f p \<and>
      res_matched_policy res = tp_name p \<and> tp_name p \<noteq> [] \<and>
      res_permissions res = requested_or_policy req p \<and>
      res_ttl res = resolveTTL (au_config a) req p \<and>
      0 < res_ttl res \<and> res_ttl res \<le> pol_max_token_ttl (au_config a)) \<and>
    cache_all file_good (as_cache st')"
  using Authorize_sound [OF assms] Authorize_cache [OF file_good_validated [OF assms(2)] assms(3), of rx a now rd req]
    assms(6) by simp

lemma Authorize_allowed_sound_witness:
  "\<exists>f p. file_good f \<and> authorizes sample_rx sample_config (of_unix 10) sample_auth_request f p \<and>
     tp_name p = ''deploy''"
proof -
  have built: "authorizer_built sample_rx sample_authorizer" and yaml: "decodes_maps sample_yaml"
    using sample_built sample_decodes by (simp_all add: service_built_def sample_env_def sample_service_def)
  have cache: "cache_all file_good (as_cache (ss_auth sample_state))" by (simp add: sample_state_def)
  have req: "gm_wf (ar_requested_permissions sample_auth_request)" "0 \<le> ar_requested_ttl sample_auth_request"
    by (simp_all add: sample_auth_request_def sample_request_wf) (simp add: sample_request_def)
  have "fst (Authorize sample_rx sample_yaml sample_authorizer (of_unix 10) (xr_fetch sample_readings)
      sample_auth_request (ss_auth sample_state)) = sample_result" by code_simp
  then obtain st' where run: "Authorize sample_rx sample_yaml sample_authorizer (of_unix 10)
      (xr_fetch sample_readings) sample_auth_request (ss_auth sample_state) = (sample_result, st')"
    by (metis prod.collapse)
  have "res_allowed sample_result" by (simp add: sample_result_def)
  from Authorize_allowed_sound [OF built yaml cache req run this] show ?thesis
    by (fastforce simp: sample_result_def sample_authorizer_def)
qed



section \<open>From the configuration to a grant\<close>

text \<open>C3: Scope of a grant, from the configuration down to GitHub. Build the service from a validated
  configuration and let it run: any exchanges and revocation rounds, in any order. When an exchange
  then returns a token, GitHub created that token for an installation of the owner of the requested
  repository, restricted to that one repository, in a session signed with the key of a configured
  app of that owner. The permissions in the response are not empty, and when GitHub knows all their
  names the token has exactly these. The promised expiry is not after the token's own.\<close>

theorem configured_grant_scoped:
  assumes "Config_Validate cfg = None"
    and "buildDependencies (ee_rx env) lib read_file parse_key (Inr store) (Inr audit) cfg =
      (Inr ((sv, cache, tracker), closers), released)"
    and "rate_store store view seen ok" and "ok contents"
    and "decodes_maps (ee_yaml env)" and "discovers (ee_oidc env) origin"
    and "rn_service s = \<lparr>ss_oidc = \<lparr>os_providers = [], os_network = n\<rparr>,
      ss_auth = \<lparr>as_store = contents, as_cache = cache, as_github = new_github_state w\<rparr>,
      ss_tracker = tracker, ss_audit = trail\<rparr>"
    and "run env sv s t" and "gm_wf (xq_requested_permissions req)"
    and "exchange env sv rd i req (rn_service t) = (Some (Inr resp), st')"
  shows "\<exists>client owner repo inst gh perms w1 w2 tr.
    \<lparr>app_client_id = xp_client_id resp, app_organization = owner\<rparr> \<in> set (buildApps cfg) \<and>
    cl_client_id client = xp_client_id resp \<and>
    xq_target_repository req = constructRepository owner repo \<and>
    installation_of lib owner inst \<and> app_session lib client gh \<and>
    gl_create_token lib gh inst \<lparr>to_repositories = [repo], to_permissions = perms\<rparr> w1 = (Inr tr, w2) \<and>
    trs_token tr = xp_token resp \<and> xp_expires_at resp \<le> trs_expires_at tr \<and> xp_permissions resp \<noteq> [] \<and>
    ((\<forall>k\<in>fst ` set (xp_permissions resp). gl_field lib k = Some k) \<longrightarrow>
       (\<exists>p. perms = Some p \<and> map_of p = map_of (xp_permissions resp)))"
proof -
  note built = configured_service [OF assms(1,2)]
  have store: "rate_store (sv_store sv) view seen ok" using assms(3) built(2) by simp
  note start = configured_start [where ok = ok and contents = contents, OF assms(1,2,4,7)]
  have "service_inv sv origin (rn_service t)" and "ready lib ok (rn_service t)"
    using run_service_inv [OF assms(5,6,8) start(1)] run_ready [OF store built(1,8) assms(8) start(2)] by blast+
  from configured_grant [OF assms(1-3,5,6) this assms(9,10)] show ?thesis unfolding scoped_grant_def .
qed

lemma configured_grant_scoped_witness:
  "\<exists>resp st' gh tr w1 w2 perms. octo_grant = (Some (Inr resp), st') \<and> xp_token resp = trs_token tr \<and>
     gl_create_token octo_lib gh 7 \<lparr>to_repositories = [''app''], to_permissions = perms\<rparr> w1 = (Inr tr, w2) \<and>
     map_of (the perms) = map_of (xp_permissions resp)"
proof -
  obtain sv cache tracker closers released where b: "octo_build = (Inr ((sv, cache, tracker), closers), released)"
    using returned_Inr [OF octo_built_ok] by (auto simp: split_paired_Ex)
  have sv: "octo_service = sv" unfolding octo_service_def b by simp
  note build = b [unfolded octo_build_def]
  have env: "ee_rx sample_env = sample_rx" by (simp add: sample_env_def)
  obtain resp st' where x: "octo_grant = (Some (Inr resp), st')" by (rule octo_response)
  then have g: "exchange sample_env sv sample_readings ''req-1'' sample_request octo_start = (Some (Inr resp), st')"
    unfolding octo_grant_def sv by simp
  let ?s = "\<lparr>rn_service = octo_start, rn_issued = [], rn_revoked = [], rn_ids = []\<rparr>"
  note built = configured_service [OF octo_valid build]
  have start: "rn_service ?s = \<lparr>ss_oidc = \<lparr>os_providers = [], os_network = 0\<rparr>,
      ss_auth = \<lparr>as_store = NewMemoryStore, as_cache = cache, as_github = new_github_state 0\<rparr>,
      ss_tracker = tracker, ss_audit = []\<rparr>"
    by (simp add: octo_start_def built(5,6))
  have g': "exchange sample_env sv sample_readings ''req-1'' sample_request (rn_service ?s) = (Some (Inr resp), st')"
    using g by simp
  have field: "gl_field octo_lib k = Some k" for k by (simp add: octo_lib_def)
  from configured_grant_scoped [OF octo_valid build [folded env] mem.rate_store_axioms NewMemoryStore_inv
      sample_decodes sample_discovers start run_start sample_request_wf g']
  obtain owner repo inst gh perms w1 w2 tr where
    r: "xq_target_repository sample_request = constructRepository owner repo" "installation_of octo_lib owner inst"
      "gl_create_token octo_lib gh inst \<lparr>to_repositories = [repo], to_permissions = perms\<rparr> w1 = (Inr tr, w2)"
      "trs_token tr = xp_token resp" "\<exists>p. perms = Some p \<and> map_of p = map_of (xp_permissions resp)"
    by (elim exE conjE) (simp add: field)
  have "inst = 7" "owner = ''octo''"
    using r(2) by (auto simp: installation_of_def octo_lib_def split: if_splits)
  moreover from this(2) have "repo = ''app''"
    using r(1) by (simp add: sample_request_def constructRepository_def)
  ultimately have "gl_create_token octo_lib gh 7 \<lparr>to_repositories = [''app''], to_permissions = perms\<rparr> w1 = (Inr tr, w2)"
    using r(3) by simp
  moreover have "map_of (the perms) = map_of (xp_permissions resp)" using r(5) by auto
  moreover have "octo_grant = (Some (Inr resp), st')" using g by (simp only: octo_grant_def sv)
  ultimately show ?thesis using r(4) by metis
qed

text \<open>C28: What starting the service needs, and what it gives back. With the store and the audit backend at
  hand, buildDependencies succeeds on a validated configuration exactly when the configuration has
  apps and providers, the key of every app can be read and parsed, and every claim pattern compiles.
  When it fails it has closed everything it had created, the last first; when it succeeds it has
  closed nothing and hands over the service and the store to be closed.\<close>

theorem service_start_outcome:
  assumes "Config_Validate cfg = None"
    and "buildDependencies rx lib read_file parse_key store_result audit_result cfg = (r, released)"
  shows "(\<not> isl r \<longleftrightarrow> \<not> isl store_result \<and> \<not> isl audit_result \<and> startable rx read_file parse_key cfg) \<and>
    (isl r \<longrightarrow> released = rev (created store_result audit_result cfg)) \<and>
    (\<not> isl r \<longrightarrow> released = [] \<and> snd (projr r) = [ResService, ResStore])"
proof -
  have "oc_cfg_audience (cf_oidc cfg) \<noteq> []"
    using assms(1) by (simp add: Config_Validate_None config_ok_def)
  from buildDependencies_outcome [OF this assms(2)] show ?thesis by blast
qed

lemma service_start_outcome_witness:
  "snd (buildDependencies sample_rx octo_lib (\<lambda>path. Inl (msg ''unreadable'')) octo_parse_key
     (Inr memory_ops) (Inr (ee_audit sample_env)) octo_config) = [ResAudit, ResStore]"
proof -
  let ?build = "buildDependencies sample_rx octo_lib (\<lambda>path. Inl (msg ''unreadable'')) octo_parse_key
     (Inr memory_ops) (Inr (ee_audit sample_env)) octo_config"
  have "\<not> startable sample_rx (\<lambda>path. Inl (msg ''unreadable'')) octo_parse_key octo_config"
    by (simp add: startable_def key_loads_def octo_config_def)
  with service_start_outcome [OF octo_valid, of sample_rx octo_lib "\<lambda>path. Inl (msg ''unreadable'')" octo_parse_key
      "Inr memory_ops" "Inr (ee_audit sample_env)" "fst ?build" "snd ?build"]
  show ?thesis by (simp add: created_def octo_config_def)
qed

text \<open>C29: The life of the server. The server command returns without an error exactly when telemetry, the
  dependencies and the handler started, the listener and the certificate were ready, and a signal
  ended a server that shut down in time; then nothing it acquired is left unreleased. A failure of
  telemetry or of the dependencies leaves nothing either. After every other failure the service, the
  store and the audit backend are never closed.\<close>

theorem server_releases:
  assumes "Config_Validate cfg = None"
    and "ServerCmd cfg ty (buildDependencies rx lib read_file parse_key store_result audit_result cfg)
      (created store_result audit_result cfg) handler rd = (err, es)"
  defines "started \<equiv> \<not> isl (fst (telemetry_Init (cf_otel cfg) ty)) \<and>
      \<not> isl (fst (buildDependencies rx lib read_file parse_key store_result audit_result cfg))"
  shows "(err = None \<longleftrightarrow> started \<and> handler = None \<and> graceful cfg rd) \<and>
    (holding es [] = [] \<longleftrightarrow> \<not> started \<or> err = None) \<and>
    (started \<and> err \<noteq> None \<longrightarrow> set (map Dependency [ResService, ResAudit, ResStore]) \<subseteq> set (holding es []))"
proof -
  have "oc_cfg_audience (cf_oidc cfg) \<noteq> []"
    using assms(1) by (simp add: Config_Validate_None config_ok_def)
  from ServerCmd_outcome [OF this refl assms(2)] show ?thesis unfolding started_def init_started_def by blast
qed

text \<open>A listener that fails while it serves: the store is not closed.\<close>

definition failing_serve :: serve_readings where
  "failing_serve = \<lparr>sr_listen = None, sr_certificate = None, sr_event = ServeFailed (msg ''accept''), sr_shutdown = None\<rparr>"

lemma server_releases_witness:
  "\<exists>err es. ServerCmd octo_config
     \<lparr>ty_probe = None, ty_resource = None, ty_tracer = None, ty_meter = None, ty_logger = None\<rparr> octo_build
     [ResStore, ResAudit] None failing_serve = (err, es) \<and> err \<noteq> None \<and> Dependency ResStore \<in> set (holding es [])"
proof -
  let ?ty = "\<lparr>ty_probe = None, ty_resource = None, ty_tracer = None, ty_meter = None, ty_logger = None\<rparr>"
  have made: "created (Inr memory_ops) (Inr (ee_audit sample_env)) octo_config = [ResStore, ResAudit]"
    by (simp add: created_def octo_config_def)
  obtain err es where out: "ServerCmd octo_config ?ty octo_build [ResStore, ResAudit] None failing_serve = (err, es)"
    by fastforce
  have "\<not> graceful octo_config failing_serve" by (simp add: graceful_def failing_serve_def)
  moreover have "telemetry_Init (cf_otel octo_config) ?ty = (Inr [], [])"
    by (simp add: telemetry_Init_def octo_config_def)
  ultimately have "err \<noteq> None \<and> Dependency ResStore \<in> set (holding es [])"
    using server_releases [OF octo_valid out [folded made, unfolded octo_build_def]] octo_built_ok
    unfolding octo_build_def by auto
  with out show ?thesis by blast
qed

section \<open>The service to its callers\<close>


definition sample_http :: http_request where
  "sample_http = \<lparr>hq_request_id = ''req-1'', hq_method = ''POST'', hq_path = ''/api/v1/exchange'', hq_raw_path = [],
     hq_header = (\<lambda>k. []), hq_tls = True, hq_body = []\<rparr>"


section \<open>What its operators see\<close>

text \<open>C17: Tracing of exchanges. An exchange starts its spans in the order ValidateOIDC, EvaluatePolicy, SelectApp,
  MintInstallationToken, and only the last one it started can have failed. From the spans alone the outcome
  can be told: a grant has all four, none failed, with the issuer, the policy and the app of the response;
  a refusal has none for an invalid request, and otherwise its last span failed at the step that refused, with
  the code of that step, unless the app had no client or the grant could not be audited, both of which answer
  INTERNAL_ERROR. The lines logged on the way are never above the level of a warning.\<close>

theorem exchange_diagnosed:
  assumes "exchange env sv rd i req st = (Some r, st')" and "exchange_emits env sv rd i req st = (spans, lines)"
  shows "map sn_name (rev spans) = take (length spans) span_names \<and>
    (\<forall>sp\<in>set (tl spans). sn_status sp = None) \<and>
    (case r of Inl e \<Rightarrow> failure_told spans e | Inr resp \<Rightarrow> grant_told spans resp) \<and>
    (\<forall>l\<in>set lines. ll_level l \<in> {LevelDebug, LevelWarn})"
  using exchange_trace [OF assms] exchange_emits_level [of _ env sv rd i req st] assms(2)
  by (simp add: trace_told_def)

lemma exchange_diagnosed_witness:
  "\<exists>spans lines. exchange_emits sample_env sample_service sample_readings ''req-1'' sample_request sample_state =
     (spans, lines) \<and> length spans = 4 \<and> map sn_attrs (rev spans) =
       [[(''issuer'', ''https://idp'')], [(''matched_policy'', ''deploy'')], [(''client_id'', ''app-1'')], []]"
proof -
  obtain spans lines where
    e: "exchange_emits sample_env sample_service sample_readings ''req-1'' sample_request sample_state = (spans, lines)"
    by fastforce
  from exchange_diagnosed [OF sample_exchange e]
  have attrs: "map sn_attrs (rev spans) =
      [[(''issuer'', ''https://idp'')], [(''matched_policy'', ''deploy'')], [(''client_id'', ''app-1'')], []]"
    by (simp add: grant_told_def)
  from arg_cong [OF this, of length] have "length spans = 4" by simp
  with e attrs show ?thesis by (intro exI conjI)
qed


text \<open>The request of the sample, and one whose body did not decode.\<close>

definition sample_call ::
  "exchange_request option \<Rightarrow> ((string, nat, memory_store, nat, audit_entry list) service_state \<times> log_line list) handler_call" where
  "sample_call input =
     \<lparr>hc_service = Service_Exchange sample_env sample_service sample_readings, hc_input = input,
      hc_request = sample_http, hc_headers = [], hc_elapsed = dur_of 1 nano_second\<rparr>"


section \<open>The API over HTTP\<close>


text \<open>A deployment with the shared secret, called with and without it.\<close>

definition guarded_config :: app_config where
  "guarded_config = octo_config\<lparr>cf_origin :=
     \<lparr>or_enabled = True, or_header_name = ''X-Origin'', or_header_value = ''s3cret''\<rparr>\<rparr>"

definition sample_router ::
  "(((string, nat, memory_store, nat, audit_entry list) service_state \<times> log_line list) \<times> labels) handler" where
  "sample_router = router (plain_library (\<lambda>r. Some sample_request)) guarded_config False ''digest''
     (Service_Exchange sample_env sample_service sample_readings)"

definition secret_http :: http_request where
  "secret_http = sample_http\<lparr>hq_header := (\<lambda>k. if k = ''X-Origin'' then ''s3cret'' else [])\<rparr>"

lemma sample_router_token:
  "\<exists>p. fst (sample_router secret_http [] ((sample_state, []), [])) = Some p \<and>
     hp_body p = TokenBody (response_body sample_response)"
proof -
  have "mounted ''/api/v1'' ''/api/v1/exchange'' = Some ''/exchange''" "stripTrailingSlashes ''/api/v1/exchange'' = (''/api/v1/exchange'', False)"
    "stripTrailingSlashes [] = ([], False)" by code_simp+
  then show ?thesis
    by (simp add: sample_router_def router_def root_middlewares_def plain_library_def NormalizePath_def
        secret_http_def sample_http_def ChiRouteLabeler_def recover_panics_def SecurityHeaders_def routes_def
        guarded_config_def OriginVerify_def ConstantTimeCompare_def api_routes_def exchange_endpoint_def
        exchange_handler_def ExchangeHandler_Exchange_def Service_Exchange_def sample_exchange Let_def)
qed



lemma plain_decode: "lb_decode (plain_library (\<lambda>r. Some b)) r = Some body \<longleftrightarrow> body = b"
  by (auto simp: plain_library_def)

lemma octo_router_token:
  assumes "octo_grant = (Some (Inr resp), st')"
  shows "router (plain_library (\<lambda>r. Some sample_request)) octo_config False ''digest''
      (Service_Exchange sample_env octo_service sample_readings) sample_http [] ((octo_start, []), []) =
    (Some \<lparr>hp_status = 200, hp_headers = security_headers sample_http [], hp_body = TokenBody (response_body resp)\<rparr>,
     ((st', [granted_line ''req-1'' sample_request resp]), [(''http.route'', ''/api/v1/exchange'')]))"
proof -
  have "mounted ''/api/v1'' ''/api/v1/exchange'' = Some ''/exchange''" "stripTrailingSlashes ''/api/v1/exchange'' = (''/api/v1/exchange'', False)"
    "stripTrailingSlashes [] = ([], False)" by code_simp+
  with assms show ?thesis
    by (simp add: octo_grant_def router_def root_middlewares_def plain_library_def NormalizePath_def
        sample_http_def ChiRouteLabeler_def recover_panics_def SecurityHeaders_def routes_def octo_config_def
        OriginVerify_def api_routes_def exchange_endpoint_def exchange_handler_def
        ExchangeHandler_Exchange_def Service_Exchange_def logExchange_def Let_def)
qed



text \<open>A GitHub that refuses once; the state counts the refusals to come.\<close>

definition outage_service :: "(memory_store, nat) service" where
  "outage_service = sample_service\<lparr>sv_clients := [(''app-1'', sample_client\<lparr>ci_RevokeToken :=
     (\<lambda>t n. case n of 0 \<Rightarrow> (None, 0) | Suc m \<Rightarrow> (Some (GhFailure no_text), m))\<rparr>)]\<rparr>"

definition outage_state :: "(string, nat, memory_store, nat, audit_entry list) service_state" where
  "outage_state = sample_state\<lparr>ss_auth := (ss_auth sample_state)\<lparr>as_github := 1\<rparr>,
     ss_tracker := [(''h'', \<lparr>tt_token = ''ghs_old'', tt_expires = of_unix 5\<rparr>)]\<rparr>"


section \<open>Concurrent requests\<close>

text \<open>C5: The stages are the exchange. The calls that the stages of a request make, made in a row, compute
  what \<^verbatim>\<open>exchange\<close> computes, with the same result and the same effects, in at most nineteen calls; and
  every stage of a request has a bound on the calls that are left until it is answered, whatever the
  shared state is when it makes them.\<close>

theorem uninterrupted_exchange:
  "stages env sv rd i req 19 Arrived st =
     (Answered (fst (exchange env sv rd i req st)), snd (exchange env sv rd i req st)) \<and>
   (\<exists>r st''. stages env sv rd i req (remaining g) g st' = (Answered r, st''))"
proof
  show "stages env sv rd i req 19 Arrived st =
     (Answered (fst (exchange env sv rd i req st)), snd (exchange env sv rd i req st))"
    by (simp add: stages_all split: prod.split)
  show "\<exists>r st''. stages env sv rd i req (remaining g) g st' = (Answered r, st'')"
    by (rule stages_end) simp
qed

text \<open>C4: Concurrent requests and revocation. However the calls of concurrent requests, of revocations
  and of removals from the tracker interleave, down to the single accesses of the caches and the
  results shared by \<^verbatim>\<open>singleflight\<close>, a request that was answered with a token had its OIDC token
  verified, was authorised on both layers by a policy of a validated file of its own repository, and
  got the token that GitHub issued to an app serving the repository, for exactly these permissions;
  this token is tracked or its revocation was confirmed; and the grant is on record. A token that was
  recorded but not yet answered is tracked or revoked as well. No request panics.\<close>

theorem concurrent_grants_safe:
  assumes "service_built (ee_rx env) sv" and "decodes_maps (ee_yaml env)" and "discovers (ee_oidc env) origin"
    and "rate_store (sv_store sv) view seen ok" and "audit_trail (ab_Log (ee_audit env)) recorded"
    and "system_at_rest s" and "shared_ok env sv origin ok (sy_service s)"
    and "system_run env sv s t" and "j \<in> set (sy_jobs t)"
  shows "jb_stage j \<noteq> Answered None \<and>
    (\<forall>h. stage_hash env (jb_stage j) = Some h \<longrightarrow>
       map_of (ss_tracker (sy_service t)) h \<noteq> None \<or> h \<in> set (sy_revoked t)) \<and>
    (\<forall>resp. jb_stage j = Answered (Some (Inr resp)) \<longrightarrow>
       (\<exists>c res a tok. verified env sv origin (jb_request j) c \<and>
          decided env sv (xr_central (jb_readings j)) (jb_request j) c res \<and>
          from_github sv (jb_request j) res a tok \<and>
          resp = answer_of env (jb_readings j) (jb_id j) c res a tok) \<and>
       (\<exists>e. recorded (ss_audit (sy_service t)) e \<and> AuditEntry_Validate e = None \<and>
          granted_entry e (jb_request j) resp))"
proof -
  have "system_inv env sv origin ok recorded s" by (rule system_inv_start) (use assms(6,7) in simp_all)
  from system_run_inv [OF assms(1-5,8) this] assms(9) have "job_ok env sv origin recorded t j"
    by (simp add: system_inv_def)
  then show ?thesis
    unfolding job_ok_def on_record_def held_def earned_def by (cases "jb_stage j") (auto simp: earned_def)
qed

text \<open>A second request makes its first call before the first one makes its calls.\<close>

definition sample_job :: "string \<Rightarrow> (string, nat) job" where
  "sample_job i = \<lparr>jb_id = i, jb_request = sample_request, jb_readings = sample_readings, jb_stage = Arrived\<rparr>"

definition sample_system ::
  "(string, nat) job list \<Rightarrow> (string, nat, memory_store, nat, audit_entry list) system" where
  "sample_system jobs =
     \<lparr>sy_service = sample_state, sy_jobs = jobs, sy_flights = [], sy_revokers = [], sy_revoked = []\<rparr>"

definition sample_turns :: "(string, nat, memory_store, nat, audit_entry list) system" where
  "sample_turns = schedule sample_env sample_service (''b'' # replicate 19 ''req-1'')
     (sample_system [sample_job ''req-1'', sample_job ''b''])"

lemma sample_turns_run: "system_run sample_env sample_service (sample_system []) sample_turns"
proof -
  have "system_step sample_env sample_service (sample_system []) (sample_system [sample_job ''b''])"
    using system_step.arrival [of "''b''" "sample_system []" sample_request sample_env sample_service sample_readings]
    by (simp add: sample_system_def sample_job_def sample_request_wf)
  moreover have "system_step sample_env sample_service (sample_system [sample_job ''b''])
      (sample_system [sample_job ''req-1'', sample_job ''b''])"
    using system_step.arrival [of "''req-1''" "sample_system [sample_job ''b'']" sample_request sample_env sample_service sample_readings]
    by (simp add: sample_system_def sample_job_def sample_request_wf)
  ultimately show ?thesis
    unfolding sample_turns_def by (intro schedule_run) (rule system_more [OF system_more [OF system_start]])
qed

lemma sample_turns_answered:
  "\<exists>js. sy_jobs sample_turns = (sample_job ''req-1'')\<lparr>jb_stage := Answered (Some (Inr sample_response))\<rparr> # js"
proof -
  obtain g st where b: "advance sample_env sample_service sample_readings ''b'' sample_request Arrived sample_state = (g, st)"
    by fastforce
  have "fst (exchange sample_env sample_service sample_readings ''req-1'' sample_request
      (snd (advance sample_env sample_service sample_readings ''b'' sample_request Arrived sample_state))) =
      Some (Inr sample_response)" by code_simp
  then have "\<exists>st'. stages sample_env sample_service sample_readings ''req-1'' sample_request 19 Arrived st =
      (Answered (Some (Inr sample_response)), st')"
    by (cases "exchange sample_env sample_service sample_readings ''req-1'' sample_request st")
      (simp add: stages_all b)
  then obtain st' where whole: "stages sample_env sample_service sample_readings ''req-1'' sample_request 19 Arrived st =
      (Answered (Some (Inr sample_response)), st')" ..
  have "schedule sample_env sample_service (''b'' # replicate 19 ''req-1'')
      (sample_system [sample_job ''req-1'', sample_job ''b'']) =
    schedule sample_env sample_service (replicate 19 ''req-1'')
      ((sample_system [])\<lparr>sy_jobs := [sample_job ''req-1'', (sample_job ''b'')\<lparr>jb_stage := g\<rparr>], sy_service := st,
         sy_flights := landed Arrived g\<rparr>)"
    using b by (simp add: sample_system_def sample_job_def)
  then show ?thesis
    using schedule_alone [where env = sample_env and sv = sample_service and n = 19 and j = "sample_job ''req-1''" and st = st
        and s = "(sample_system [])\<lparr>sy_flights := landed Arrived g\<rparr>" and js = "[(sample_job ''b'')\<lparr>jb_stage := g\<rparr>]"] whole
    by (auto simp: sample_turns_def sample_system_def sample_job_def simp del: schedule.simps)
qed

lemma concurrent_grants_safe_witness:
  "\<exists>j\<in>set (sy_jobs sample_turns). jb_stage j = Answered (Some (Inr sample_response)) \<and>
     (\<exists>e\<in>set (ss_audit (sy_service sample_turns)). granted_entry e (jb_request j) sample_response)"
proof -
  obtain j where j: "j \<in> set (sy_jobs sample_turns)"
    and resp: "jb_stage j = Answered (Some (Inr sample_response))"
  proof -
    from sample_turns_answered obtain js where
      "sy_jobs sample_turns = (sample_job ''req-1'')\<lparr>jb_stage := Answered (Some (Inr sample_response))\<rparr> # js" ..
    then show thesis by (intro that [of "(sample_job ''req-1'')\<lparr>jb_stage := Answered (Some (Inr sample_response))\<rparr>"]) simp_all
  qed
  have cache: "as_cache (ss_auth sample_state) = newPolicyCache 0" by (simp add: sample_state_def)
  have rest: "system_at_rest (sample_system [])"
    "shared_ok sample_env sample_service (\<lambda>iss p. p = iss) memory_inv (sy_service (sample_system []))"
    using sample_inv sample_store_ok cache_each_new
    by (simp_all add: system_at_rest_def sample_system_def shared_ok_def service_inv_def cache)
  from concurrent_grants_safe [OF sample_built sample_decodes sample_discovers sample_store sample_trail rest
      sample_turns_run j] resp j
  show ?thesis by blast
qed

end
